(* ===== verification/Prelude.thy ===== *)
theory Prelude
  imports Main "HOL-Library.List_Lexorder" "HOL-Library.Char_ord" "HOL-Library.Sublist"
    "HOL-Library.Multiset"
begin

text \<open>
  The parts of Go's \<open>strings\<close>, \<open>strconv\<close> and \<open>sort\<close> packages the gateway uses, on strings
  as lists of bytes (a Go string is a byte sequence, \<open>length\<close> is Go's \<open>len\<close>), and the two
  list loops its handlers repeat (edit the first match or fail, drop every match) with the
  lemmas the components share.  White space and letter case are the ASCII ones: the
  non-ASCII white space that \<open>strings.TrimSpace\<close> also strips is not modelled.
\<close>

named_theorems loop_simps \<open>facts about the shared list loops\<close>

type_synonym bytes = string

subsection \<open>Go strings\<close>

abbreviation HasPrefix :: "string \<Rightarrow> string \<Rightarrow> bool" where
  "HasPrefix s p \<equiv> prefix p s"

abbreviation HasSuffix :: "string \<Rightarrow> string \<Rightarrow> bool" where
  "HasSuffix s p \<equiv> suffix p s"

definition TrimPrefix :: "string \<Rightarrow> string \<Rightarrow> string" where
  "TrimPrefix s p = (if prefix p s then drop (length p) s else s)"

definition TrimSuffix :: "string \<Rightarrow> string \<Rightarrow> string" where
  "TrimSuffix s p = (if suffix p s then take (length s - length p) s else s)"

definition TrimRightFunc :: "(char \<Rightarrow> bool) \<Rightarrow> string \<Rightarrow> string" where
  "TrimRightFunc P s = rev (dropWhile P (rev s))"

definition TrimFunc :: "(char \<Rightarrow> bool) \<Rightarrow> string \<Rightarrow> string" where
  "TrimFunc P s = TrimRightFunc P (dropWhile P s)"

abbreviation TrimRight :: "string \<Rightarrow> char \<Rightarrow> string" where
  "TrimRight s c \<equiv> TrimRightFunc (\<lambda>x. x = c) s"

definition is_space :: "char \<Rightarrow> bool" where
  "is_space c \<longleftrightarrow> c \<in> {CHR '' '', CHR 0x09, CHR 0x0A, CHR 0x0B, CHR 0x0C, CHR 0x0D}"

definition TrimSpace :: "string \<Rightarrow> string" where
  "TrimSpace s = TrimFunc is_space s"

text \<open>\<open>IndexByte\<close>: the position of the first occurrence, \<open>None\<close> for Go's -1.\<close>

definition IndexByte :: "string \<Rightarrow> char \<Rightarrow> nat option" where
  "IndexByte s c = (if c \<in> set s then Some (length (takeWhile (\<lambda>x. x \<noteq> c) s)) else None)"

lemma IndexByte_append: "c \<notin> set k \<Longrightarrow> IndexByte (k @ c # v) c = Some (length k)"
proof -
  assume "c \<notin> set k"
  then have "takeWhile (\<lambda>x. x \<noteq> c) (k @ c # v) = k" by (induction k) auto
  then show ?thesis by (simp add: IndexByte_def)
qed


fun Index :: "string \<Rightarrow> string \<Rightarrow> nat option" where
  "Index [] sub = (if sub = [] then Some 0 else None)"
| "Index (c # s) sub =
     (if prefix sub (c # s) then Some 0 else map_option Suc (Index s sub))"

definition Contains :: "string \<Rightarrow> string \<Rightarrow> bool" where
  "Contains s sub \<longleftrightarrow> Index s sub \<noteq> None"

text \<open>\<open>strings.Split\<close> with a one-byte separator: always at least one piece.\<close>

fun Split :: "string \<Rightarrow> char \<Rightarrow> string list" where
  "Split [] sep = [[]]"
| "Split (c # s) sep =
     (if c = sep then [] # Split s sep
      else (case Split s sep of [] \<Rightarrow> [[c]] | p # ps \<Rightarrow> (c # p) # ps))"

text \<open>\<open>strings.FieldsFunc\<close>: the maximal runs of bytes outside the separator class.\<close>

fun FieldsFunc :: "(char \<Rightarrow> bool) \<Rightarrow> string \<Rightarrow> string list" where
  "FieldsFunc P [] = []"
| "FieldsFunc P (c # s) =
     (if P c then FieldsFunc P s
      else (case s of
              [] \<Rightarrow> [[c]]
            | d # s' \<Rightarrow>
                (if P d then [c] # FieldsFunc P s
                 else (case FieldsFunc P s of [] \<Rightarrow> [[c]] | p # ps \<Rightarrow> (c # p) # ps))))"

definition Fields :: "string \<Rightarrow> string list" where
  "Fields s = FieldsFunc is_space s"

fun Join :: "string list \<Rightarrow> string \<Rightarrow> string" where
  "Join [] sep = []"
| "Join [x] sep = x"
| "Join (x # y # ys) sep = x @ sep @ Join (y # ys) sep"

definition lower_char :: "char \<Rightarrow> char" where
  "lower_char c = (if CHR ''A'' \<le> c \<and> c \<le> CHR ''Z'' then char_of (of_char c + (32::nat)) else c)"

definition upper_char :: "char \<Rightarrow> char" where
  "upper_char c = (if CHR ''a'' \<le> c \<and> c \<le> CHR ''z'' then char_of (of_char c - (32::nat)) else c)"

definition ToLower :: "string \<Rightarrow> string" where
  "ToLower s = map lower_char s"

definition ToUpper :: "string \<Rightarrow> string" where
  "ToUpper s = map upper_char s"

definition firstNonEmptyStr :: "string \<Rightarrow> string \<Rightarrow> string" where
  "firstNonEmptyStr a b = (if a \<noteq> [] then a else b)"

subsection \<open>Decimal numbers\<close>

definition is_digit :: "char \<Rightarrow> bool" where
  "is_digit c \<longleftrightarrow> CHR ''0'' \<le> c \<and> c \<le> CHR ''9''"

definition digit_val :: "char \<Rightarrow> nat" where
  "digit_val c = of_char c - 48"

definition digit_char :: "nat \<Rightarrow> char" where
  "digit_char d = char_of (48 + d)"

definition dec_val :: "string \<Rightarrow> nat" where
  "dec_val s = foldl (\<lambda>n c. 10 * n + digit_val c) 0 s"

fun dec_str :: "nat \<Rightarrow> string" where
  "dec_str n = (if n < 10 then [digit_char n] else dec_str (n div 10) @ [digit_char (n mod 10)])"

declare dec_str.simps [simp del]

definition Itoa :: "int \<Rightarrow> string" where
  "Itoa i = (if i < 0 then CHR ''-'' # dec_str (nat (- i)) else dec_str (nat i))"

text \<open>
  \<open>strconv.Atoi\<close> on a 64-bit \<open>int\<close>: the value and whether the error is nil.  A syntax error
  gives 0, a range error the nearest representable value, as callers that drop the error see.
\<close>

definition Atoi :: "string \<Rightarrow> int \<times> bool" where
  "Atoi s =
     (let neg = (s \<noteq> [] \<and> hd s = CHR ''-'');
          ds = (if s \<noteq> [] \<and> (hd s = CHR ''-'' \<or> hd s = CHR ''+'') then tl s else s)
      in if ds = [] \<or> \<not> list_all is_digit ds then (0, False)
         else let n = int (dec_val ds) in
           if neg then (if n > 2 ^ 63 then (- (2 ^ 63), False) else (- n, True))
           else (if n \<ge> 2 ^ 63 then (2 ^ 63 - 1, False) else (n, True)))"

subsection \<open>Strings: lemmas\<close>

lemma length_TrimRightFunc: "length (TrimRightFunc P s) \<le> length s"
  using length_dropWhile_le [of P "rev s"] by (simp add: TrimRightFunc_def)

lemma TrimRightFunc_append: "\<exists>t. s = TrimRightFunc P s @ t \<and> (\<forall>c \<in> set t. P c)"
proof -
  have "rev s = takeWhile P (rev s) @ dropWhile P (rev s)" by simp
  then have "s = rev (dropWhile P (rev s)) @ rev (takeWhile P (rev s))"
    by (metis rev_append rev_rev_ident)
  then show ?thesis
    by (metis TrimRightFunc_def set_rev set_takeWhileD)
qed

lemma TrimRightFunc_last: "TrimRightFunc P s \<noteq> [] \<Longrightarrow> \<not> P (last (TrimRightFunc P s))"
  by (simp add: TrimRightFunc_def last_rev hd_dropWhile)

lemma TrimRightFunc_id: "s = [] \<or> \<not> P (last s) \<Longrightarrow> TrimRightFunc P s = s"
  by (cases s rule: rev_cases) (auto simp: TrimRightFunc_def)

lemma TrimRightFunc_idem [simp]: "TrimRightFunc P (TrimRightFunc P s) = TrimRightFunc P s"
  by (metis TrimRightFunc_id TrimRightFunc_last)

lemma Split_nonempty [simp]: "Split s sep \<noteq> []"
  by (induction s sep rule: Split.induct) (auto split: list.splits)

lemma Split_no_sep: "p \<in> set (Split s sep) \<Longrightarrow> sep \<notin> set p"
  by (induction s sep arbitrary: p rule: Split.induct) (auto split: list.splits if_splits)

lemma Split_id: "sep \<notin> set s \<Longrightarrow> Split s sep = [s]"
  by (induction s) auto

lemma Split_append_sep: "Split (a @ sep # b) sep = Split a sep @ Split b sep"
proof (induction a)
  case Nil
  show ?case by simp
next
  case (Cons c a)
  obtain p ps where "Split a sep = p # ps"
    by (meson Split_nonempty neq_Nil_conv)
  with Cons show ?case by auto
qed

text \<open>Joining the pieces gives the string back, so splitting is injective.\<close>

lemma Join_Cons: "xs \<noteq> [] \<Longrightarrow> Join (x # xs) sep = x @ sep @ Join xs sep"
  by (cases xs) auto

lemma Join_Split: "Join (Split s sep) [sep] = s"
proof (induction s)
  case Nil
  show ?case by simp
next
  case (Cons c s)
  obtain p ps where ps: "Split s sep = p # ps"
    by (meson Split_nonempty neq_Nil_conv)
  show ?case
  proof (cases "c = sep")
    case True
    with Cons show ?thesis by (simp add: Join_Cons)
  next
    case False
    with Cons ps show ?thesis by (cases ps) auto
  qed
qed

lemma Split_inject: "Split s sep = Split t sep \<Longrightarrow> s = t"
  by (metis Join_Split)

subsection \<open>Decimal numbers: lemmas\<close>

lemma of_char_le: "c \<le> d \<longleftrightarrow> (of_char c :: nat) \<le> of_char d"
  by (simp add: less_eq_char_def)

lemma is_digit_iff: "is_digit c \<longleftrightarrow> 48 \<le> (of_char c :: nat) \<and> (of_char c :: nat) \<le> 57"
  by (simp add: is_digit_def of_char_le)

lemma of_char_digit_char: "d < 10 \<Longrightarrow> (of_char (digit_char d) :: nat) = 48 + d"
  by (simp add: digit_char_def of_char_of)

lemma is_digit_digit_char [simp]: "d < 10 \<Longrightarrow> is_digit (digit_char d)"
  by (simp add: is_digit_iff of_char_digit_char)

lemma digit_val_digit_char [simp]: "d < 10 \<Longrightarrow> digit_val (digit_char d) = d"
  by (simp add: digit_val_def of_char_digit_char)

lemma dec_val_snoc: "dec_val (s @ [c]) = 10 * dec_val s + digit_val c"
  by (simp add: dec_val_def)

lemma dec_val_dec_str [simp]: "dec_val (dec_str n) = n"
proof (induction n rule: dec_str.induct)
  case (1 n)
  show ?case
  proof (cases "n < 10")
    case True
    then show ?thesis by (simp add: dec_str.simps [of n] dec_val_def)
  next
    case False
    with 1 show ?thesis by (simp add: dec_str.simps [of n] dec_val_snoc)
  qed
qed

lemma dec_str_digits: "list_all is_digit (dec_str n)"
proof (induction n rule: dec_str.induct)
  case (1 n)
  then show ?case by (cases "n < 10") (simp_all add: dec_str.simps [of n])
qed

lemma dec_str_nonempty [simp]: "dec_str n \<noteq> []"
  by (subst dec_str.simps) simp

lemma dec_str_no_sep: "\<not> is_digit c \<Longrightarrow> c \<notin> set (dec_str n)"
  using dec_str_digits [of n] by (auto simp: list_all_iff)

lemma Atoi_Itoa: "0 \<le> n \<Longrightarrow> n < 2 ^ 63 \<Longrightarrow> Atoi (Itoa n) = (n, True)"
proof -
  assume n: "0 \<le> n" "n < 2 ^ 63"
  have h: "hd (dec_str (nat n)) \<in> set (dec_str (nat n))" by simp
  have "CHR ''-'' \<notin> set (dec_str (nat n))" "CHR ''+'' \<notin> set (dec_str (nat n))"
    by (rule dec_str_no_sep, simp add: is_digit_iff)+
  with h have "hd (dec_str (nat n)) \<noteq> CHR ''-''" "hd (dec_str (nat n)) \<noteq> CHR ''+''" by metis+
  with n dec_str_digits [of "nat n"] show ?thesis by (simp add: Atoi_def Itoa_def)
qed

lemma dec_str_hd0: "hd (dec_str n) = CHR ''0'' \<Longrightarrow> n = 0"
proof (induction n rule: dec_str.induct)
  case (1 n)
  show ?case
  proof (cases "n < 10")
    case True
    with "1.prems" have "digit_char n = CHR ''0''"
      by (simp add: dec_str.simps [of n])
    then have "(of_char (digit_char n) :: nat) = 48" by simp
    with True show ?thesis by (simp add: of_char_digit_char)
  next
    case False
    then have "dec_str n = dec_str (n div 10) @ [digit_char (n mod 10)]"
      by (subst dec_str.simps) simp
    with "1.prems" have "hd (dec_str (n div 10)) = CHR ''0''" by simp
    with "1.IH" False have "n div 10 = 0" by blast
    with False show ?thesis by simp
  qed
qed

lemma takeWhile_digits: "\<not> is_digit c \<Longrightarrow> takeWhile is_digit (dec_str n @ c # s) = dec_str n"
  using dec_str_digits [of n] by (subst takeWhile_append2) (auto simp: list_all_iff)

lemma dropWhile_digits: "\<not> is_digit c \<Longrightarrow> dropWhile is_digit (dec_str n @ c # s) = c # s"
  using dec_str_digits [of n] by (subst dropWhile_append2) (auto simp: list_all_iff)

subsection \<open>The two list loops of the handlers\<close>

text \<open>
  \<open>for i := range xs { if xs[i] matches { edit xs[i]; return nil } } return error\<close>:
  edit the first match, \<open>None\<close> when there is none.
\<close>

fun update_first :: "('a \<Rightarrow> bool) \<Rightarrow> ('a \<Rightarrow> 'a) \<Rightarrow> 'a list \<Rightarrow> 'a list option" where
  "update_first P f [] = None"
| "update_first P f (x # xs) =
     (if P x then Some (f x # xs) else map_option ((#) x) (update_first P f xs))"

lemma update_first_None [loop_simps]: "update_first P f xs = None \<longleftrightarrow> (\<forall>x \<in> set xs. \<not> P x)"
  by (induction xs) auto

lemma update_first_split:
  "update_first P f xs = Some ys \<Longrightarrow>
     \<exists>as x bs. xs = as @ x # bs \<and> ys = as @ f x # bs \<and> P x \<and> (\<forall>a \<in> set as. \<not> P a)"
proof (induction xs arbitrary: ys)
  case Nil
  then show ?case by simp
next
  case (Cons z zs)
  show ?case
  proof (cases "P z")
    case True
    with Cons.prems show ?thesis by (intro exI [of _ "[]"]) simp
  next
    case False
    with Cons.prems obtain ws where ys: "ys = z # ws" and ws: "update_first P f zs = Some ws"
      by auto
    from Cons.IH [OF ws] obtain as x bs where "zs = as @ x # bs" "ws = as @ f x # bs" "P x"
        "\<forall>a \<in> set as. \<not> P a"
      by blast
    with False ys show ?thesis by (intro exI [of _ "z # as"] exI [of _ x] exI [of _ bs]) simp
  qed
qed

lemma update_first_append [loop_simps]:
  "\<forall>a \<in> set as. \<not> P a \<Longrightarrow> P x \<Longrightarrow> update_first P f (as @ x # bs) = Some (as @ f x # bs)"
  by (induction as) auto

lemma update_first_map:
  "update_first P f xs = Some ys \<Longrightarrow> (\<And>x. P x \<Longrightarrow> g (f x) = g x) \<Longrightarrow> map g ys = map g xs"
  by (auto dest!: update_first_split)

lemma update_first_length: "update_first P f xs = Some ys \<Longrightarrow> length ys = length xs"
  by (auto dest!: update_first_split)

lemma update_first_set:
  "update_first P f xs = Some ys \<Longrightarrow> y \<in> set ys \<Longrightarrow> y \<in> set xs \<or> (\<exists>x \<in> set xs. P x \<and> y = f x)"
  by (auto dest!: update_first_split)

subsection \<open>Trimming and fields: lemmas\<close>

lemma TrimFunc_id: "s = [] \<or> (\<not> P (hd s) \<and> \<not> P (last s)) \<Longrightarrow> TrimFunc P s = s"
  by (cases s) (auto simp: TrimFunc_def TrimRightFunc_id)

lemma TrimRightFunc_none: "\<forall>c \<in> set s. \<not> P c \<Longrightarrow> TrimRightFunc P s = s"
  by (cases s rule: rev_cases) (auto intro!: TrimRightFunc_id)

lemma TrimSpace_none: "\<forall>c \<in> set s. \<not> is_space c \<Longrightarrow> TrimSpace s = s"
proof -
  assume s: "\<forall>c \<in> set s. \<not> is_space c"
  then have "dropWhile is_space s = s" by (cases s) simp_all
  with s show ?thesis by (simp add: TrimSpace_def TrimFunc_def TrimRightFunc_none)
qed

lemma FieldsFunc_token:
  assumes "t \<noteq> []" "list_all (\<lambda>c. \<not> P c) t" "P d"
  shows "FieldsFunc P (t @ d # s) = t # FieldsFunc P s"
  using assms
proof (induction t)
  case (Cons c t)
  then show ?case by (cases t) auto
qed simp

lemma FieldsFunc_last: "t \<noteq> [] \<Longrightarrow> list_all (\<lambda>c. \<not> P c) t \<Longrightarrow> FieldsFunc P t = [t]"
proof (induction t)
  case (Cons c t)
  then show ?case by (cases t) auto
qed simp

lemma Fields_Join:
  "list_all (\<lambda>t. t \<noteq> [] \<and> list_all (\<lambda>c. \<not> is_space c) t) ts \<Longrightarrow> Fields (Join ts '' '') = ts"
proof (induction ts)
  case (Cons t ts)
  then have t: "t \<noteq> []" "list_all (\<lambda>c. \<not> is_space c) t" and IH: "Fields (Join ts '' '') = ts" by auto
  have sp: "is_space CHR '' ''" by (simp add: is_space_def)
  show ?case
  proof (cases ts)
    case Nil
    with t show ?thesis by (simp add: Fields_def FieldsFunc_last)
  next
    case (Cons u us)
    with IH FieldsFunc_token [where P = is_space, OF t sp, of "Join (u # us) '' ''"] show ?thesis
      by (simp add: Fields_def)
  qed
qed (simp add: Fields_def)

subsection \<open>Error values\<close>

text \<open>
  A Go \<open>error\<close> is an option, \<open>None\<close> for nil.  A function that checks one thing after the other
  and returns the first error is \<open>first_err\<close> of its checks; a loop that returns the first error
  of its elements, with their index, is \<open>each_err\<close>.
\<close>

definition fail_if :: "bool \<Rightarrow> 'e \<Rightarrow> 'e option" where
  "fail_if c e = (if c then Some e else None)"

fun first_err :: "'e option list \<Rightarrow> 'e option" where
  "first_err [] = None"
| "first_err (e # es) = (case e of Some x \<Rightarrow> Some x | None \<Rightarrow> first_err es)"

fun each_err :: "(nat \<Rightarrow> 'a \<Rightarrow> 'e option) \<Rightarrow> nat \<Rightarrow> 'a list \<Rightarrow> 'e option" where
  "each_err f i [] = None"
| "each_err f i (x # xs) = (case f i x of Some e \<Rightarrow> Some e | None \<Rightarrow> each_err f (Suc i) xs)"

lemma fail_if_None [simp]: "fail_if c e = None \<longleftrightarrow> \<not> c"
  by (simp add: fail_if_def)

lemma first_err_None: "first_err es = None \<longleftrightarrow> (\<forall>e \<in> set es. e = None)"
  by (induction es) (auto split: option.splits)

declare first_err.simps [simp del]

lemma first_err_case:
  "(case first_err es of None \<Rightarrow> r | Some e \<Rightarrow> Inl e) = Inr v \<longleftrightarrow> (\<forall>e \<in> set es. e = None) \<and> r = Inr v"
  using first_err_None [of es] by (cases "first_err es") auto

lemma each_err_None:
  assumes "\<And>i x. f i x = None \<longleftrightarrow> P x"
  shows "each_err f i xs = None \<longleftrightarrow> (\<forall>x \<in> set xs. P x)"
proof (induction xs arbitrary: i)
  case Nil
  then show ?case by simp
next
  case (Cons x xs)
  then show ?case using assms [of i x] by (cases "f i x") auto
qed

end
