(* ===== verification/GoNet.thy ===== *)
theory GoNet
  imports Prelude "HOL-Library.Word"
begin

unbundle bit_operations_syntax

text \<open>
  What the gateway uses of Go's \<open>net\<close> package: \<open>ParseIP\<close>, \<open>ParseCIDR\<close>, \<open>IPNet.Contains\<close>,
  \<open>IP.To4\<close>, \<open>IP.String\<close> and \<open>SplitHostPort\<close>.  A \<open>net.IP\<close> is its list of 16 bytes (an IPv4
  address in its IPv4-mapped form, as \<open>ParseIP\<close> returns it); Go's nil result is \<open>None\<close>.
\<close>

type_synonym octet = "8 word"
type_synonym ip = "octet list"

text \<open>An address as \<open>netip.ParseAddr\<close> distinguishes them: 4 bytes or 16 bytes.\<close>

datatype addr = V4 "octet list" | V6 "octet list"

subsection \<open>Parsing addresses\<close>

definition v4_field_ok :: "string \<Rightarrow> bool" where
  "v4_field_ok f \<longleftrightarrow> f \<noteq> [] \<and> list_all is_digit f \<and> (hd f = CHR ''0'' \<longrightarrow> length f = 1) \<and> dec_val f \<le> 255"

definition parse_v4 :: "string \<Rightarrow> octet list option" where
  "parse_v4 s =
     (let fs = Split s CHR ''.''
      in if length fs = 4 \<and> list_all v4_field_ok fs
         then Some (map (\<lambda>f. of_nat (dec_val f)) fs) else None)"

definition is_hex :: "char \<Rightarrow> bool" where
  "is_hex c \<longleftrightarrow> is_digit c \<or> (CHR ''a'' \<le> c \<and> c \<le> CHR ''f'') \<or> (CHR ''A'' \<le> c \<and> c \<le> CHR ''F'')"

definition hex_digit_val :: "char \<Rightarrow> nat" where
  "hex_digit_val c =
     (if is_digit c then digit_val c
      else if CHR ''a'' \<le> c \<and> c \<le> CHR ''f'' then of_char c - 87 else of_char c - 55)"

definition hex_val :: "string \<Rightarrow> nat" where
  "hex_val s = foldl (\<lambda>n c. 16 * n + hex_digit_val c) 0 s"

definition chunk16 :: "string \<Rightarrow> octet list" where
  "chunk16 h = [of_nat (hex_val h div 256), of_nat (hex_val h mod 256)]"

text \<open>
  The scanning loop of \<open>parseIPv6\<close>: the bytes read so far and the position of the ellipsis.
\<close>

function v6_loop :: "string \<Rightarrow> octet list \<Rightarrow> nat option \<Rightarrow> (octet list \<times> nat option) option" where
  "v6_loop s bs ell =
     (if length bs \<ge> 16 then (if s = [] then Some (bs, ell) else None)
      else let h = takeWhile is_hex s; r = dropWhile is_hex s in
        if h = [] \<or> length h > 4 then None
        else case r of
            [] \<Rightarrow> Some (bs @ chunk16 h, ell)
          | c # r' \<Rightarrow>
              if c = CHR ''.'' then
                (if (ell = None \<and> length bs \<noteq> 12) \<or> length bs + 4 > 16 then None
                 else map_option (\<lambda>q. (bs @ q, ell)) (parse_v4 s))
              else if c \<noteq> CHR '':'' \<or> r' = [] then None
              else if hd r' = CHR '':'' then
                (if ell \<noteq> None then None
                 else if tl r' = [] then Some (bs @ chunk16 h, Some (length bs + 2))
                 else v6_loop (tl r') (bs @ chunk16 h) (Some (length bs + 2)))
              else v6_loop r' (bs @ chunk16 h) ell)"
  by pat_completeness auto

lemma dropWhile_Cons_length:
  "c # r = dropWhile P s \<Longrightarrow> length r < length s"
  using length_dropWhile_le [of P s] by (metis Suc_le_eq length_Cons)

termination v6_loop
  by (relation "measure (\<lambda>(s, bs, ell). length s)")
    (auto dest!: dropWhile_Cons_length simp: less_imp_diff_less)

declare v6_loop.simps [simp del]

definition v6_expand :: "octet list \<Rightarrow> nat option \<Rightarrow> octet list option" where
  "v6_expand bs ell =
     (if length bs < 16
      then (case ell of None \<Rightarrow> None
            | Some e \<Rightarrow> Some (take e bs @ replicate (16 - length bs) 0 @ drop e bs))
      else (if ell = None then Some bs else None))"

definition parse_v6 :: "string \<Rightarrow> octet list option" where
  "parse_v6 s =
     (if prefix ''::'' s
      then (if drop 2 s = [] then Some (replicate 16 0)
            else Option.bind (v6_loop (drop 2 s) [] (Some 0)) (\<lambda>(bs, ell). v6_expand bs ell))
      else Option.bind (v6_loop s [] None) (\<lambda>(bs, ell). v6_expand bs ell))"

text \<open>
  \<open>netip.ParseAddr\<close> without a zone (both \<open>net.ParseIP\<close> and \<open>net.ParseCIDR\<close> refuse zones):
  the first \<open>.\<close> or \<open>:\<close> decides the family.
\<close>

definition ParseAddr :: "string \<Rightarrow> addr option" where
  "ParseAddr s =
     (if CHR ''%'' \<in> set s then None
      else case dropWhile (\<lambda>c. c \<noteq> CHR ''.'' \<and> c \<noteq> CHR '':'') s of
          [] \<Rightarrow> None
        | c # _ \<Rightarrow> if c = CHR ''.'' then map_option V4 (parse_v4 s) else map_option V6 (parse_v6 s))"

definition v4_mapped :: "octet list \<Rightarrow> ip" where
  "v4_mapped b = replicate 10 0 @ [255, 255] @ b"

fun As16 :: "addr \<Rightarrow> ip" where
  "As16 (V4 b) = v4_mapped b"
| "As16 (V6 b) = b"

definition ParseIP :: "string \<Rightarrow> ip option" where
  "ParseIP s = map_option As16 (ParseAddr s)"

definition To4 :: "ip \<Rightarrow> octet list option" where
  "To4 a = (if length a = 4 then Some a
            else if length a = 16 \<and> take 12 a = replicate 10 0 @ [255, 255] then Some (drop 12 a)
            else None)"

subsection \<open>CIDR blocks\<close>

record ipnet =
  net_IP :: ip
  net_Mask :: "octet list"

text \<open>\<open>CIDRMask ones bits\<close>: the first \<open>ones\<close> of \<open>bits\<close> bits set.\<close>

definition mask_octet :: "nat \<Rightarrow> octet" where
  "mask_octet k = (if k \<ge> 8 then 255 else push_bit (8 - k) 255)"

definition CIDRMask :: "nat \<Rightarrow> nat \<Rightarrow> octet list" where
  "CIDRMask ones bits = map (\<lambda>i. mask_octet (ones - 8 * i)) [0..<bits div 8]"

definition and_bytes :: "octet list \<Rightarrow> octet list \<Rightarrow> octet list" where
  "and_bytes a m = map2 (AND) a m"

definition ParseCIDR :: "string \<Rightarrow> ipnet option" where
  "ParseCIDR s =
     (case IndexByte s CHR ''/'' of
        None \<Rightarrow> None
      | Some i \<Rightarrow>
          (let a = take i s; m = drop (Suc i) s in
           case ParseAddr a of
             None \<Rightarrow> None
           | Some (V4 b) \<Rightarrow>
               if m \<noteq> [] \<and> list_all is_digit m \<and> dec_val m \<le> 32
               then let k = CIDRMask (dec_val m) 32 in Some \<lparr>net_IP = and_bytes b k, net_Mask = k\<rparr>
               else None
           | Some (V6 b) \<Rightarrow>
               if m \<noteq> [] \<and> list_all is_digit m \<and> dec_val m \<le> 128
               then let k = CIDRMask (dec_val m) 128 in Some \<lparr>net_IP = and_bytes b k, net_Mask = k\<rparr>
               else None))"

text \<open>\<open>IPNet.Contains\<close> through \<open>networkNumberAndMask\<close>.\<close>

definition net_number_mask :: "ipnet \<Rightarrow> (octet list \<times> octet list) option" where
  "net_number_mask n =
     (let num = (case To4 (net_IP n) of Some v \<Rightarrow> v | None \<Rightarrow> net_IP n) in
      if To4 (net_IP n) = None \<and> length (net_IP n) \<noteq> 16 then None
      else if length (net_Mask n) = 4 then (if length num = 4 then Some (num, net_Mask n) else None)
      else if length (net_Mask n) = 16
        then Some (num, if length num = 4 then drop 12 (net_Mask n) else net_Mask n)
      else None)"

definition net_Contains :: "ipnet \<Rightarrow> ip \<Rightarrow> bool" where
  "net_Contains n a =
     (case net_number_mask n of
        None \<Rightarrow> False
      | Some (nn, m) \<Rightarrow>
          (let x = (case To4 a of Some v \<Rightarrow> v | None \<Rightarrow> a) in
           length x = length nn \<and> and_bytes nn m = and_bytes x m))"

subsection \<open>Printing addresses\<close>

definition v4_String :: "octet list \<Rightarrow> string" where
  "v4_String b = Join (map (\<lambda>o8. dec_str (unat o8)) b) ''.''"

definition hex_char :: "nat \<Rightarrow> char" where
  "hex_char d = (if d < 10 then char_of (48 + d) else char_of (87 + d))"

fun hex_str :: "nat \<Rightarrow> string" where
  "hex_str n = (if n < 16 then [hex_char n] else hex_str (n div 16) @ [hex_char (n mod 16)])"

declare hex_str.simps [simp del]

fun groups16 :: "octet list \<Rightarrow> nat list" where
  "groups16 (a # b # bs) = (256 * unat a + unat b) # groups16 bs"
| "groups16 bs = []"

text \<open>The first longest run of at least two zero groups, as start and length.\<close>

definition zero_run :: "nat list \<Rightarrow> (nat \<times> nat) option" where
  "zero_run gs =
     fold (\<lambda>i best. let l = length (takeWhile (\<lambda>g. g = 0) (drop i gs)) in
             if l \<ge> 2 \<and> (case best of None \<Rightarrow> True | Some (_, k) \<Rightarrow> l > k) then Some (i, l) else best)
       [0..<length gs] None"

definition v6_String :: "octet list \<Rightarrow> string" where
  "v6_String b =
     (let gs = groups16 b in
      case zero_run gs of
        None \<Rightarrow> Join (map hex_str gs) '':''
      | Some (i, l) \<Rightarrow> Join (map hex_str (take i gs)) '':'' @ ''::'' @ Join (map hex_str (drop (i + l) gs)) '':'')"

definition IP_String :: "ip \<Rightarrow> string" where
  "IP_String a = (case To4 a of Some v \<Rightarrow> v4_String v | None \<Rightarrow> v6_String a)"

subsection \<open>Host and port\<close>

definition LastIndexByte :: "string \<Rightarrow> char \<Rightarrow> nat option" where
  "LastIndexByte s c =
     (if c \<in> set s then Some (length s - 1 - length (takeWhile (\<lambda>x. x \<noteq> c) (rev s))) else None)"

text \<open>\<open>net.SplitHostPort\<close>: \<open>None\<close> for every address error.\<close>

definition SplitHostPort :: "string \<Rightarrow> (string \<times> string) option" where
  "SplitHostPort s =
     (case LastIndexByte s CHR '':'' of
        None \<Rightarrow> None
      | Some i \<Rightarrow>
          if hd s = CHR ''['' then
            (case IndexByte s CHR '']'' of
               None \<Rightarrow> None
             | Some e \<Rightarrow>
                 if Suc e \<noteq> i then None
                 else if CHR ''['' \<in> set (drop 1 s) \<or> CHR '']'' \<in> set (drop (Suc e) s) then None
                 else Some (take (e - 1) (drop 1 s), drop (Suc i) s))
          else if CHR '':'' \<in> set (take i s) \<or> CHR ''['' \<in> set s \<or> CHR '']'' \<in> set s then None
          else Some (take i s, drop (Suc i) s))"

end
