(* ===== verification/GoUrl.thy ===== *)
theory GoUrl
  imports GoNet
begin

text \<open>
  The part of Go's \<open>net/url\<close> the gate uses: \<open>QueryEscape\<close>, \<open>PathEscape\<close> and, of \<open>Parse\<close>, the
  scheme, the host, the decoded path and the raw query.  IPv6 zone identifiers inside a
  bracketed host are not modelled (such a URL does not parse here); no backend host has one.
\<close>

definition unreserved :: "char \<Rightarrow> bool" where
  "unreserved c \<longleftrightarrow> is_digit c \<or> (CHR ''a'' \<le> c \<and> c \<le> CHR ''z'') \<or> (CHR ''A'' \<le> c \<and> c \<le> CHR ''Z'') \<or>
     c \<in> {CHR ''-'', CHR ''_'', CHR ''.'', CHR ''~''}"

definition upper_hex :: "nat \<Rightarrow> char" where
  "upper_hex d = (if d < 10 then char_of (48 + d) else char_of (55 + d))"

definition QueryEscape :: "string \<Rightarrow> string" where
  "QueryEscape s = concat (map (\<lambda>c.
     if unreserved c then [c] else if c = CHR '' '' then ''+''
     else [CHR ''%'', upper_hex (of_char c div 16), upper_hex (of_char c mod 16)]) s)"

definition is_ctl :: "char \<Rightarrow> bool" where
  "is_ctl c \<longleftrightarrow> (of_char c :: nat) < 32 \<or> (of_char c :: nat) = 127"

definition is_alpha :: "char \<Rightarrow> bool" where
  "is_alpha c \<longleftrightarrow> (CHR ''a'' \<le> c \<and> c \<le> CHR ''z'') \<or> (CHR ''A'' \<le> c \<and> c \<le> CHR ''Z'')"

text \<open>\<open>getScheme\<close>: scheme and rest, \<open>None\<close> for a leading colon.\<close>

definition getScheme :: "string \<Rightarrow> (string \<times> string) option" where
  "getScheme s =
     (let pre = takeWhile (\<lambda>c. is_alpha c \<or> is_digit c \<or> c \<in> {CHR ''+'', CHR ''-'', CHR ''.''}) s;
          rest = drop (length pre) s
      in if pre \<noteq> [] \<and> \<not> is_alpha (hd pre) then Some ('''', s)
         else if rest \<noteq> [] \<and> hd rest = CHR '':'' then (if pre = [] then None else Some (pre, tl rest))
         else Some ('''', s))"

text \<open>Percent escapes of a path or fragment must be well formed.\<close>

fun escapes_ok :: "string \<Rightarrow> bool" where
  "escapes_ok [] = True"
| "escapes_ok (c # s) =
     (if c = CHR ''%'' then length s \<ge> 2 \<and> is_hex (s ! 0) \<and> is_hex (s ! 1) \<and> escapes_ok (drop 2 s)
      else escapes_ok s)"

definition host_char_ok :: "char \<Rightarrow> bool" where
  "host_char_ok c \<longleftrightarrow> unreserved c \<or> (of_char c :: nat) \<ge> 128 \<or>
     c \<in> set [CHR ''!'', CHR ''$'', CHR ''&'', CHR 0x27, CHR ''('', CHR '')'', CHR ''*'', CHR ''+'',
              CHR '','', CHR '';'', CHR ''='', CHR '':'', CHR ''['', CHR '']'', CHR ''<'', CHR ''>'', CHR 0x22]"

text \<open>Unescaping a host: an escape may only spell a byte above 0x7F.\<close>

fun unescape_host :: "string \<Rightarrow> string option" where
  "unescape_host [] = Some []"
| "unescape_host (c # s) =
     (if c = CHR ''%'' then
        (case s of
           a # b # t \<Rightarrow>
             if is_hex a \<and> is_hex b \<and> hex_digit_val a \<ge> 8
             then map_option ((#) (char_of (16 * hex_digit_val a + hex_digit_val b))) (unescape_host t)
             else None
         | _ \<Rightarrow> None)
      else if host_char_ok c then map_option ((#) c) (unescape_host s) else None)"

definition validOptionalPort :: "string \<Rightarrow> bool" where
  "validOptionalPort p \<longleftrightarrow> p = [] \<or> hd p = CHR '':'' \<and> list_all is_digit (tl p)"

definition parseHost :: "string \<Rightarrow> string option" where
  "parseHost h =
     (if prefix ''['' h then
        (case LastIndexByte h CHR '']'' of
           None \<Rightarrow> None
         | Some i \<Rightarrow> if validOptionalPort (drop (Suc i) h) then unescape_host h else None)
      else (case LastIndexByte h CHR '':'' of
              None \<Rightarrow> unescape_host h
            | Some i \<Rightarrow> if validOptionalPort (drop i h) then unescape_host h else None))"

definition userinfo_char_ok :: "char \<Rightarrow> bool" where
  "userinfo_char_ok c \<longleftrightarrow> unreserved c \<or>
     c \<in> set [CHR '':'', CHR ''!'', CHR ''$'', CHR ''&'', CHR 0x27, CHR ''('', CHR '')'', CHR ''*'',
              CHR ''+'', CHR '','', CHR '';'', CHR ''='', CHR ''%'', CHR ''@'']"

definition parseAuthority :: "string \<Rightarrow> string option" where
  "parseAuthority a =
     (case LastIndexByte a CHR ''@'' of
        None \<Rightarrow> parseHost a
      | Some i \<Rightarrow>
          if list_all userinfo_char_ok (take i a) \<and> escapes_ok (take i a) then parseHost (drop (Suc i) a) else None)"

definition cut :: "string \<Rightarrow> char \<Rightarrow> string \<times> string" where
  "cut s c = (takeWhile (\<lambda>x. x \<noteq> c) s, drop 1 (dropWhile (\<lambda>x. x \<noteq> c) s))"

record URL =
  u_Scheme :: string
  u_Host :: string
  u_Path :: string
  u_RawQuery :: string

fun unescape_path :: "string \<Rightarrow> string" where
  "unescape_path [] = []"
| "unescape_path (c # s) =
     (if c = CHR ''%'' then
        (case s of
           a # b # t \<Rightarrow> char_of (16 * hex_digit_val a + hex_digit_val b) # unescape_path t
         | _ \<Rightarrow> c # s)
      else c # unescape_path s)"

definition PathEscape :: "string \<Rightarrow> string" where
  "PathEscape s = concat (map (\<lambda>c.
     if unreserved c \<or> c \<in> {CHR ''$'', CHR ''&'', CHR ''+'', CHR ''='', CHR '':'', CHR ''@''} then [c]
     else [CHR ''%'', upper_hex (of_char c div 16), upper_hex (of_char c mod 16)]) s)"

text \<open>\<open>url.Parse\<close>, \<open>None\<close> on an error.\<close>

definition url_Parse :: "string \<Rightarrow> URL option" where
  "url_Parse raw =
     (let (u, frag) = cut raw CHR ''#'' in
      if list_ex is_ctl u \<or> \<not> escapes_ok frag then None
      else if u = ''*'' then Some \<lparr>u_Scheme = '''', u_Host = '''', u_Path = ''*'', u_RawQuery = ''''\<rparr>
      else case getScheme u of
        None \<Rightarrow> None
      | Some (scheme0, rest0) \<Rightarrow>
          let scheme = ToLower scheme0; (rest, query) = cut rest0 CHR ''?'';
              ok = (\<lambda>h p. if escapes_ok p then Some \<lparr>u_Scheme = scheme, u_Host = h,
                             u_Path = unescape_path p, u_RawQuery = query\<rparr> else None) in
          if \<not> prefix ''/'' rest then
            (if scheme \<noteq> '''' then Some \<lparr>u_Scheme = scheme, u_Host = '''', u_Path = '''', u_RawQuery = query\<rparr>
             else if CHR '':'' \<in> set (fst (cut rest CHR ''/'')) then None
             else ok '''' rest)
          else if prefix ''//'' rest \<and> (scheme \<noteq> '''' \<or> \<not> prefix ''///'' rest) then
            (case parseAuthority (takeWhile (\<lambda>x. x \<noteq> CHR ''/'') (drop 2 rest)) of
               None \<Rightarrow> None
             | Some h \<Rightarrow> ok h (dropWhile (\<lambda>x. x \<noteq> CHR ''/'') (drop 2 rest)))
          else ok '''' rest)"

end
