(* ===== verification/Models.thy ===== *)
theory Models
  imports GoNet
begin

text \<open>
  Package \<open>models\<close> (models/config.go): the configuration, service, user and session data as
  records with the source's fields in the source's order (prefixed per struct), the grant
  identifiers of the authorization matrix and the canonical rule names.  A pointer field is an
  \<open>option\<close>, a Go \<open>int\<close> an \<open>int\<close>, a slice a list, an instant or a duration an \<open>int\<close> of
  nanoseconds.
\<close>

subsection \<open>Configuration (config.json)\<close>

record OSUpdatesCfg =
  osu_Automation :: string
  osu_Notify :: bool
  osu_NotifyOn :: string
  osu_Channels :: "string list"
  osu_PollHours :: int

record OneTimeCodeCfg =
  otc_Enabled :: bool
  otc_Channel :: string
  otc_TTLMinutes :: int
  otc_CodeLength :: int
  otc_CooldownSeconds :: int

record ServerCfg =
  srv_Listen :: string
  srv_ExternalURL :: string
  srv_TrustedProxies :: "string list"

record ACMECfg =
  acme_Provider :: string
  acme_PDNSAPIURL :: string
  acme_Email :: string

record TLSCfg =
  tls_Mode :: string
  tls_Domains :: "string list"
  tls_ACME :: ACMECfg

record SessionCfg =
  ses_CookieName :: string
  ses_CookieDomain :: string
  ses_TTLMinutes :: int
  ses_IdleTimeoutMinutes :: int
  ses_Store :: string
  ses_SQLitePath :: string

record AdminCfg =
  adm_IPWhitelist :: "string list"

record ProviderCfg =
  prv_ID :: string
  prv_Type :: string
  prv_Name :: string
  prv_Enabled :: bool
  prv_Issuer :: string
  prv_ClientID :: string
  prv_LDAPURL :: string
  prv_LDAPBindDNTemplate :: string
  prv_LDAPBaseDN :: string
  prv_LDAPStartTLS :: bool
  prv_LDAPInsecureSkipVerify :: bool

record TelegramCfg =
  tgc_Enabled :: bool
  tgc_ChatID :: string

record EmailCfg =
  emc_Enabled :: bool
  emc_SMTPHost :: string
  emc_From :: string
  emc_To :: "string list"

record AlertingCfg =
  alc_Telegram :: TelegramCfg
  alc_Email :: EmailCfg

record MonitoringCfg =
  mon_Alerting :: AlertingCfg

record TelegramInCfg =
  tin_Enabled :: bool
  tin_AllowChatIDs :: "string list"
  tin_PollSeconds :: int

record EmailInCfg =
  ein_Enabled :: bool
  ein_IMAPHost :: string
  ein_IMAPPort :: int
  ein_User :: string
  ein_Folder :: string
  ein_RequireDKIM :: bool
  ein_AllowFrom :: "string list"
  ein_PollSeconds :: int

record RemoteControlCfg =
  rcc_Enabled :: bool
  rcc_AllowCommands :: "string list"
  rcc_Telegram :: TelegramInCfg
  rcc_Email :: EmailInCfg

subsection \<open>Services (services.json)\<close>

record WafCfg =
  waf_Enabled :: bool
  waf_Mode :: string
  waf_Paranoia :: int
  waf_Threshold :: int
  waf_DisabledRules :: "int list"
  waf_IgnoreIPs :: "string list"
  waf_CustomRules :: string

record HostingRef =
  hr_Site :: string
  hr_Vhost :: string

record NginxOpts =
  ngx_ProxyTimeout :: int
  ngx_MaxBodyMB :: int
  ngx_WebSocket :: bool
  ngx_NoBuffering :: bool
  ngx_BackendSelfSigned :: bool
  ngx_CustomServer :: string
  ngx_CustomLocation :: string

record Route =
  rt_Path :: string
  rt_Rule :: string
  rt_Upstream :: string
  rt_OwnGrants :: bool

record Health =
  hl_URL :: string
  hl_IntervalSeconds :: int
  hl_TimeoutSeconds :: int

record Backend =
  be_ID :: string
  be_Name :: string
  be_Description :: string
  be_Host :: string
  be_URL :: string
  be_WWW :: bool
  be_Disabled :: bool
  be_Unlisted :: bool
  be_Image :: string
  be_IPAllow :: "string list"
  be_Routes :: "Route list"
  be_Health :: Health
  be_Nginx :: NginxOpts
  be_Hosting :: "HostingRef option"
  be_Waf :: "WafCfg option"

record Link =
  ln_ID :: string
  ln_Name :: string
  ln_URL :: string
  ln_Description :: string
  ln_Public :: bool
  ln_Disabled :: bool

record Monitor =
  mo_ID :: string
  mo_Name :: string
  mo_URL :: string
  mo_IntervalSeconds :: int
  mo_TimeoutSeconds :: int

record Services =
  svc_AdminIPWhitelist :: "string list"
  svc_Backends :: "Backend list"
  svc_Links :: "Link list"
  svc_Monitors :: "Monitor list"
  svc_Providers :: "ProviderCfg list"

record Config =
  cfg_AuthMode :: bool
  cfg_DisableTOTP :: bool
  cfg_AuthLog :: string
  cfg_OneTimeCode :: OneTimeCodeCfg
  cfg_Server :: ServerCfg
  cfg_TLS :: TLSCfg
  cfg_Session :: SessionCfg
  cfg_Admin :: AdminCfg
  cfg_Providers :: "ProviderCfg list"
  cfg_UsersFile :: string
  cfg_SecretsFile :: string
  cfg_ServicesFile :: string
  cfg_Monitoring :: MonitoringCfg
  cfg_RemoteControl :: RemoteControlCfg
  cfg_OSUpdates :: OSUpdatesCfg
  cfg_Backends :: "Backend list"

subsection \<open>Secrets, users and runtime entities\<close>

record IMAPSecret =
  ims_Password :: string

record ProviderSecret =
  ps_ClientSecret :: string

record TelegramSecret =
  tgs_BotToken :: string

record SMTPSecret =
  sms_Username :: string
  sms_Password :: string

record ACMESecret =
  acs_PDNSAPIKey :: string

record Secrets =
  sec_AdminPasswordHash :: string
  sec_Providers :: "string \<rightharpoonup> ProviderSecret"
  sec_Telegram :: TelegramSecret
  sec_SMTP :: SMTPSecret
  sec_ACME :: ACMESecret
  sec_IMAP :: IMAPSecret

record User =
  usr_Email :: string
  usr_Provider :: string
  usr_PasswordHash :: string
  usr_TOTPSecret :: string
  usr_Admin :: bool
  usr_Backends :: "string list"

text \<open>The \<open>Users\<close> struct of users.json has one field; the model uses the list itself.\<close>

type_synonym Users = "User list"

record Session =
  s_ID :: string
  s_Email :: string
  s_Provider :: string
  s_TwoFADone :: bool
  s_CreatedAt :: int
  s_LastSeen :: int

record SetupState =
  st_Token :: string
  st_Email :: string
  st_ExpiresAt :: int
  st_PasswordHash :: string
  st_TOTPSecret :: string

subsection \<open>Zero values\<close>

definition zero_Health :: Health where
  "zero_Health = \<lparr>hl_URL = [], hl_IntervalSeconds = 0, hl_TimeoutSeconds = 0\<rparr>"

definition zero_NginxOpts :: NginxOpts where
  "zero_NginxOpts = \<lparr>ngx_ProxyTimeout = 0, ngx_MaxBodyMB = 0, ngx_WebSocket = False,
     ngx_NoBuffering = False, ngx_BackendSelfSigned = False, ngx_CustomServer = [],
     ngx_CustomLocation = []\<rparr>"

definition zero_Backend :: Backend where
  "zero_Backend = \<lparr>be_ID = [], be_Name = [], be_Description = [], be_Host = [], be_URL = [],
     be_WWW = False, be_Disabled = False, be_Unlisted = False, be_Image = [], be_IPAllow = [],
     be_Routes = [], be_Health = zero_Health, be_Nginx = zero_NginxOpts, be_Hosting = None,
     be_Waf = None\<rparr>"

definition zero_Route :: Route where
  "zero_Route = \<lparr>rt_Path = [], rt_Rule = [], rt_Upstream = [], rt_OwnGrants = False\<rparr>"

definition zero_User :: User where
  "zero_User = \<lparr>usr_Email = [], usr_Provider = [], usr_PasswordHash = [], usr_TOTPSecret = [],
     usr_Admin = False, usr_Backends = []\<rparr>"

definition zero_Services :: Services where
  "zero_Services = \<lparr>svc_AdminIPWhitelist = [], svc_Backends = [], svc_Links = [],
     svc_Monitors = [], svc_Providers = []\<rparr>"

definition zero_Provider :: ProviderCfg where
  "zero_Provider = \<lparr>prv_ID = [], prv_Type = [], prv_Name = [], prv_Enabled = False,
     prv_Issuer = [], prv_ClientID = [], prv_LDAPURL = [], prv_LDAPBindDNTemplate = [],
     prv_LDAPBaseDN = [], prv_LDAPStartTLS = False, prv_LDAPInsecureSkipVerify = False\<rparr>"

definition zero_Secrets :: Secrets where
  "zero_Secrets = \<lparr>sec_AdminPasswordHash = [], sec_Providers = Map.empty,
     sec_Telegram = \<lparr>tgs_BotToken = []\<rparr>, sec_SMTP = \<lparr>sms_Username = [], sms_Password = []\<rparr>,
     sec_ACME = \<lparr>acs_PDNSAPIKey = []\<rparr>, sec_IMAP = \<lparr>ims_Password = []\<rparr>\<rparr>"

definition zero_Config :: Config where
  "zero_Config = \<lparr>cfg_AuthMode = False, cfg_DisableTOTP = False, cfg_AuthLog = [],
     cfg_OneTimeCode = \<lparr>otc_Enabled = False, otc_Channel = [], otc_TTLMinutes = 0,
       otc_CodeLength = 0, otc_CooldownSeconds = 0\<rparr>,
     cfg_Server = \<lparr>srv_Listen = [], srv_ExternalURL = [], srv_TrustedProxies = []\<rparr>,
     cfg_TLS = \<lparr>tls_Mode = [], tls_Domains = [],
       tls_ACME = \<lparr>acme_Provider = [], acme_PDNSAPIURL = [], acme_Email = []\<rparr>\<rparr>,
     cfg_Session = \<lparr>ses_CookieName = [], ses_CookieDomain = [], ses_TTLMinutes = 0,
       ses_IdleTimeoutMinutes = 0, ses_Store = [], ses_SQLitePath = []\<rparr>,
     cfg_Admin = \<lparr>adm_IPWhitelist = []\<rparr>, cfg_Providers = [], cfg_UsersFile = [],
     cfg_SecretsFile = [], cfg_ServicesFile = [],
     cfg_Monitoring = \<lparr>mon_Alerting = \<lparr>alc_Telegram = \<lparr>tgc_Enabled = False, tgc_ChatID = []\<rparr>,
       alc_Email = \<lparr>emc_Enabled = False, emc_SMTPHost = [], emc_From = [], emc_To = []\<rparr>\<rparr>\<rparr>,
     cfg_RemoteControl = \<lparr>rcc_Enabled = False, rcc_AllowCommands = [],
       rcc_Telegram = \<lparr>tin_Enabled = False, tin_AllowChatIDs = [], tin_PollSeconds = 0\<rparr>,
       rcc_Email = \<lparr>ein_Enabled = False, ein_IMAPHost = [], ein_IMAPPort = 0, ein_User = [],
         ein_Folder = [], ein_RequireDKIM = False, ein_AllowFrom = [], ein_PollSeconds = 0\<rparr>\<rparr>,
     cfg_OSUpdates = \<lparr>osu_Automation = [], osu_Notify = False, osu_NotifyOn = [],
       osu_Channels = [], osu_PollHours = 0\<rparr>,
     cfg_Backends = []\<rparr>"

subsection \<open>Rules\<close>

definition RulePublic :: string where
  "RulePublic = ''public''"

definition RuleAuthenticated :: string where
  "RuleAuthenticated = ''authenticated''"

definition RuleAuthorized :: string where
  "RuleAuthorized = ''authorized''"

definition ruleWhitelistLegacy :: string where
  "ruleWhitelistLegacy = ''whitelist''"

lemmas rule_names = RulePublic_def RuleAuthenticated_def RuleAuthorized_def ruleWhitelistLegacy_def

definition CanonicalRule :: "string \<Rightarrow> string" where
  "CanonicalRule r = (if r = ruleWhitelistLegacy then RuleAuthorized else r)"

definition CanonicalizeRules :: "Backend list \<Rightarrow> Backend list" where
  "CanonicalizeRules bs =
     map (\<lambda>b. b\<lparr>be_Routes := map (\<lambda>r. r\<lparr>rt_Rule := CanonicalRule (rt_Rule r)\<rparr>) (be_Routes b)\<rparr>) bs"

lemma CanonicalRule_idem [simp]: "CanonicalRule (CanonicalRule r) = CanonicalRule r"
  by (simp add: CanonicalRule_def rule_names)

lemma CanonicalizeRules_idem: "CanonicalizeRules (CanonicalizeRules bs) = CanonicalizeRules bs"
  by (simp add: CanonicalizeRules_def)

subsection \<open>Grant identifiers\<close>

definition GrantID :: "string \<Rightarrow> string \<Rightarrow> string" where
  "GrantID backendID path =
     (if path = [] \<or> path = ''/'' then backendID else backendID @ ''#'' @ path)"

text \<open>The loop of \<open>EffectiveGrantID\<close>: the longest trimmed ancestor so far.\<close>

fun best_ancestor :: "string \<Rightarrow> Route list \<Rightarrow> string \<Rightarrow> string" where
  "best_ancestor p [] best = best"
| "best_ancestor p (r # rs) best =
     (if \<not> rt_OwnGrants r \<or> rt_Path r = [] \<or> rt_Path r = ''/'' then best_ancestor p rs best
      else let anc = TrimRight (rt_Path r) CHR ''/'' in
        if (p = anc \<or> HasPrefix p (anc @ ''/'')) \<and> length anc > length best
        then best_ancestor p rs anc
        else best_ancestor p rs best)"

definition EffectiveGrantID :: "Backend \<Rightarrow> Route \<Rightarrow> string" where
  "EffectiveGrantID be rt =
     (if rt_OwnGrants rt then GrantID (be_ID be) (rt_Path rt)
      else let best = best_ancestor (rt_Path rt) (be_Routes be) [] in
        if best \<noteq> [] then GrantID (be_ID be) best else be_ID be)"

text \<open>The paths that carry their own list of users and contain the path \<open>p\<close>.\<close>

definition own_ancestors :: "Route list \<Rightarrow> string \<Rightarrow> string list" where
  "own_ancestors rs p =
     filter (\<lambda>anc. anc \<noteq> [] \<and> (p = anc \<or> HasPrefix p (anc @ ''/'')))
       (map (\<lambda>r. TrimRight (rt_Path r) CHR ''/'')
         (filter (\<lambda>r. rt_OwnGrants r \<and> rt_Path r \<noteq> [] \<and> rt_Path r \<noteq> ''/'') rs))"

lemma own_ancestor_prefix: "a \<in> set (own_ancestors rs p) \<Longrightarrow> prefix a p"
  by (auto simp: own_ancestors_def dest: append_prefixD)

lemma best_ancestor_cases:
  "best_ancestor p rs best = best \<and> (\<forall>a \<in> set (own_ancestors rs p). length a \<le> length best) \<or>
   best_ancestor p rs best \<in> set (own_ancestors rs p) \<and>
   length best < length (best_ancestor p rs best) \<and>
   (\<forall>a \<in> set (own_ancestors rs p). length a \<le> length (best_ancestor p rs best))"
proof (induction p rs best rule: best_ancestor.induct)
  case (1 p best)
  then show ?case by (simp add: own_ancestors_def)
next
  case (2 p r rs best)
  let ?anc = "TrimRight (rt_Path r) CHR ''/''"
  consider (skip) "\<not> rt_OwnGrants r \<or> rt_Path r = [] \<or> rt_Path r = ''/''"
    | (take) "rt_OwnGrants r" "rt_Path r \<noteq> []" "rt_Path r \<noteq> ''/''"
        "p = ?anc \<or> HasPrefix p (?anc @ ''/'')" "length ?anc > length best"
    | (drop) "rt_OwnGrants r" "rt_Path r \<noteq> []" "rt_Path r \<noteq> ''/''"
        "\<not> ((p = ?anc \<or> HasPrefix p (?anc @ ''/'')) \<and> length ?anc > length best)"
    by blast
  then show ?case
  proof cases
    case skip
    with 2(1) show ?thesis by (auto simp: own_ancestors_def)
  next
    case take
    then have "?anc \<noteq> []" by auto
    with take 2(2) show ?thesis
      by (auto simp: own_ancestors_def Let_def)
  next
    case drop
    with 2(3) show ?thesis
      by (auto simp: own_ancestors_def Let_def)
  qed
qed

lemma best_ancestor_nearest:
  assumes "a \<in> set (own_ancestors rs p)"
    and "\<And>b. b \<in> set (own_ancestors rs p) \<Longrightarrow> length b \<le> length a"
  shows "best_ancestor p rs [] = a"
proof -
  have a: "a \<noteq> []" using assms(1) by (auto simp: own_ancestors_def)
  have in_set: "best_ancestor p rs [] \<in> set (own_ancestors rs p)"
    using best_ancestor_cases [of p rs "[]"] assms(1) a by fastforce
  then have "length (best_ancestor p rs []) = length a"
    using best_ancestor_cases [of p rs "[]"] assms a by (metis le_antisym length_0_conv le_zero_eq)
  then show ?thesis
    using own_ancestor_prefix [OF in_set] own_ancestor_prefix [OF assms(1)]
    by (metis prefix_length_prefix prefix_order.antisym order_refl)
qed

lemma best_ancestor_none: "own_ancestors rs p = [] \<Longrightarrow> best_ancestor p rs [] = []"
  using best_ancestor_cases [of p rs "[]"] by auto

lemma GrantID_hash:
  "path \<noteq> [] \<Longrightarrow> path \<noteq> ''/'' \<Longrightarrow> GrantID b path = b @ CHR ''#'' # path"
  by (simp add: GrantID_def)

lemma GrantID_own_prefix:
  "HasPrefix (GrantID b path) (b @ ''#'') \<longleftrightarrow> path \<noteq> [] \<and> path \<noteq> ''/''"
  by (auto simp: GrantID_def prefix_def)

lemma GrantID_inject_aux:
  assumes "CHR ''#'' \<notin> set b" "CHR ''#'' \<notin> set b'"
    and "b @ CHR ''#'' # p = b' @ CHR ''#'' # p'"
  shows "b = b' \<and> p = p'"
proof -
  have "takeWhile (\<lambda>c. c \<noteq> CHR ''#'') (b @ CHR ''#'' # p) = b"
    using assms(1) by (subst takeWhile_append2) auto
  moreover have "takeWhile (\<lambda>c. c \<noteq> CHR ''#'') (b' @ CHR ''#'' # p') = b'"
    using assms(2) by (subst takeWhile_append2) auto
  ultimately have "b = b'" using assms(3) by simp
  with assms(3) show ?thesis by simp
qed

lemma GrantID_not_hash: "CHR ''#'' \<notin> set b \<Longrightarrow> path = [] \<or> path = ''/'' \<Longrightarrow> CHR ''#'' \<notin> set (GrantID b path)"
  by (auto simp: GrantID_def)


section \<open>Properties\<close>

definition route_of :: "string \<Rightarrow> string \<Rightarrow> bool \<Rightarrow> Route" where
  "route_of path rule own = \<lparr>rt_Path = path, rt_Rule = rule, rt_Upstream = ''http://10.0.0.1:80'', rt_OwnGrants = own\<rparr>"

text \<open>
  A path without its own list of users takes the grant of its nearest ancestor with one:
  the identifier is the backend's own when no ancestor path has a list, and otherwise that of
  an ancestor which every other ancestor with a list contains (ancestors are taken on segment
  boundaries).
\<close>

theorem EffectiveGrantID_nearest:
  assumes "\<not> rt_OwnGrants rt"
  shows "own_ancestors (be_Routes be) (rt_Path rt) = [] \<and> EffectiveGrantID be rt = be_ID be \<or>
     (\<exists>a \<in> set (own_ancestors (be_Routes be) (rt_Path rt)).
        EffectiveGrantID be rt = GrantID (be_ID be) a \<and>
        (\<forall>b \<in> set (own_ancestors (be_Routes be) (rt_Path rt)). prefix b a))"
proof (cases "own_ancestors (be_Routes be) (rt_Path rt) = []")
  case True
  with assms show ?thesis by (simp add: EffectiveGrantID_def best_ancestor_none)
next
  case False
  let ?as = "own_ancestors (be_Routes be) (rt_Path rt)" and ?a = "best_ancestor (rt_Path rt) (be_Routes be) []"
  have "?a \<in> set ?as \<and> ?a \<noteq> [] \<and> (\<forall>b \<in> set ?as. length b \<le> length ?a)"
    using best_ancestor_cases [of "rt_Path rt" "be_Routes be" "[]"] False
    by (auto simp: own_ancestors_def filter_empty_conv)
  moreover from this have "\<forall>b \<in> set ?as. prefix b ?a"
    using own_ancestor_prefix prefix_length_prefix by blast
  ultimately show ?thesis
    using assms by (auto simp: EffectiveGrantID_def Let_def)
qed

definition two_lists :: Backend where
  "two_lists = zero_Backend\<lparr>be_ID := ''svc'',
     be_Routes := [route_of ''/a'' ''authorized'' True, route_of ''/a/b'' ''authorized'' True]\<rparr>"

theorem EffectiveGrantID_nearest_witness:
  "EffectiveGrantID two_lists (route_of ''/a/b/c'' ''authorized'' False) = GrantID ''svc'' ''/a/b''"
proof -
  have "own_ancestors (be_Routes two_lists) (rt_Path (route_of ''/a/b/c'' ''authorized'' False)) = [''/a'', ''/a/b'']"
    by (simp add: own_ancestors_def two_lists_def route_of_def TrimRightFunc_def)
  with EffectiveGrantID_nearest [of "route_of ''/a/b/c'' ''authorized'' False" two_lists] show ?thesis
    by (simp add: route_of_def two_lists_def)
qed

text \<open>
  Over backend identifiers without the character \<open>#\<close>, a grant identifies its backend and
  its path: two grants agree only for the same backend and the same path (or both the root).
\<close>

theorem GrantID_inject:
  assumes "CHR ''#'' \<notin> set b" "CHR ''#'' \<notin> set b'"
  shows "GrantID b p = GrantID b' p' \<longleftrightarrow>
     b = b' \<and> (p = p' \<or> p \<in> {'''', ''/''} \<and> p' \<in> {'''', ''/''})"
proof (cases "p \<in> {'''', ''/''} \<or> p' \<in> {'''', ''/''}")
  case True
  then show ?thesis
    using assms by (auto simp: GrantID_def)
next
  case False
  then have "GrantID b p = GrantID b' p' \<longleftrightarrow> b @ CHR ''#'' # p = b' @ CHR ''#'' # p'"
    by (simp add: GrantID_def)
  also have "\<dots> \<longleftrightarrow> b = b' \<and> p = p'"
    using GrantID_inject_aux [OF assms] by blast
  finally show ?thesis using False by auto
qed

theorem GrantID_inject_witness: "GrantID ''svc'' ''/a'' \<noteq> GrantID ''svc'' ''/b'' \<and> GrantID ''x'' '''' = GrantID ''x'' ''/''"
  using GrantID_inject [of "''svc''" "''svc''" "''/a''" "''/b''"] GrantID_inject [of "''x''" "''x''" "''''" "''/''"]
  by simp

text \<open>
  An own list on a path written with a trailing slash gets an identifier of its own, which its
  children do not inherit: they need the identifier of the trimmed path.
\<close>

theorem own_list_trailing_slash:
  "let be = zero_Backend\<lparr>be_ID := ''svc'', be_Routes := [route_of ''/area/'' ''authorized'' True]\<rparr>
   in EffectiveGrantID be (route_of ''/area/'' ''authorized'' True) = ''svc#/area/'' \<and>
      EffectiveGrantID be (route_of ''/area/x'' ''authorized'' False) = ''svc#/area''"
  by (simp add: EffectiveGrantID_def route_of_def zero_Backend_def GrantID_def
      TrimRightFunc_def Let_def)

end
