(* ===== verification/Users.thy ===== *)
theory Users
  imports Models "HOL-Library.AList"
begin

text \<open>
  The user directory of auth/directory.go: the map from email to user guarded by an RWMutex,
  as an association list with one entry per key.  Go visits a map in an unspecified order, so
  \<open>All\<close> takes the order of this call as an argument: any function that permutes a list.
\<close>

record UserDirectory =
  ud_byEmail :: "(string \<times> User) list"

definition Get :: "UserDirectory \<Rightarrow> string \<Rightarrow> User option" where
  "Get d email = map_of (ud_byEmail d) email"

text \<open>\<open>for _, u := range users { m[u.Email] = u }\<close>, for any element type and key.\<close>

fun build_map :: "('u \<Rightarrow> string) \<Rightarrow> 'u list \<Rightarrow> (string \<times> 'u) list \<Rightarrow> (string \<times> 'u) list" where
  "build_map key [] m = m"
| "build_map key (u # us) m = build_map key us (AList.update (key u) u m)"

definition Replace :: "User list \<Rightarrow> UserDirectory \<Rightarrow> UserDirectory" where
  "Replace users d = d\<lparr>ud_byEmail := build_map usr_Email users []\<rparr>"

definition NewUserDirectory :: "User list \<Rightarrow> UserDirectory" where
  "NewUserDirectory users = Replace users \<lparr>ud_byEmail = []\<rparr>"

definition All :: "(User list \<Rightarrow> User list) \<Rightarrow> UserDirectory \<Rightarrow> User list" where
  "All iter d = iter (map snd (ud_byEmail d))"

definition Count :: "UserDirectory \<Rightarrow> nat" where
  "Count d = length (ud_byEmail d)"

text \<open>What a map iteration may do: visit every entry once, in some order.\<close>

definition iterates :: "('a list \<Rightarrow> 'a list) \<Rightarrow> bool" where
  "iterates iter \<longleftrightarrow> (\<forall>xs. mset (iter xs) = mset xs)"

lemma iterates_id: "iterates id" "iterates (\<lambda>xs. xs)" "iterates rev"
  by (simp_all add: iterates_def)

lemma iterates_set: "iterates iter \<Longrightarrow> set (iter xs) = set xs"
  by (metis iterates_def mset_eq_setD)

lemma iterates_length: "iterates iter \<Longrightarrow> length (iter xs) = length xs"
  by (metis iterates_def mset_eq_length)

lemma iterates_distinct: "iterates iter \<Longrightarrow> distinct (map f (iter xs)) \<longleftrightarrow> distinct (map f xs)"
  by (metis iterates_def mset_eq_imp_distinct_iff mset_map)

subsection \<open>Invariant and lookups\<close>

text \<open>The facts on keyed lists are stated for any element type, as the loop is.\<close>

definition keyed :: "('u \<Rightarrow> string) \<Rightarrow> (string \<times> 'u) list \<Rightarrow> bool" where
  "keyed key m \<longleftrightarrow> distinct (map fst m) \<and> (\<forall>p \<in> set m. key (snd p) = fst p)"

lemma keyed_update: "keyed key m \<Longrightarrow> keyed key (AList.update (key u) u m)"
proof -
  assume ok: "keyed key m"
  have d: "distinct (map fst (AList.update (key u) u m))"
    using ok by (simp add: keyed_def distinct_update)
  have "key (snd p) = fst p" if "p \<in> set (AList.update (key u) u m)" for p
  proof -
    have "map_of (AList.update (key u) u m) (fst p) = Some (snd p)"
      using that d by simp
    then have "((map_of m)(key u \<mapsto> u)) (fst p) = Some (snd p)"
      by (simp add: update_conv')
    then show ?thesis
      using ok by (cases "fst p = key u") (auto simp: keyed_def dest: map_of_SomeD)
  qed
  with d show ?thesis by (simp add: keyed_def)
qed

lemma keyed_build: "keyed key m \<Longrightarrow> keyed key (build_map key us m)"
  by (induction key us m rule: build_map.induct) (simp_all add: keyed_update)

lemma keyed_Nil [simp]: "keyed key []"
  by (simp add: keyed_def)

lemma map_of_keyed: "keyed key m \<Longrightarrow> map_of m e = Some u \<longleftrightarrow> u \<in> snd ` set m \<and> key u = e"
  by (force simp: keyed_def)

lemma keyed_map: "keyed key m \<Longrightarrow> map key (map snd m) = map fst m"
  by (simp add: keyed_def)

lemma map_of_build_map:
  "distinct (map key us) \<Longrightarrow> \<forall>u \<in> set us. map_of m (key u) = None \<Longrightarrow>
   map_of (build_map key us m) e = Some v \<longleftrightarrow> v \<in> set us \<and> key v = e \<or> map_of m e = Some v"
proof (induction key us m rule: build_map.induct)
  case (1 key m)
  then show ?case by simp
next
  case (2 key u us m)
  have "\<forall>w \<in> set us. map_of (AList.update (key u) u m) (key w) = None"
  proof
    fix w
    assume "w \<in> set us"
    then have "key w \<in> key ` set us" by (rule imageI)
    with "2.prems" have "key w \<noteq> key u" by auto
    moreover have "map_of m (key w) = None" using "2.prems" \<open>w \<in> set us\<close> by auto
    ultimately    show "map_of (AList.update (key u) u m) (key w) = None" by (simp add: update_conv')
  qed
  with 2 have "map_of (build_map key (u # us) m) e = Some v \<longleftrightarrow>
      v \<in> set us \<and> key v = e \<or> ((map_of m)(key u \<mapsto> u)) e = Some v"
    by (simp add: update_conv')
  then show ?case using "2.prems" by auto
qed

definition dir_ok :: "UserDirectory \<Rightarrow> bool" where
  "dir_ok d \<longleftrightarrow> keyed usr_Email (ud_byEmail d)"

lemma dir_ok_Replace: "dir_ok (Replace us d)"
  by (simp add: dir_ok_def Replace_def keyed_build)

lemma dir_ok_New: "dir_ok (NewUserDirectory us)"
  by (simp add: NewUserDirectory_def dir_ok_Replace)

lemma Get_Replace:
  "distinct (map usr_Email us) \<Longrightarrow> Get (Replace us d) e = Some u \<longleftrightarrow> u \<in> set us \<and> usr_Email u = e"
  by (simp add: Get_def Replace_def map_of_build_map)

lemma Get_email: "dir_ok d \<Longrightarrow> Get d e = Some u \<Longrightarrow> usr_Email u = e"
  by (simp add: dir_ok_def Get_def map_of_keyed)

lemma All_emails:
  assumes "dir_ok d" "iterates iter"
  shows "distinct (map usr_Email (All iter d))"
proof -
  have k: "keyed usr_Email (ud_byEmail d)" using assms(1) by (simp only: dir_ok_def)
  then have "distinct (map usr_Email (map snd (ud_byEmail d)))"
    by (subst keyed_map [OF k]) (simp only: keyed_def)
  then show ?thesis
    by (simp only: All_def iterates_distinct [OF assms(2)])
qed

lemma All_iff: "dir_ok d \<Longrightarrow> iterates iter \<Longrightarrow> u \<in> set (All iter d) \<longleftrightarrow> Get d (usr_Email u) = Some u"
  by (simp add: All_def iterates_set dir_ok_def Get_def map_of_keyed)

lemma Get_None_iff: "Get d e = None \<longleftrightarrow> e \<notin> fst ` set (ud_byEmail d)"
  by (simp add: Get_def map_of_eq_None_iff)

subsection \<open>The directory interface of the admin operations\<close>

text \<open>
  Every user mutation lists the directory, edits the list and replaces the directory by it.
  The interface promises what a lookup finds after a replacement and what a listing holds; the
  effect of the list edits of the handlers follows once for all of them.
\<close>

locale directory =
  fixes lookup :: "'d \<Rightarrow> string \<Rightarrow> 'u option"
    and replace :: "'u list \<Rightarrow> 'd \<Rightarrow> 'd"
    and listing :: "('u list \<Rightarrow> 'u list) \<Rightarrow> 'd \<Rightarrow> 'u list"
    and key :: "'u \<Rightarrow> string"
    and inv :: "'d \<Rightarrow> bool"
  assumes inv_replace: "inv (replace us d)"
    and lookup_replace: "distinct (map key us) \<Longrightarrow>
          lookup (replace us d) e = Some u \<longleftrightarrow> u \<in> set us \<and> key u = e"
    and listing_iff: "inv d \<Longrightarrow> iterates iter \<Longrightarrow>
          u \<in> set (listing iter d) \<longleftrightarrow> lookup d (key u) = Some u"
    and listing_keys: "inv d \<Longrightarrow> iterates iter \<Longrightarrow> distinct (map key (listing iter d))"
    and lookup_key: "inv d \<Longrightarrow> lookup d e = Some u \<Longrightarrow> key u = e"
begin

lemma lookup_eqI: "(\<And>u. f = Some u \<longleftrightarrow> g = Some u) \<Longrightarrow> f = (g :: 'u option)"
  by (cases f; cases g) auto

lemma lookup_iff:
  "inv d \<Longrightarrow> iterates iter \<Longrightarrow> lookup d e = Some u \<longleftrightarrow> u \<in> set (listing iter d) \<and> key u = e"
  using listing_iff lookup_key by blast

text \<open>Replacing by a list with distinct keys is determined by its members.\<close>

lemma lookup_by_members:
  assumes "distinct (map key us)" "\<And>u. g = Some u \<longleftrightarrow> u \<in> set us \<and> key u = e"
  shows "lookup (replace us d) e = g"
  using assms lookup_replace by (intro lookup_eqI) blast

lemma lookup_replace_listing:
  "inv d \<Longrightarrow> iterates iter \<Longrightarrow> lookup (replace (listing iter d) d') e = lookup d e"
  by (intro lookup_by_members listing_keys lookup_iff)

text \<open>Editing the entry \<open>k\<close> in place.\<close>

lemma lookup_edit:
  assumes ok: "inv d" "iterates iter"
    and upd: "update_first (\<lambda>u. key u = k) f (listing iter d) = Some us"
    and keep: "\<And>u. key (f u) = key u"
  shows "lookup (replace us d) e = (if e = k then map_option f (lookup d k) else lookup d e)"
proof -
  obtain as x bs where xs: "listing iter d = as @ x # bs" and us: "us = as @ f x # bs"
    and x: "key x = k" and as: "\<forall>a \<in> set as. key a \<noteq> k"
    using update_first_split [OF upd] by blast
  have dist: "distinct (map key us)"
    using listing_keys [OF ok] xs us keep by simp
  have "key x \<notin> key ` set bs"
    using listing_keys [OF ok] by (simp add: xs)
  then have bs: "\<forall>b \<in> set bs. key b \<noteq> k"
    unfolding x by (metis imageI)
  have lx: "lookup d k = Some x" using lookup_iff [OF ok, of k x] xs x by simp
  show ?thesis
  proof (rule lookup_by_members [OF dist])
    fix u
    show "(if e = k then map_option f (lookup d k) else lookup d e) = Some u \<longleftrightarrow> u \<in> set us \<and> key u = e"
    proof (cases "e = k")
      case True
      have "u \<in> set us \<and> key u = k \<longleftrightarrow> u = f x"
        unfolding us using keep [of x] x as bs by auto
      with True lx show ?thesis by (simp add: eq_commute [of u])
    next
      case False
      have "key u = e \<Longrightarrow> u \<noteq> x \<and> u \<noteq> f x"
        using False x keep [of x] by auto
      then have "u \<in> set us \<and> key u = e \<longleftrightarrow> u \<in> set (listing iter d) \<and> key u = e"
        unfolding us xs by (simp only: set_append list.set Un_iff insert_iff) blast
      with False lookup_iff [OF ok, of e u] show ?thesis by simp
    qed
  qed
qed

lemma edit_None_iff:
  assumes "inv d" "iterates iter"
  shows "update_first (\<lambda>u. key u = k) f (listing iter d) = None \<longleftrightarrow> lookup d k = None"
proof -
  have "(\<forall>u \<in> set (listing iter d). key u \<noteq> k) \<longleftrightarrow> lookup d k = None"
    using lookup_iff [OF assms] by (metis not_None_eq)
  then show ?thesis by (simp add: loop_simps)
qed

text \<open>Keeping the entries that satisfy a predicate.\<close>

lemma lookup_filter:
  assumes ok: "inv d" "iterates iter"
  shows "lookup (replace (filter P (listing iter d)) d) e = (case lookup d e of
           Some u \<Rightarrow> if P u then Some u else None | None \<Rightarrow> None)"
proof (rule lookup_by_members)
  show "distinct (map key (filter P (listing iter d)))"
    using listing_keys [OF ok] by (simp add: distinct_map_filter)
  show "(case lookup d e of Some u \<Rightarrow> if P u then Some u else None | None \<Rightarrow> None) = Some u \<longleftrightarrow>
      u \<in> set (filter P (listing iter d)) \<and> key u = e" for u
    using lookup_iff [OF ok, of e u] lookup_iff [OF ok, of e "the (lookup d e)"]
    by (cases "lookup d e"; cases "u = the (lookup d e)") auto
qed

text \<open>Appending an entry whose key is new.\<close>

lemma lookup_snoc:
  assumes ok: "inv d" "iterates iter" and new: "lookup d (key v) = None"
  shows "lookup (replace (listing iter d @ [v]) d) e = (if e = key v then Some v else lookup d e)"
proof (rule lookup_by_members)
  have fresh: "key w \<noteq> key v" if "w \<in> set (listing iter d)" for w
    using listing_iff [OF ok, of w] that new by auto
  then show "distinct (map key (listing iter d @ [v]))"
    using listing_keys [OF ok] by force
  show "(if e = key v then Some v else lookup d e) = Some u \<longleftrightarrow>
      u \<in> set (listing iter d @ [v]) \<and> key u = e" for u
    using lookup_iff [OF ok, of e u] fresh [of u] by auto
qed

text \<open>Rewriting every entry without touching its key.\<close>

lemma lookup_map:
  assumes ok: "inv d" "iterates iter" and keep: "\<And>u. key (f u) = key u"
  shows "lookup (replace (map f (listing iter d)) d) e = map_option f (lookup d e)"
proof (rule lookup_by_members)
  have "map key (map f (listing iter d)) = map key (listing iter d)"
    using keep by simp
  then show "distinct (map key (map f (listing iter d)))"
    using listing_keys [OF ok] by metis
  show "map_option f (lookup d e) = Some u \<longleftrightarrow> u \<in> set (map f (listing iter d)) \<and> key u = e" for u
    using lookup_iff [OF ok, of e] keep by auto
qed

end

interpretation ud: directory Get Replace All usr_Email dir_ok
  by unfold_locales (simp_all add: dir_ok_Replace Get_Replace All_iff All_emails Get_email)

end
