(* ===== verification/Encoding.thy ===== *)
theory Encoding
  imports Prelude
begin

text \<open>
  Go's \<open>encoding/base32\<close> (standard alphabet, no padding) and \<open>encoding/base64\<close> (\<open>RawStdEncoding\<close>)
  as the gateway uses them, over big-endian digit lists.  Decoding skips carriage returns and
  line feeds, as the standard library does.  The round trips at the end are what the stored
  secrets and password hashes rest on.
\<close>

subsection \<open>Big-endian digits\<close>

definition from_digits :: "nat \<Rightarrow> nat list \<Rightarrow> nat" where
  "from_digits b ds = foldl (\<lambda>n d. b * n + d) 0 ds"

fun to_digits :: "nat \<Rightarrow> nat \<Rightarrow> nat \<Rightarrow> nat list" where
  "to_digits b 0 n = []"
| "to_digits b (Suc k) n = to_digits b k (n div b) @ [n mod b]"

lemma from_digits_snoc: "from_digits b (ds @ [d]) = b * from_digits b ds + d"
  by (simp add: from_digits_def)

lemma length_to_digits [simp]: "length (to_digits b k n) = k"
  by (induction b k n rule: to_digits.induct) simp_all

lemma to_digits_less: "0 < b \<Longrightarrow> d \<in> set (to_digits b k n) \<Longrightarrow> d < b"
  by (induction b k n rule: to_digits.induct) auto

lemma to_digits_mod: "0 < b \<Longrightarrow> n < b ^ k \<Longrightarrow> from_digits b (to_digits b k n) = n"
proof (induction b k n rule: to_digits.induct)
  case (1 b n)
  then show ?case by (simp add: from_digits_def)
next
  case (2 b k n)
  then have "n div b < b ^ k" by (simp add: less_mult_imp_div_less mult.commute)
  with 2 show ?case by (simp add: from_digits_snoc)
qed

lemma to_from_digits: "0 < b \<Longrightarrow> list_all (\<lambda>d. d < b) ds \<Longrightarrow> to_digits b (length ds) (from_digits b ds) = ds"
proof (induction ds rule: rev_induct)
  case Nil
  then show ?case by simp
next
  case (snoc d ds)
  then show ?case by (simp add: from_digits_snoc)
qed

lemma from_digits_less: "0 < b \<Longrightarrow> list_all (\<lambda>d. d < b) ds \<Longrightarrow> from_digits b ds < b ^ length ds"
proof (induction ds rule: rev_induct)
  case Nil
  then show ?case by (simp add: from_digits_def)
next
  case (snoc d ds)
  then have "from_digits b ds + 1 \<le> b ^ length ds" "d < b" by simp_all
  then have "b * (from_digits b ds + 1) \<le> b * b ^ length ds" by (meson mult_le_mono2)
  with \<open>d < b\<close> show ?case by (simp add: from_digits_snoc)
qed

definition bytes_nats :: "bytes \<Rightarrow> nat list" where
  "bytes_nats bs = map of_char bs"

definition nats_bytes :: "nat list \<Rightarrow> bytes" where
  "nats_bytes ns = map char_of ns"

lemma nats_bytes_nats [simp]: "nats_bytes (bytes_nats bs) = bs"
  by (simp add: nats_bytes_def bytes_nats_def comp_def)

lemma bytes_nats_less: "list_all (\<lambda>d. d < 256) (bytes_nats bs)"
  by (auto simp: bytes_nats_def list_all_iff)

lemma length_bytes_nats [simp]: "length (bytes_nats bs) = length bs"
  by (simp add: bytes_nats_def)

subsection \<open>Alphabets\<close>

definition alpha32 :: string where
  "alpha32 = ''ABCDEFGHIJKLMNOPQRSTUVWXYZ234567''"

definition alpha64 :: string where
  "alpha64 = ''ABCDEFGHIJKLMNOPQRSTUVWXYZabcdefghijklmnopqrstuvwxyz0123456789+/''"

fun decode_chars :: "string \<Rightarrow> string \<Rightarrow> nat list option" where
  "decode_chars alpha [] = Some []"
| "decode_chars alpha (c # s) =
     (case IndexByte alpha c of
        None \<Rightarrow> None
      | Some i \<Rightarrow> map_option ((#) i) (decode_chars alpha s))"

lemma IndexByte_nth: "distinct a \<Longrightarrow> i < length a \<Longrightarrow> IndexByte a (a ! i) = Some i"
proof (induction a arbitrary: i)
  case Nil
  then show ?case by simp
next
  case (Cons x a)
  then show ?case by (cases i) (auto simp: IndexByte_def split: if_splits)
qed

lemma decode_encode_chars:
  "distinct alpha \<Longrightarrow> list_all (\<lambda>d. d < length alpha) ds \<Longrightarrow>
   decode_chars alpha (map ((!) alpha) ds) = Some ds"
  by (induction ds) (auto simp: IndexByte_nth)

lemma decode_chars_append:
  "decode_chars alpha s = Some ds \<Longrightarrow> decode_chars alpha t = Some es \<Longrightarrow>
   decode_chars alpha (s @ t) = Some (ds @ es)"
  by (induction s arbitrary: ds) (auto split: option.splits)

lemma alpha32_distinct: "distinct alpha32" "length alpha32 = 32"
  by (simp_all add: alpha32_def)

lemma alpha64_distinct: "distinct alpha64" "length alpha64 = 64"
  by (simp_all add: alpha64_def)

definition strip_newlines :: "string \<Rightarrow> string" where
  "strip_newlines s = filter (\<lambda>c. c \<noteq> CHR 0x0D \<and> c \<noteq> CHR 0x0A) s"

subsection \<open>Base 32\<close>

text \<open>A full quantum is five bytes as eight letters; the tail of d letters gives these bytes.\<close>

definition tail_bytes32 :: "nat \<Rightarrow> nat" where
  "tail_bytes32 d = (if d = 8 then 5 else if d = 7 then 4 else if d = 5 then 3
     else if d = 4 then 2 else if d = 2 then 1 else 0)"

definition quantum32 :: "nat list \<Rightarrow> nat list" where
  "quantum32 vs = take (tail_bytes32 (length vs))
     (to_digits 256 5 (from_digits 32 (take 8 (vs @ replicate 8 0))))"

fun quanta32 :: "nat list \<Rightarrow> nat list" where
  "quanta32 (a # b # c # d # e # f # g # h # vs) = quantum32 [a, b, c, d, e, f, g, h] @ quanta32 vs"
| "quanta32 vs = quantum32 vs"

definition base32_DecodeString :: "string \<Rightarrow> bytes option" where
  "base32_DecodeString s = map_option (\<lambda>vs. nats_bytes (quanta32 vs)) (decode_chars alpha32 (strip_newlines s))"

fun encode_quanta32 :: "nat list \<Rightarrow> nat list" where
  "encode_quanta32 (a # b # c # d # e # vs) = to_digits 32 8 (from_digits 256 [a, b, c, d, e]) @ encode_quanta32 vs"
| "encode_quanta32 [] = []"
| "encode_quanta32 [a] = take 2 (to_digits 32 8 (from_digits 256 [a, 0, 0, 0, 0]))"
| "encode_quanta32 [a, b] = take 4 (to_digits 32 8 (from_digits 256 [a, b, 0, 0, 0]))"
| "encode_quanta32 [a, b, c] = take 5 (to_digits 32 8 (from_digits 256 [a, b, c, 0, 0]))"
| "encode_quanta32 [a, b, c, d] = take 7 (to_digits 32 8 (from_digits 256 [a, b, c, d, 0]))"

definition base32_EncodeToString :: "bytes \<Rightarrow> string" where
  "base32_EncodeToString bs = map ((!) alpha32) (encode_quanta32 (bytes_nats bs))"

lemma quanta32_Cons8: "length q = 8 \<Longrightarrow> quanta32 (q @ vs) = quantum32 q @ quanta32 vs"
proof -
  assume "length q = 8"
  then obtain a b c d e f g h where "q = [a, b, c, d, e, f, g, h]"
    by (auto simp: length_Suc_conv numeral_eq_Suc)
  then show ?thesis by simp
qed

lemma quantum32_encode:
  assumes "list_all (\<lambda>d. d < 256) bs" "length bs = 5"
  shows "quantum32 (to_digits 32 8 (from_digits 256 bs)) = bs"
proof -
  have "from_digits 256 bs < 256 ^ 5"
    using from_digits_less [of 256 bs] assms by simp
  then have "from_digits 32 (to_digits 32 8 (from_digits 256 bs)) = from_digits 256 bs"
    by (intro to_digits_mod) simp_all
  moreover have "to_digits 256 5 (from_digits 256 bs) = bs"
    using to_from_digits [of 256 bs] assms by simp
  ultimately show ?thesis
    using assms by (simp add: quantum32_def tail_bytes32_def)
qed

lemma quanta32_encode:
  "list_all (\<lambda>d. d < 256) bs \<Longrightarrow> length bs mod 5 = 0 \<Longrightarrow> quanta32 (encode_quanta32 bs) = bs"
proof (induction bs rule: encode_quanta32.induct)
  case (1 a b c d e vs)
  then have "quanta32 (encode_quanta32 vs) = vs" by simp
  moreover have "quantum32 (to_digits 32 8 (from_digits 256 [a, b, c, d, e])) = [a, b, c, d, e]"
    using "1.prems" by (intro quantum32_encode) simp_all
  ultimately show ?case
    by (subst encode_quanta32.simps, subst quanta32_Cons8) (simp_all only: length_to_digits, simp)
next
  case 2
  then show ?case by (simp add: quantum32_def tail_bytes32_def)
qed simp_all

lemma encode_quanta32_less: "d \<in> set (encode_quanta32 bs) \<Longrightarrow> d < 32"
  by (induction bs rule: encode_quanta32.induct)
    (auto simp del: to_digits.simps dest!: in_set_takeD to_digits_less [rotated])

lemma nth_alpha32_not_space:
  assumes "d < 32"
  shows "\<not> is_space (alpha32 ! d) \<and> lower_char (alpha32 ! d) \<noteq> CHR 0x0A \<and> upper_char (alpha32 ! d) = alpha32 ! d"
proof -
  have "list_all (\<lambda>c. \<not> is_space c \<and> lower_char c \<noteq> CHR 0x0A \<and> upper_char c = c) alpha32"
    by code_simp
  with assms show ?thesis by (simp add: list_all_length alpha32_distinct)
qed

lemma base32_encoded_chars: "c \<in> set (base32_EncodeToString bs) \<Longrightarrow> \<not> is_space c \<and> upper_char c = c"
  using nth_alpha32_not_space encode_quanta32_less by (auto simp: base32_EncodeToString_def)

lemma base32_roundtrip:
  assumes "length bs mod 5 = 0"
  shows "base32_DecodeString (base32_EncodeToString bs) = Some bs"
proof -
  have "strip_newlines (base32_EncodeToString bs) = base32_EncodeToString bs"
    unfolding strip_newlines_def using base32_encoded_chars by (auto simp: filter_id_conv is_space_def)
  moreover have "decode_chars alpha32 (base32_EncodeToString bs) = Some (encode_quanta32 (bytes_nats bs))"
    unfolding base32_EncodeToString_def
    by (rule decode_encode_chars) (auto simp: alpha32_distinct list_all_iff dest: encode_quanta32_less)
  ultimately show ?thesis
    using assms by (simp add: base32_DecodeString_def quanta32_encode bytes_nats_less)
qed

subsection \<open>Base 64\<close>

fun encode_quanta64 :: "nat list \<Rightarrow> nat list" where
  "encode_quanta64 (a # b # c # vs) = to_digits 64 4 (from_digits 256 [a, b, c]) @ encode_quanta64 vs"
| "encode_quanta64 [a, b] = to_digits 64 3 (from_digits 256 [a, b] * 4)"
| "encode_quanta64 [a] = to_digits 64 2 (a * 16)"
| "encode_quanta64 [] = []"

text \<open>A one-letter tail is an error; the unused low bits of a tail are ignored.\<close>

fun quanta64 :: "nat list \<Rightarrow> nat list option" where
  "quanta64 (a # b # c # d # vs) = map_option ((@) (to_digits 256 3 (from_digits 64 [a, b, c, d]))) (quanta64 vs)"
| "quanta64 [a, b, c] = Some (to_digits 256 2 (from_digits 64 [a, b, c] div 4))"
| "quanta64 [a, b] = Some (to_digits 256 1 (from_digits 64 [a, b] div 16))"
| "quanta64 [a] = None"
| "quanta64 [] = Some []"

definition base64_EncodeToString :: "bytes \<Rightarrow> string" where
  "base64_EncodeToString bs = map ((!) alpha64) (encode_quanta64 (bytes_nats bs))"

definition base64_DecodeString :: "string \<Rightarrow> bytes option" where
  "base64_DecodeString s =
     (case decode_chars alpha64 (strip_newlines s) of
        None \<Rightarrow> None
      | Some vs \<Rightarrow> map_option nats_bytes (quanta64 vs))"

lemma quanta64_Cons4:
  "length q = 4 \<Longrightarrow> quanta64 (q @ vs) = map_option ((@) (to_digits 256 3 (from_digits 64 q))) (quanta64 vs)"
proof -
  assume "length q = 4"
  then obtain a b c d where "q = [a, b, c, d]"
    by (auto simp: length_Suc_conv numeral_eq_Suc)
  then show ?thesis by (simp del: to_digits.simps)
qed

lemma quanta64_2: "length q = 2 \<Longrightarrow> quanta64 q = Some (to_digits 256 1 (from_digits 64 q div 16))"
proof -
  assume "length q = 2"
  then obtain a b where "q = [a, b]" by (auto simp: length_Suc_conv numeral_2_eq_2)
  then show ?thesis by (simp del: to_digits.simps)
qed

lemma quanta64_3: "length q = 3 \<Longrightarrow> quanta64 q = Some (to_digits 256 2 (from_digits 64 q div 4))"
proof -
  assume "length q = 3"
  then obtain a b c where "q = [a, b, c]" by (auto simp: length_Suc_conv numeral_3_eq_3)
  then show ?thesis by (simp del: to_digits.simps)
qed

lemma bytes3:
  assumes "list_all (\<lambda>d. d < 256) bs"
  shows "length bs = 3 \<Longrightarrow> from_digits 256 bs < 64 ^ 4 \<and> to_digits 256 3 (from_digits 256 bs) = bs"
    and "length bs = 2 \<Longrightarrow> from_digits 256 bs * 4 < 64 ^ 3 \<and> to_digits 256 2 (from_digits 256 bs) = bs"
  using from_digits_less [OF _ assms] to_from_digits [OF _ assms] by auto

lemma quanta64_encode: "list_all (\<lambda>d. d < 256) bs \<Longrightarrow> quanta64 (encode_quanta64 bs) = Some bs"
proof (induction bs rule: encode_quanta64.induct)
  case (1 a b c vs)
  then have abc: "from_digits 256 [a, b, c] < 64 ^ 4" "to_digits 256 3 (from_digits 256 [a, b, c]) = [a, b, c]"
    using bytes3(1) [of "[a, b, c]"] by (simp_all del: to_digits.simps)
  then have "from_digits 64 (to_digits 64 4 (from_digits 256 [a, b, c])) = from_digits 256 [a, b, c]"
    by (intro to_digits_mod) simp_all
  with 1 abc(2) show ?case
    by (subst encode_quanta64.simps, subst quanta64_Cons4) (simp_all del: to_digits.simps)
next
  case (2 a b)
  then have ab: "from_digits 256 [a, b] * 4 < 64 ^ 3" "to_digits 256 2 (from_digits 256 [a, b]) = [a, b]"
    using bytes3(2) [of "[a, b]"] by (simp_all del: to_digits.simps)
  then have "from_digits 64 (to_digits 64 3 (from_digits 256 [a, b] * 4)) = from_digits 256 [a, b] * 4"
    by (intro to_digits_mod) simp_all
  with ab(2) show ?case
    by (subst encode_quanta64.simps, subst quanta64_3) (simp_all del: to_digits.simps)
next
  case (3 a)
  then have "from_digits 64 (to_digits 64 2 (a * 16)) = a * 16"
    by (intro to_digits_mod) simp_all
  moreover have "to_digits 256 1 a = [a]"
    using to_from_digits [of 256 "[a]"] 3 by (simp add: from_digits_def)
  ultimately show ?case
    by (subst encode_quanta64.simps, subst quanta64_2) (simp_all del: to_digits.simps One_nat_def)
next
  case 4
  then show ?case by simp
qed

lemma encode_quanta64_less: "d \<in> set (encode_quanta64 bs) \<Longrightarrow> d < 64"
  by (induction bs rule: encode_quanta64.induct)
    (auto simp del: to_digits.simps dest!: to_digits_less [rotated])

lemma nth_alpha64_plain:
  assumes "d < 64"
  shows "alpha64 ! d \<noteq> CHR 0x0D \<and> alpha64 ! d \<noteq> CHR 0x0A \<and> alpha64 ! d \<noteq> CHR ''$'' \<and> alpha64 ! d \<noteq> CHR ''{''"
proof -
  have "list_all (\<lambda>c. c \<noteq> CHR 0x0D \<and> c \<noteq> CHR 0x0A \<and> c \<noteq> CHR ''$'' \<and> c \<noteq> CHR ''{'') alpha64"
    by code_simp
  with assms show ?thesis by (simp add: list_all_length alpha64_distinct)
qed

lemma base64_encoded_chars:
  "c \<in> set (base64_EncodeToString bs) \<Longrightarrow> c \<noteq> CHR 0x0D \<and> c \<noteq> CHR 0x0A \<and> c \<noteq> CHR ''$'' \<and> c \<noteq> CHR ''{''"
  using nth_alpha64_plain encode_quanta64_less by (auto simp: base64_EncodeToString_def)

lemma base64_roundtrip: "base64_DecodeString (base64_EncodeToString bs) = Some bs"
proof -
  have "strip_newlines (base64_EncodeToString bs) = base64_EncodeToString bs"
    unfolding strip_newlines_def using base64_encoded_chars by (auto simp: filter_id_conv)
  moreover have "decode_chars alpha64 (base64_EncodeToString bs) = Some (encode_quanta64 (bytes_nats bs))"
    unfolding base64_EncodeToString_def
    by (rule decode_encode_chars) (auto simp: alpha64_distinct list_all_iff dest: encode_quanta64_less)
  ultimately show ?thesis
    by (simp add: base64_DecodeString_def quanta64_encode bytes_nats_less)
qed

end
