(* ===== verification/Passwords.thy ===== *)
theory Passwords
  imports Encoding
begin

text \<open>
  Password hashing of auth/password.go: the PHC string, its parser (with \<open>fmt.Sscanf\<close> on the
  two parameter fields) and the comparison.  Argon2id is the argument \<open>IDKey\<close>
  (password, salt, passes, memory, threads, key length); its \<open>None\<close> is a panic, which the
  real function raises on zero passes or threads.
\<close>

type_synonym idkey = "bytes \<Rightarrow> bytes \<Rightarrow> nat \<Rightarrow> nat \<Rightarrow> nat \<Rightarrow> nat \<Rightarrow> bytes option"

datatype pw_error =
    RandError
  | UnsupportedFormat
  | UnsupportedVersion
  | InvalidParams
  | InvalidSalt
  | InvalidHash
  | PasswordMismatch

definition argonTime :: nat where "argonTime = 3"
definition argonMemory :: nat where "argonMemory = 64 * 1024"
definition argonThreads :: nat where "argonThreads = 4"
definition argonKeyLen :: nat where "argonKeyLen = 32"
definition argonVersion :: nat where "argonVersion = 19"

definition HashPassword :: "idkey \<Rightarrow> bytes option \<Rightarrow> string \<Rightarrow> (pw_error + string) option" where
  "HashPassword IDKey random pw =
     (case random of
        None \<Rightarrow> Some (Inl RandError)
      | Some salt \<Rightarrow>
          (case IDKey pw salt argonTime argonMemory argonThreads argonKeyLen of
             None \<Rightarrow> None
           | Some hash \<Rightarrow> Some (Inr (
               ''$argon2id$v='' @ dec_str argonVersion @
               ''$m='' @ dec_str argonMemory @ '',t='' @ dec_str argonTime @ '',p='' @ dec_str argonThreads @
               ''$'' @ base64_EncodeToString salt @ ''$'' @ base64_EncodeToString hash))))"

subsection \<open>The scanner behind \<open>fmt.Sscanf\<close>\<close>

text \<open>
  A literal of the format must be the next input; a \<open>%d\<close> skips blanks (a line feed is an
  error), takes a sign when the target is signed, takes every digit and fails when there is
  none or the value does not fit.  What follows the last verb is not looked at.
\<close>

definition scan_lit :: "string \<Rightarrow> string \<Rightarrow> string option" where
  "scan_lit lit s = (if prefix lit s then Some (drop (length lit) s) else None)"

definition skip_blanks :: "string \<Rightarrow> string option" where
  "skip_blanks s = (let r = dropWhile (\<lambda>c. is_space c \<and> c \<noteq> CHR 0x0A) s in
     if r \<noteq> [] \<and> hd r = CHR 0x0A then None else Some r)"

definition scan_uint :: "nat \<Rightarrow> string \<Rightarrow> (nat \<times> string) option" where
  "scan_uint bits s =
     (case skip_blanks s of
        None \<Rightarrow> None
      | Some r \<Rightarrow>
          let ds = takeWhile is_digit r in
          if ds = [] \<or> dec_val ds \<ge> 2 ^ bits then None
          else Some (dec_val ds, dropWhile is_digit r))"

definition scan_int :: "string \<Rightarrow> (int \<times> string) option" where
  "scan_int s =
     (case skip_blanks s of
        None \<Rightarrow> None
      | Some r \<Rightarrow>
          let neg = (r \<noteq> [] \<and> hd r = CHR ''-'');
              r' = (if r \<noteq> [] \<and> (hd r = CHR ''-'' \<or> hd r = CHR ''+'') then tl r else r);
              ds = takeWhile is_digit r';
              v = (if neg then - int (dec_val ds) else int (dec_val ds))
          in if ds = [] \<or> v < - (2 ^ 63) \<or> v \<ge> 2 ^ 63 then None
             else Some (v, dropWhile is_digit r'))"

definition scan_version :: "string \<Rightarrow> int option" where
  "scan_version s = Option.bind (scan_lit ''v='' s) (\<lambda>r. map_option fst (scan_int r))"

definition scan_params :: "string \<Rightarrow> (nat \<times> nat \<times> nat) option" where
  "scan_params s =
     Option.bind (scan_lit ''m='' s) (\<lambda>r1.
     Option.bind (scan_uint 32 r1) (\<lambda>(mem, r2).
     Option.bind (scan_lit '',t='' r2) (\<lambda>r3.
     Option.bind (scan_uint 32 r3) (\<lambda>(t, r4).
     Option.bind (scan_lit '',p='' r4) (\<lambda>r5.
     Option.bind (scan_uint 8 r5) (\<lambda>(p, r6). Some (mem, t, p)))))))"

definition VerifyPassword :: "idkey \<Rightarrow> string \<Rightarrow> string \<Rightarrow> (pw_error + unit) option" where
  "VerifyPassword IDKey encoded pw =
     (let parts = Split encoded CHR ''$'' in
      if length parts \<noteq> 6 \<or> parts ! 1 \<noteq> ''argon2id'' then Some (Inl UnsupportedFormat)
      else if scan_version (parts ! 2) \<noteq> Some (int argonVersion) then Some (Inl UnsupportedVersion)
      else (case scan_params (parts ! 3) of
              None \<Rightarrow> Some (Inl InvalidParams)
            | Some (mem, t, p) \<Rightarrow>
                (case base64_DecodeString (parts ! 4) of
                   None \<Rightarrow> Some (Inl InvalidSalt)
                 | Some salt \<Rightarrow>
                     (case base64_DecodeString (parts ! 5) of
                        None \<Rightarrow> Some (Inl InvalidHash)
                      | Some want \<Rightarrow>
                          (case IDKey pw salt t mem p (length want mod 2 ^ 32) of
                             None \<Rightarrow> None
                           | Some got \<Rightarrow>
                               if got \<noteq> want then Some (Inl PasswordMismatch) else Some (Inr ()))))))"

subsection \<open>The parts of a stored hash\<close>

lemma digit_char_simps:
  "digit_char 1 = CHR ''1''" "digit_char 3 = CHR ''3''" "digit_char 4 = CHR ''4''"
  "digit_char 5 = CHR ''5''" "digit_char 6 = CHR ''6''" "digit_char 9 = CHR ''9''"
  by code_simp+

lemma stored_head: "dec_str argonVersion = ''19''" "dec_str argonMemory = ''65536''"
    "dec_str argonTime = ''3''" "dec_str argonThreads = ''4''"
  by (simp_all add: argonVersion_def argonMemory_def argonTime_def argonThreads_def dec_str.simps
      digit_char_simps digit_char_simps(1) [unfolded One_nat_def])

lemmas scan_defs = scan_version_def scan_params_def scan_lit_def scan_uint_def scan_int_def
  skip_blanks_def dec_val_def digit_val_def is_digit_def is_space_def

lemma stored_params: "scan_version ''v=19'' = Some 19" "scan_params ''m=65536,t=3,p=4'' = Some (65536, 3, 4)"
  by (simp_all add: scan_defs)

lemma stored_parts:
  assumes "HashPassword IDKey (Some salt) pw = Some (Inr encoded)"
  shows "\<exists>hash. IDKey pw salt argonTime argonMemory argonThreads argonKeyLen = Some hash \<and>
    Split encoded CHR ''$'' = ['''', ''argon2id'', ''v=19'', ''m=65536,t=3,p=4'',
        base64_EncodeToString salt, base64_EncodeToString hash]"
proof -
  obtain hash where h: "IDKey pw salt argonTime argonMemory argonThreads argonKeyLen = Some hash"
    using assms by (auto simp: HashPassword_def split: option.splits)
  have nd: "CHR ''$'' \<notin> set (base64_EncodeToString x)" for x
    using base64_encoded_chars by blast
  have e: "encoded = ''$argon2id$v=19$m=65536,t=3,p=4'' @ CHR ''$'' # base64_EncodeToString salt @
      CHR ''$'' # base64_EncodeToString hash"
    using assms h by (simp add: HashPassword_def stored_head)
  have "Split ''$argon2id$v=19$m=65536,t=3,p=4'' CHR ''$'' = ['''', ''argon2id'', ''v=19'', ''m=65536,t=3,p=4'']"
    by code_simp
  then have "Split encoded CHR ''$'' = ['''', ''argon2id'', ''v=19'', ''m=65536,t=3,p=4'',
        base64_EncodeToString salt, base64_EncodeToString hash]"
    unfolding e by (simp add: Split_append_sep Split_id nd del: Split.simps append_Cons)
  with h show ?thesis by blast
qed

lemma Verify_stored:
  assumes "HashPassword IDKey (Some salt) pw = Some (Inr encoded)"
    and len: "\<And>h. IDKey pw salt argonTime argonMemory argonThreads argonKeyLen = Some h \<Longrightarrow> length h = argonKeyLen"
  shows "VerifyPassword IDKey encoded pw' =
    (case IDKey pw' salt argonTime argonMemory argonThreads argonKeyLen of
       None \<Rightarrow> None
     | Some got \<Rightarrow> if Some got = IDKey pw salt argonTime argonMemory argonThreads argonKeyLen
                   then Some (Inr ()) else Some (Inl PasswordMismatch))"
proof -
  obtain hash where h: "IDKey pw salt argonTime argonMemory argonThreads argonKeyLen = Some hash"
    and parts: "Split encoded CHR ''$'' = ['''', ''argon2id'', ''v=19'', ''m=65536,t=3,p=4'',
        base64_EncodeToString salt, base64_EncodeToString hash]"
    using stored_parts [OF assms(1)] by blast
  have "length hash = 32" using len [OF h] by (simp add: argonKeyLen_def)
  with h show ?thesis
    by (simp add: VerifyPassword_def parts Let_def stored_params base64_roundtrip argonVersion_def
        argonTime_def argonMemory_def argonThreads_def argonKeyLen_def split: option.splits)
qed


section \<open>Properties\<close>

text \<open>
  A password verifies against the hash stored for it, and another string verifies against
  it only if the key derivation maps both to the same key.  The hypothesis on the key
  derivation is the documented length of its output.
\<close>

theorem Verify_hashed:
  assumes "HashPassword IDKey (Some salt) pw = Some (Inr encoded)"
    and "\<And>p h. IDKey p salt argonTime argonMemory argonThreads argonKeyLen = Some h \<Longrightarrow> length h = argonKeyLen"
  shows "VerifyPassword IDKey encoded pw = Some (Inr ()) \<and>
     (VerifyPassword IDKey encoded pw' = Some (Inr ()) \<longleftrightarrow>
        IDKey pw' salt argonTime argonMemory argonThreads argonKeyLen =
        IDKey pw salt argonTime argonMemory argonThreads argonKeyLen)"
proof -
  note v = Verify_stored [OF assms(1) assms(2)]
  obtain h where "IDKey pw salt argonTime argonMemory argonThreads argonKeyLen = Some h"
    using stored_parts [OF assms(1)] by blast
  then show ?thesis
    by (auto simp: v split: option.splits if_splits)
qed

theorem Verify_hashed_witness:
  "let f = (\<lambda>p s t m n k. Some (take k (p @ replicate k CHR ''.''))) in
   \<exists>enc. HashPassword f (Some ''salt'') ''pw'' = Some (Inr enc) \<and> VerifyPassword f enc ''pw'' = Some (Inr ()) \<and>
         VerifyPassword f enc ''qw'' \<noteq> Some (Inr ())"
proof -
  let ?f = "(\<lambda>p s t m n k. Some (take k (p @ replicate k CHR ''.''))) :: idkey"
  obtain enc where "HashPassword ?f (Some ''salt'') ''pw'' = Some (Inr enc)"
    by (auto simp: HashPassword_def)
  moreover note Verify_hashed [OF this, of "''qw''"]
  ultimately show ?thesis by (auto simp: argonKeyLen_def)
qed

end
