(* ===== verification/Matrix.thy ===== *)
theory Matrix
  imports Models
begin

text \<open>
  Package \<open>matrix\<close> (matrix/matrix.go): the authorization matrix.  The resolver's state is the
  list of backends it serves; \<open>Resolve\<close> scans every route of every backend on the requested
  host and keeps the first longest matching path.
\<close>

record Resolver =
  rs_backends :: "Backend list"

definition Set :: "Backend list \<Rightarrow> Resolver \<Rightarrow> Resolver" where
  "Set backends r = r\<lparr>rs_backends := backends\<rparr>"

definition NewResolver :: "Config \<Rightarrow> Resolver" where
  "NewResolver c = Set (cfg_Backends c) \<lparr>rs_backends = []\<rparr>"

definition Backends :: "Resolver \<Rightarrow> Backend list" where
  "Backends r = rs_backends r"

definition pathMatches :: "string \<Rightarrow> string \<Rightarrow> bool" where
  "pathMatches reqPath routePath =
     (if routePath = [] \<or> routePath = ''/'' then True
      else let rp = TrimRight routePath CHR ''/'' in
        reqPath = rp \<or> HasPrefix reqPath (rp @ ''/''))"

text \<open>
  The state of the two nested loops: \<open>best\<close> (\<open>None\<close> for -1), the backend and route it was
  reached at, and \<open>hostFound\<close>.
\<close>

type_synonym scan = "(nat \<times> Backend \<times> Route) option"

fun scan_routes :: "string \<Rightarrow> Backend \<Rightarrow> Route list \<Rightarrow> scan \<Rightarrow> scan" where
  "scan_routes path be [] best = best"
| "scan_routes path be (rt # rts) best =
     (if pathMatches path (rt_Path rt) \<and>
         (case best of None \<Rightarrow> True | Some (n, _) \<Rightarrow> length (rt_Path rt) > n)
      then scan_routes path be rts (Some (length (rt_Path rt), be, rt))
      else scan_routes path be rts best)"

fun scan_backends :: "string \<Rightarrow> string \<Rightarrow> Backend list \<Rightarrow> scan \<times> bool \<Rightarrow> scan \<times> bool" where
  "scan_backends host path [] st = st"
| "scan_backends host path (be # bes) (best, hostFound) =
     (if be_Host be \<noteq> host then scan_backends host path bes (best, hostFound)
      else scan_backends host path bes (scan_routes path be (be_Routes be) best, True))"

definition Resolve :: "Resolver \<Rightarrow> string \<Rightarrow> string \<Rightarrow> Backend \<times> Route \<times> bool" where
  "Resolve r host path =
     (case scan_backends host path (rs_backends r) (None, False) of
        (Some (_, bestBackend, bestRoute), _) \<Rightarrow> (bestBackend, bestRoute, True)
      | (None, True) \<Rightarrow> (zero_Backend\<lparr>be_Host := host\<rparr>, zero_Route, False)
      | (None, False) \<Rightarrow> (zero_Backend, zero_Route, False))"

definition Authorized :: "User \<Rightarrow> string \<Rightarrow> bool" where
  "Authorized u backendID \<longleftrightarrow> list_ex (\<lambda>b. b = backendID) (usr_Backends u)"

subsection \<open>The matching relation on path segments\<close>

lemma under_segments:
  "p = a \<or> prefix (a @ ''/'') p \<longleftrightarrow> prefix (Split a CHR ''/'') (Split p CHR ''/'')"
proof
  assume "p = a \<or> prefix (a @ ''/'') p"
  then show "prefix (Split a CHR ''/'') (Split p CHR ''/'')"
    by (auto simp: prefix_def Split_append_sep)
next
  assume "prefix (Split a CHR ''/'') (Split p CHR ''/'')"
  then obtain zs where zs: "Split p CHR ''/'' = Split a CHR ''/'' @ zs"
    by (auto simp: prefix_def)
  show "p = a \<or> prefix (a @ ''/'') p"
  proof (cases "zs = []")
    case True
    with zs show ?thesis by (auto dest: Split_inject)
  next
    case False
    have "Join (xs @ zs) s = Join xs s @ s @ Join zs s" if "xs \<noteq> []" for xs s
      using that False by (induction xs rule: induct_list012) (auto simp: Join_Cons)
    then have "p = a @ ''/'' @ Join zs ''/''"
      by (metis Join_Split Split_nonempty zs)
    then show ?thesis by (simp add: prefix_def)
  qed
qed

subsection \<open>The scan finds the first longest matching route\<close>

text \<open>
  The candidates of a request in scan order, and the reference choice: the first route of
  maximal path length among those that match.
\<close>

definition candidates :: "Backend list \<Rightarrow> string \<Rightarrow> string \<Rightarrow> (Backend \<times> Route) list" where
  "candidates bes host path =
     filter (\<lambda>(be, rt). pathMatches path (rt_Path rt))
       (concat (map (\<lambda>be. map (Pair be) (be_Routes be)) (filter (\<lambda>be. be_Host be = host) bes)))"

fun first_longest :: "(Backend \<times> Route) list \<Rightarrow> (Backend \<times> Route) option" where
  "first_longest [] = None"
| "first_longest (x # xs) =
     (case first_longest xs of
        None \<Rightarrow> Some x
      | Some y \<Rightarrow> if length (rt_Path (snd y)) > length (rt_Path (snd x)) then Some y else Some x)"

definition keep :: "scan \<Rightarrow> (Backend \<times> Route) \<Rightarrow> scan" where
  "keep best x =
     (if (case best of None \<Rightarrow> True | Some (n, _) \<Rightarrow> length (rt_Path (snd x)) > n)
      then Some (length (rt_Path (snd x)), fst x, snd x) else best)"

lemma keep_simps [simp]:
  "keep None x = Some (length (rt_Path (snd x)), fst x, snd x)"
  "keep (Some (n, b, r)) x =
     (if length (rt_Path (snd x)) > n then Some (length (rt_Path (snd x)), fst x, snd x)
      else Some (n, b, r))"
  by (simp_all add: keep_def)

lemma scan_routes_foldl:
  "scan_routes path be rts best =
     foldl keep best (filter (\<lambda>(be, rt). pathMatches path (rt_Path rt)) (map (Pair be) rts))"
proof (induction rts arbitrary: best)
  case Nil
  show ?case by simp
next
  case (Cons rt rts)
  then show ?case by (cases best) auto
qed

lemma scan_backends_foldl:
  "scan_backends host path bes (best, hf) =
     (foldl keep best (candidates bes host path), hf \<or> (\<exists>be \<in> set bes. be_Host be = host))"
  by (induction bes arbitrary: best hf) (auto simp: candidates_def scan_routes_foldl)

lemma foldl_keep_Some:
  "foldl keep (Some (length (rt_Path rt), be, rt)) xs =
     (case first_longest xs of
        None \<Rightarrow> Some (length (rt_Path rt), be, rt)
      | Some (be', rt') \<Rightarrow> if length (rt_Path rt') > length (rt_Path rt)
          then Some (length (rt_Path rt'), be', rt') else Some (length (rt_Path rt), be, rt))"
  by (induction xs arbitrary: be rt) (auto split: option.splits)

lemma foldl_keep_None:
  "foldl keep None xs = map_option (\<lambda>(be, rt). (length (rt_Path rt), be, rt)) (first_longest xs)"
  by (cases xs) (auto simp: foldl_keep_Some split: option.splits)

lemma first_longest_None [simp]: "first_longest xs = None \<longleftrightarrow> xs = []"
  by (cases xs) (auto split: option.splits)

lemma first_longest_in: "first_longest xs = Some x \<Longrightarrow> x \<in> set xs"
  by (induction xs arbitrary: x) (auto split: option.splits if_splits)

lemma first_longest_max:
  "first_longest xs = Some x \<Longrightarrow> y \<in> set xs \<Longrightarrow> length (rt_Path (snd y)) \<le> length (rt_Path (snd x))"
  by (induction xs arbitrary: x) (fastforce split: option.splits if_splits)+

lemma first_longest_first:
  "first_longest xs = Some x \<Longrightarrow>
     \<exists>as bs. xs = as @ x # bs \<and> (\<forall>a \<in> set as. length (rt_Path (snd a)) < length (rt_Path (snd x)))"
proof (induction xs arbitrary: x)
  case Nil
  then show ?case by simp
next
  case (Cons z zs)
  show ?case
  proof (cases "x = z \<and> \<not> (\<exists>y. first_longest zs = Some y \<and> length (rt_Path (snd y)) > length (rt_Path (snd z)))")
    case True
    then show ?thesis by (intro exI [of _ "[]"] exI [of _ zs]) simp
  next
    case False
    with Cons.prems have x: "first_longest zs = Some x" "length (rt_Path (snd z)) < length (rt_Path (snd x))"
      by (auto split: option.splits if_splits)
    from Cons.IH [OF x(1)] obtain as bs where
      "zs = as @ x # bs" "\<forall>a \<in> set as. length (rt_Path (snd a)) < length (rt_Path (snd x))"
      by blast
    with x(2) show ?thesis by (intro exI [of _ "z # as"] exI [of _ bs]) simp
  qed
qed

lemma Resolve_first_longest:
  "Resolve r host path =
     (case first_longest (candidates (rs_backends r) host path) of
        Some (be, rt) \<Rightarrow> (be, rt, True)
      | None \<Rightarrow> (if \<exists>be \<in> set (rs_backends r). be_Host be = host
                 then zero_Backend\<lparr>be_Host := host\<rparr> else zero_Backend, zero_Route, False))"
  by (auto simp: Resolve_def scan_backends_foldl foldl_keep_None split: option.splits bool.splits)

lemma candidates_iff:
  "(be, rt) \<in> set (candidates bes host path) \<longleftrightarrow>
     be \<in> set bes \<and> be_Host be = host \<and> rt \<in> set (be_Routes be) \<and> pathMatches path (rt_Path rt)"
  by (auto simp: candidates_def)

lemma Resolve_True:
  "Resolve r host path = (be, rt, True) \<longleftrightarrow>
     first_longest (candidates (rs_backends r) host path) = Some (be, rt)"
  by (auto simp: Resolve_first_longest split: option.splits)

lemma Resolve_False:
  "\<not> snd (snd (Resolve r host path)) \<longleftrightarrow> candidates (rs_backends r) host path = []"
  by (auto simp: Resolve_first_longest split: option.splits)


section \<open>Properties\<close>

lemma first_longest_split:
  assumes "\<forall>a \<in> set as. length (rt_Path (snd a)) < length (rt_Path (snd x))"
    and "\<forall>b \<in> set bs. length (rt_Path (snd b)) \<le> length (rt_Path (snd x))"
  shows "first_longest (as @ x # bs) = Some x"
  using assms(1)
proof (induction as)
  case Nil
  show ?case
    using assms(2) by (auto dest!: first_longest_in split: option.split)
qed simp

text \<open>
  C4: the resolver grants a request the first route, in configuration order, of the longest
  path among the routes of the backends on the requested host that contain the request's path;
  no other answer is ever found.
\<close>

theorem Resolve_longest:
  "Resolve r host path = (be, rt, True) \<longleftrightarrow>
     (\<exists>as bs. candidates (rs_backends r) host path = as @ (be, rt) # bs \<and>
        (\<forall>a \<in> set as. length (rt_Path (snd a)) < length (rt_Path rt)) \<and>
        (\<forall>b \<in> set bs. length (rt_Path (snd b)) \<le> length (rt_Path rt)))"
proof
  assume "Resolve r host path = (be, rt, True)"
  then have fl: "first_longest (candidates (rs_backends r) host path) = Some (be, rt)"
    by (simp add: Resolve_True)
  from first_longest_first [OF fl] obtain as bs where s: "candidates (rs_backends r) host path = as @ (be, rt) # bs"
      "\<forall>a \<in> set as. length (rt_Path (snd a)) < length (rt_Path (snd (be, rt)))"
    by blast
  moreover have "\<forall>b \<in> set bs. length (rt_Path (snd b)) \<le> length (rt_Path rt)"
    using first_longest_max [OF fl] s(1) by simp
  ultimately show "\<exists>as bs. candidates (rs_backends r) host path = as @ (be, rt) # bs \<and>
        (\<forall>a \<in> set as. length (rt_Path (snd a)) < length (rt_Path rt)) \<and>
        (\<forall>b \<in> set bs. length (rt_Path (snd b)) \<le> length (rt_Path rt))"
    by auto
next
  assume "\<exists>as bs. candidates (rs_backends r) host path = as @ (be, rt) # bs \<and>
        (\<forall>a \<in> set as. length (rt_Path (snd a)) < length (rt_Path rt)) \<and>
        (\<forall>b \<in> set bs. length (rt_Path (snd b)) \<le> length (rt_Path rt))"
  then show "Resolve r host path = (be, rt, True)"
    by (auto simp: Resolve_True first_longest_split)
qed

definition two_paths :: Resolver where
  "two_paths = \<lparr>rs_backends = [zero_Backend\<lparr>be_ID := ''svc'', be_Host := ''h'',
     be_Routes := [route_of ''/'' ''public'' False, route_of ''/a'' ''authorized'' False]\<rparr>]\<rparr>"

theorem Resolve_longest_witness:
  "Resolve two_paths ''h'' ''/a/x'' = (hd (rs_backends two_paths), route_of ''/a'' ''authorized'' False, True)"
  by (subst Resolve_longest, rule exI [of _ "[(hd (rs_backends two_paths), route_of ''/'' ''public'' False)]"], rule exI [of _ "[]"])
     (simp add: candidates_def two_paths_def route_of_def zero_Backend_def pathMatches_def TrimRightFunc_def)

text \<open>
  A route's path contains a request's path exactly when it is the root or its segments,
  trailing slashes aside, begin the segments of the request: never a mere prefix of a segment.
\<close>

theorem pathMatches_segments:
  "pathMatches path route \<longleftrightarrow>
     route \<in> {'''', ''/''} \<or>
     prefix (Split (TrimRight route CHR ''/'') CHR ''/'') (Split path CHR ''/'')"
  using under_segments [of path "TrimRight route CHR ''/''"]
  by (auto simp: pathMatches_def Let_def)

text \<open>
  Nothing is found exactly when no backend on the host has a route that contains the path:
  an unknown host, an unlisted path and a backend without routes are all denied.
\<close>

theorem Resolve_none:
  "\<not> snd (snd (Resolve r host path)) \<longleftrightarrow>
     \<not> (\<exists>be \<in> set (rs_backends r). be_Host be = host \<and> (\<exists>rt \<in> set (be_Routes be). pathMatches path (rt_Path rt)))"
  using candidates_iff [of _ _ "rs_backends r" host path] Resolve_False [of r host path]
  by (auto simp: candidates_def filter_empty_conv)

end
