(* ===== verification/Providers.thy ===== *)
theory Providers
  imports Users Passwords Matrix
begin

text \<open>
  The authentication providers: providers/local.go, providers/ldap.go and providers/oidc.go,
  and the construction of the provider sets in handlers/providers.go.  The LDAP library, the
  OpenID Connect library and the network behind them are arguments: what a dial, a StartTLS, a
  bind, a discovery, a token exchange and a token verification answer.
\<close>

record Identity =
  idn_Email :: string
  idn_Provider :: string

datatype auth_error = ErrInvalidCredentials | ErrProvider string

subsection \<open>Local\<close>

text \<open>\<open>None\<close> is a panic inside the password hash.\<close>

definition Local_Authenticate :: "idkey \<Rightarrow> UserDirectory \<Rightarrow> string \<Rightarrow> string \<Rightarrow> (auth_error + Identity) option" where
  "Local_Authenticate IDKey dir email password =
     (case Get dir email of
        None \<Rightarrow> Some (Inl ErrInvalidCredentials)
      | Some u \<Rightarrow>
          if usr_Provider u \<noteq> ''local'' \<or> usr_PasswordHash u = '''' then Some (Inl ErrInvalidCredentials)
          else (case VerifyPassword IDKey (usr_PasswordHash u) password of
                  None \<Rightarrow> None
                | Some (Inl e) \<Rightarrow> Some (Inl ErrInvalidCredentials)
                | Some (Inr _) \<Rightarrow> Some (Inr \<lparr>idn_Email = email, idn_Provider = ''local''\<rparr>)))"

subsection \<open>LDAP\<close>

record LDAP =
  ld_id :: string
  ld_url :: string
  ld_bindDNTemplate :: string
  ld_startTLS :: bool
  ld_insecureSkip :: bool

definition NewLDAP :: "string \<Rightarrow> string \<Rightarrow> string \<Rightarrow> bool \<Rightarrow> bool \<Rightarrow> LDAP" where
  "NewLDAP i u t st sk = \<lparr>ld_id = i, ld_url = u, ld_bindDNTemplate = t, ld_startTLS = st, ld_insecureSkip = sk\<rparr>"

record ldap_net =
  lnet_dial :: "LDAP \<Rightarrow> bool"
  lnet_starttls :: "LDAP \<Rightarrow> bool"
  lnet_bind :: "LDAP \<Rightarrow> string \<Rightarrow> string \<Rightarrow> bool"

definition dn_special :: "char \<Rightarrow> bool" where
  "dn_special c \<longleftrightarrow> c \<in> set [CHR 0x5C, CHR '','', CHR ''+'', CHR 0x22, CHR ''<'', CHR ''>'', CHR '';'', CHR ''='']"

definition escapeDNValue :: "string \<Rightarrow> string" where
  "escapeDNValue s = concat (map (\<lambda>c. if dn_special c then [CHR 0x5C, c] else [c]) s)"

text \<open>
  \<open>fmt.Sprintf\<close> with one string argument, for templates whose verbs are \<open>%s\<close> and \<open>%%\<close>: the
  first \<open>%s\<close> takes the argument, a further one is reported missing, an unused argument is
  appended as extra.
\<close>

fun sprintf_s :: "string \<Rightarrow> string \<Rightarrow> bool \<Rightarrow> string" where
  "sprintf_s [] x used = (if used then '''' else ''%!(EXTRA string='' @ x @ '')'')"
| "sprintf_s [c] x used = c # sprintf_s [] x used"
| "sprintf_s (c # d # t) x used =
     (if c = CHR ''%'' \<and> d = CHR ''s'' then (if used then ''%!s(MISSING)'' else x) @ sprintf_s t x True
      else if c = CHR ''%'' \<and> d = CHR ''%'' then CHR ''%'' # sprintf_s t x used
      else c # sprintf_s (d # t) x used)"

definition LDAP_Authenticate :: "ldap_net \<Rightarrow> LDAP \<Rightarrow> string \<Rightarrow> string \<Rightarrow> auth_error + Identity" where
  "LDAP_Authenticate net l username password =
     (if TrimSpace username = '''' \<or> password = '''' then Inl ErrInvalidCredentials
      else if \<not> lnet_dial net l then Inl (ErrProvider ''dial'')
      else if ld_startTLS l \<and> \<not> lnet_starttls net l then Inl (ErrProvider ''starttls'')
      else if \<not> lnet_bind net l (sprintf_s (ld_bindDNTemplate l) (escapeDNValue username) False) password
        then Inl ErrInvalidCredentials
      else Inr \<lparr>idn_Email = username, idn_Provider = ld_id l\<rparr>)"

text \<open>
  Reading an attribute value of a distinguished name (RFC 4514): a backslash takes the next byte
  literally; an unescaped special or zero byte, a space at either end and a leading \<open>#\<close> (which
  announces a hexadecimal encoding) are not part of a literal value.
\<close>

fun dn_chars :: "string \<Rightarrow> string option" where
  "dn_chars [] = Some []"
| "dn_chars (c # s) =
     (if c = CHR 0x5C then (case s of [] \<Rightarrow> None | d # s' \<Rightarrow> map_option ((#) d) (dn_chars s'))
      else if dn_special c \<or> c = CHR 0x00 \<or> c = CHR '' '' \<and> s = [] then None
      else map_option ((#) c) (dn_chars s))"

definition dn_value :: "string \<Rightarrow> string option" where
  "dn_value s = (if s \<noteq> [] \<and> (hd s = CHR ''#'' \<or> hd s = CHR '' '') then None else dn_chars s)"

lemma escapeDNValue_Cons: "escapeDNValue (c # s) = (if dn_special c then [CHR 0x5C, c] else [c]) @ escapeDNValue s"
  by (simp add: escapeDNValue_def)

lemma escapeDNValue_Nil_iff: "escapeDNValue s = [] \<longleftrightarrow> s = []"
  by (cases s) (simp_all add: escapeDNValue_def)

lemma dn_chars_escape: "CHR 0x00 \<notin> set s \<Longrightarrow> s = [] \<or> last s \<noteq> CHR '' '' \<Longrightarrow> dn_chars (escapeDNValue s) = Some s"
proof (induction s)
  case (Cons c s)
  have bs: "dn_special (CHR 0x5C)" by (simp add: dn_special_def)
  have "dn_chars (escapeDNValue s) = Some s" using Cons by (cases "s = []") (simp_all add: escapeDNValue_def)
  moreover have "s = [] \<Longrightarrow> c \<noteq> CHR '' ''" using Cons.prems(2) by simp
  ultimately show ?case
    using bs Cons.prems(1) by (auto simp: escapeDNValue_Cons escapeDNValue_Nil_iff)
qed (simp add: escapeDNValue_def)

lemma dn_value_escape:
  assumes "CHR 0x00 \<notin> set s" "s = [] \<or> last s \<noteq> CHR '' '' \<and> hd s \<noteq> CHR '' '' \<and> hd s \<noteq> CHR ''#''"
  shows "dn_value (escapeDNValue s) = Some s"
proof -
  have "s \<noteq> [] \<Longrightarrow> hd (escapeDNValue s) = hd s \<or> hd (escapeDNValue s) = CHR 0x5C"
    by (cases s) (simp_all add: escapeDNValue_Cons)
  then show ?thesis
    using dn_chars_escape [of s] assms by (auto simp: dn_value_def escapeDNValue_Nil_iff)
qed

lemma LDAP_identity: "LDAP_Authenticate net l u p = Inr i \<Longrightarrow> idn_Email i = u \<and> idn_Provider i = ld_id l \<and> p \<noteq> ''''"
  by (auto simp: LDAP_Authenticate_def split: if_splits)

subsection \<open>OpenID Connect\<close>

record OIDC =
  od_id :: string
  od_name :: string
  od_issuer :: string
  od_clientID :: string
  od_clientSec :: string
  od_redirectURL :: string
  od_scopes :: "string list"
  od_ready :: bool

definition NewOIDC :: "string \<Rightarrow> string \<Rightarrow> string \<Rightarrow> string \<Rightarrow> string \<Rightarrow> string \<Rightarrow> string list \<Rightarrow> OIDC" where
  "NewOIDC i name issuer cid sec redirect scopes =
     \<lparr>od_id = i, od_name = (if name = '''' then i else name), od_issuer = issuer, od_clientID = cid,
      od_clientSec = sec, od_redirectURL = redirect,
      od_scopes = (if scopes = [] then [''openid'', ''email'', ''profile''] else scopes),
      od_ready = False\<rparr>"

record token =
  tk_nonce :: string
  tk_claims_ok :: bool
  tk_email :: string
  tk_preferred :: string

text \<open>
  The identity provider as seen through the libraries: discovery, the authorization URL, the
  code exchange (the raw ID token, empty when the response has none) and the verification of
  a raw token.
\<close>

record oidc_net =
  on_discover :: "string \<Rightarrow> bool"
  on_authURL :: "OIDC \<Rightarrow> string \<Rightarrow> string \<Rightarrow> string"
  on_exchange :: "OIDC \<Rightarrow> string \<Rightarrow> string option"
  on_verify :: "OIDC \<Rightarrow> string \<Rightarrow> token option"

datatype oidc_error = Discovery | TokenExchange | NoIDToken | VerifyIDToken | NonceMismatch | BadClaims | NoEmail

definition ensure :: "oidc_net \<Rightarrow> OIDC \<Rightarrow> (oidc_error option) \<times> OIDC" where
  "ensure net o1 =
     (if od_ready o1 then (None, o1)
      else if \<not> on_discover net (od_issuer o1) then (Some Discovery, o1)
      else (None, o1\<lparr>od_ready := True\<rparr>))"

definition AuthURL :: "oidc_net \<Rightarrow> OIDC \<Rightarrow> string \<Rightarrow> string \<Rightarrow> (oidc_error + string) \<times> OIDC" where
  "AuthURL net o1 state nonce =
     (case ensure net o1 of
        (Some e, o2) \<Rightarrow> (Inl e, o2)
      | (None, o2) \<Rightarrow> (Inr (on_authURL net o2 state nonce), o2))"

definition Exchange :: "oidc_net \<Rightarrow> OIDC \<Rightarrow> string \<Rightarrow> string \<Rightarrow> (oidc_error + Identity) \<times> OIDC" where
  "Exchange net o1 code nonce =
     (case ensure net o1 of
        (Some e, o2) \<Rightarrow> (Inl e, o2)
      | (None, o2) \<Rightarrow>
          ((case on_exchange net o2 code of
              None \<Rightarrow> Inl TokenExchange
            | Some raw \<Rightarrow>
                if raw = '''' then Inl NoIDToken
                else (case on_verify net o2 raw of
                        None \<Rightarrow> Inl VerifyIDToken
                      | Some t \<Rightarrow>
                          if tk_nonce t \<noteq> nonce then Inl NonceMismatch
                          else if \<not> tk_claims_ok t then Inl BadClaims
                          else
                            let email = (if tk_email t = '''' then tk_preferred t else tk_email t) in
                            if email = '''' then Inl NoEmail
                            else Inr \<lparr>idn_Email = email, idn_Provider = od_id o2\<rparr>)), o2))"

lemma Exchange_Inr:
  "Exchange net o1 code nonce = (Inr i, o2) \<Longrightarrow>
     idn_Email i \<noteq> '''' \<and> idn_Provider i = od_id o1 \<and>
     (\<exists>raw t. on_exchange net o2 code = Some raw \<and> on_verify net o2 raw = Some t \<and> tk_nonce t = nonce)"
  by (auto simp: Exchange_def ensure_def Let_def split: option.splits if_splits)

subsection \<open>The provider sets\<close>

definition BuildOIDC :: "ProviderCfg list \<Rightarrow> Secrets \<Rightarrow> string \<Rightarrow> string \<Rightarrow> OIDC option" where
  "BuildOIDC provs sec externalURL =
     fold (\<lambda>p out.
         if prv_Type p \<noteq> ''oidc'' \<or> \<not> prv_Enabled p \<or> prv_Issuer p = '''' \<or> prv_ClientID p = '''' then out
         else out(prv_ID p \<mapsto>
           NewOIDC (prv_ID p) (prv_Name p) (prv_Issuer p) (prv_ClientID p)
             (case sec_Providers sec (prv_ID p) of None \<Rightarrow> '''' | Some ps \<Rightarrow> ps_ClientSecret ps)
             (TrimRight externalURL CHR ''/'' @ ''/auth/'' @ prv_ID p @ ''/callback'') []))
       provs Map.empty"

definition BuildLDAP :: "ProviderCfg list \<Rightarrow> LDAP list" where
  "BuildLDAP provs =
     map (\<lambda>p. NewLDAP (prv_ID p) (prv_LDAPURL p) (prv_LDAPBindDNTemplate p) (prv_LDAPStartTLS p)
            (prv_LDAPInsecureSkipVerify p))
       (filter (\<lambda>p. \<not> (prv_Type p \<noteq> ''ldap'' \<or> \<not> prv_Enabled p \<or> prv_LDAPURL p = '''' \<or>
                       prv_LDAPBindDNTemplate p = '''')) provs)"

fun mergeProviders :: "ProviderCfg list \<Rightarrow> ProviderCfg list \<Rightarrow> ProviderCfg list" where
  "mergeProviders out [] = out"
| "mergeProviders out (rp # rps) =
     (case update_first (\<lambda>p. prv_ID p = prv_ID rp) (\<lambda>_. rp) out of
        Some out' \<Rightarrow> mergeProviders out' rps
      | None \<Rightarrow> mergeProviders (out @ [rp]) rps)"

lemma BuildLDAP_only_ldap: "\<forall>p \<in> set provs. prv_Type p \<noteq> ''ldap'' \<Longrightarrow> BuildLDAP provs = []"
  by (simp add: BuildLDAP_def)

text \<open>
  Stated for any keyed elements: the overlay loop keeps the base order, replaces in place and
  appends what is new.
\<close>

fun overlay :: "('a \<Rightarrow> string) \<Rightarrow> 'a list \<Rightarrow> 'a list \<Rightarrow> 'a list" where
  "overlay key out [] = out"
| "overlay key out (rp # rps) =
     (case update_first (\<lambda>p. key p = key rp) (\<lambda>_. rp) out of
        Some out' \<Rightarrow> overlay key out' rps
      | None \<Rightarrow> overlay key (out @ [rp]) rps)"

lemma mergeProviders_overlay: "mergeProviders out rps = overlay prv_ID out rps"
  by (induction out rps rule: mergeProviders.induct) (simp_all split: option.split)

definition assoc_by :: "('a \<Rightarrow> string) \<Rightarrow> 'a list \<Rightarrow> string \<Rightarrow> 'a option" where
  "assoc_by key xs i = map_of (map (\<lambda>x. (key x, x)) xs) i"

lemma assoc_by_append: "assoc_by key (xs @ ys) i = (case assoc_by key xs i of Some x \<Rightarrow> Some x | None \<Rightarrow> assoc_by key ys i)"
  by (simp add: assoc_by_def map_add_def split: option.splits)

lemma assoc_by_simps [simp]: "assoc_by key [] i = None" "assoc_by key [x] i = (if i = key x then Some x else None)"
  by (simp_all add: assoc_by_def)

lemma assoc_by_None: "assoc_by key xs i = None \<longleftrightarrow> (\<forall>x \<in> set xs. key x \<noteq> i)"
  by (force simp: assoc_by_def map_of_eq_None_iff)

lemma overlay_step:
  assumes "update_first (\<lambda>p. key p = key r) (\<lambda>_. r) out = Some out'"
  shows "assoc_by key out' i = (if i = key r then Some r else assoc_by key out i)"
    and "map key out' = map key out"
proof -
  obtain as x bs where out: "out = as @ x # bs" and out': "out' = as @ r # bs"
    and x: "key x = key r" and as: "\<forall>a \<in> set as. key a \<noteq> key r"
    using update_first_split [OF assms] by blast
  have "assoc_by key as (key r) = None" using as by (simp add: assoc_by_None)
  then show "assoc_by key out' i = (if i = key r then Some r else assoc_by key out i)"
    using assoc_by_append [of key "[x]" bs] assoc_by_append [of key "[r]" bs]
    by (cases "i = key r") (simp_all add: out out' assoc_by_append x split: option.split)
  show "map key out' = map key out" by (simp add: out out' x)
qed

text \<open>What a merged set holds: the last runtime entry of an id, else the base one.\<close>

lemma overlay_lookup:
  "assoc_by key (overlay key out rps) i =
     (case assoc_by key (rev rps) i of Some p \<Rightarrow> Some p | None \<Rightarrow> assoc_by key out i)"
proof (induction key out rps rule: overlay.induct)
  case (1 key out)
  then show ?case by (simp add: assoc_by_def)
next
  case (2 key out rp rps)
  show ?case
  proof (cases "update_first (\<lambda>p. key p = key rp) (\<lambda>_. rp) out")
    case None
    then have "assoc_by key out (key rp) = None"
      by (simp add: loop_simps assoc_by_None)
    with None 2 show ?thesis
      by (cases "i = key rp") (simp_all add: assoc_by_append split: option.split)
  next
    case (Some out')
    with 2 overlay_step [OF Some] show ?thesis
      by (cases "i = key rp") (simp_all add: assoc_by_append split: option.split)
  qed
qed

lemma overlay_distinct: "distinct (map key out) \<Longrightarrow> distinct (map key (overlay key out rps))"
proof (induction key out rps rule: overlay.induct)
  case (1 key out)
  then show ?case by simp
next
  case (2 key out rp rps)
  show ?case
  proof (cases "update_first (\<lambda>p. key p = key rp) (\<lambda>_. rp) out")
    case None
    then have "key rp \<notin> key ` set out" by (auto simp: loop_simps)
    with None 2 show ?thesis by simp
  next
    case (Some out')
    with 2 overlay_step(2) [OF Some] show ?thesis by simp
  qed
qed


section \<open>Properties\<close>

text \<open>
  The user name put into an LDAP bind name is read back exactly as it was typed, so that it
  cannot add, end or split a component, unless it has a zero byte, a space at an end or a
  leading \<open>#\<close>, which the escaping leaves alone.
\<close>

theorem escapeDNValue_roundtrip:
  assumes "CHR 0x00 \<notin> set s" "s = [] \<or> last s \<noteq> CHR '' '' \<and> hd s \<noteq> CHR '' '' \<and> hd s \<noteq> CHR ''#''"
  shows "dn_value (escapeDNValue s) = Some s"
  by (rule dn_value_escape [OF assms])

theorem escapeDNValue_roundtrip_witness: "dn_value (escapeDNValue ''a,dc=x+b'') = Some ''a,dc=x+b''"
  by (rule escapeDNValue_roundtrip) simp_all

theorem escapeDNValue_hash: "dn_value (escapeDNValue ''#04'') = None"
  by code_simp

text \<open>
  The effective provider of an identifier is the last runtime one with it, else the
  configured one; identifiers stay distinct.
\<close>

theorem mergeProviders_lookup:
  assumes "distinct (map prv_ID base)"
  shows "distinct (map prv_ID (mergeProviders base runtime)) \<and>
     (\<forall>i. assoc_by prv_ID (mergeProviders base runtime) i =
        (case assoc_by prv_ID (rev runtime) i of Some p \<Rightarrow> Some p | None \<Rightarrow> assoc_by prv_ID base i))"
  using overlay_distinct [OF assms] by (simp add: mergeProviders_overlay overlay_lookup)

theorem mergeProviders_lookup_witness:
  "assoc_by prv_ID (mergeProviders [zero_Provider\<lparr>prv_ID := ''a''\<rparr>] [zero_Provider\<lparr>prv_ID := ''a'', prv_Name := ''new''\<rparr>]) ''a'' =
   Some (zero_Provider\<lparr>prv_ID := ''a'', prv_Name := ''new''\<rparr>)"
  using mergeProviders_lookup [of "[zero_Provider\<lparr>prv_ID := ''a''\<rparr>]" "[zero_Provider\<lparr>prv_ID := ''a'', prv_Name := ''new''\<rparr>]"]
  by (simp add: zero_Provider_def)

text \<open>
  C28: an OIDC login yields an identity only from an ID token that the issuer's verifier
  accepted and that carries the nonce of this login; the identity has an email and belongs to
  this provider.
\<close>

theorem Exchange_verified:
  assumes "Exchange net p code nonce = (Inr i, p')"
  shows "idn_Email i \<noteq> '''' \<and> idn_Provider i = od_id p \<and>
     (\<exists>raw t. on_exchange net p' code = Some raw \<and> on_verify net p' raw = Some t \<and> tk_nonce t = nonce \<and>
        idn_Email i = (if tk_email t = '''' then tk_preferred t else tk_email t))"
proof -
  have e: "ensure net p = (None, p')" and od: "od_id p' = od_id p"
    using assms by (auto simp: Exchange_def ensure_def split: option.splits if_splits)
  from assms e obtain raw where raw: "on_exchange net p' code = Some raw" "raw \<noteq> ''''"
    by (simp add: Exchange_def split: option.splits if_splits)
  with assms e obtain t where t: "on_verify net p' raw = Some t"
    by (simp add: Exchange_def split: option.splits)
  let ?em = "if tk_email t = '''' then tk_preferred t else tk_email t"
  have "tk_nonce t = nonce \<and> ?em \<noteq> '''' \<and> i = \<lparr>idn_Email = ?em, idn_Provider = od_id p'\<rparr>"
    using assms e raw t by (simp add: Exchange_def Let_def split: if_splits)
  with raw t od show ?thesis by auto
qed

definition sample_idp :: oidc_net where
  "sample_idp = \<lparr>on_discover = (\<lambda>_. True), on_authURL = (\<lambda>_ _ _. ''u''), on_exchange = (\<lambda>_ c. Some c),
     on_verify = (\<lambda>_ raw. if raw = ''good'' then Some \<lparr>tk_nonce = ''n'', tk_claims_ok = True, tk_email = ''a@x'', tk_preferred = ''''\<rparr>
        else None)\<rparr>"

theorem Exchange_verified_witness:
  "\<exists>raw t. on_exchange sample_idp (NewOIDC ''idp'' ''IdP'' ''https://i'' ''c'' ''s'' ''r'' [] \<lparr>od_ready := True\<rparr>) ''good'' = Some raw \<and>
     on_verify sample_idp (NewOIDC ''idp'' ''IdP'' ''https://i'' ''c'' ''s'' ''r'' [] \<lparr>od_ready := True\<rparr>) raw = Some t \<and> tk_nonce t = ''n''"
proof -
  have "Exchange sample_idp (NewOIDC ''idp'' ''IdP'' ''https://i'' ''c'' ''s'' ''r'' []) ''good'' ''n'' =
      (Inr \<lparr>idn_Email = ''a@x'', idn_Provider = ''idp''\<rparr>, NewOIDC ''idp'' ''IdP'' ''https://i'' ''c'' ''s'' ''r'' []\<lparr>od_ready := True\<rparr>)"
    by (simp add: Exchange_def ensure_def sample_idp_def NewOIDC_def)
  from Exchange_verified [OF this] show ?thesis by blast
qed

end
