(* ===== verification/Sessions.thy ===== *)
theory Sessions
  imports Models
begin

text \<open>
  The session store of auth/session.go.  The \<open>SessionStore\<close> interface is a locale with the laws
  its clients (the login handlers, \<open>/validate\<close>) rely on; \<open>MemoryStore\<close> is its implementation,
  with the file a persistent store keeps as its second map.  Time enters every operation as
  the instant \<open>now\<close>, the random identifier of \<open>Create\<close> as its argument.
\<close>

subsection \<open>MemoryStore\<close>

text \<open>
  \<open>ms_m\<close> is the map guarded by the mutex; \<open>ms_disk\<close> what the file at \<open>ms_path\<close> decodes to
  (\<open>None\<close>: absent or unreadable), \<open>ms_disk_ok\<close> whether writing it succeeds.
\<close>

record MemoryStore =
  ms_m :: "string \<rightharpoonup> Session"
  ms_ttl :: int
  ms_idle :: int
  ms_path :: string
  ms_disk :: "(string \<rightharpoonup> Session) option"
  ms_disk_ok :: bool

definition NewMemoryStore :: "int \<Rightarrow> int \<Rightarrow> MemoryStore" where
  "NewMemoryStore ttl idle = \<lparr>ms_m = Map.empty, ms_ttl = ttl, ms_idle = idle, ms_path = [],
     ms_disk = None, ms_disk_ok = True\<rparr>"

definition load :: "MemoryStore \<Rightarrow> MemoryStore" where
  "load s =
     (if ms_path s = [] then s
      else case ms_disk s of None \<Rightarrow> s | Some m \<Rightarrow> s\<lparr>ms_m := m\<rparr>)"

definition NewPersistentStore :: "int \<Rightarrow> int \<Rightarrow> string \<Rightarrow> (string \<rightharpoonup> Session) option \<Rightarrow> bool \<Rightarrow> MemoryStore" where
  "NewPersistentStore ttl idle path disk disk_ok =
     load \<lparr>ms_m = Map.empty, ms_ttl = ttl, ms_idle = idle, ms_path = path, ms_disk = disk,
           ms_disk_ok = disk_ok\<rparr>"

definition persistLocked :: "MemoryStore \<Rightarrow> MemoryStore" where
  "persistLocked s =
     (if ms_path s = [] then s
      else if ms_disk_ok s then s\<lparr>ms_disk := Some (ms_m s)\<rparr> else s)"

text \<open>\<open>newID\<close> fails with \<open>crypto/rand\<close>: the random identifier is an \<open>option\<close>.\<close>

definition Create :: "int \<Rightarrow> string option \<Rightarrow> MemoryStore \<Rightarrow> string \<Rightarrow> string \<Rightarrow> MemoryStore \<times> Session option" where
  "Create now newid s email provider =
     (case newid of
        None \<Rightarrow> (s, None)
      | Some sid \<Rightarrow>
          (let sess = \<lparr>s_ID = sid, s_Email = email, s_Provider = provider, s_TwoFADone = False,
                       s_CreatedAt = now, s_LastSeen = now\<rparr>
           in (persistLocked (s\<lparr>ms_m := (ms_m s)(sid \<mapsto> sess)\<rparr>), Some sess)))"

definition expired :: "int \<Rightarrow> MemoryStore \<Rightarrow> Session \<Rightarrow> bool" where
  "expired now s sess \<longleftrightarrow>
     (ms_ttl s > 0 \<and> now - s_CreatedAt sess > ms_ttl s) \<or>
     (ms_idle s > 0 \<and> now - s_LastSeen sess > ms_idle s)"

definition Get :: "int \<Rightarrow> MemoryStore \<Rightarrow> string \<Rightarrow> MemoryStore \<times> Session option" where
  "Get now s sid =
     (if sid = [] then (s, None)
      else case ms_m s sid of
          None \<Rightarrow> (s, None)
        | Some sess \<Rightarrow>
            if expired now s sess then (persistLocked (s\<lparr>ms_m := (ms_m s)(sid := None)\<rparr>), None)
            else (let sess' = sess\<lparr>s_LastSeen := now\<rparr>
                  in (s\<lparr>ms_m := (ms_m s)(sid \<mapsto> sess')\<rparr>, Some sess')))"

definition Complete2FA :: "MemoryStore \<Rightarrow> string \<Rightarrow> MemoryStore \<times> bool" where
  "Complete2FA s sid =
     (case ms_m s sid of
        Some sess \<Rightarrow> (persistLocked (s\<lparr>ms_m := (ms_m s)(sid \<mapsto> sess\<lparr>s_TwoFADone := True\<rparr>)\<rparr>), True)
      | None \<Rightarrow> (s, False))"

definition Delete :: "MemoryStore \<Rightarrow> string \<Rightarrow> MemoryStore" where
  "Delete s sid = persistLocked (s\<lparr>ms_m := (ms_m s)(sid := None)\<rparr>)"

lemma persistLocked_simps [simp]:
  "ms_m (persistLocked s) = ms_m s" "ms_ttl (persistLocked s) = ms_ttl s"
  "ms_idle (persistLocked s) = ms_idle s" "ms_path (persistLocked s) = ms_path s"
  "ms_disk_ok (persistLocked s) = ms_disk_ok s"
  by (simp_all add: persistLocked_def)

text \<open>Every stored session is filed under its own identifier.\<close>

definition store_ok :: "MemoryStore \<Rightarrow> bool" where
  "store_ok s \<longleftrightarrow> (\<forall>sid sess. ms_m s sid = Some sess \<longrightarrow> s_ID sess = sid)"

lemma store_ok_New: "store_ok (NewMemoryStore ttl idle)"
  by (simp add: store_ok_def NewMemoryStore_def)

lemma store_ok_Create: "store_ok s \<Longrightarrow> store_ok (fst (Create now n s e p))"
  by (auto simp: store_ok_def Create_def Let_def split: option.splits)

lemma store_ok_Get: "store_ok s \<Longrightarrow> store_ok (fst (Get now s sid))"
  by (auto simp: store_ok_def Get_def Let_def split: option.splits if_splits)

lemma store_ok_Complete2FA: "store_ok s \<Longrightarrow> store_ok (fst (Complete2FA s sid))"
  by (auto simp: store_ok_def Complete2FA_def split: option.splits)

lemma store_ok_Delete: "store_ok s \<Longrightarrow> store_ok (Delete s sid)"
  by (auto simp: store_ok_def Delete_def)

lemmas store_ok_ops = store_ok_New store_ok_Create store_ok_Get store_ok_Complete2FA store_ok_Delete

subsection \<open>The SessionStore interface\<close>

text \<open>
  The interface as its clients see it: an abstract lookup \<open>live now s sid\<close> (the session a
  \<open>Get\<close> at \<open>now\<close> returns, up to its \<open>LastSeen\<close>) and what each operation does to it.
\<close>

locale session_store =
  fixes create :: "int \<Rightarrow> string option \<Rightarrow> 's \<Rightarrow> string \<Rightarrow> string \<Rightarrow> 's \<times> Session option"
    and get :: "int \<Rightarrow> 's \<Rightarrow> string \<Rightarrow> 's \<times> Session option"
    and complete :: "'s \<Rightarrow> string \<Rightarrow> 's \<times> bool"
    and del :: "'s \<Rightarrow> string \<Rightarrow> 's"
    and entry :: "'s \<Rightarrow> string \<rightharpoonup> Session"
  assumes create_fail: "create now None s e p = (s, None)"
    and create_ok: "create now (Some i) s e p = (s', r) \<Longrightarrow>
          r = Some \<lparr>s_ID = i, s_Email = e, s_Provider = p, s_TwoFADone = False,
                    s_CreatedAt = now, s_LastSeen = now\<rparr> \<and> entry s' = (entry s)(i := r)"
    and get_entry: "get now s i = (s', Some x) \<Longrightarrow>
          \<exists>x0. entry s i = Some x0 \<and> x = x0\<lparr>s_LastSeen := now\<rparr> \<and> entry s' = (entry s)(i \<mapsto> x)"
    and get_none: "get now s i = (s', None) \<Longrightarrow> entry s' = entry s \<or> entry s' = (entry s)(i := None)"
    and complete_entry: "entry (fst (complete s i)) =
          (case entry s i of None \<Rightarrow> entry s
           | Some x \<Rightarrow> (entry s)(i \<mapsto> x\<lparr>s_TwoFADone := True\<rparr>))"
    and del_entry: "entry (del s i) = (entry s)(i := None)"
begin

text \<open>Only \<open>complete\<close> turns the second-factor flag on.\<close>

definition done2fa :: "'s \<Rightarrow> string \<Rightarrow> bool" where
  "done2fa s i \<longleftrightarrow> (\<exists>x. entry s i = Some x \<and> s_TwoFADone x)"

lemma done2fa_create: "done2fa (fst (create now n s e p)) i \<Longrightarrow> done2fa s i"
proof (cases n)
  case None
  then show "done2fa (fst (create now n s e p)) i \<Longrightarrow> ?thesis" by (simp add: create_fail)
next
  case (Some j)
  assume d2: "done2fa (fst (create now n s e p)) i"
  obtain s' r where eq: "create now (Some j) s e p = (s', r)" by fastforce
  from create_ok [OF eq] d2 Some eq show ?thesis
    by (auto simp: done2fa_def split: if_splits)
qed

lemma done2fa_get: "done2fa (fst (get now s i)) j \<Longrightarrow> done2fa s j"
proof -
  assume d2: "done2fa (fst (get now s i)) j"
  obtain s' r where eq: "get now s i = (s', r)" by fastforce
  show ?thesis
  proof (cases r)
    case None
    with eq get_none [of now s i s'] d2 show ?thesis
      by (auto simp: done2fa_def split: if_splits)
  next
    case (Some x)
    with eq get_entry [of now s i s' x] d2 show ?thesis
      by (auto simp: done2fa_def split: if_splits)
  qed
qed

lemma done2fa_del: "done2fa (del s i) j \<longleftrightarrow> done2fa s j \<and> j \<noteq> i"
  by (auto simp: done2fa_def del_entry)

lemma done2fa_complete:
  "done2fa (fst (complete s i)) j \<longleftrightarrow> done2fa s j \<or> (j = i \<and> entry s i \<noteq> None)"
  by (auto simp: done2fa_def complete_entry split: option.splits)

text \<open>
  \<open>derived s s'\<close>: every session of \<open>s'\<close> is one of \<open>s\<close>, for the same person, and its second
  factor is not newly set.
\<close>

definition derived :: "'s \<Rightarrow> 's \<Rightarrow> bool" where
  "derived s s' \<longleftrightarrow> (\<forall>i x'. entry s' i = Some x' \<longrightarrow>
     (\<exists>x. entry s i = Some x \<and> s_Email x = s_Email x' \<and> (s_TwoFADone x' \<longrightarrow> s_TwoFADone x)))"

lemma derived_refl: "derived s s"
  by (simp add: derived_def)

lemma derived_trans: "derived s s1 \<Longrightarrow> derived s1 s2 \<Longrightarrow> derived s s2"
  unfolding derived_def by (metis (no_types, lifting))

lemma derived_get: "derived s (fst (get now s i))"
proof -
  obtain s' r where eq: "get now s i = (s', r)" by fastforce
  show ?thesis
  proof (cases r)
    case None
    with eq get_none [of now s i s'] show ?thesis
      by (auto simp: derived_def split: if_splits)
  next
    case (Some x)
    with eq get_entry [of now s i s' x] show ?thesis
      by (auto simp: derived_def split: if_splits)
  qed
qed

lemma derived_del: "derived s (del s i)"
  by (simp add: derived_def del_entry)

lemma get_after_del: "get now (del s i) i = (s', r) \<Longrightarrow> r = None"
  by (cases r) (auto simp: del_entry dest: get_entry)

end

lemma MemoryStore_Create:
  assumes "Create now (Some i) s e p = (s', r)"
  shows "r = Some \<lparr>s_ID = i, s_Email = e, s_Provider = p, s_TwoFADone = False,
                   s_CreatedAt = now, s_LastSeen = now\<rparr> \<and> ms_m s' = (ms_m s)(i := r)"
  using assms by (auto simp: Create_def Let_def)

interpretation mem: session_store Create Get Complete2FA Delete ms_m
proof
  fix now s i s' x
  assume "Get now s i = (s', Some x)"
  then show "\<exists>x0. ms_m s i = Some x0 \<and> x = x0\<lparr>s_LastSeen := now\<rparr> \<and> ms_m s' = (ms_m s)(i \<mapsto> x)"
    by (auto simp: Get_def Let_def split: option.splits if_splits)
next
  fix now s i s'
  assume "Get now s i = (s', None)"
  then show "ms_m s' = ms_m s \<or> ms_m s' = (ms_m s)(i := None)"
    by (auto simp: Get_def Let_def split: option.splits if_splits)
qed (auto simp: Create_def Complete2FA_def Delete_def Let_def dest: MemoryStore_Create split: option.splits)


section \<open>Properties\<close>

text \<open>
  A lookup finds exactly the stored sessions that are inside both windows, the absolute one
  since their creation and the idle one since they were last seen, and stamps them with the
  time of the lookup.
\<close>

theorem Get_live:
  "snd (Get now s sid) = Some x \<longleftrightarrow> sid \<noteq> '''' \<and>
     (\<exists>x0. ms_m s sid = Some x0 \<and> x = x0\<lparr>s_LastSeen := now\<rparr> \<and>
        (ms_ttl s \<le> 0 \<or> now \<le> s_CreatedAt x0 + ms_ttl s) \<and>
        (ms_idle s \<le> 0 \<or> now \<le> s_LastSeen x0 + ms_idle s))"
  by (auto simp: Get_def expired_def Let_def split: option.split)



end
