(* ===== verification/Otp.thy ===== *)
theory Otp
  imports Prelude
begin

text \<open>
  The one-time login codes of auth/otp.go.  Times are integers (any unit), SHA-256 is the
  argument \<open>sha256\<close>, and the cryptographic random source is the argument \<open>draws\<close>: the i-th call
  of \<open>crand.Int\<close> gives a number below ten or fails (\<open>None\<close>).  \<open>None\<close> of \<open>Issue\<close> is the panic
  of the slice expression in \<open>randomDigits\<close>.
\<close>

record otpEntry =
  oe_hash :: string
  oe_issued :: int
  oe_expires :: int

record OTPStore =
  otps_codes :: "string \<Rightarrow> otpEntry option"
  otps_ttl :: int
  otps_cooldown :: int
  otps_length :: int

definition NewOTPStore :: "int \<Rightarrow> int \<Rightarrow> int \<Rightarrow> OTPStore" where
  "NewOTPStore ttl cooldown len =
     \<lparr>otps_codes = Map.empty, otps_ttl = ttl, otps_cooldown = cooldown,
      otps_length = (if len < 4 then 6 else len)\<rparr>"

definition hex_digit :: "nat \<Rightarrow> char" where
  "hex_digit d = (if d < 10 then char_of (48 + d) else char_of (87 + d))"

definition hex_EncodeToString :: "bytes \<Rightarrow> string" where
  "hex_EncodeToString bs = concat (map (\<lambda>b. [hex_digit (of_char b div 16), hex_digit (of_char b mod 16)]) bs)"

definition hashCode :: "(bytes \<Rightarrow> bytes) \<Rightarrow> string \<Rightarrow> string" where
  "hashCode sha256 code = hex_EncodeToString (sha256 (''xtk-otp:'' @ code))"

fun draw_digits :: "(nat \<Rightarrow> nat option) \<Rightarrow> nat \<Rightarrow> nat \<Rightarrow> string option" where
  "draw_digits draws i 0 = Some []"
| "draw_digits draws i (Suc n) =
     (case draws i of
        None \<Rightarrow> None
      | Some k \<Rightarrow> map_option ((#) (''0123456789'' ! k)) (draw_digits draws (Suc i) n))"

definition marker :: string where
  "marker = ''----------''"

text \<open>The result of \<open>randomDigits\<close>; \<open>None\<close> when slicing the marker beyond its length panics.\<close>

definition randomDigits :: "(nat \<Rightarrow> nat option) \<Rightarrow> int \<Rightarrow> string option" where
  "randomDigits draws n =
     (case draw_digits draws 0 (nat n) of
        Some s \<Rightarrow> Some s
      | None \<Rightarrow> if nat n \<le> length marker then Some (take (nat n) marker) else None)"

definition Issue :: "(bytes \<Rightarrow> bytes) \<Rightarrow> int \<Rightarrow> (nat \<Rightarrow> nat option) \<Rightarrow> string \<Rightarrow> OTPStore
    \<Rightarrow> ((string \<times> bool) \<times> OTPStore) option" where
  "Issue sha256 now draws email s =
     (if (case otps_codes s email of None \<Rightarrow> False | Some e \<Rightarrow> now - oe_issued e < otps_cooldown s)
      then Some (('''', False), s)
      else (case randomDigits draws (otps_length s) of
              None \<Rightarrow> None
            | Some code \<Rightarrow>
                Some ((code, True),
                  s\<lparr>otps_codes := (otps_codes s)(email \<mapsto>
                      \<lparr>oe_hash = hashCode sha256 code, oe_issued = now, oe_expires = now + otps_ttl s\<rparr>)\<rparr>)))"

definition Verify :: "(bytes \<Rightarrow> bytes) \<Rightarrow> int \<Rightarrow> string \<Rightarrow> string \<Rightarrow> OTPStore \<Rightarrow> bool \<times> OTPStore" where
  "Verify sha256 now email code s =
     (case otps_codes s email of
        None \<Rightarrow> (False, s)
      | Some e \<Rightarrow>
          if now > oe_expires e then (False, s)
          else if oe_hash e \<noteq> hashCode sha256 code then (False, s)
          else (True, s\<lparr>otps_codes := (otps_codes s)(email := None)\<rparr>))"

subsection \<open>Lemmas\<close>

text \<open>The codes a store would accept for an email at a time.\<close>

definition accepts :: "(bytes \<Rightarrow> bytes) \<Rightarrow> int \<Rightarrow> OTPStore \<Rightarrow> string \<Rightarrow> string \<Rightarrow> bool" where
  "accepts sha256 now s email code =
     (case otps_codes s email of
        None \<Rightarrow> False
      | Some e \<Rightarrow> now \<le> oe_expires e \<and> oe_hash e = hashCode sha256 code)"

lemma Verify_accepts: "fst (Verify sha256 now email code s) = accepts sha256 now s email code"
  by (simp add: Verify_def accepts_def split: option.splits)

lemma Verify_reject: "\<not> accepts sha256 now s email code \<Longrightarrow> snd (Verify sha256 now email code s) = s"
  by (auto simp: Verify_def accepts_def split: option.splits)

lemma Verify_consumes:
  "accepts sha256 now s email code \<Longrightarrow>
   snd (Verify sha256 now email code s) = s\<lparr>otps_codes := (otps_codes s)(email := None)\<rparr>"
  by (auto simp: Verify_def accepts_def split: option.splits)

lemma draw_digits_digits:
  "draw_digits draws i n = Some s \<Longrightarrow> \<forall>i k. draws i = Some k \<longrightarrow> k < 10 \<Longrightarrow>
   length s = n \<and> list_all is_digit s"
proof (induction draws i n arbitrary: s rule: draw_digits.induct)
  case (1 draws i)
  then show ?case by simp
next
  case (2 draws i n)
  then obtain k s' where k: "draws i = Some k" and s': "draw_digits draws (Suc i) n = Some s'"
    and s: "s = ''0123456789'' ! k # s'"
    by (auto split: option.splits)
  have "k < 10" using k 2 by blast
  then have "is_digit (''0123456789'' ! k)"
    by (auto simp: less_Suc_eq numeral_eq_Suc nth_Cons' is_digit_iff)
  with 2 k s s' show ?case by auto
qed

lemma draw_digits_total: "(\<forall>i. draws i \<noteq> None) \<Longrightarrow> draw_digits draws i n \<noteq> None"
  by (induction n arbitrary: i) (auto split: option.splits)

text \<open>The interface the login handlers use: verification attempts against pending codes.\<close>

locale one_time_codes =
  fixes verify :: "int \<Rightarrow> string \<Rightarrow> string \<Rightarrow> 's \<Rightarrow> bool \<times> 's"
    and ok :: "int \<Rightarrow> 's \<Rightarrow> string \<Rightarrow> string \<Rightarrow> bool"
  assumes verify_result: "fst (verify t e c s) = ok t s e c"
    and reject_keeps: "\<not> ok t s e c \<Longrightarrow> snd (verify t e c s) = s"
    and accept_consumes: "ok t s e c \<Longrightarrow> \<not> ok t' (snd (verify t e c s)) e c'"
    and accept_others: "e' \<noteq> e \<Longrightarrow> ok t' (snd (verify t e c s)) e' c' = ok t' s e' c'"
begin

text \<open>A run of attempts \<open>(time, email, code)\<close> and the list of their results.\<close>

fun attempts :: "(int \<times> string \<times> string) list \<Rightarrow> 's \<Rightarrow> bool list \<times> 's" where
  "attempts [] s = ([], s)"
| "attempts ((t, e, c) # as) s =
     (let (r, s') = verify t e c s; (rs, s'') = attempts as s' in (r # rs, s''))"

lemma dead_stays_dead:
  assumes "\<And>t c. \<not> ok t s e c"
  shows "\<not> ok t (snd (verify t' e' c' s)) e c"
  using assms accept_others [of e e'] reject_keeps by (metis (no_types))

lemma dead_never_accepted:
  "(\<And>t c. \<not> ok t s e c) \<Longrightarrow>
   length (filter (\<lambda>(a, r). r \<and> fst (snd a) = e) (zip as (fst (attempts as s)))) = 0"
proof (induction as arbitrary: s)
  case Nil
  then show ?case by simp
next
  case (Cons a as)
  obtain t e' c where a: "a = (t, e', c)" by (cases a)
  obtain r s' where v: "verify t e' c s = (r, s')" by (cases "verify t e' c s")
  have "\<And>t c. \<not> ok t s' e c"
    using dead_stays_dead [of s e, OF Cons.prems] v by (metis snd_conv)
  with Cons.IH have "length (filter (\<lambda>(a, r). r \<and> fst (snd a) = e) (zip as (fst (attempts as s')))) = 0" .
  moreover have "r \<Longrightarrow> e' \<noteq> e"
    using verify_result [of t e' c s] v Cons.prems by auto
  ultimately show ?case using a v by (auto simp: case_prod_unfold Let_def)
qed

lemma at_most_once:
  "length (filter (\<lambda>(a, r). r \<and> fst (snd a) = e) (zip as (fst (attempts as s)))) \<le> 1"
proof (induction as arbitrary: s)
  case Nil
  then show ?case by simp
next
  case (Cons a as)
  obtain t e' c where a: "a = (t, e', c)" by (cases a)
  obtain r s' where v: "verify t e' c s = (r, s')" by (cases "verify t e' c s")
  show ?case
  proof (cases "r \<and> e' = e")
    case True
    then have "ok t s e c" using verify_result [of t e' c s] v by simp
    then have "\<And>t' c'. \<not> ok t' s' e c'"
      using accept_consumes v True by (metis snd_conv)
    then have "length (filter (\<lambda>(a, r). r \<and> fst (snd a) = e) (zip as (fst (attempts as s')))) = 0"
      by (rule dead_never_accepted)
    then show ?thesis using a v by (simp add: case_prod_unfold Let_def)
  next
    case False
    with Cons.IH [of s'] a v show ?thesis by (auto simp: case_prod_unfold Let_def)
  qed
qed

end

interpretation otp: one_time_codes "Verify sha256" "accepts sha256" for sha256
proof unfold_locales
  show "fst (Verify sha256 t e c s) = accepts sha256 t s e c" for t e c s
    by (rule Verify_accepts)
  show "\<not> accepts sha256 t s e c \<Longrightarrow> snd (Verify sha256 t e c s) = s" for t e c s
    by (rule Verify_reject)
  show "accepts sha256 t s e c \<Longrightarrow> \<not> accepts sha256 t' (snd (Verify sha256 t e c s)) e c'" for t t' e c c' s
    by (simp add: Verify_consumes) (simp add: accepts_def)
  show "e' \<noteq> e \<Longrightarrow> accepts sha256 t' (snd (Verify sha256 t e c s)) e' c' = accepts sha256 t' s e' c'"
    for t t' e e' c c' s
    by (cases "accepts sha256 t s e c") (simp_all add: Verify_consumes Verify_reject accepts_def)
qed

lemma Issue_accepts:
  "Issue sha256 now draws email s = Some ((code, True), s') \<Longrightarrow>
   accepts sha256 t s' email c \<longleftrightarrow> t \<le> now + otps_ttl s \<and> hashCode sha256 c = hashCode sha256 code"
  by (auto simp: Issue_def accepts_def split: option.splits if_splits)

lemma Issue_cooldown:
  assumes "Issue sha256 now draws email s = Some ((code, True), s')" "now' - now < otps_cooldown s"
  shows "Issue sha256 now' draws' email s' = Some (('''', False), s')"
  using assms by (auto simp: Issue_def split: option.splits if_splits)

lemma Issue_other: "Issue sha256 now draws email s = Some (r, s') \<Longrightarrow> e \<noteq> email \<Longrightarrow> otps_codes s' e = otps_codes s e"
  by (auto simp: Issue_def split: option.splits if_splits)


section \<open>Properties\<close>

text \<open>The verification attempts of a run, with their results.\<close>

fun verify_all :: "(bytes \<Rightarrow> bytes) \<Rightarrow> (int \<times> string \<times> string) list \<Rightarrow> OTPStore \<Rightarrow> bool list \<times> OTPStore" where
  "verify_all sha256 [] s = ([], s)"
| "verify_all sha256 ((t, e, c) # as) s =
     (let (r, s') = Verify sha256 t e c s; (rs, s'') = verify_all sha256 as s' in (r # rs, s''))"

lemma verify_all_attempts: "verify_all sha256 as s = otp.attempts sha256 as s"
proof (induction as arbitrary: s)
  case (Cons a as)
  obtain t e c where "a = (t, e, c)" by (cases a)
  then show ?case by (simp add: Cons.IH otp.attempts.simps [of sha256])
qed (simp add: otp.attempts.simps [of sha256])

text \<open>
  C22: without a new code being issued, at most one of any sequence of verification attempts for
  an email succeeds: a code is good for one login.
\<close>

theorem code_single_use:
  "length (filter (\<lambda>(a, r). r \<and> fst (snd a) = email) (zip as (fst (verify_all sha256 as s)))) \<le> 1"
  unfolding verify_all_attempts by (rule otp.at_most_once)

text \<open>
  The code that \<open>Issue\<close> hands out verifies until its expiry and not after; any other code
  verifies only if it has the same salted hash.
\<close>

theorem Issue_Verify:
  assumes "Issue sha256 now draws email s = Some ((code, True), s')"
  shows "fst (Verify sha256 t email c s') \<longleftrightarrow> t \<le> now + otps_ttl s \<and> hashCode sha256 c = hashCode sha256 code"
  using Issue_accepts [OF assms] by (simp add: Verify_accepts)

theorem Issue_Verify_witness:
  "\<exists>s'. Issue (\<lambda>b. b) 100 (\<lambda>i. Some i) ''e'' (NewOTPStore 600 60 6) = Some ((''012345'', True), s') \<and>
        fst (Verify (\<lambda>b. b) 700 ''e'' ''012345'' s') \<and> \<not> fst (Verify (\<lambda>b. b) 701 ''e'' ''012345'' s')"
proof -
  obtain s' where s': "Issue (\<lambda>b. b) 100 (\<lambda>i. Some i) ''e'' (NewOTPStore 600 60 6) = Some ((''012345'', True), s')"
    by (simp add: Issue_def NewOTPStore_def randomDigits_def eval_nat_numeral)
  with Issue_Verify [OF s'] show ?thesis by (simp add: NewOTPStore_def)
qed

text \<open>
  Within the cooldown of an issued code a further request for the same email issues
  nothing and leaves the store as it is.
\<close>

theorem Issue_within_cooldown:
  assumes "Issue sha256 now draws email s = Some ((code, True), s')" "now' - now < otps_cooldown s"
  shows "Issue sha256 now' draws' email s' = Some (('''', False), s')"
  by (rule Issue_cooldown [OF assms])

theorem Issue_within_cooldown_witness:
  "\<exists>s'. Issue (\<lambda>b. b) 100 (\<lambda>i. Some 7) ''e'' (NewOTPStore 600 60 4) = Some ((''7777'', True), s') \<and>
        Issue (\<lambda>b. b) 159 (\<lambda>i. Some 1) ''e'' s' = Some (('''', False), s')"
proof -
  obtain s' where s': "Issue (\<lambda>b. b) 100 (\<lambda>i. Some 7) ''e'' (NewOTPStore 600 60 4) = Some ((''7777'', True), s')"
    by (simp add: Issue_def NewOTPStore_def randomDigits_def eval_nat_numeral)
  with Issue_within_cooldown [OF s', of 159 "\<lambda>i. Some 1"] show ?thesis by (simp add: NewOTPStore_def)
qed

text \<open>
  A code issued while the random source fails is the marker of \<open>randomDigits\<close>: it is stored like
  any other, so the fixed string is accepted as a login code.
\<close>

theorem marker_accepted:
  "Issue sha256 now (\<lambda>_. None) email (NewOTPStore ttl cooldown 6) = Some ((''------'', True), s') \<and>
   fst (Verify sha256 now email ''------'' s') \<longleftrightarrow>
   s' = (NewOTPStore ttl cooldown 6)\<lparr>otps_codes := [email \<mapsto>
     \<lparr>oe_hash = hashCode sha256 ''------'', oe_issued = now, oe_expires = now + ttl\<rparr>]\<rparr> \<and> 0 \<le> ttl"
  by (auto simp: Issue_def NewOTPStore_def randomDigits_def marker_def eval_nat_numeral Verify_def split: if_splits)

end
