(* ===== verification/Totp.thy ===== *)
theory Totp
  imports Encoding "HOL-Library.Word"
begin

text \<open>
  Time-based one-time passwords of auth/totp.go and the secrets of auth/secret.go.  The step
  counter is a 64-bit word and the truncated code a 32-bit word, as in the code.  HMAC-SHA-1 is
  the argument \<open>hmac\<close>, of which the code relies on the length of its output only.
\<close>

unbundle bit_operations_syntax

definition totpStep :: "64 word" where
  "totpStep = 30"

definition PutUint64 :: "64 word \<Rightarrow> bytes" where
  "PutUint64 w = nats_bytes (to_digits 256 8 (unat w))"

definition byte_word :: "char \<Rightarrow> 32 word" where
  "byte_word c = word_of_nat (of_char c)"

text \<open>\<open>fmt.Sprintf("%06d", n)\<close>\<close>

definition format06 :: "nat \<Rightarrow> string" where
  "format06 n = replicate (6 - length (dec_str n)) CHR ''0'' @ dec_str n"

definition hotp :: "(bytes \<Rightarrow> bytes \<Rightarrow> bytes) \<Rightarrow> bytes \<Rightarrow> 64 word \<Rightarrow> string" where
  "hotp hmac key counter =
     (let sum = hmac key (PutUint64 counter);
          off = unat (byte_word (sum ! (length sum - 1)) AND 0x0f);
          v = push_bit 24 (byte_word (sum ! off) AND 0x7f)
                OR push_bit 16 (byte_word (sum ! (off + 1)))
                OR push_bit 8 (byte_word (sum ! (off + 2)))
                OR byte_word (sum ! (off + 3))
      in format06 (unat (v mod 1000000)))"

definition step_counter :: "int \<Rightarrow> 64 word" where
  "step_counter t = word_of_int t div totpStep"

definition VerifyTOTP :: "(bytes \<Rightarrow> bytes \<Rightarrow> bytes) \<Rightarrow> string \<Rightarrow> string \<Rightarrow> int \<Rightarrow> bool" where
  "VerifyTOTP hmac secret code t =
     (case base32_DecodeString (ToUpper (TrimSpace secret)) of
        None \<Rightarrow> False
      | Some key \<Rightarrow>
          key \<noteq> [] \<and>
          (let code' = TrimSpace code; counter = step_counter t in
           list_ex (\<lambda>d. hotp hmac key (counter + d) = code') [- 1, 0, 1]))"

text \<open>\<open>NewTOTPSecret\<close>: the argument is what the random source delivers.\<close>

definition NewTOTPSecret :: "bytes option \<Rightarrow> string option" where
  "NewTOTPSecret random = map_option (\<lambda>b. base32_EncodeToString b) random"

subsection \<open>Lemmas\<close>

lemma dec_str_length: "n < 10 ^ k \<Longrightarrow> 0 < k \<Longrightarrow> length (dec_str n) \<le> k"
proof (induction k arbitrary: n)
  case 0
  then show ?case by simp
next
  case (Suc k)
  show ?case
  proof (cases "n < 10")
    case True
    then show ?thesis by (simp add: dec_str.simps [of n])
  next
    case False
    with Suc.prems have "n div 10 < 10 ^ k" by (simp add: less_mult_imp_div_less mult.commute)
    moreover have "0 < k" using False Suc.prems by (cases k) simp_all
    ultimately have "length (dec_str (n div 10)) \<le> k" by (rule Suc.IH)
    with False show ?thesis by (simp add: dec_str.simps [of n])
  qed
qed

lemma format06_shape:
  assumes "n < 1000000"
  shows "length (format06 n) = 6 \<and> list_all is_digit (format06 n)"
proof -
  have "length (dec_str n) \<le> 6" using dec_str_length [of n 6] assms by simp
  moreover have "is_digit CHR ''0''" by (simp add: is_digit_def)
  moreover have "\<forall>c \<in> set (dec_str n). is_digit c" using dec_str_digits by (simp add: list_all_iff)
  ultimately show ?thesis by (auto simp: format06_def list_all_iff)
qed

lemma hotp_shape: "length (hotp hmac key c) = 6 \<and> list_all is_digit (hotp hmac key c)"
proof -
  have "unat (v mod 1000000) < 1000000" for v :: "32 word"
    by (simp add: unat_mod unat_eq_nat_uint [symmetric])
  then show ?thesis by (simp add: hotp_def Let_def format06_shape)
qed

lemma step_counter_nonneg:
  assumes "0 \<le> t" "t < 2 ^ 63"
  shows "step_counter t = word_of_int (t div 30)"
proof -
  have "uint (word_of_int t :: 64 word) = t"
    using assms by (simp add: uint_word_of_int)
  then have "uint (step_counter t) = t div 30"
    by (simp add: step_counter_def totpStep_def uint_div)
  then show ?thesis by (metis word_of_int_uint)
qed

lemma is_digit_not_space: "is_digit c \<Longrightarrow> \<not> is_space c"
  by (auto simp: is_digit_iff is_space_def)

lemma secret_decodes:
  assumes "length b = 20" "NewTOTPSecret (Some b) = Some secret"
  shows "base32_DecodeString (ToUpper (TrimSpace secret)) = Some b"
proof -
  have s: "secret = base32_EncodeToString b" using assms(2) by (simp add: NewTOTPSecret_def)
  have "TrimSpace secret = secret"
    unfolding s using base32_encoded_chars by (intro TrimSpace_none) auto
  moreover have "ToUpper secret = secret"
    unfolding s ToUpper_def using base32_encoded_chars by (intro map_idI) auto
  ultimately show ?thesis
    using assms(1) by (simp add: s base32_roundtrip)
qed

text \<open>Adjacent time steps have adjacent counters.\<close>

lemma step_counter_near:
  assumes "30 \<le> t0" "30 \<le> t" "t0 < 2 ^ 62" "\<bar>t - t0\<bar> \<le> 30"
  shows "\<exists>d \<in> {- 1, 0, 1}. step_counter t0 = step_counter t + d"
proof -
  have "t0 div 30 = t div 30 - 1 \<or> t0 div 30 = t div 30 \<or> t0 div 30 = t div 30 + 1"
    using assms(4) by linarith
  then obtain d where d: "d \<in> {- 1, 0, 1}" "t0 div 30 = t div 30 + d" by fastforce
  have "step_counter t0 = word_of_int (t0 div 30)" "step_counter t = word_of_int (t div 30)"
    using assms by (simp_all add: step_counter_nonneg abs_le_iff)
  then have "step_counter t0 = step_counter t + word_of_int d"
    by (simp only: d(2) of_int_add)
  then show ?thesis using d(1) by auto
qed


section \<open>Properties\<close>

text \<open>
  C23: a freshly enrolled secret accepts the code an authenticator computes from it at any time
  within thirty seconds of the server's clock.
\<close>

theorem TOTP_enrolled:
  assumes "length b = 20" "NewTOTPSecret (Some b) = Some secret"
    and "30 \<le> t0" "30 \<le> t" "t0 < 2 ^ 62" "\<bar>t - t0\<bar> \<le> 30"
  shows "VerifyTOTP hmac secret (hotp hmac b (step_counter t0)) t"
proof -
  have "TrimSpace (hotp hmac b c) = hotp hmac b c" for c
    using hotp_shape [of hmac b c] by (intro TrimSpace_none) (auto simp: list_all_iff dest: is_digit_not_space)
  moreover obtain d where "d \<in> {- 1, 0, 1}" "step_counter t0 = step_counter t + d"
    using step_counter_near [OF assms(3-6)] by blast
  moreover have "b \<noteq> []" using assms(1) by auto
  ultimately show ?thesis
    using secret_decodes [OF assms(1,2)] by (auto simp: VerifyTOTP_def Let_def)
qed

theorem TOTP_enrolled_witness:
  "VerifyTOTP (\<lambda>k m. replicate 20 CHR ''x'') (base32_EncodeToString (replicate 20 CHR ''k''))
     (hotp (\<lambda>k m. replicate 20 CHR ''x'') (replicate 20 CHR ''k'') (step_counter 1700000000)) 1700000030"
  by (rule TOTP_enrolled [of "replicate 20 CHR ''k''" _ 1700000000 1700000030]) (simp_all add: NewTOTPSecret_def)

text \<open>Whatever the stored secret and the clock, an accepted code is six decimal digits.\<close>

theorem TOTP_six_digits:
  assumes "VerifyTOTP hmac secret code t"
  shows "length (TrimSpace code) = 6 \<and> list_all is_digit (TrimSpace code)"
proof -
  obtain key c where "hotp hmac key c = TrimSpace code"
    using assms by (auto simp: VerifyTOTP_def Let_def split: option.splits)
  then show ?thesis using hotp_shape [of hmac key c] by simp
qed

theorem TOTP_six_digits_witness:
  "length (TrimSpace (hotp (\<lambda>k m. replicate 20 CHR ''x'') (replicate 20 CHR ''k'') (step_counter 1700000000))) = 6"
proof -
  have "VerifyTOTP (\<lambda>k m. replicate 20 CHR ''x'') (base32_EncodeToString (replicate 20 CHR ''k''))
      (hotp (\<lambda>k m. replicate 20 CHR ''x'') (replicate 20 CHR ''k'') (step_counter 1700000000)) 1700000000"
    using secret_decodes [of "replicate 20 CHR ''k''"] hotp_shape
    by (auto simp: VerifyTOTP_def NewTOTPSecret_def Let_def TrimSpace_none list_all_iff is_digit_not_space)
  then show ?thesis using TOTP_six_digits by blast
qed

end
