(* ===== verification/Validate.thy ===== *)
theory Validate
  imports Models
begin

text \<open>
  Configuration loading checks: the \<open>${VAR:-default}\<close> expansion of config/expand.go and the
  validation of config/validate.go, with one error constructor per message.  At the end the
  nested loops of \<open>Validate\<close> are shown equivalent to a declarative description of a valid
  bundle.
\<close>

subsection \<open>Environment expansion\<close>

type_synonym env = "string \<Rightarrow> string option"

definition resolveExpr :: "string \<Rightarrow> env \<Rightarrow> string" where
  "resolveExpr expr lookup =
     (let (name, def, hasDef) =
            (case Index expr '':-'' of
               Some i \<Rightarrow> (take i expr, drop (i + 2) expr, True)
             | None \<Rightarrow> (expr, '''', False))
      in case lookup name of
           Some v \<Rightarrow> if v \<noteq> '''' then v else if hasDef then def else ''''
         | None \<Rightarrow> if hasDef then def else '''')"

text \<open>The loop index of the code is the length of what is already consumed.\<close>

function expandEnv :: "string \<Rightarrow> env \<Rightarrow> string" where
  "expandEnv s lookup =
     (case s of
        [] \<Rightarrow> []
      | c # s' \<Rightarrow>
          (if c = CHR ''$'' \<and> s' \<noteq> [] \<and> hd s' = CHR ''{'' then
             (case IndexByte (tl s') CHR ''}'' of
                Some k \<Rightarrow> resolveExpr (take k (tl s')) lookup @ expandEnv (drop (Suc k) (tl s')) lookup
              | None \<Rightarrow> c # expandEnv s' lookup)
           else c # expandEnv s' lookup))"
  by pat_completeness auto
termination expandEnv
  by (relation "measure (\<lambda>(s, _). length s)") (auto split: list.splits)

declare expandEnv.simps [simp del]

lemma expandEnv_step:
  "c \<noteq> CHR ''$'' \<Longrightarrow> expandEnv (c # s) lookup = c # expandEnv s lookup"
  by (simp add: expandEnv.simps [of "c # s"])

lemma expandEnv_append: "CHR ''$'' \<notin> set s \<Longrightarrow> expandEnv (s @ t) lookup = s @ expandEnv t lookup"
proof (induction s)
  case Nil
  then show ?case by simp
next
  case (Cons c s)
  then have "c \<noteq> CHR ''$''" by auto
  with Cons show ?case by (simp add: expandEnv_step)
qed

lemma expandEnv_plain: "CHR ''$'' \<notin> set s \<Longrightarrow> expandEnv s lookup = s"
  using expandEnv_append [of s "[]"] by (simp add: expandEnv.simps [of "[]"])

lemma expandEnv_ref:
  assumes "CHR ''}'' \<notin> set expr"
  shows "expandEnv (''${'' @ expr @ CHR ''}'' # t) lookup = resolveExpr expr lookup @ expandEnv t lookup"
proof -
  have tw: "takeWhile (\<lambda>x. x \<noteq> CHR ''}'') (expr @ CHR ''}'' # t) = expr"
    using assms by (subst takeWhile_append2) auto
  have "IndexByte (expr @ CHR ''}'' # t) CHR ''}'' = Some (length expr)"
    by (simp add: IndexByte_def tw)
  then show ?thesis by (simp add: expandEnv.simps [of "CHR ''$'' # _"])
qed

subsection \<open>Validation\<close>

record Bundle =
  bd_Config :: Config
  bd_Secrets :: Secrets
  bd_Users :: Users
  bd_Services :: Services

datatype verr =
    ListenRequired
  | TLSModeInvalid string
  | ACMERequiresURL
  | SessionStoreInvalid string
  | InvalidCIDR string string
  | ProviderIDRequired nat
  | DuplicateProvider string
  | ProviderTypeInvalid nat string
  | IssuerRequired nat string
  | ClientIDRequired nat string
  | AuthModeNeedsProvider
  | IDRequired string nat
  | DuplicateID string
  | HostRequired string nat
  | RuleInvalid string string nat string
  | UpstreamInvalid string string nat string
  | LinkURLRequired string
  | MonitorIDRequired nat
  | MonitorURLRequired string
  | EmailRequired nat
  | ProviderUnknown string string
  | PasswordHashRequired string
  | UnknownService string string

datatype upstream_error = WantHostPort | InvalidPort

definition validRules :: "string \<Rightarrow> bool" where
  "validRules r \<longleftrightarrow> r \<in> {''public'', ''authenticated'', ''authorized'', ''whitelist''}"

definition validTLSModes :: "string \<Rightarrow> bool" where
  "validTLSModes m \<longleftrightarrow> m \<in> {''external'', ''acme'', ''selfsigned''}"

definition validStores :: "string \<Rightarrow> bool" where
  "validStores s \<longleftrightarrow> s \<in> {''sqlite'', ''memory'', ''file''}"

definition validateUpstreamPort :: "string \<Rightarrow> upstream_error option" where
  "validateUpstreamPort upstream =
     (let s1 = (case Index upstream ''://'' of Some i \<Rightarrow> drop (i + 3) upstream | None \<Rightarrow> upstream);
          s2 = (case IndexByte s1 CHR ''/'' of Some i \<Rightarrow> take i s1 | None \<Rightarrow> s1)
      in case SplitHostPort s2 of
           None \<Rightarrow> Some WantHostPort
         | Some (host, port) \<Rightarrow>
             if host = '''' then Some WantHostPort
             else (let (n, ok) = Atoi port in
               if \<not> ok \<or> n < 1 \<or> n > 65535 then Some InvalidPort else None))"

definition check_cidr :: "string \<Rightarrow> string \<Rightarrow> verr option" where
  "check_cidr scope cidr = fail_if (ParseCIDR cidr = None) (InvalidCIDR scope cidr)"

text \<open>The provider loop: the ids seen and the number of enabled providers.\<close>

fun check_providers :: "nat \<Rightarrow> string list \<Rightarrow> nat \<Rightarrow> ProviderCfg list \<Rightarrow> verr + (string list \<times> nat)" where
  "check_providers i seen enabled [] = Inr (seen, enabled)"
| "check_providers i seen enabled (p # ps) =
     (case first_err [
        fail_if (prv_ID p = '''') (ProviderIDRequired i),
        fail_if (prv_ID p \<in> set seen) (DuplicateProvider (prv_ID p)),
        fail_if (prv_Type p \<noteq> ''oidc'' \<and> prv_Type p \<noteq> ''local'') (ProviderTypeInvalid i (prv_Type p)),
        fail_if (prv_Enabled p \<and> prv_Type p = ''oidc'' \<and> TrimSpace (prv_Issuer p) = '''')
          (IssuerRequired i (prv_ID p)),
        fail_if (prv_Enabled p \<and> prv_Type p = ''oidc'' \<and> TrimSpace (prv_ClientID p) = '''')
          (ClientIDRequired i (prv_ID p))] of
        Some e \<Rightarrow> Inl e
      | None \<Rightarrow> check_providers (Suc i) (prv_ID p # seen) (if prv_Enabled p then Suc enabled else enabled) ps)"

definition check_route :: "string \<Rightarrow> string \<Rightarrow> nat \<Rightarrow> Route \<Rightarrow> verr option" where
  "check_route scope beid j r =
     first_err [
       fail_if (\<not> validRules (rt_Rule r)) (RuleInvalid scope beid j (rt_Rule r)),
       fail_if (validateUpstreamPort (rt_Upstream r) \<noteq> None) (UpstreamInvalid scope beid j (rt_Upstream r))]"

text \<open>The closure \<open>checkBackend\<close>, with the set of ids it extends passed through.\<close>

definition checkBackend :: "string \<Rightarrow> nat \<Rightarrow> Backend \<Rightarrow> string list \<Rightarrow> verr + string list" where
  "checkBackend scope i be ids =
     (case first_err [
        fail_if (be_ID be = '''') (IDRequired scope i),
        fail_if (be_ID be \<in> set ids) (DuplicateID (be_ID be)),
        fail_if (be_Host be = '''') (HostRequired scope i),
        each_err (check_route scope (be_ID be)) 0 (be_Routes be),
        each_err (\<lambda>j. check_cidr scope) 0 (be_IPAllow be)] of
        Some e \<Rightarrow> Inl e
      | None \<Rightarrow> Inr (be_ID be # ids))"

fun check_backends :: "string \<Rightarrow> nat \<Rightarrow> string list \<Rightarrow> Backend list \<Rightarrow> verr + string list" where
  "check_backends scope i ids [] = Inr ids"
| "check_backends scope i ids (be # bes) =
     (case checkBackend scope i be ids of
        Inl e \<Rightarrow> Inl e
      | Inr ids' \<Rightarrow> check_backends scope (Suc i) ids' bes)"

fun check_links :: "nat \<Rightarrow> string list \<Rightarrow> Link list \<Rightarrow> verr + string list" where
  "check_links i ids [] = Inr ids"
| "check_links i ids (l # ls) =
     (case first_err [
        fail_if (ln_ID l = '''') (IDRequired ''services.links'' i),
        fail_if (ln_ID l \<in> set ids) (DuplicateID (ln_ID l)),
        fail_if (ln_URL l = '''') (LinkURLRequired (ln_ID l))] of
        Some e \<Rightarrow> Inl e
      | None \<Rightarrow> check_links (Suc i) (ln_ID l # ids) ls)"

definition check_monitor :: "nat \<Rightarrow> Monitor \<Rightarrow> verr option" where
  "check_monitor i m =
     first_err [
       fail_if (mo_ID m = '''') (MonitorIDRequired i),
       fail_if (mo_URL m = '''') (MonitorURLRequired (mo_ID m))]"

definition check_user :: "string list \<Rightarrow> string list \<Rightarrow> nat \<Rightarrow> User \<Rightarrow> verr option" where
  "check_user providerIDs allowedIDs i u =
     first_err [
       fail_if (usr_Email u = '''') (EmailRequired i),
       fail_if (usr_Provider u \<notin> set providerIDs) (ProviderUnknown (usr_Email u) (usr_Provider u)),
       fail_if (usr_Provider u = ''local'' \<and> usr_PasswordHash u = '''') (PasswordHashRequired (usr_Email u)),
       each_err (\<lambda>j bid. fail_if (bid \<notin> set allowedIDs) (UnknownService (usr_Email u) bid)) 0 (usr_Backends u)]"

definition Validate :: "Bundle \<Rightarrow> verr option" where
  "Validate b =
     (let c = bd_Config b; svc = bd_Services b in
      case first_err [
        fail_if (srv_Listen (cfg_Server c) = '''') ListenRequired,
        fail_if (\<not> validTLSModes (tls_Mode (cfg_TLS c))) (TLSModeInvalid (tls_Mode (cfg_TLS c))),
        fail_if (tls_Mode (cfg_TLS c) = ''acme'' \<and> acme_PDNSAPIURL (tls_ACME (cfg_TLS c)) = '''') ACMERequiresURL,
        fail_if (\<not> validStores (ses_Store (cfg_Session c))) (SessionStoreInvalid (ses_Store (cfg_Session c))),
        each_err (\<lambda>j. check_cidr ''config'') 0 (adm_IPWhitelist (cfg_Admin c) @ srv_TrustedProxies (cfg_Server c))] of
        Some e \<Rightarrow> Some e
      | None \<Rightarrow>
     (case check_providers 0 [] 0 (cfg_Providers c) of
        Inl e \<Rightarrow> Some e
      | Inr (providerIDs, enabled) \<Rightarrow>
          if cfg_AuthMode c \<and> enabled = 0 then Some AuthModeNeedsProvider
          else
     (case check_backends ''config.backends'' 0 [] (cfg_Backends c) of
        Inl e \<Rightarrow> Some e
      | Inr ids1 \<Rightarrow>
     (case check_backends ''services.backends'' 0 ids1 (svc_Backends svc) of
        Inl e \<Rightarrow> Some e
      | Inr ids2 \<Rightarrow>
     (case check_links 0 ids2 (svc_Links svc) of
        Inl e \<Rightarrow> Some e
      | Inr allowedIDs \<Rightarrow>
          first_err [
            each_err (\<lambda>j. check_cidr ''services.admin_ip_whitelist'') 0 (svc_AdminIPWhitelist svc),
            each_err check_monitor 0 (svc_Monitors svc),
            each_err (check_user providerIDs allowedIDs) 0 (bd_Users b)])))))"

subsection \<open>What validation accepts\<close>

definition cidr_ok :: "string \<Rightarrow> bool" where
  "cidr_ok s \<longleftrightarrow> ParseCIDR s \<noteq> None"

definition provider_ok :: "ProviderCfg \<Rightarrow> bool" where
  "provider_ok p \<longleftrightarrow> prv_ID p \<noteq> '''' \<and> (prv_Type p = ''oidc'' \<or> prv_Type p = ''local'') \<and>
     (prv_Enabled p \<and> prv_Type p = ''oidc'' \<longrightarrow> TrimSpace (prv_Issuer p) \<noteq> '''' \<and> TrimSpace (prv_ClientID p) \<noteq> '''')"

definition route_ok :: "Route \<Rightarrow> bool" where
  "route_ok r \<longleftrightarrow> validRules (rt_Rule r) \<and> validateUpstreamPort (rt_Upstream r) = None"

definition backend_ok :: "Backend \<Rightarrow> bool" where
  "backend_ok be \<longleftrightarrow> be_ID be \<noteq> '''' \<and> be_Host be \<noteq> '''' \<and>
     (\<forall>r \<in> set (be_Routes be). route_ok r) \<and> (\<forall>c \<in> set (be_IPAllow be). cidr_ok c)"

definition link_ok :: "Link \<Rightarrow> bool" where
  "link_ok l \<longleftrightarrow> ln_ID l \<noteq> '''' \<and> ln_URL l \<noteq> ''''"

definition service_ids :: "Bundle \<Rightarrow> string list" where
  "service_ids b = map be_ID (cfg_Backends (bd_Config b)) @ map be_ID (svc_Backends (bd_Services b)) @
     map ln_ID (svc_Links (bd_Services b))"

definition user_ok :: "Bundle \<Rightarrow> User \<Rightarrow> bool" where
  "user_ok b u \<longleftrightarrow> usr_Email u \<noteq> '''' \<and> usr_Provider u \<in> prv_ID ` set (cfg_Providers (bd_Config b)) \<and>
     (usr_Provider u = ''local'' \<longrightarrow> usr_PasswordHash u \<noteq> '''') \<and>
     set (usr_Backends u) \<subseteq> set (service_ids b)"

definition server_ok :: "Config \<Rightarrow> bool" where
  "server_ok c \<longleftrightarrow> srv_Listen (cfg_Server c) \<noteq> '''' \<and> validTLSModes (tls_Mode (cfg_TLS c)) \<and>
     (tls_Mode (cfg_TLS c) = ''acme'' \<longrightarrow> acme_PDNSAPIURL (tls_ACME (cfg_TLS c)) \<noteq> '''') \<and>
     validStores (ses_Store (cfg_Session c)) \<and>
     (\<forall>x \<in> set (adm_IPWhitelist (cfg_Admin c)) \<union> set (srv_TrustedProxies (cfg_Server c)). cidr_ok x)"

text \<open>The declarative specification of a valid bundle.\<close>

definition bundle_ok :: "Bundle \<Rightarrow> bool" where
  "bundle_ok b \<longleftrightarrow>
     server_ok (bd_Config b) \<and>
     (\<forall>p \<in> set (cfg_Providers (bd_Config b)). provider_ok p) \<and>
     distinct (map prv_ID (cfg_Providers (bd_Config b))) \<and>
     (cfg_AuthMode (bd_Config b) \<longrightarrow> (\<exists>p \<in> set (cfg_Providers (bd_Config b)). prv_Enabled p)) \<and>
     (\<forall>be \<in> set (cfg_Backends (bd_Config b)) \<union> set (svc_Backends (bd_Services b)). backend_ok be) \<and>
     (\<forall>l \<in> set (svc_Links (bd_Services b)). link_ok l) \<and>
     distinct (service_ids b) \<and>
     (\<forall>x \<in> set (svc_AdminIPWhitelist (bd_Services b)). cidr_ok x) \<and>
     (\<forall>m \<in> set (svc_Monitors (bd_Services b)). mo_ID m \<noteq> '''' \<and> mo_URL m \<noteq> '''') \<and>
     (\<forall>u \<in> set (bd_Users b). user_ok b u)"

lemma check_cidr_None [simp]: "check_cidr scope s = None \<longleftrightarrow> cidr_ok s"
  by (simp add: check_cidr_def cidr_ok_def)

lemma each_cidr [simp]: "each_err (\<lambda>j. check_cidr scope) i xs = None \<longleftrightarrow> (\<forall>x \<in> set xs. cidr_ok x)"
  by (rule each_err_None) simp

lemma each_route [simp]: "each_err (check_route scope beid) i rs = None \<longleftrightarrow> (\<forall>r \<in> set rs. route_ok r)"
  by (rule each_err_None) (simp add: check_route_def first_err_None route_ok_def)

lemma each_monitor [simp]:
  "each_err check_monitor i ms = None \<longleftrightarrow> (\<forall>m \<in> set ms. mo_ID m \<noteq> '''' \<and> mo_URL m \<noteq> '''')"
  by (rule each_err_None) (simp add: check_monitor_def first_err_None)

lemma checkBackend_Inr:
  "checkBackend scope i be ids = Inr ids' \<longleftrightarrow> backend_ok be \<and> be_ID be \<notin> set ids \<and> ids' = be_ID be # ids"
  by (auto simp: checkBackend_def backend_ok_def first_err_case)

lemma check_backends_Inr:
  "check_backends scope i ids bes = Inr ids' \<longleftrightarrow>
     (\<forall>be \<in> set bes. backend_ok be) \<and> ids' = rev (map be_ID bes) @ ids \<and>
     distinct (map be_ID bes) \<and> set (map be_ID bes) \<inter> set ids = {}"
proof (induction bes arbitrary: i ids)
  case Nil
  then show ?case by auto
next
  case (Cons be bes)
  show ?case
  proof (cases "checkBackend scope i be ids")
    case (Inl e)
    then have "\<not> (backend_ok be \<and> be_ID be \<notin> set ids)"
      using checkBackend_Inr [of scope i be ids "be_ID be # ids"] by auto
    with Inl show ?thesis by auto
  next
    case (Inr ids1)
    then have "backend_ok be" "be_ID be \<notin> set ids" "ids1 = be_ID be # ids"
      by (simp_all add: checkBackend_Inr)
    with Inr Cons.IH [of "Suc i" ids1] show ?thesis by auto
  qed
qed

lemma check_links_Inr:
  "check_links i ids ls = Inr ids' \<longleftrightarrow>
     (\<forall>l \<in> set ls. link_ok l) \<and> ids' = rev (map ln_ID ls) @ ids \<and>
     distinct (map ln_ID ls) \<and> set (map ln_ID ls) \<inter> set ids = {}"
proof (induction ls arbitrary: i ids)
  case Nil
  then show ?case by auto
next
  case (Cons l ls)
  then show ?case
    by (auto simp: first_err_case link_ok_def)
qed

lemma check_providers_Inr:
  "check_providers i seen n ps = Inr (ids, k) \<longleftrightarrow>
     (\<forall>p \<in> set ps. provider_ok p) \<and> ids = rev (map prv_ID ps) @ seen \<and>
     k = n + length (filter prv_Enabled ps) \<and>
     distinct (map prv_ID ps) \<and> set (map prv_ID ps) \<inter> set seen = {}"
proof (induction ps arbitrary: i seen n)
  case Nil
  then show ?case by auto
next
  case (Cons p ps)
  have "check_providers i seen n (p # ps) = Inr (ids, k) \<longleftrightarrow> provider_ok p \<and> prv_ID p \<notin> set seen \<and>
      check_providers (Suc i) (prv_ID p # seen) (if prv_Enabled p then Suc n else n) ps = Inr (ids, k)"
    by (simp only: check_providers.simps first_err_case) (auto simp: provider_ok_def)
  also have "\<dots> \<longleftrightarrow> provider_ok p \<and> prv_ID p \<notin> set seen \<and>
      (\<forall>p \<in> set ps. provider_ok p) \<and> ids = rev (map prv_ID ps) @ prv_ID p # seen \<and>
      k = (if prv_Enabled p then Suc n else n) + length (filter prv_Enabled ps) \<and>
      distinct (map prv_ID ps) \<and> set (map prv_ID ps) \<inter> set (prv_ID p # seen) = {}"
    by (simp only: Cons.IH)
  finally show ?case by auto
qed

lemma each_user [simp]:
  "each_err (check_user ps ids) i us = None \<longleftrightarrow>
     (\<forall>u \<in> set us. usr_Email u \<noteq> '''' \<and> usr_Provider u \<in> set ps \<and>
        (usr_Provider u = ''local'' \<longrightarrow> usr_PasswordHash u \<noteq> '''') \<and> set (usr_Backends u) \<subseteq> set ids)"
proof (rule each_err_None)
  have grants: "each_err (\<lambda>j bid. fail_if (bid \<notin> set ids) (e bid)) 0 bs = None \<longleftrightarrow> set bs \<subseteq> set ids"
    for e :: "string \<Rightarrow> verr" and bs
    by (subst each_err_None [where P = "\<lambda>b. b \<in> set ids"]) auto
  show "check_user ps ids i u = None \<longleftrightarrow> usr_Email u \<noteq> '''' \<and> usr_Provider u \<in> set ps \<and>
        (usr_Provider u = ''local'' \<longrightarrow> usr_PasswordHash u \<noteq> '''') \<and> set (usr_Backends u) \<subseteq> set ids" for i u
    by (simp add: check_user_def first_err_None grants)
qed

lemma filter_nonempty: "length (filter P xs) = 0 \<longleftrightarrow> \<not> (\<exists>x \<in> set xs. P x)"
  by (simp add: filter_empty_conv)

lemma server_ok_checks:
  "first_err [
        fail_if (srv_Listen (cfg_Server c) = '''') ListenRequired,
        fail_if (\<not> validTLSModes (tls_Mode (cfg_TLS c))) (TLSModeInvalid (tls_Mode (cfg_TLS c))),
        fail_if (tls_Mode (cfg_TLS c) = ''acme'' \<and> acme_PDNSAPIURL (tls_ACME (cfg_TLS c)) = '''') ACMERequiresURL,
        fail_if (\<not> validStores (ses_Store (cfg_Session c))) (SessionStoreInvalid (ses_Store (cfg_Session c))),
        each_err (\<lambda>j. check_cidr ''config'') 0 (adm_IPWhitelist (cfg_Admin c) @ srv_TrustedProxies (cfg_Server c))]
   = None \<longleftrightarrow> server_ok c"
  by (auto simp: first_err_None server_ok_def)

lemma Inr_step: "(case x of Inl e \<Rightarrow> Some e | Inr v \<Rightarrow> f v) = None \<longleftrightarrow> (\<exists>v. x = Inr v \<and> f v = None)"
  by (cases x) auto

lemma Validate_steps:
  "Validate b = None \<longleftrightarrow> server_ok (bd_Config b) \<and>
     (\<exists>pids n ids1 ids2 ids3.
        check_providers 0 [] 0 (cfg_Providers (bd_Config b)) = Inr (pids, n) \<and>
        \<not> (cfg_AuthMode (bd_Config b) \<and> n = 0) \<and>
        check_backends ''config.backends'' 0 [] (cfg_Backends (bd_Config b)) = Inr ids1 \<and>
        check_backends ''services.backends'' 0 ids1 (svc_Backends (bd_Services b)) = Inr ids2 \<and>
        check_links 0 ids2 (svc_Links (bd_Services b)) = Inr ids3 \<and>
        (\<forall>x \<in> set (svc_AdminIPWhitelist (bd_Services b)). cidr_ok x) \<and>
        each_err check_monitor 0 (svc_Monitors (bd_Services b)) = None \<and>
        each_err (check_user pids ids3) 0 (bd_Users b) = None)"
proof -
  have step: "(case x of Some e \<Rightarrow> Some e | None \<Rightarrow> r) = None \<longleftrightarrow> x = None \<and> r = None" for x r :: "verr option"
    by (cases x) auto
  have last: "first_err [each_err (\<lambda>j. check_cidr s) 0 xs, y, z] = None \<longleftrightarrow>
      (\<forall>x \<in> set xs. cidr_ok x) \<and> y = None \<and> z = None" for s xs y z
    by (simp add: first_err_None)
  have guard: "(if c then Some e else r) = None \<longleftrightarrow> \<not> c \<and> r = None" for c e and r :: "verr option"
    by simp
  show ?thesis
    by (simp only: Validate_def Let_def step server_ok_checks Inr_step split_paired_Ex prod.case last guard)
      blast
qed

text \<open>The loops of \<open>Validate\<close> implement the specification.\<close>

lemma Validate_bundle_ok: "Validate b = None \<longleftrightarrow> bundle_ok b"
proof -
  let ?c = "bd_Config b" and ?s = "bd_Services b"
  let ?P = "cfg_Providers ?c" and ?A = "cfg_Backends ?c" and ?B = "svc_Backends ?s" and ?L = "svc_Links ?s"
  have steps: "Validate b = None \<longleftrightarrow> server_ok ?c \<and>
      (\<forall>p \<in> set ?P. provider_ok p) \<and> distinct (map prv_ID ?P) \<and>
      \<not> (cfg_AuthMode ?c \<and> length (filter prv_Enabled ?P) = 0) \<and>
      (\<forall>be \<in> set ?A. backend_ok be) \<and> distinct (map be_ID ?A) \<and>
      (\<forall>be \<in> set ?B. backend_ok be) \<and> distinct (map be_ID ?B) \<and>
      set (map be_ID ?B) \<inter> set (rev (map be_ID ?A) @ []) = {} \<and>
      (\<forall>l \<in> set ?L. link_ok l) \<and> distinct (map ln_ID ?L) \<and>
      set (map ln_ID ?L) \<inter> set (rev (map be_ID ?B) @ rev (map be_ID ?A) @ []) = {} \<and>
      (\<forall>x \<in> set (svc_AdminIPWhitelist ?s). cidr_ok x) \<and>
      each_err check_monitor 0 (svc_Monitors ?s) = None \<and>
      each_err (check_user (rev (map prv_ID ?P) @ []) (rev (map ln_ID ?L) @ rev (map be_ID ?B) @ rev (map be_ID ?A) @ []))
        0 (bd_Users b) = None"
    unfolding Validate_steps check_providers_Inr check_backends_Inr check_links_Inr
    by (simp del: each_user each_monitor)
  have d: "distinct (service_ids b) \<longleftrightarrow> distinct (map be_ID ?A) \<and> distinct (map be_ID ?B) \<and>
      distinct (map ln_ID ?L) \<and>
      set (map be_ID ?B) \<inter> set (rev (map be_ID ?A) @ []) = {} \<and>
      set (map ln_ID ?L) \<inter> set (rev (map be_ID ?B) @ rev (map be_ID ?A) @ []) = {}"
    unfolding service_ids_def by auto
  have u: "each_err (check_user (rev (map prv_ID ?P) @ []) (rev (map ln_ID ?L) @ rev (map be_ID ?B) @ rev (map be_ID ?A) @ []))
        0 (bd_Users b) = None \<longleftrightarrow> (\<forall>u \<in> set (bd_Users b). user_ok b u)"
    unfolding each_user user_ok_def service_ids_def by (simp add: Un_ac)
  show ?thesis
    unfolding steps u bundle_ok_def d each_monitor filter_nonempty ball_Un by blast
qed


section \<open>Properties\<close>


text \<open>
  A configuration with an LDAP provider is never accepted, and neither is one whose users hold a
  grant on a path (\<open>service#/path\<close>), although the program writes such grants itself.
\<close>

theorem Validate_rejects_ldap: "p \<in> set (cfg_Providers (bd_Config b)) \<Longrightarrow> prv_Type p = ''ldap'' \<Longrightarrow> Validate b \<noteq> None"
  unfolding Validate_bundle_ok bundle_ok_def provider_ok_def by fastforce

theorem Validate_rejects_path_grant:
  assumes "u \<in> set (bd_Users b)" "GrantID i p \<in> set (usr_Backends u)" "p \<noteq> ''''" "p \<noteq> ''/''"
    and "\<forall>x \<in> set (service_ids b). CHR ''#'' \<notin> set x"
  shows "Validate b \<noteq> None"
proof
  assume "Validate b = None"
  then have "GrantID i p \<in> set (service_ids b)"
    using assms(1,2) by (auto simp: Validate_bundle_ok bundle_ok_def user_ok_def)
  with assms(5) have "CHR ''#'' \<notin> set (GrantID i p)" by blast
  then show False using assms(3,4) by (simp add: GrantID_def)
qed

end
