(* ===== verification/Files.thy ===== *)
theory Files
  imports Validate "HOL-Library.AList"
begin

text \<open>
  The configuration files of config/load.go and config/save.go on an explicit file system: an
  association list from clean paths to bytes, with the faults a run meets.  A write fails
  before the file is opened (it stays as it was) or after it was truncated (it then holds a
  torn prefix).  The JSON codec of the standard library is the argument \<open>codec\<close>; decoding may
  be strict (unknown fields refused) or not, as the code asks.
\<close>

subsection \<open>Paths\<close>

fun clean_comps :: "bool \<Rightarrow> string list \<Rightarrow> string list \<Rightarrow> string list" where
  "clean_comps rooted acc [] = rev acc"
| "clean_comps rooted acc (c # cs) =
     (if c = '''' \<or> c = ''.'' then clean_comps rooted acc cs
      else if c = ''..'' then
        (case acc of
           [] \<Rightarrow> if rooted then clean_comps rooted [] cs else clean_comps rooted [c] cs
         | a # as \<Rightarrow> if a = ''..'' then clean_comps rooted (c # acc) cs else clean_comps rooted as cs)
      else clean_comps rooted (c # acc) cs)"

definition IsAbs :: "string \<Rightarrow> bool" where
  "IsAbs p \<longleftrightarrow> HasPrefix p ''/''"

definition Clean :: "string \<Rightarrow> string" where
  "Clean p =
     (let body = Join (clean_comps (IsAbs p) [] (Split p CHR ''/'')) ''/'' in
      if IsAbs p then CHR ''/'' # body else if body = '''' then ''.'' else body)"

definition pathJoin :: "string list \<Rightarrow> string" where
  "pathJoin es = (let ne = filter (\<lambda>e. e \<noteq> '''') es in if ne = [] then '''' else Clean (Join ne ''/''))"

definition Dir :: "string \<Rightarrow> string" where
  "Dir p = Clean (rev (dropWhile (\<lambda>c. c \<noteq> CHR ''/'') (rev p)))"

subsection \<open>The file system\<close>

datatype wfault = WOk | WOpenFails | WTorn bytes

record fs =
  fs_files :: "(string \<times> bytes) list"
  fs_unreadable :: "string \<Rightarrow> bool"
  fs_wfault :: "string \<Rightarrow> wfault"
  fs_norename :: "string \<Rightarrow> bool"
  fs_nodir :: "string \<Rightarrow> bool"

datatype file_error =
    NotExist
  | ReadError
  | ParseError
  | WriteError
  | RenameError
  | MkdirError
  | SnapshotNotFound string
  | UnrecognizedSnapshot string
  | Invalid verr

definition content :: "fs \<Rightarrow> string \<Rightarrow> bytes option" where
  "content f p = map_of (fs_files f) p"

definition ReadFile :: "fs \<Rightarrow> string \<Rightarrow> file_error + bytes" where
  "ReadFile f p =
     (case content f p of
        None \<Rightarrow> Inl NotExist
      | Some b \<Rightarrow> if fs_unreadable f p then Inl ReadError else Inr b)"

definition put :: "string \<Rightarrow> bytes \<Rightarrow> fs \<Rightarrow> fs" where
  "put p b f = f\<lparr>fs_files := AList.update p b (fs_files f)\<rparr>"

definition WriteFile :: "string \<Rightarrow> bytes \<Rightarrow> fs \<Rightarrow> file_error option \<times> fs" where
  "WriteFile p b f =
     (case fs_wfault f p of
        WOk \<Rightarrow> (None, put p b f)
      | WOpenFails \<Rightarrow> (Some WriteError, f)
      | WTorn t \<Rightarrow> (Some WriteError, put p t f))"

definition Remove :: "string \<Rightarrow> fs \<Rightarrow> fs" where
  "Remove p f = f\<lparr>fs_files := AList.delete p (fs_files f)\<rparr>"

definition Rename :: "string \<Rightarrow> string \<Rightarrow> fs \<Rightarrow> file_error option \<times> fs" where
  "Rename src dst f =
     (case content f src of
        None \<Rightarrow> (Some NotExist, f)
      | Some b \<Rightarrow> if fs_norename f dst then (Some RenameError, f) else (None, put dst b (Remove src f)))"

subsection \<open>The codec\<close>

record codec =
  enc_users :: "Users \<Rightarrow> bytes"
  enc_services :: "Services \<Rightarrow> bytes"
  enc_secrets :: "Secrets \<Rightarrow> bytes"
  enc_setup :: "SetupState \<Rightarrow> bytes"
  dec_users :: "bool \<Rightarrow> bytes \<Rightarrow> Users option"
  dec_services :: "bytes \<Rightarrow> Services option"
  dec_secrets :: "bool \<Rightarrow> bytes \<Rightarrow> Secrets option"
  dec_setup :: "bytes \<Rightarrow> SetupState option"
  dec_config :: "bytes \<Rightarrow> Config \<times> bool"

subsection \<open>Writing\<close>

definition writeJSONAtomic :: "string \<Rightarrow> bytes \<Rightarrow> fs \<Rightarrow> file_error option \<times> fs" where
  "writeJSONAtomic path json f =
     (case WriteFile (path @ ''.tmp'') json f of
        (Some e, f1) \<Rightarrow> (Some e, f1)
      | (None, f1) \<Rightarrow> Rename (path @ ''.tmp'') path f1)"

definition writeJSONInPlace :: "string \<Rightarrow> bytes \<Rightarrow> fs \<Rightarrow> file_error option \<times> fs" where
  "writeJSONInPlace path json f = WriteFile path json f"

definition copyFile :: "string \<Rightarrow> string \<Rightarrow> fs \<Rightarrow> file_error option \<times> fs" where
  "copyFile src dst f =
     (case ReadFile f src of
        Inl e \<Rightarrow> (Some e, f)
      | Inr b \<Rightarrow> WriteFile dst b f)"

subsection \<open>Backups\<close>

definition backupsKeep :: nat where "backupsKeep = 10"

text \<open>\<open>filepath.Glob(dir/prefix-*.ext)\<close> for a directory without glob characters.\<close>

definition glob_match :: "string \<Rightarrow> string \<Rightarrow> string \<Rightarrow> string \<Rightarrow> bool" where
  "glob_match dir pre suf p \<longleftrightarrow>
     HasPrefix p (dir @ ''/'') \<and>
     (let n = drop (length dir + 1) p in
      CHR ''/'' \<notin> set n \<and> HasPrefix n pre \<and> HasSuffix n suf \<and> length pre + length suf \<le> length n)"

definition Glob :: "string \<Rightarrow> string \<Rightarrow> string \<Rightarrow> fs \<Rightarrow> string list" where
  "Glob dir pre suf f = filter (glob_match dir pre suf) (map fst (fs_files f))"

definition PruneBackups :: "string \<Rightarrow> string \<Rightarrow> string \<Rightarrow> nat \<Rightarrow> fs \<Rightarrow> fs" where
  "PruneBackups backupsDir pre ext n f =
     (let matches = Glob (Clean backupsDir) (pre @ ''-'') (''.'' @ ext) f in
      if length matches \<le> n then f
      else fold Remove (take (length matches - n) (sort matches)) f)"

text \<open>\<open>stamp\<close> is the formatted current time.\<close>

definition snapshotAndPrune :: "string \<Rightarrow> string \<Rightarrow> string \<Rightarrow> string \<Rightarrow> string \<Rightarrow> fs \<Rightarrow> fs" where
  "snapshotAndPrune stamp src backupsDir pre ext f =
     (if backupsDir = '''' then f
      else if content f src = None then f
      else if fs_nodir f backupsDir then f
      else PruneBackups backupsDir pre ext backupsKeep
             (snd (copyFile src (pathJoin [backupsDir, pre @ ''-'' @ stamp @ ''.'' @ ext]) f)))"

text \<open>The names in the backups directory, sorted (no file directly under it is a directory).\<close>

definition ListBackups :: "string \<Rightarrow> fs \<Rightarrow> string list" where
  "ListBackups backupsDir f =
     sort (map (drop (length (Clean backupsDir) + 1)) (Glob (Clean backupsDir) '''' '''' f))"

subsection \<open>Loading and saving\<close>

definition LoadUsers :: "codec \<Rightarrow> string \<Rightarrow> fs \<Rightarrow> file_error + Users" where
  "LoadUsers cd path f =
     (case ReadFile f path of
        Inl NotExist \<Rightarrow> Inr []
      | Inl e \<Rightarrow> Inl e
      | Inr raw \<Rightarrow> (case dec_users cd False raw of None \<Rightarrow> Inl ParseError | Some u \<Rightarrow> Inr u))"

definition LoadServices :: "codec \<Rightarrow> string \<Rightarrow> fs \<Rightarrow> file_error + Services" where
  "LoadServices cd path f =
     (case ReadFile f path of
        Inl NotExist \<Rightarrow> Inr zero_Services
      | Inl e \<Rightarrow> Inl e
      | Inr raw \<Rightarrow>
          (case dec_services cd raw of
             None \<Rightarrow> Inl ParseError
           | Some svc \<Rightarrow> Inr (svc\<lparr>svc_Backends := CanonicalizeRules (svc_Backends svc)\<rparr>)))"

definition LoadSecretsRaw :: "codec \<Rightarrow> string \<Rightarrow> fs \<Rightarrow> file_error + Secrets" where
  "LoadSecretsRaw cd path f =
     (case ReadFile f path of
        Inl NotExist \<Rightarrow> Inr zero_Secrets
      | Inl e \<Rightarrow> Inl e
      | Inr raw \<Rightarrow> (case dec_secrets cd False raw of None \<Rightarrow> Inl ParseError | Some s \<Rightarrow> Inr s))"

definition LoadSetup :: "codec \<Rightarrow> string \<Rightarrow> fs \<Rightarrow> file_error + SetupState" where
  "LoadSetup cd path f =
     (case ReadFile f path of
        Inl e \<Rightarrow> Inl e
      | Inr raw \<Rightarrow> (case dec_setup cd raw of None \<Rightarrow> Inl ParseError | Some s \<Rightarrow> Inr s))"

definition SaveUsers :: "codec \<Rightarrow> string \<Rightarrow> string \<Rightarrow> string \<Rightarrow> Users \<Rightarrow> fs \<Rightarrow> file_error option \<times> fs" where
  "SaveUsers cd stamp usersPath backupsDir users f =
     writeJSONAtomic usersPath (enc_users cd users) (snapshotAndPrune stamp usersPath backupsDir ''users'' ''json'' f)"

definition SaveServices :: "codec \<Rightarrow> string \<Rightarrow> string \<Rightarrow> string \<Rightarrow> Services \<Rightarrow> fs \<Rightarrow> file_error option \<times> fs" where
  "SaveServices cd stamp servicesPath backupsDir svc f =
     writeJSONInPlace servicesPath (enc_services cd svc) (snapshotAndPrune stamp servicesPath backupsDir ''services'' ''json'' f)"

definition SaveSecrets :: "codec \<Rightarrow> string \<Rightarrow> string \<Rightarrow> string \<Rightarrow> Secrets \<Rightarrow> fs \<Rightarrow> file_error option \<times> fs" where
  "SaveSecrets cd stamp secretsPath backupsDir sec f =
     writeJSONAtomic secretsPath (enc_secrets cd sec) (snapshotAndPrune stamp secretsPath backupsDir ''secrets'' ''json'' f)"

definition SaveSetup :: "codec \<Rightarrow> string \<Rightarrow> SetupState \<Rightarrow> fs \<Rightarrow> file_error option \<times> fs" where
  "SaveSetup cd path st f =
     (if Dir path \<noteq> '''' \<and> fs_nodir f (Dir path) then (Some MkdirError, f)
      else writeJSONAtomic path (enc_setup cd st) f)"

definition decodeFile :: "env \<Rightarrow> (bytes \<Rightarrow> 'a option) \<Rightarrow> string \<Rightarrow> fs \<Rightarrow> file_error + 'a" where
  "decodeFile env dec p f =
     (case ReadFile f p of
        Inl e \<Rightarrow> Inl e
      | Inr raw \<Rightarrow> (case dec (expandEnv raw env) of None \<Rightarrow> Inl ParseError | Some v \<Rightarrow> Inr v))"

definition resolve :: "string \<Rightarrow> string \<Rightarrow> string" where
  "resolve dir p = (if IsAbs p then p else pathJoin [dir, p])"

definition resolveIn :: "string \<Rightarrow> string \<Rightarrow> string \<Rightarrow> string" where
  "resolveIn dir p def = resolve dir (if p = '''' then def else p)"

definition servicesFileName :: "Config \<Rightarrow> string" where
  "servicesFileName c = (if cfg_ServicesFile c = '''' then ''services.json'' else cfg_ServicesFile c)"

text \<open>
  \<open>LoadConfigOnly\<close> returns the value beside the error, and its caller uses the value even then:
  the zero value when the file cannot be read, what was decoded before a syntax error.
\<close>

definition LoadConfigOnly :: "codec \<Rightarrow> env \<Rightarrow> string \<Rightarrow> fs \<Rightarrow> Config \<times> file_error option" where
  "LoadConfigOnly cd env dir f =
     (case ReadFile f (pathJoin [dir, ''config.json'']) of
        Inl e \<Rightarrow> (zero_Config, Some e)
      | Inr raw \<Rightarrow>
          (let (c, ok) = dec_config cd (expandEnv raw env) in (c, if ok then None else Some ParseError)))"

definition Load :: "codec \<Rightarrow> env \<Rightarrow> string \<Rightarrow> fs \<Rightarrow> file_error + Bundle" where
  "Load cd env dir f =
     (case LoadConfigOnly cd env dir f of
        (_, Some e) \<Rightarrow> Inl e
      | (c, None) \<Rightarrow>
     (case decodeFile env (dec_secrets cd True)
             (resolve dir (if cfg_SecretsFile c = '''' then ''secrets.json'' else cfg_SecretsFile c)) f of
        Inl e \<Rightarrow> Inl e
      | Inr sec \<Rightarrow>
     (case decodeFile env (dec_users cd True)
             (resolve dir (if cfg_UsersFile c = '''' then ''users.json'' else cfg_UsersFile c)) f of
        Inl e \<Rightarrow> Inl e
      | Inr us \<Rightarrow>
     (case LoadServices cd (resolve dir (servicesFileName c)) f of
        Inl e \<Rightarrow> Inl e
      | Inr svc \<Rightarrow>
          (let b = \<lparr>bd_Config = c, bd_Secrets = sec, bd_Users = us, bd_Services = svc\<rparr> in
           case Validate b of Some e \<Rightarrow> Inl (Invalid e) | None \<Rightarrow> Inr b)))))"

definition RestoreSnapshot :: "codec \<Rightarrow> env \<Rightarrow> string \<Rightarrow> string \<Rightarrow> fs \<Rightarrow> (file_error + string) \<times> fs" where
  "RestoreSnapshot cd env configDir name f =
     (let src = pathJoin [configDir, ''backups'', name] in
      if content f src = None then (Inl (SnapshotNotFound name), f)
      else
        let cfg = fst (LoadConfigOnly cd env configDir f);
            target =
              (if HasPrefix name ''users-'' then Some (resolveIn configDir (cfg_UsersFile cfg) ''users.json'')
               else if HasPrefix name ''services-'' then Some (resolveIn configDir (cfg_ServicesFile cfg) ''services.json'')
               else if HasPrefix name ''secrets-'' then Some (resolveIn configDir (cfg_SecretsFile cfg) ''secrets.json'')
               else if HasPrefix name ''backends-'' then Some (pathJoin [configDir, ''nginx'', ''conf.d'', ''backends.conf''])
               else None)
        in case target of
             None \<Rightarrow> (Inl (UnrecognizedSnapshot name), f)
           | Some t \<Rightarrow>
               (case copyFile src t f of
                  (Some e, f') \<Rightarrow> (Inl e, f')
                | (None, f') \<Rightarrow> (Inr t, f')))"

subsection \<open>The file system: lemmas\<close>

lemma content_put [simp]: "content (put p b f) q = (if q = p then Some b else content f q)"
  by (simp add: content_def put_def update_conv')

lemma content_Remove [simp]: "content (Remove p f) q = (if q = p then None else content f q)"
  by (simp add: content_def Remove_def delete_conv')

lemma names_Remove: "map fst (fs_files (Remove p f)) = filter (\<lambda>q. q \<noteq> p) (map fst (fs_files f))"
  by (simp add: Remove_def AList.delete_eq filter_map comp_def case_prod_unfold)
    (metis (mono_tags, lifting) filter_cong)

lemma content_fold_Remove: "content (fold Remove ps f) q = (if q \<in> set ps then None else content f q)"
  by (induction ps arbitrary: f) auto

lemma names_fold_Remove: "map fst (fs_files (fold Remove ps f)) = filter (\<lambda>q. q \<notin> set ps) (map fst (fs_files f))"
proof (induction ps arbitrary: f)
  case Nil
  then show ?case by simp
next
  case (Cons p ps)
  have "map fst (fs_files (fold Remove (p # ps) f)) = filter (\<lambda>q. q \<notin> set ps) (filter (\<lambda>q. q \<noteq> p) (map fst (fs_files f)))"
    using Cons.IH [of "Remove p f"] by (simp only: fold_simps names_Remove)
  also have "\<dots> = filter (\<lambda>q. q \<notin> set (p # ps)) (map fst (fs_files f))"
    by (simp only: filter_filter list.set insert_iff de_Morgan_disj conj_commute)
  finally show ?case .
qed

lemma faults [simp]:
  "fs_wfault (put p b f) = fs_wfault f" "fs_unreadable (put p b f) = fs_unreadable f"
  "fs_norename (put p b f) = fs_norename f" "fs_nodir (put p b f) = fs_nodir f"
  "fs_wfault (Remove p f) = fs_wfault f" "fs_unreadable (Remove p f) = fs_unreadable f"
  "fs_norename (Remove p f) = fs_norename f" "fs_nodir (Remove p f) = fs_nodir f"
  by (simp_all add: put_def Remove_def)

lemma faults_fold [simp]:
  "fs_wfault (fold Remove ps f) = fs_wfault f" "fs_unreadable (fold Remove ps f) = fs_unreadable f"
  "fs_norename (fold Remove ps f) = fs_norename f"
  by (induction ps arbitrary: f) simp_all

definition fs_ok :: "fs \<Rightarrow> bool" where
  "fs_ok f \<longleftrightarrow> distinct (map fst (fs_files f))"

lemma fs_ok_put [simp]: "fs_ok f \<Longrightarrow> fs_ok (put p b f)"
  by (simp add: fs_ok_def put_def distinct_update)

lemma fs_ok_Remove [simp]: "fs_ok f \<Longrightarrow> fs_ok (Remove p f)"
  by (simp add: fs_ok_def names_Remove)

lemma WriteFile_cases:
  "WriteFile p b f = (r, f') \<Longrightarrow>
     r = None \<and> f' = put p b f \<or> r \<noteq> None \<and> f' = f \<or> r \<noteq> None \<and> (\<exists>t. f' = put p t f \<and> fs_wfault f p = WTorn t)"
  by (auto simp: WriteFile_def split: wfault.splits)

lemma tmp_neq [simp]: "path @ ''.tmp'' \<noteq> path" "path \<noteq> path @ ''.tmp''"
  by simp_all

text \<open>An atomic write leaves the file as it was or holding all of the new content.\<close>

lemma writeJSONAtomic_atomic:
  assumes "writeJSONAtomic path json f = (r, f')"
  shows "content f' path = (if r = None then Some json else content f path)"
    and "q \<noteq> path \<Longrightarrow> q \<noteq> path @ ''.tmp'' \<Longrightarrow> content f' q = content f q"
  using assms
  by (auto simp: writeJSONAtomic_def WriteFile_def Rename_def split: wfault.splits option.splits if_splits)

lemma writeJSONAtomic_ok:
  "fs_wfault f (path @ ''.tmp'') = WOk \<Longrightarrow> \<not> fs_norename f path \<Longrightarrow> fst (writeJSONAtomic path json f) = None"
  by (simp add: writeJSONAtomic_def WriteFile_def Rename_def)

lemma writeJSONAtomic_readable:
  "writeJSONAtomic path json f = (r, f') \<Longrightarrow> fs_unreadable f' = fs_unreadable f"
  by (auto simp: writeJSONAtomic_def WriteFile_def Rename_def split: wfault.splits option.splits if_splits)

subsection \<open>Backups: lemmas\<close>

lemma Glob_iff: "p \<in> set (Glob dir pre suf f) \<longleftrightarrow> content f p \<noteq> None \<and> glob_match dir pre suf p"
  by (auto simp: Glob_def content_def map_of_eq_None_iff)

lemma Prune_content:
  "content (PruneBackups dir pre ext n f) p = content f p \<or>
   content (PruneBackups dir pre ext n f) p = None \<and> glob_match (Clean dir) (pre @ ''-'') (''.'' @ ext) p"
proof -
  let ?m = "Glob (Clean dir) (pre @ ''-'') (''.'' @ ext) f"
  have "p \<in> set (take k (sort ?m)) \<Longrightarrow> glob_match (Clean dir) (pre @ ''-'') (''.'' @ ext) p" for k
    using Glob_iff by (metis in_set_takeD set_sort)
  then show ?thesis by (simp add: PruneBackups_def Let_def content_fold_Remove)
qed

lemma Prune_kept:
  assumes "fs_ok f" and m_def: "m = sort (Glob (Clean dir) (pre @ ''-'') (''.'' @ ext) f)"
  shows "sort (Glob (Clean dir) (pre @ ''-'') (''.'' @ ext) (PruneBackups dir pre ext n f)) = drop (length m - n) m"
proof -
  let ?G = "Glob (Clean dir) (pre @ ''-'') (''.'' @ ext)"
  have lm: "length m = length (?G f)" by (simp add: m_def)
  have dm: "distinct m" using assms by (simp add: m_def Glob_def fs_ok_def)
  show ?thesis
  proof (cases "length (?G f) \<le> n")
    case True
    then show ?thesis by (simp add: PruneBackups_def lm) (simp add: m_def)
  next
    case False
    let ?rm = "take (length m - n) m"
    have "?G (fold Remove ?rm f) = filter (\<lambda>q. q \<notin> set ?rm) (?G f)"
      by (simp add: Glob_def names_fold_Remove filter_filter conj_commute)
    then have "sort (?G (fold Remove ?rm f)) = filter (\<lambda>q. q \<notin> set ?rm) m"
      by (simp add: m_def filter_sort)
    also have "\<dots> = filter (\<lambda>q. q \<notin> set ?rm) (?rm @ drop (length m - n) m)"
      by simp
    also have "\<dots> = drop (length m - n) m"
    proof -
      have "set ?rm \<inter> set (drop (length m - n) m) = {}"
        using dm by (metis append_take_drop_id distinct_append)
      then have "filter (\<lambda>q. q \<notin> set ?rm) (drop (length m - n) m) = drop (length m - n) m"
        by (auto simp: filter_id_conv)
      then show ?thesis by (simp only: filter_append) simp
    qed
    finally show ?thesis
      using False by (simp add: PruneBackups_def Let_def m_def)
  qed
qed

lemma snapshot_faults [simp]:
  "fs_wfault (snapshotAndPrune stamp src dir pre ext f) = fs_wfault f"
  "fs_unreadable (snapshotAndPrune stamp src dir pre ext f) = fs_unreadable f"
  "fs_norename (snapshotAndPrune stamp src dir pre ext f) = fs_norename f"
  by (auto simp: snapshotAndPrune_def PruneBackups_def Let_def copyFile_def WriteFile_def
      split: sum.splits wfault.splits)

text \<open>Taking a snapshot touches nothing but the backups of its own prefix.\<close>

lemma snapshot_outside:
  assumes "p \<noteq> pathJoin [dir, pre @ ''-'' @ stamp @ ''.'' @ ext]"
    and "\<not> glob_match (Clean dir) (pre @ ''-'') (''.'' @ ext) p"
  shows "content (snapshotAndPrune stamp src dir pre ext f) p = content f p"
proof -
  have "content (snd (copyFile src (pathJoin [dir, pre @ ''-'' @ stamp @ ''.'' @ ext]) f)) p = content f p"
    using assms(1) by (auto simp: copyFile_def WriteFile_def split: sum.splits wfault.splits)
  then show ?thesis
    using assms(2) Prune_content by (metis snapshotAndPrune_def)
qed

subsection \<open>The interface of a saved file\<close>

text \<open>
  What a handler relies on when it saves before it changes its memory: a save that returns nil
  is what the next load reads, a save that fails leaves what was readable before.
\<close>

locale saved_file =
  fixes save :: "'a \<Rightarrow> fs \<Rightarrow> file_error option \<times> fs"
    and load :: "fs \<Rightarrow> file_error + 'a"
    and good :: "'a \<Rightarrow> bool"
    and usable :: "fs \<Rightarrow> bool"
  assumes save_load: "good x \<Longrightarrow> usable f \<Longrightarrow> save x f = (None, f') \<Longrightarrow> load f' = Inr x"
    and save_error: "usable f \<Longrightarrow> save x f = (Some e, f') \<Longrightarrow> load f' = load f"
    and save_usable: "usable f \<Longrightarrow> save x f = (r, f') \<Longrightarrow> usable f'"
begin

text \<open>After any run of saves the file holds the last one that succeeded.\<close>

fun saves :: "'a list \<Rightarrow> fs \<Rightarrow> 'a option \<times> fs" where
  "saves [] f = (None, f)"
| "saves (x # xs) f =
     (let (r, f1) = save x f; (last, f2) = saves xs f1
      in (case last of Some y \<Rightarrow> Some y | None \<Rightarrow> if r = None then Some x else None, f2))"

lemma saves_load:
  "\<forall>x \<in> set xs. good x \<Longrightarrow> usable f \<Longrightarrow> saves xs f = (r, f') \<Longrightarrow>
   load f' = (case r of Some x \<Rightarrow> Inr x | None \<Rightarrow> load f)"
proof (induction xs arbitrary: f r f')
  case Nil
  then show ?case by simp
next
  case (Cons x xs)
  obtain r1 f1 where s1: "save x f = (r1, f1)" by (cases "save x f")
  obtain r2 f2 where s2: "saves xs f1 = (r2, f2)" by (cases "saves xs f1")
  have f2: "f' = f2" and r: "r = (case r2 of Some y \<Rightarrow> Some y | None \<Rightarrow> if r1 = None then Some x else None)"
    using Cons.prems(3) by (simp_all add: s1 s2)
  have l2: "load f2 = (case r2 of Some x \<Rightarrow> Inr x | None \<Rightarrow> load f1)"
    using Cons.IH [OF _ _ s2] Cons.prems save_usable [OF _ s1] by simp
  show ?case
  proof (cases r1)
    case None
    then have "load f1 = Inr x" using save_load [of x f f1] s1 Cons.prems by simp
    with l2 r None f2 show ?thesis by (cases r2) simp_all
  next
    case (Some e)
    then have "load f1 = load f" using save_error [of f x e f1] s1 Cons.prems by simp
    with l2 r Some f2 show ?thesis by (cases r2) simp_all
  qed
qed

end

text \<open>
  The users and secrets files provide it when they do not lie among their own backups.
\<close>

definition file_place :: "string \<Rightarrow> string \<Rightarrow> string \<Rightarrow> string \<Rightarrow> bool" where
  "file_place pre stamp path dir \<longleftrightarrow>
     path \<noteq> pathJoin [dir, pre @ ''-'' @ stamp @ ''.'' @ ''json''] \<and>
     \<not> glob_match (Clean dir) (pre @ ''-'') (''.'' @ ''json'') path"

lemma snapshot_own:
  "file_place pre stamp path dir \<Longrightarrow> content (snapshotAndPrune stamp path dir pre ''json'' f) path = content f path"
  unfolding file_place_def by (intro snapshot_outside) simp_all

lemma SaveUsers_content:
  assumes "SaveUsers cd stamp path dir us f = (r, f')" "file_place ''users'' stamp path dir"
  shows "content f' path = (if r = None then Some (enc_users cd us) else content f path)"
  using writeJSONAtomic_atomic(1) [OF assms(1) [unfolded SaveUsers_def]] snapshot_own [OF assms(2)] by simp

lemma SaveSecrets_content:
  assumes "SaveSecrets cd stamp path dir sec f = (r, f')" "file_place ''secrets'' stamp path dir"
  shows "content f' path = (if r = None then Some (enc_secrets cd sec) else content f path)"
  using writeJSONAtomic_atomic(1) [OF assms(1) [unfolded SaveSecrets_def]] snapshot_own [OF assms(2)] by simp

lemma ReadFile_content:
  assumes "content f' path = content f path" "fs_unreadable f' = fs_unreadable f"
  shows "ReadFile f' path = ReadFile f path"
  unfolding ReadFile_def assms ..

lemma LoadUsers_content:
  "content f' path = content f path \<Longrightarrow> fs_unreadable f' = fs_unreadable f \<Longrightarrow> LoadUsers cd path f' = LoadUsers cd path f"
  by (drule (1) ReadFile_content) (simp add: LoadUsers_def)

lemma LoadSecrets_content:
  "content f' path = content f path \<Longrightarrow> fs_unreadable f' = fs_unreadable f \<Longrightarrow>
   LoadSecretsRaw cd path f' = LoadSecretsRaw cd path f"
  by (drule (1) ReadFile_content) (simp add: LoadSecretsRaw_def)

lemma SaveUsers_readable:
  assumes "SaveUsers cd stamp path dir us f = (r, f')"
  shows "fs_unreadable f' = fs_unreadable f"
  using writeJSONAtomic_readable [OF assms [unfolded SaveUsers_def]] by simp

lemma SaveSecrets_readable:
  assumes "SaveSecrets cd stamp path dir sec f = (r, f')"
  shows "fs_unreadable f' = fs_unreadable f"
  using writeJSONAtomic_readable [OF assms [unfolded SaveSecrets_def]] by simp

interpretation users_file: saved_file "SaveUsers cd stamp path dir" "LoadUsers cd path"
    "\<lambda>us. dec_users cd False (enc_users cd us) = Some us"
    "\<lambda>f. file_place ''users'' stamp path dir \<and> \<not> fs_unreadable f path"
  for cd stamp path dir
proof (unfold_locales, goal_cases)
  case (1 us f f')
  then have "content f' path = Some (enc_users cd us)"
    using SaveUsers_content [of cd stamp path dir us f None f'] by simp
  with 1 SaveUsers_readable [of cd stamp path dir us f None f'] show ?case
    by (simp add: LoadUsers_def ReadFile_def)
next
  case (2 f us e f')
  then have "content f' path = content f path"
    using SaveUsers_content [of cd stamp path dir us f "Some e" f'] by simp
  with 2 SaveUsers_readable [of cd stamp path dir us f "Some e" f'] show ?case
    by (intro LoadUsers_content)
next
  case (3 f us r f')
  then show ?case using SaveUsers_readable [of cd stamp path dir us f r f'] by simp
qed

interpretation secrets_file: saved_file "SaveSecrets cd stamp path dir" "LoadSecretsRaw cd path"
    "\<lambda>sec. dec_secrets cd False (enc_secrets cd sec) = Some sec"
    "\<lambda>f. file_place ''secrets'' stamp path dir \<and> \<not> fs_unreadable f path"
  for cd stamp path dir
proof (unfold_locales, goal_cases)
  case (1 sec f f')
  then have "content f' path = Some (enc_secrets cd sec)"
    using SaveSecrets_content [of cd stamp path dir sec f None f'] by simp
  with 1 SaveSecrets_readable [of cd stamp path dir sec f None f'] show ?case
    by (simp add: LoadSecretsRaw_def ReadFile_def)
next
  case (2 f sec e f')
  then have "content f' path = content f path"
    using SaveSecrets_content [of cd stamp path dir sec f "Some e" f'] by simp
  with 2 SaveSecrets_readable [of cd stamp path dir sec f "Some e" f'] show ?case
    by (intro LoadSecrets_content)
next
  case (3 f sec r f')
  then show ?case using SaveSecrets_readable [of cd stamp path dir sec f r f'] by simp
qed


subsection \<open>A disk without faults\<close>

definition faultless :: "fs \<Rightarrow> bool" where
  "faultless f \<longleftrightarrow> fs_wfault f = (\<lambda>_. WOk) \<and> fs_unreadable f = (\<lambda>_. False) \<and> fs_norename f = (\<lambda>_. False) \<and>
     fs_nodir f = (\<lambda>_. False)"

lemma faultless_step [simp]:
  "faultless (put p b f) = faultless f" "faultless (Remove p f) = faultless f"
  by (simp_all add: faultless_def)

lemma faultless_fold [simp]: "faultless (fold Remove ps f) = faultless f"
  by (induction ps arbitrary: f) simp_all

lemma faultless_Prune [simp]: "faultless (PruneBackups dir pre ext n f) = faultless f"
  by (simp add: PruneBackups_def Let_def)

lemma faultless_write:
  assumes "faultless f"
  shows "WriteFile p b f = (None, put p b f)" "fs_nodir f d = False" "fs_unreadable f p = False"
    and "content f p = Some b \<Longrightarrow> Rename p q f = (None, put q b (Remove p f))"
    and "writeJSONAtomic p b f = (None, put p b (Remove (p @ ''.tmp'') (put (p @ ''.tmp'') b f)))"
  using assms by (simp_all add: faultless_def WriteFile_def Rename_def writeJSONAtomic_def)

lemma faultless_snapshot: "faultless f \<Longrightarrow> faultless (snapshotAndPrune stamp src dir pre ext f)"
  by (auto simp: snapshotAndPrune_def copyFile_def faultless_write split: sum.split)

section \<open>Properties\<close>

text \<open>A run of saves of the users file, with the value of the last one that succeeded.\<close>

fun save_users_run :: "codec \<Rightarrow> string \<Rightarrow> string \<Rightarrow> string \<Rightarrow> Users list \<Rightarrow> fs \<Rightarrow> Users option \<times> fs" where
  "save_users_run cd stamp path dir [] f = (None, f)"
| "save_users_run cd stamp path dir (us # uss) f =
     (case SaveUsers cd stamp path dir us f of
        (err, f1) \<Rightarrow> (case save_users_run cd stamp path dir uss f1 of
                       (Some x, f2) \<Rightarrow> (Some x, f2)
                     | (None, f2) \<Rightarrow> (if err = None then Some us else None, f2)))"

lemma save_users_run_saves: "save_users_run cd stamp path dir uss f = users_file.saves cd stamp path dir uss f"
proof (induction uss arbitrary: f)
  case (Cons us uss)
  then show ?case by (simp add: users_file.saves.simps Let_def case_prod_unfold split: option.split)
qed (simp add: users_file.saves.simps)


text \<open>A file system without faults, and a codec that tells a directory of one user from the empty one.\<close>

definition plain_fs :: "(string \<times> bytes) list \<Rightarrow> fs" where
  "plain_fs files = \<lparr>fs_files = files, fs_unreadable = (\<lambda>_. False), fs_wfault = (\<lambda>_. WOk),
     fs_norename = (\<lambda>_. False), fs_nodir = (\<lambda>_. False)\<rparr>"

definition tiny_codec :: "User \<Rightarrow> codec" where
  "tiny_codec u = \<lparr>enc_users = (\<lambda>us. if us = [] then ''0'' else ''1''), enc_services = (\<lambda>_. ''s''),
     enc_secrets = (\<lambda>_. ''k''), enc_setup = (\<lambda>_. ''t''),
     dec_users = (\<lambda>_ b. if b = ''0'' then Some [] else if b = ''1'' then Some [u] else None),
     dec_services = (\<lambda>_. Some zero_Services), dec_secrets = (\<lambda>_ _. Some zero_Secrets),
     dec_setup = (\<lambda>_. None), dec_config = (\<lambda>_. (zero_Config, True))\<rparr>"

lemma tiny_codec_simps [simp]:
  "enc_users (tiny_codec u) us = (if us = [] then ''0'' else ''1'')"
  "dec_users (tiny_codec u) strict b = (if b = ''0'' then Some [] else if b = ''1'' then Some [u] else None)"
  "dec_services (tiny_codec u) b = Some zero_Services" "dec_secrets (tiny_codec u) strict b = Some zero_Secrets"
  by (simp_all add: tiny_codec_def)

lemma plain_fs_simps [simp]:
  "fs_unreadable (plain_fs xs) = (\<lambda>_. False)" "fs_wfault (plain_fs xs) = (\<lambda>_. WOk)"
  "fs_norename (plain_fs xs) = (\<lambda>_. False)" "fs_nodir (plain_fs xs) = (\<lambda>_. False)"
  "content (plain_fs xs) p = map_of xs p"
  by (simp_all add: plain_fs_def content_def)

lemma Clean_dot [simp]: "Clean ''backups'' = ''backups''" "Clean ''users.json'' = ''users.json''"
  by code_simp+

lemma users_place: "file_place ''users'' ''t'' ''users.json'' ''backups''"
  by (simp add: file_place_def glob_match_def) code_simp


text \<open>
  Writing a JSON file replaces it or leaves it as it was, whatever fault the write or the
  rename meets, and touches no other file than its temporary one.
\<close>

theorem writeJSONAtomic_all_or_nothing:
  assumes "writeJSONAtomic path json f = (r, f')"
  shows "content f' path = (if r = None then Some json else content f path) \<and>
     (q \<noteq> path \<longrightarrow> q \<noteq> path @ ''.tmp'' \<longrightarrow> content f' q = content f q)"
  using writeJSONAtomic_atomic [OF assms] by blast

theorem writeJSONAtomic_all_or_nothing_witness:
  "content (snd (writeJSONAtomic ''u'' ''new'' ((plain_fs [(''u'', ''old'')])\<lparr>fs_wfault := (\<lambda>_. WTorn ''n'')\<rparr>))) ''u''
     = Some ''old''"
proof -
  let ?f = "(plain_fs [(''u'', ''old'')])\<lparr>fs_wfault := (\<lambda>_. WTorn ''n'')\<rparr>"
  obtain r f' where w: "writeJSONAtomic ''u'' ''new'' ?f = (r, f')" by fastforce
  moreover have "r \<noteq> None"
    using w by (auto simp: writeJSONAtomic_def WriteFile_def)
  ultimately show ?thesis
    using writeJSONAtomic_all_or_nothing [OF w, of "''u''"] by (simp add: content_def plain_fs_def)
qed

text \<open>
  Pruning keeps the newest snapshots (the greatest names, which begin with the time) and
  removes nothing that is not a snapshot of the pruned kind.
\<close>

theorem PruneBackups_newest:
  assumes "fs_ok f"
  shows "sort (Glob (Clean dir) (pre @ ''-'') (''.'' @ ext) (PruneBackups dir pre ext n f)) =
      (let m = sort (Glob (Clean dir) (pre @ ''-'') (''.'' @ ext) f) in drop (length m - n) m) \<and>
    (\<not> glob_match (Clean dir) (pre @ ''-'') (''.'' @ ext) p \<longrightarrow>
      content (PruneBackups dir pre ext n f) p = content f p)"
  using Prune_kept [OF assms refl, of dir pre ext n] Prune_content [of dir pre ext n f p]
  by (auto simp: Let_def)

theorem PruneBackups_newest_witness:
  "let f = plain_fs [(''backups/users-2.json'', ''b''), (''backups/users-1.json'', ''a''), (''backups/x'', ''c'')]
   in sort (Glob (Clean ''backups'') (''users'' @ ''-'') (''.'' @ ''json'') (PruneBackups ''backups'' ''users'' ''json'' 1 f)) =
        [''backups/users-2.json'']"
proof -
  let ?f = "plain_fs [(''backups/users-2.json'', ''b''), (''backups/users-1.json'', ''a''), (''backups/x'', ''c'')]"
  have ok: "fs_ok ?f" by (simp add: fs_ok_def plain_fs_def)
  have s: "sort (Glob (Clean ''backups'') (''users'' @ ''-'') (''.'' @ ''json'') ?f) = [''backups/users-1.json'', ''backups/users-2.json'']"
    by code_simp
  show ?thesis
    unfolding Let_def PruneBackups_newest [OF ok, THEN conjunct1] s by simp
qed

end
