(* ===== verification/Proxy.thy ===== *)
theory Proxy
  imports Matrix Files
begin

text \<open>
  Package \<open>proxy\<close>: the NGINX configuration of proxy/generate.go as the list of lines it
  writes, and the manager of proxy/manager.go that installs it on the file system of \<open>Files\<close>.
  The locations of a server block are first collected as a list (\<open>locations\<close>), in the order
  the code emits them, then rendered.
\<close>

subsection \<open>Output\<close>

definition nl :: string where "nl = [CHR 0x0A]"

definition render_lines :: "string list \<Rightarrow> string" where
  "render_lines ls = concat (map (\<lambda>l. l @ nl) ls)"

definition indent4 :: string where "indent4 = ''    ''"
definition indent8 :: string where "indent8 = ''        ''"

record GenConfig =
  gc_Upstream :: string
  gc_GateLoginURL :: string
  gc_Resolver :: string
  gc_CertDir :: string
  gc_HasCert :: "(string \<Rightarrow> bool) option"

text \<open>The header comment's dash is the three bytes of U+2014.\<close>

definition prologue :: "string list" where
  "prologue =
     [''# GENERATED by Xal-Tor-Ka proxy manager '' @ [CHR 0xE2, CHR 0x80, CHR 0x94] @ '' do NOT edit by hand.'',
      ''# Regenerated on every service reload/start.'', '''',
      ''map $http_upgrade $connection_upgrade { default upgrade; \"\" close; }'', '''']"

definition writeCustom :: "string \<Rightarrow> string \<Rightarrow> string list" where
  "writeCustom ind raw =
     (let r = TrimSpace raw in
      if r = '''' then []
      else map (\<lambda>l. ind @ TrimSpace l) (filter (\<lambda>l. TrimSpace l \<noteq> '''') (Split r CHR 0x0A)))"

subsection \<open>Grouping backends by host\<close>

definition ownsRoot :: "Backend \<Rightarrow> bool" where
  "ownsRoot be \<longleftrightarrow> list_ex (\<lambda>rt. rt_Path rt = ''/'' \<or> rt_Path rt = '''') (be_Routes be)"

fun find_index :: "('a \<Rightarrow> bool) \<Rightarrow> 'a list \<Rightarrow> nat option" where
  "find_index P [] = None"
| "find_index P (x # xs) = (if P x then Some 0 else map_option Suc (find_index P xs))"

definition orderGroup :: "Backend list \<Rightarrow> Backend list" where
  "orderGroup grp =
     (let out = sort_key be_ID grp in
      case find_index ownsRoot out of
        None \<Rightarrow> out
      | Some i \<Rightarrow> out[0 := out ! i, i := out ! 0])"

definition live :: "Backend \<Rightarrow> bool" where
  "live be \<longleftrightarrow> be_Host be \<noteq> '''' \<and> be_Routes be \<noteq> []"

definition hosts_of :: "Backend list \<Rightarrow> string list" where
  "hosts_of backends = sort (remdups (map be_Host (filter live backends)))"

definition byHost :: "Backend list \<Rightarrow> string \<Rightarrow> Backend list" where
  "byHost backends h = filter (\<lambda>be. be_Host be = h) (filter live backends)"

subsection \<open>Locations\<close>

datatype location =
    Challenge
  | AuthEndpoint
  | Reserved string
  | Member Route nat NginxOpts

definition route_path :: "Route \<Rightarrow> string" where
  "route_path rt = (if rt_Path rt = '''' then ''/'' else rt_Path rt)"

definition backendUsesAuth :: "Backend \<Rightarrow> bool" where
  "backendUsesAuth be \<longleftrightarrow> list_ex (\<lambda>rt. rt_Rule rt \<noteq> ''public'') (be_Routes be)"

definition groupUsesAuth :: "Backend list \<Rightarrow> bool" where
  "groupUsesAuth grp \<longleftrightarrow> list_ex backendUsesAuth grp"

definition groupDeclaresPath :: "Backend list \<Rightarrow> string \<Rightarrow> bool" where
  "groupDeclaresPath grp path \<longleftrightarrow> list_ex (\<lambda>be. list_ex (\<lambda>rt. route_path rt = path) (be_Routes be)) grp"

definition reserved :: "Backend list \<Rightarrow> string list" where
  "reserved grp =
     (if groupUsesAuth grp then
        [''/login'', ''/auth/'', ''/logout'', ''/listing'', ''/_xtk/''] @
        (if \<not> groupDeclaresPath grp ''/admin'' then [''/admin''] else [])
      else [])"

text \<open>The de-duplicating loop over members and routes: \<open>seen\<close> and \<open>idx\<close>.\<close>

fun member_locs :: "string list \<Rightarrow> nat \<Rightarrow> (Route \<times> NginxOpts) list \<Rightarrow> location list" where
  "member_locs seen idx [] = []"
| "member_locs seen idx ((rt, n) # rest) =
     (if route_path rt \<in> set seen then member_locs seen idx rest
      else Member rt idx n # member_locs (route_path rt # seen) (Suc idx) rest)"

definition group_routes :: "Backend list \<Rightarrow> (Route \<times> NginxOpts) list" where
  "group_routes grp = concat (map (\<lambda>m. map (\<lambda>rt. (rt, be_Nginx m)) (be_Routes m)) grp)"

definition locations :: "Backend list \<Rightarrow> location list" where
  "locations grp =
     [Challenge, AuthEndpoint] @ map Reserved (reserved grp) @
     member_locs (reserved grp) 0 (group_routes grp)"

text \<open>What follows the keyword \<open>location\<close> in the output.\<close>

fun loc_match :: "location \<Rightarrow> string" where
  "loc_match Challenge = ''/.well-known/acme-challenge/''"
| "loc_match AuthEndpoint = ''= /__auth''"
| "loc_match (Reserved p) = p"
| "loc_match (Member rt i n) = route_path rt"

definition writeLocation :: "GenConfig \<Rightarrow> Route \<Rightarrow> nat \<Rightarrow> NginxOpts \<Rightarrow> string list" where
  "writeLocation g rt idx n =
     [indent4 @ ''location '' @ route_path rt @ '' {''] @
     (if rt_Rule rt \<noteq> ''public'' then
        [indent8 @ ''auth_request /__auth;'',
         indent8 @ ''error_page 401 = @login;'',
         indent8 @ ''error_page 403 = @forbidden;'',
         indent8 @ ''auth_request_set $auth_user $upstream_http_x_auth_user;'',
         indent8 @ ''proxy_set_header X-Auth-User $auth_user;'']
      else []) @
     (if gc_Resolver g \<noteq> '''' then
        [indent8 @ ''set $up'' @ dec_str idx @ '' '' @ rt_Upstream rt @ '';'',
         indent8 @ ''proxy_pass $up'' @ dec_str idx @ ''$request_uri;'']
      else [indent8 @ ''proxy_pass '' @ rt_Upstream rt @ '';'']) @
     [indent8 @ ''proxy_set_header Host $host;'',
      indent8 @ ''proxy_set_header X-Real-IP $remote_addr;'',
      indent8 @ ''proxy_set_header X-Forwarded-For $proxy_add_x_forwarded_for;'',
      indent8 @ ''proxy_set_header X-Forwarded-Proto $scheme;'',
      indent8 @ ''proxy_set_header X-Forwarded-Host $host;''] @
     (if ngx_WebSocket n then
        [indent8 @ ''proxy_http_version 1.1;'',
         indent8 @ ''proxy_set_header Upgrade $http_upgrade;'',
         indent8 @ ''proxy_set_header Connection $connection_upgrade;'']
      else []) @
     (if ngx_BackendSelfSigned n then
        [indent8 @ ''proxy_ssl_verify off;'', indent8 @ ''proxy_ssl_server_name on;'']
      else []) @
     (if ngx_NoBuffering n then [indent8 @ ''proxy_buffering off;''] else []) @
     (if ngx_ProxyTimeout n > 0 then
        [indent8 @ ''proxy_read_timeout '' @ Itoa (ngx_ProxyTimeout n) @ ''s;'',
         indent8 @ ''proxy_send_timeout '' @ Itoa (ngx_ProxyTimeout n) @ ''s;'']
      else []) @
     writeCustom indent8 (ngx_CustomLocation n) @
     [indent4 @ ''}'', '''']"

definition acmeRoot :: "GenConfig \<Rightarrow> string" where
  "acmeRoot g = (let d = TrimRight (gc_CertDir g) CHR ''/'' in if d = '''' then ''/etc/nginx/certs'' else d)"

fun write_loc :: "GenConfig \<Rightarrow> location \<Rightarrow> string list" where
  "write_loc g Challenge =
     [indent4 @ ''location /.well-known/acme-challenge/ {'',
      indent8 @ ''default_type text/plain;'',
      indent8 @ ''root '' @ acmeRoot g @ '';'',
      indent4 @ ''}'', '''']"
| "write_loc g AuthEndpoint =
     [indent4 @ ''location = /__auth {'',
      indent8 @ ''internal;'',
      indent8 @ ''proxy_pass http://'' @ gc_Upstream g @ ''/validate;'',
      indent8 @ ''proxy_pass_request_body off;'',
      indent8 @ ''proxy_set_header Content-Length \"\";'',
      indent8 @ ''proxy_set_header X-Original-Host $host;'',
      indent8 @ ''proxy_set_header X-Original-URI $request_uri;'',
      indent8 @ ''proxy_set_header X-Real-IP $remote_addr;'',
      indent8 @ ''proxy_set_header X-Forwarded-For $proxy_add_x_forwarded_for;'',
      indent4 @ ''}'', '''']"
| "write_loc g (Reserved p) =
     [indent4 @ ''location '' @ p @ '' {'',
      indent8 @ ''proxy_pass http://'' @ gc_Upstream g @ '';'',
      indent8 @ ''proxy_set_header Host $host;'',
      indent8 @ ''proxy_set_header X-Real-IP $remote_addr;'',
      indent8 @ ''proxy_set_header X-Forwarded-For $proxy_add_x_forwarded_for;'',
      indent8 @ ''proxy_set_header X-Forwarded-Proto $scheme;'',
      indent4 @ ''}'', '''']"
| "write_loc g (Member rt idx n) = writeLocation g rt idx n"

subsection \<open>The server block\<close>

definition uses_tls :: "GenConfig \<Rightarrow> string \<Rightarrow> bool" where
  "uses_tls g host \<longleftrightarrow> (case gc_HasCert g of None \<Rightarrow> False | Some has \<Rightarrow> gc_CertDir g \<noteq> '''' \<and> has host)"

definition waf_lines :: "WafCfg \<Rightarrow> string list" where
  "waf_lines w =
     [indent4 @ ''modsecurity on;''] @
     (if waf_IgnoreIPs w \<noteq> [] then
        [indent4 @ ''modsecurity_rules '' @ [CHR 0x27],
         indent8 @ ''SecRule REMOTE_ADDR \"@ipMatch '' @ Join (waf_IgnoreIPs w) '','' @
           ''\" \"id:9009001,phase:1,pass,nolog,ctl:ruleEngine=Off\"'',
         indent4 @ [CHR 0x27] @ '';'']
      else []) @
     (let s = TrimSpace (waf_CustomRules w) in
      if s \<noteq> '''' then
        [indent4 @ ''modsecurity_rules '' @ [CHR 0x27]] @
        map (\<lambda>line. indent8 @ TrimRight line CHR 0x0D) (Split s CHR 0x0A) @
        [indent4 @ [CHR 0x27] @ '';'']
      else []) @
     [indent4 @ ''modsecurity_rules_file /etc/modsecurity.d/'' @
        (if waf_Mode w = ''block'' then ''xtk-block.conf'' else ''xtk-detect.conf'') @ '';''] @
     (if waf_DisabledRules w \<noteq> [] then
        [indent4 @ ''modsecurity_rules '' @ [CHR 0x27] @ ''SecRuleRemoveById '' @
           Join (map Itoa (waf_DisabledRules w)) '' '' @ [CHR 0x27] @ '';'']
      else [])"

definition server_head :: "GenConfig \<Rightarrow> Backend \<Rightarrow> string list" where
  "server_head g be =
     (let tls = uses_tls g (be_Host be); dir = TrimRight (gc_CertDir g) CHR ''/'' in
      [''server {'', indent4 @ ''listen 80;''] @
      (if tls then
         [indent4 @ ''listen 443 ssl;'',
          indent4 @ ''ssl_certificate '' @ dir @ ''/'' @ be_Host be @ ''.crt;'',
          indent4 @ ''ssl_certificate_key '' @ dir @ ''/'' @ be_Host be @ ''.key;'']
       else []) @
      [indent4 @ ''server_name '' @
         (if be_WWW be then be_Host be @ '' www.'' @ be_Host be else be_Host be) @ '';''] @
      (if gc_Resolver g \<noteq> '''' then
         [indent4 @ ''resolver '' @ gc_Resolver g @ '' valid=10s ipv6=off;'']
       else []) @
      [indent4 @ ''add_header X-Frame-Options \"SAMEORIGIN\" always;'',
       indent4 @ ''add_header X-Content-Type-Options \"nosniff\" always;'',
       indent4 @ ''add_header X-XSS-Protection \"0\" always;''] @
      (if tls then
         [indent4 @ ''add_header Strict-Transport-Security \"max-age=31536000; includeSubDomains\" always;'']
       else []) @
      (if ngx_MaxBodyMB (be_Nginx be) > 0 then
         [indent4 @ ''client_max_body_size '' @ Itoa (ngx_MaxBodyMB (be_Nginx be)) @ ''m;'']
       else []) @
      writeCustom indent4 (ngx_CustomServer (be_Nginx be)) @
      (case be_Waf be of
         None \<Rightarrow> []
       | Some w \<Rightarrow> if waf_Enabled w then waf_lines w else []) @
      [''''])"

definition writeServer :: "GenConfig \<Rightarrow> Backend list \<Rightarrow> string list" where
  "writeServer g grp =
     server_head g (grp ! 0) @
     concat (map (write_loc g) (locations grp)) @
     [indent4 @ ''location @login { return 302 /login?next=$request_uri; }'',
      indent4 @ ''location @forbidden { return 403; }'',
      ''}'', '''']"

definition Generate :: "GenConfig \<Rightarrow> Backend list \<Rightarrow> string" where
  "Generate g backends =
     render_lines (prologue @
       concat (map (\<lambda>h. writeServer g (orderGroup (byHost backends h))) (hosts_of backends)))"

subsection \<open>The manager\<close>

text \<open>
  \<open>HasCert\<close> is a closure that looks for files: the generator's configuration is a function of the
  file system at the time of the call.
\<close>

record Manager =
  mgr_OutPath :: string
  mgr_BackupsDir :: string
  mgr_ReloadCmd :: string
  mgr_Gen :: "fs \<Rightarrow> GenConfig"

datatype apply_error =
    ConfDir file_error
  | ConfWrite file_error
  | ProbeWrite file_error
  | ReloadFailed string string

text \<open>\<open>run\<close> executes a shell command: \<open>None\<close> on success, otherwise its output.\<close>

definition reload :: "(string \<Rightarrow> string option) \<Rightarrow> Manager \<Rightarrow> apply_error option" where
  "reload run m =
     (if mgr_ReloadCmd m = '''' then None
      else case run (mgr_ReloadCmd m) of
             None \<Rightarrow> None
           | Some out \<Rightarrow> Some (ReloadFailed (mgr_ReloadCmd m) (TrimSpace out)))"

definition Apply :: "(string \<Rightarrow> string option) \<Rightarrow> string \<Rightarrow> Manager option \<Rightarrow> Backend list \<Rightarrow> fs
    \<Rightarrow> apply_error option \<times> fs" where
  "Apply run stamp mgr backends f =
     (case mgr of
        None \<Rightarrow> (None, f)
      | Some m \<Rightarrow>
          if mgr_OutPath m = '''' then (None, f)
          else
            let conf = Generate (mgr_Gen m f) backends in
            if fs_nodir f (Dir (mgr_OutPath m)) then (Some (ConfDir MkdirError), f)
            else
              let f1 = (case ReadFile f (mgr_OutPath m) of
                    Inl e \<Rightarrow> f
                  | Inr old \<Rightarrow>
                      if mgr_BackupsDir m \<noteq> '''' \<and> \<not> fs_nodir f (mgr_BackupsDir m)
                      then PruneBackups (mgr_BackupsDir m) ''backends'' ''conf'' 10
                             (snd (WriteFile (pathJoin [mgr_BackupsDir m, ''backends-'' @ stamp @ ''.conf'']) old f))
                      else f)
              in case WriteFile (mgr_OutPath m @ ''.tmp'') conf f1 of
                   (Some e, f2) \<Rightarrow> (Some (ConfWrite e), f2)
                 | (None, f2) \<Rightarrow>
                     (case Rename (mgr_OutPath m @ ''.tmp'') (mgr_OutPath m) f2 of
                        (Some e, f3) \<Rightarrow> (Some (ConfWrite e), f3)
                      | (None, f3) \<Rightarrow> (reload run m, f3)))"

definition CheckWritable :: "Manager option \<Rightarrow> fs \<Rightarrow> apply_error option \<times> fs" where
  "CheckWritable mgr f =
     (case mgr of
        None \<Rightarrow> (None, f)
      | Some m \<Rightarrow>
          if mgr_OutPath m = '''' then (None, f)
          else
            let dir = Dir (mgr_OutPath m); probe = pathJoin [dir, ''.xtk-writeprobe''] in
            if fs_nodir f dir then (Some (ConfDir MkdirError), f)
            else (case WriteFile probe (''xaltorka writability probe'' @ nl) f of
                    (Some e, f1) \<Rightarrow> (Some (ProbeWrite e), f1)
                  | (None, f1) \<Rightarrow> (None, Remove probe f1)))"

subsection \<open>Lemmas: grouping\<close>

lemma hosts_of_distinct: "distinct (hosts_of backends)"
  by (simp add: hosts_of_def)

lemma hosts_of_iff: "h \<in> set (hosts_of backends) \<longleftrightarrow> (\<exists>be \<in> set backends. live be \<and> be_Host be = h)"
  by (auto simp: hosts_of_def)

lemma find_index_Some: "find_index P xs = Some i \<Longrightarrow> i < length xs \<and> P (xs ! i) \<and> (\<forall>j < i. \<not> P (xs ! j))"
proof (induction xs arbitrary: i)
  case Nil
  then show ?case by simp
next
  case (Cons x xs)
  then show ?case by (cases i) (auto simp: less_Suc_eq_0_disj nth_Cons' split: if_splits)
qed

lemma find_index_None: "find_index P xs = None \<longleftrightarrow> (\<forall>x \<in> set xs. \<not> P x)"
  by (induction xs) auto

lemma mset_swap0: "i < length xs \<Longrightarrow> mset (xs[0 := xs ! i, i := xs ! 0]) = mset xs"
  by (cases "xs = []") (simp_all add: mset_swap)

lemma mset_orderGroup: "mset (orderGroup grp) = mset grp"
proof (cases "find_index ownsRoot (sort_key be_ID grp)")
  case None
  then show ?thesis by (simp add: orderGroup_def)
next
  case (Some i)
  then have "i < length (sort_key be_ID grp)" using find_index_Some by fast
  from mset_swap0 [OF this] Some show ?thesis by (simp add: orderGroup_def Let_def)
qed

lemma set_orderGroup [simp]: "set (orderGroup grp) = set grp"
  by (metis mset_eq_setD mset_orderGroup)

lemma orderGroup_primary:
  assumes "be \<in> set grp" "ownsRoot be"
  shows "ownsRoot (orderGroup grp ! 0)"
proof -
  have "find_index ownsRoot (sort_key be_ID grp) \<noteq> None"
    using assms by (auto simp: find_index_None simp del: not_None_eq)
  then obtain i where i: "find_index ownsRoot (sort_key be_ID grp) = Some i" by blast
  have nonempty: "grp \<noteq> []" using assms(1) by auto
  then show ?thesis
    using find_index_Some [OF i] nonempty by (cases "i = 0") (simp_all add: i orderGroup_def Let_def nth_list_update)
qed

subsection \<open>Lemmas: locations\<close>

lemma member_locs_paths:
  "loc_match ` set (member_locs seen i rs) = route_path ` fst ` set rs - set seen"
  by (induction seen i rs rule: member_locs.induct) auto

lemma member_locs_distinct: "distinct (map loc_match (member_locs seen i rs))"
proof (induction seen i rs rule: member_locs.induct)
  case (1 seen i)
  then show ?case by simp
next
  case (2 seen i rt n rs)
  then show ?case
    using member_locs_paths [of "route_path rt # seen" "Suc i" rs] by auto
qed

lemma member_locs_in: "Member rt i n \<in> set (member_locs seen k rs) \<Longrightarrow> (rt, n) \<in> set rs"
  by (induction seen k rs rule: member_locs.induct) (auto split: if_splits)

lemma member_locs_Member: "l \<in> set (member_locs seen k rs) \<Longrightarrow> \<exists>rt i n. l = Member rt i n"
  by (induction seen k rs rule: member_locs.induct) (auto split: if_splits)

text \<open>The members are numbered consecutively: \<open>$up0\<close>, \<open>$up1\<close>, \dots\<close>

lemma member_locs_numbered:
  "map (\<lambda>l. case l of Member rt i n \<Rightarrow> i | _ \<Rightarrow> 0) (member_locs seen k rs) = [k..<k + length (member_locs seen k rs)]"
  by (induction seen k rs rule: member_locs.induct) (auto simp: upt_conv_Cons simp del: upt_Suc)

lemma group_routes_iff: "(rt, n) \<in> set (group_routes grp) \<longleftrightarrow> (\<exists>be \<in> set grp. rt \<in> set (be_Routes be) \<and> n = be_Nginx be)"
  by (auto simp: group_routes_def)

lemma reserved_distinct: "distinct (reserved grp)"
  by (simp add: reserved_def)

lemma reserved_set: "set (reserved grp) \<subseteq> {''/login'', ''/auth/'', ''/logout'', ''/listing'', ''/_xtk/'', ''/admin''}"
  by (auto simp: reserved_def)

lemma locations_distinct_aux:
  assumes "\<And>be rt. be \<in> set grp \<Longrightarrow> rt \<in> set (be_Routes be) \<Longrightarrow>
      route_path rt \<noteq> ''/.well-known/acme-challenge/'' \<and> route_path rt \<noteq> ''= /__auth''"
  shows "distinct (map loc_match (locations grp))"
proof -
  let ?ms = "member_locs (reserved grp) 0 (group_routes grp)"
  have m: "loc_match ` set ?ms = route_path ` fst ` set (group_routes grp) - set (reserved grp)"
    by (rule member_locs_paths)
  have r: "map loc_match (map Reserved (reserved grp)) = reserved grp"
    by (simp add: comp_def)
  have "p \<noteq> ''/.well-known/acme-challenge/'' \<and> p \<noteq> ''= /__auth''" if "p \<in> set (reserved grp)" for p
    using that reserved_set [of grp] by auto
  moreover have "p \<noteq> ''/.well-known/acme-challenge/'' \<and> p \<noteq> ''= /__auth''" if "p \<in> loc_match ` set ?ms" for p
    using that assms unfolding m by (auto simp: group_routes_def)
  ultimately have "''/.well-known/acme-challenge/'' \<notin> set (reserved grp) \<union> loc_match ` set ?ms"
      "''= /__auth'' \<notin> set (reserved grp) \<union> loc_match ` set ?ms"
    by blast+
  moreover have "set (reserved grp) \<inter> loc_match ` set ?ms = {}"
    unfolding m by blast
  moreover have "map loc_match (locations grp) =
      [''/.well-known/acme-challenge/'', ''= /__auth''] @ reserved grp @ map loc_match ?ms"
    by (simp only: locations_def map_append r list.map loc_match.simps append_assoc)
  ultimately show ?thesis
    by (simp add: reserved_distinct member_locs_distinct)
qed

lemma auth_line: "rt_Rule rt \<noteq> ''public'' \<Longrightarrow> indent8 @ ''auth_request /__auth;'' \<in> set (writeLocation g rt i n)"
  by (simp add: writeLocation_def)

lemma no_auth_line:
  assumes "rt_Rule rt = ''public''" "ngx_CustomLocation n = ''''"
  shows "indent8 @ ''auth_request /__auth;'' \<notin> set (writeLocation g rt i n)"
proof -
  have "writeCustom indent8 '''' = []"
    by (simp add: writeCustom_def TrimSpace_def TrimFunc_def TrimRightFunc_def)
  then show ?thesis
    using assms by (simp add: writeLocation_def indent4_def indent8_def)
qed

subsection \<open>Lemmas: what the configuration does not depend on\<close>

lemma insort_key_map: "insort_key k (f x) (map f xs) = map f (insort_key (\<lambda>x. k (f x)) x xs)"
  by (induction xs) auto

lemma sort_key_map: "sort_key k (map f xs) = map f (sort_key (\<lambda>x. k (f x)) xs)"
  by (induction xs) (simp_all add: insort_key_map)

lemma find_index_map: "find_index P (map f xs) = find_index (\<lambda>x. P (f x)) xs"
  by (induction xs) auto

text \<open>A change of the backends that keeps every field the generator reads keeps the output.\<close>

lemma Generate_map:
  assumes same: "\<And>be. be_ID (f be) = be_ID be" "\<And>be. be_Host (f be) = be_Host be"
      "\<And>be. be_WWW (f be) = be_WWW be" "\<And>be. be_Routes (f be) = be_Routes be"
      "\<And>be. be_Nginx (f be) = be_Nginx be" "\<And>be. be_Waf (f be) = be_Waf be"
  shows "Generate g (map f backends) = Generate g backends"
proof -
  have lv: "live (f be) = live be" for be
    by (simp add: live_def same)
  have live: "filter live (map f bs) = map f (filter live bs)" for bs
    by (simp add: filter_map comp_def lv)
  have hosts: "hosts_of (map f backends) = hosts_of backends"
    by (simp add: hosts_of_def live comp_def same)
  have grp: "byHost (map f backends) h = map f (byHost backends h)" for h
    by (simp add: byHost_def filter_map comp_def same lv)
  have root: "ownsRoot (f be) = ownsRoot be" for be
    by (simp add: ownsRoot_def same)
  have order: "orderGroup (map f bs) = map f (orderGroup bs)" for bs
  proof (cases "find_index ownsRoot (sort_key be_ID bs)")
    case None
    then show ?thesis by (simp add: orderGroup_def sort_key_map find_index_map same root)
  next
    case (Some i)
    then have "i < length (sort_key be_ID bs)" using find_index_Some by fast
    then have "0 < length (sort_key be_ID bs)" "i < length (sort_key be_ID bs)" by linarith+
    with Some show ?thesis
      by (simp add: orderGroup_def Let_def sort_key_map find_index_map same root map_update del: length_sort)
  qed
  have uses: "groupUsesAuth (map f bs) = groupUsesAuth bs" "groupDeclaresPath (map f bs) p = groupDeclaresPath bs p" for bs p
    by (simp_all add: groupUsesAuth_def groupDeclaresPath_def backendUsesAuth_def list_ex_iff same)
  have locs: "locations (map f bs) = locations bs" for bs
    by (simp add: locations_def reserved_def uses group_routes_def comp_def same)
  have head: "server_head g (f be) = server_head g be" for be
    by (simp only: server_head_def same)
  have server: "bs \<noteq> [] \<Longrightarrow> writeServer g (map f bs) = writeServer g bs" for bs
    by (simp add: writeServer_def locs head nth_map [of 0 bs f])
  have nonempty: "orderGroup (byHost backends h) \<noteq> []" if "h \<in> set (hosts_of backends)" for h
  proof -
    have "byHost backends h \<noteq> []" using that by (auto simp: hosts_of_iff byHost_def filter_empty_conv)
    then show ?thesis by (metis mset_orderGroup mset_zero_iff)
  qed
  have "map (\<lambda>h. writeServer g (orderGroup (byHost (map f backends) h))) (hosts_of backends) =
      map (\<lambda>h. writeServer g (orderGroup (byHost backends h))) (hosts_of backends)"
    by (rule map_cong [OF refl]) (simp add: grp order server nonempty)
  then show ?thesis by (simp only: Generate_def hosts)
qed

subsection \<open>Lemmas: the manager\<close>

text \<open>Whatever fails, the installed configuration is the old one or the whole new one.\<close>

lemma Apply_atomic_aux:
  assumes app: "Apply run stamp (Some m) backends f = (r, f')"
    and place: "mgr_OutPath m \<noteq> ''''"
      "mgr_OutPath m \<noteq> pathJoin [mgr_BackupsDir m, ''backends-'' @ stamp @ ''.conf'']"
      "\<not> glob_match (Clean (mgr_BackupsDir m)) ''backends-'' ''.conf'' (mgr_OutPath m)"
  shows "content f' (mgr_OutPath m) = content f (mgr_OutPath m) \<and> r \<noteq> None \<or>
         content f' (mgr_OutPath m) = Some (Generate (mgr_Gen m f) backends) \<and>
           (r = None \<or> (\<exists>out. r = Some (ReloadFailed (mgr_ReloadCmd m) out)))"
proof -
  let ?out = "mgr_OutPath m"
  define f1 where "f1 = (case ReadFile f ?out of
      Inl e \<Rightarrow> f
    | Inr old \<Rightarrow>
        if mgr_BackupsDir m \<noteq> '''' \<and> \<not> fs_nodir f (mgr_BackupsDir m)
        then PruneBackups (mgr_BackupsDir m) ''backends'' ''conf'' 10
               (snd (WriteFile (pathJoin [mgr_BackupsDir m, ''backends-'' @ stamp @ ''.conf'']) old f))
        else f)"
  have wr: "content (snd (WriteFile (pathJoin [mgr_BackupsDir m, ''backends-'' @ stamp @ ''.conf'']) old f)) ?out
      = content f ?out" for old
    using place(2) by (auto simp: WriteFile_def split: wfault.splits)
  have pr: "content (PruneBackups (mgr_BackupsDir m) ''backends'' ''conf'' 10 h) ?out = content h ?out" for h
    using Prune_content [of "mgr_BackupsDir m" "''backends''" "''conf''" 10 h ?out] place(3) by auto
  have c1: "content f1 ?out = content f ?out"
    by (auto simp only: f1_def pr wr split: sum.split if_split)
  have app': "(if fs_nodir f (Dir ?out) then (Some (ConfDir MkdirError), f)
      else case WriteFile (?out @ ''.tmp'') (Generate (mgr_Gen m f) backends) f1 of
             (Some e, f2) \<Rightarrow> (Some (ConfWrite e), f2)
           | (None, f2) \<Rightarrow>
               (case Rename (?out @ ''.tmp'') ?out f2 of
                  (Some e, f3) \<Rightarrow> (Some (ConfWrite e), f3)
                | (None, f3) \<Rightarrow> (reload run m, f3))) = (r, f')"
    using app place(1) by (simp only: Apply_def f1_def Let_def option.case if_False)
  show ?thesis
  proof (cases "fs_nodir f (Dir ?out)")
    case True
    then show ?thesis using app' by auto
  next
    case False
    have rl: "reload run m = None \<or> (\<exists>out. reload run m = Some (ReloadFailed (mgr_ReloadCmd m) out))"
      by (auto simp: reload_def split: option.splits)
    show ?thesis
    proof (cases "fs_wfault f1 (?out @ ''.tmp'')")
      case WOk
      then show ?thesis
        using app' False c1 rl by (auto simp: WriteFile_def Rename_def split: if_splits)
    qed (use app' False c1 in \<open>auto simp: WriteFile_def\<close>)
  qed
qed


lemma Apply_readable:
  "Apply run stamp (Some m) backends f = (r, f') \<Longrightarrow> fs_unreadable f' = fs_unreadable f"
proof -
  have w: "fs_unreadable (snd (WriteFile q d g)) = fs_unreadable g" "fs_unreadable (snd (Rename q p g)) = fs_unreadable g" for q d g p
    by (auto simp: WriteFile_def Rename_def split: wfault.splits option.splits)
  have pr: "fs_unreadable (PruneBackups dir pre ext n g) = fs_unreadable g" for dir pre ext n g
    by (simp add: PruneBackups_def Let_def)
  have "fs_unreadable (snd (Apply run stamp (Some m) backends f)) = fs_unreadable f"
    using w by (simp add: Apply_def Let_def case_prod_unfold pr split: option.split sum.split)
  then show "Apply run stamp (Some m) backends f = (r, f') \<Longrightarrow> fs_unreadable f' = fs_unreadable f" by simp
qed

text \<open>Applying touches the configuration, its temporary file and the snapshots of it.\<close>

lemma Apply_keeps:
  assumes app: "Apply run stamp (Some m) backends f = (r, f')"
    and "p \<noteq> mgr_OutPath m" "p \<noteq> mgr_OutPath m @ ''.tmp''"
      "p \<noteq> pathJoin [mgr_BackupsDir m, ''backends-'' @ stamp @ ''.conf'']"
      "\<not> glob_match (Clean (mgr_BackupsDir m)) ''backends-'' ''.conf'' p"
  shows "content f' p = content f p \<and> fs_unreadable f' = fs_unreadable f"
proof -
  have w: "content (snd (WriteFile q d g)) p = content g p \<and> fs_unreadable (snd (WriteFile q d g)) = fs_unreadable g"
    if "q \<noteq> p" for q d g
    using that by (auto simp: WriteFile_def split: wfault.splits)
  have rn: "content (snd (Rename q (mgr_OutPath m) g)) p = content g p \<and>
      fs_unreadable (snd (Rename q (mgr_OutPath m) g)) = fs_unreadable g" if "q \<noteq> p" for q g
    using that assms(2) by (auto simp: Rename_def split: option.splits)
  have rm: "fs_unreadable (fold Remove ps g) = fs_unreadable g" for ps g
    by (induction ps arbitrary: g) (auto simp: Remove_def)
  have pr: "content (PruneBackups (mgr_BackupsDir m) ''backends'' ''conf'' 10 g) p = content g p \<and>
      fs_unreadable (PruneBackups (mgr_BackupsDir m) ''backends'' ''conf'' 10 g) = fs_unreadable g" for g
    using Prune_content [of "mgr_BackupsDir m" "''backends''" "''conf''" 10 g p] assms(5) by (auto simp: PruneBackups_def Let_def rm)
  define f1 where "f1 = (case ReadFile f (mgr_OutPath m) of
      Inl e \<Rightarrow> f
    | Inr old \<Rightarrow>
        if mgr_BackupsDir m \<noteq> '''' \<and> \<not> fs_nodir f (mgr_BackupsDir m)
        then PruneBackups (mgr_BackupsDir m) ''backends'' ''conf'' 10
               (snd (WriteFile (pathJoin [mgr_BackupsDir m, ''backends-'' @ stamp @ ''.conf'']) old f))
        else f)"
  have c1: "content f1 p = content f p \<and> fs_unreadable f1 = fs_unreadable f"
    using pr w assms(4) by (auto simp: f1_def split: sum.split)
  obtain e2 f2 where w2: "WriteFile (mgr_OutPath m @ ''.tmp'') (Generate (mgr_Gen m f) backends) f1 = (e2, f2)" by fastforce
  obtain e3 f3 where w3: "Rename (mgr_OutPath m @ ''.tmp'') (mgr_OutPath m) f2 = (e3, f3)" by fastforce
  have c2: "content f2 p = content f p \<and> fs_unreadable f2 = fs_unreadable f"
    using w [of "mgr_OutPath m @ ''.tmp''" "Generate (mgr_Gen m f) backends" f1] c1 w2 assms(3) by auto
  have c3: "content f3 p = content f p \<and> fs_unreadable f3 = fs_unreadable f"
    using rn [of "mgr_OutPath m @ ''.tmp''" f2] c2 w3 assms(3) by auto
  have "f' = f \<or> f' = f2 \<or> f' = f3"
  proof (cases "mgr_OutPath m = ''''")
    case False
    then have "Apply run stamp (Some m) backends f =
        (if fs_nodir f (Dir (mgr_OutPath m)) then (Some (ConfDir MkdirError), f)
         else case WriteFile (mgr_OutPath m @ ''.tmp'') (Generate (mgr_Gen m f) backends) f1 of
             (Some e, f2) \<Rightarrow> (Some (ConfWrite e), f2)
           | (None, f2) \<Rightarrow>
               (case Rename (mgr_OutPath m @ ''.tmp'') (mgr_OutPath m) f2 of
                  (Some e, f3) \<Rightarrow> (Some (ConfWrite e), f3)
                | (None, f3) \<Rightarrow> (reload run m, f3)))"
      by (simp only: Apply_def f1_def Let_def option.case if_False)
    with app w2 w3 show ?thesis by (auto split: if_splits option.splits)
  qed (use app in \<open>simp add: Apply_def\<close>)
  with c2 c3 show ?thesis by blast
qed

section \<open>Properties\<close>

definition sample_gen :: GenConfig where
  "sample_gen = \<lparr>gc_Upstream = ''gate:8080'', gc_GateLoginURL = '''', gc_Resolver = '''', gc_CertDir = '''', gc_HasCert = None\<rparr>"

definition sample_manager :: Manager where
  "sample_manager = \<lparr>mgr_OutPath = ''out.conf'', mgr_BackupsDir = '''', mgr_ReloadCmd = ''nginx -s reload'',
     mgr_Gen = (\<lambda>_. sample_gen)\<rparr>"

text \<open>
  The generated configuration has one server block per host that a live backend names, and
  the block of a host is built from exactly the live backends of that host, headed by one that
  owns the root path if any does.
\<close>

theorem Generate_blocks:
  "distinct (hosts_of backends) \<and>
   (h \<in> set (hosts_of backends) \<longleftrightarrow> (\<exists>be. be \<in> set backends \<and> live be \<and> be_Host be = h)) \<and>
   mset (orderGroup (byHost backends h)) = mset (filter (\<lambda>be. live be \<and> be_Host be = h) backends) \<and>
   (list_ex ownsRoot (byHost backends h) = (byHost backends h \<noteq> [] \<and> ownsRoot (orderGroup (byHost backends h) ! 0)))"
proof -
  have own: "list_ex ownsRoot g = (g \<noteq> [] \<and> ownsRoot (orderGroup g ! 0))" for g
  proof (cases "g = []")
    case False
    then have "orderGroup g ! 0 \<in> set g"
      by (metis nth_mem length_greater_0_conv mset_orderGroup set_mset_mset size_mset)
    then show ?thesis
      using orderGroup_primary [of _ g] False by (auto simp: list_ex_iff)
  qed simp
  show ?thesis
    using own hosts_of_distinct [of backends] hosts_of_iff [of h backends]
    by (auto simp: mset_orderGroup byHost_def filter_filter conj_commute)
qed



theorem duplicate_challenge_location:
  "\<not> distinct (map loc_match (locations
     [zero_Backend\<lparr>be_Routes := [route_of ''/.well-known/acme-challenge/'' ''public'' False]\<rparr>]))"
  by (simp add: locations_def group_routes_def zero_Backend_def route_of_def route_path_def)



text \<open>
  The generated configuration does not depend on the networks a backend admits
  (\<open>IPAllow\<close>), and a location of a public route asks nobody: for such a route the networks are
  never checked, although the validation endpoint would.
\<close>

theorem Generate_ignores_IPAllow:
  "Generate g (map (\<lambda>be. be\<lparr>be_IPAllow := nets (be_ID be)\<rparr>) backends) = Generate g backends \<and>
   (rt_Rule rt = ''public'' \<longrightarrow> ngx_CustomLocation n = '''' \<longrightarrow>
      indent8 @ ''auth_request /__auth;'' \<notin> set (writeLocation g rt i n))"
  using no_auth_line [of rt n g i] by (simp add: Generate_map)

theorem Generate_ignores_IPAllow_witness:
  "indent8 @ ''auth_request /__auth;'' \<notin> set (writeLocation sample_gen (route_of ''/'' ''public'' False) 0 zero_NginxOpts)"
  using Generate_ignores_IPAllow [of sample_gen "\<lambda>_. []" "[]" "route_of ''/'' ''public'' False" zero_NginxOpts 0]
  by (simp add: route_of_def zero_NginxOpts_def)

text \<open>
  C21: applying a configuration leaves the file NGINX reads either as it was, with an error, or
  as the complete new configuration, in which case the only possible error is the reload's.
\<close>

theorem Apply_all_or_nothing:
  assumes "Apply run stamp (Some m) backends f = (r, f')"
    and "mgr_OutPath m \<noteq> ''''" "mgr_OutPath m \<noteq> pathJoin [mgr_BackupsDir m, ''backends-'' @ stamp @ ''.conf'']"
    and "\<not> glob_match (Clean (mgr_BackupsDir m)) ''backends-'' ''.conf'' (mgr_OutPath m)"
  shows "content f' (mgr_OutPath m) = content f (mgr_OutPath m) \<and> r \<noteq> None \<or>
     content f' (mgr_OutPath m) = Some (Generate (mgr_Gen m f) backends) \<and>
       (r = None \<or> (\<exists>out. r = Some (ReloadFailed (mgr_ReloadCmd m) out)))"
  by (rule Apply_atomic_aux [OF assms])

theorem Apply_all_or_nothing_witness:
  "let (r, f') = Apply (\<lambda>_. Some ''bad'') ''t'' (Some sample_manager) [] (plain_fs [(''out.conf'', ''old'')])
   in content f' ''out.conf'' = Some ''old'' \<and> r \<noteq> None \<or>
      content f' ''out.conf'' = Some (Generate sample_gen [])"
proof -
  obtain r f' where a: "Apply (\<lambda>_. Some ''bad'') ''t'' (Some sample_manager) [] (plain_fs [(''out.conf'', ''old'')]) = (r, f')"
    by fastforce
  have "Clean '''' = ''.''" "pathJoin ['''', ''backends-'' @ ''t'' @ ''.conf''] = ''backends-t.conf''"
    by code_simp+
  then show ?thesis
    using Apply_all_or_nothing [OF a] a by (auto simp: sample_manager_def glob_match_def)
qed

end
