(* ===== verification/Certs.thy ===== *)
theory Certs
  imports Proxy "HOL-Library.Countable"
begin

text \<open>
  The certificate manager of certmgr/manager.go and certmgr/acme.go: the internal CA, certificates
  signed by it, and ACME issuance by the HTTP-01 challenge.  The X.509, PEM and key operations
  of Go's crypto packages are the fields of \<open>pki\<close>, the ACME client library those of \<open>acme\<close>; random
  draws (keys, serial numbers) are numbered.  The manager works on a file system and calls a
  reload hook: it is polymorphic in the state \<open>'w\<close> around the file system, which is the world for
  the server and the file system alone for the command line.
\<close>

subsection \<open>Parameters\<close>

record cert =
  ct_Subject :: string
  ct_Issuer :: string
  ct_NotAfter :: int
  ct_DNSNames :: "string list"

record template =
  tp_Serial :: int
  tp_CommonName :: string
  tp_NotBefore :: int
  tp_NotAfter :: int
  tp_IsCA :: bool
  tp_DNSNames :: "string list"

text \<open>
  \<open>pk_create\<close> makes the DER of a certificate from a template, the parent (\<open>None\<close>: self-signed), the
  public key's owner and the signing key; \<open>pk_block\<close> is the first PEM block of a file.
\<close>

record pki =
  pk_key :: "nat \<Rightarrow> bytes option"
  pk_serial :: "nat \<Rightarrow> int"
  pk_marshal :: "bytes \<Rightarrow> bytes option"
  pk_create :: "template \<Rightarrow> bytes option \<Rightarrow> bytes \<Rightarrow> bytes \<Rightarrow> bytes option"
  pk_csr :: "string \<Rightarrow> string list \<Rightarrow> bytes \<Rightarrow> bytes option"
  pk_pem :: "bytes \<Rightarrow> bytes"
  pk_block :: "bytes \<Rightarrow> bytes option"
  pk_parse :: "bytes \<Rightarrow> cert option"
  pk_parseKey :: "bytes \<Rightarrow> bytes option"
  pk_AddDate :: "int \<Rightarrow> int \<Rightarrow> int \<Rightarrow> int"

text \<open>
  The ACME client of an account key: the order of a domain list (authorization URLs, finalize
  URL), an authorization (valid already, offered challenges with their tokens), the response to
  a token, and the steps in which the CA looks at the served files.
\<close>

record acme =
  ac_register :: "bytes \<Rightarrow> string \<Rightarrow> string \<Rightarrow> bool"
  ac_order :: "bytes \<Rightarrow> string list \<Rightarrow> (string list \<times> string) option"
  ac_authz :: "bytes \<Rightarrow> string \<Rightarrow> (bool \<times> (string \<times> string) list) option"
  ac_response :: "bytes \<Rightarrow> string \<Rightarrow> bytes option"
  ac_accept :: "bytes \<Rightarrow> string \<Rightarrow> fs \<Rightarrow> bool"
  ac_wait :: "bytes \<Rightarrow> string \<Rightarrow> fs \<Rightarrow> bool"
  ac_finalize :: "bytes \<Rightarrow> string \<Rightarrow> bytes \<Rightarrow> bytes list option"

text \<open>The state around the file system, and the hook that runs after a certificate changed.\<close>

record 'w hook =
  hk_fs :: "'w \<Rightarrow> fs"
  hk_set :: "fs \<Rightarrow> 'w \<Rightarrow> 'w"
  hk_reload :: "('w \<Rightarrow> string option \<times> 'w) option"

subsection \<open>The manager\<close>

definition caCommonName :: string where "caCommonName = ''Xal-Tor-Ka internal CA''"

datatype Source = SourceNone | SourceSelfSigned | SourceACME

record Info =
  in_Host :: string
  in_Source :: Source
  in_NotAfter :: int
  in_Valid :: bool

record CertManager =
  cm_Dir :: string
  cm_NginxDir :: string
  cm_Email :: string
  cm_DirectoryURL :: string

datatype cert_error =
    EmptyHost
  | FileError file_error
  | KeyFailed
  | MarshalFailed
  | CreateFailed
  | ParseFailed
  | InternalCA cert_error
  | AcmeRegister
  | AuthorizeOrder
  | AuthorizationFailed
  | NoHTTP01 string
  | ResponseFailed
  | WriteChallenge cert_error
  | AcceptChallenge
  | WaitAuthorization
  | CSRFailed
  | FinalizeOrder
  | ReloadError string

definition certPath :: "CertManager \<Rightarrow> string \<Rightarrow> string" where
  "certPath m host = pathJoin [cm_Dir m, host @ ''.crt'']"

definition keyPath :: "CertManager \<Rightarrow> string \<Rightarrow> string" where
  "keyPath m host = pathJoin [cm_Dir m, host @ ''.key'']"

definition caCertPath :: "CertManager \<Rightarrow> string" where
  "caCertPath m = pathJoin [cm_Dir m, ''ca.crt'']"

definition caKeyPath :: "CertManager \<Rightarrow> string" where
  "caKeyPath m = pathJoin [cm_Dir m, ''ca.key'']"

definition HasCert :: "CertManager option \<Rightarrow> fs \<Rightarrow> string \<Rightarrow> bool" where
  "HasCert m f host =
     (case m of None \<Rightarrow> False
      | Some cm \<Rightarrow>
          \<not> (cm_Dir cm = '''' \<or> host = '''') \<and>
          content f (certPath cm host) \<noteq> None \<and> content f (keyPath cm host) \<noteq> None)"

definition CAExists :: "CertManager option \<Rightarrow> fs \<Rightarrow> bool" where
  "CAExists m f =
     (case m of None \<Rightarrow> False
      | Some cm \<Rightarrow> cm_Dir cm \<noteq> '''' \<and> content f (caCertPath cm) \<noteq> None)"

definition CACertPEM :: "CertManager \<Rightarrow> fs \<Rightarrow> file_error + bytes" where
  "CACertPEM m f = ReadFile f (caCertPath m)"

text \<open>\<open>os.ReadFile\<close>, the first PEM block and the certificate in it, as several operations need them.\<close>

definition read_cert :: "pki \<Rightarrow> CertManager \<Rightarrow> string \<Rightarrow> fs \<Rightarrow> cert option" where
  "read_cert pk m host f =
     (case ReadFile f (certPath m host) of
        Inl _ \<Rightarrow> None
      | Inr der \<Rightarrow> Option.bind (pk_block pk der) (pk_parse pk))"

definition cert_Info :: "pki \<Rightarrow> int \<Rightarrow> CertManager \<Rightarrow> string \<Rightarrow> fs \<Rightarrow> Info" where
  "cert_Info pk now m host f =
     (case read_cert pk m host f of
        None \<Rightarrow> \<lparr>in_Host = host, in_Source = SourceNone, in_NotAfter = 0, in_Valid = False\<rparr>
      | Some c \<Rightarrow>
          \<lparr>in_Host = host, in_Source = (if ct_Issuer c = caCommonName then SourceSelfSigned else SourceACME),
           in_NotAfter = ct_NotAfter c, in_Valid = (now < ct_NotAfter c)\<rparr>)"

definition cert_List :: "pki \<Rightarrow> int \<Rightarrow> CertManager \<Rightarrow> string list \<Rightarrow> fs \<Rightarrow> Info list" where
  "cert_List pk now m hosts f = map (\<lambda>h. cert_Info pk now m h f) hosts"

definition writeFileAtomic :: "string \<Rightarrow> bytes \<Rightarrow> fs \<Rightarrow> cert_error option \<times> fs" where
  "writeFileAtomic path data f =
     (case WriteFile (path @ ''.tmp'') data f of
        (Some e, f1) \<Rightarrow> (Some (FileError e), f1)
      | (None, f1) \<Rightarrow> (let (e, f2) = Rename (path @ ''.tmp'') path f1 in (map_option FileError e, f2)))"

definition write_files :: "CertManager \<Rightarrow> string \<Rightarrow> bytes \<Rightarrow> bytes \<Rightarrow> fs \<Rightarrow> cert_error option \<times> fs" where
  "write_files m host certPEM keyPEM f =
     (if fs_nodir f (cm_Dir m) then (Some (FileError MkdirError), f)
      else case writeFileAtomic (certPath m host) certPEM f of
             (Some e, f1) \<Rightarrow> (Some e, f1)
           | (None, f1) \<Rightarrow> writeFileAtomic (keyPath m host) keyPEM f1)"

definition run_hook :: "'w hook \<Rightarrow> 'w \<Rightarrow> cert_error option \<times> 'w" where
  "run_hook hk w =
     (case hk_reload hk of
        None \<Rightarrow> (None, w)
      | Some rl \<Rightarrow> (let (e, w') = rl w in (map_option ReloadError e, w')))"

definition writePair :: "'w hook \<Rightarrow> CertManager \<Rightarrow> string \<Rightarrow> bytes \<Rightarrow> bytes \<Rightarrow> 'w \<Rightarrow> cert_error option \<times> 'w" where
  "writePair hk m host certPEM keyPEM w =
     (case write_files m host certPEM keyPEM (hk_fs hk w) of
        (Some e, f) \<Rightarrow> (Some e, hk_set hk f w)
      | (None, f) \<Rightarrow> run_hook hk (hk_set hk f w))"

definition cert_Delete :: "'w hook \<Rightarrow> CertManager \<Rightarrow> string \<Rightarrow> 'w \<Rightarrow> cert_error option \<times> 'w" where
  "cert_Delete hk m host w =
     run_hook hk (hk_set hk (Remove (keyPath m host) (Remove (certPath m host) (hk_fs hk w))) w)"

subsection \<open>The internal CA\<close>

definition parseCertKey :: "pki \<Rightarrow> bytes \<Rightarrow> bytes \<Rightarrow> cert_error + (bytes \<times> bytes)" where
  "parseCertKey pk certPEM keyPEM =
     (case (pk_block pk certPEM, pk_block pk keyPEM) of
        (Some cb, Some kb) \<Rightarrow>
          if pk_parse pk cb = None then Inl ParseFailed
          else (case pk_parseKey pk kb of None \<Rightarrow> Inl ParseFailed | Some key \<Rightarrow> Inr (cb, key))
      | _ \<Rightarrow> Inl ParseFailed)"

text \<open>Loading the CA: its DER and key, \<open>None\<close> when a new one has to be made.\<close>

definition load_CA :: "pki \<Rightarrow> CertManager \<Rightarrow> fs \<Rightarrow> (bytes \<times> bytes) option" where
  "load_CA pk m f =
     (case (ReadFile f (caCertPath m), ReadFile f (caKeyPath m)) of
        (Inr certPEM, Inr keyPEM) \<Rightarrow>
          (case parseCertKey pk certPEM keyPEM of Inr r \<Rightarrow> Some r | Inl _ \<Rightarrow> None)
      | _ \<Rightarrow> None)"

definition hour :: int where "hour = 3600 * 10 ^ 9"

definition ca_template :: "pki \<Rightarrow> int \<Rightarrow> template" where
  "ca_template pk now =
     \<lparr>tp_Serial = pk_serial pk 0, tp_CommonName = caCommonName, tp_NotBefore = now - hour,
      tp_NotAfter = pk_AddDate pk 10 0 now, tp_IsCA = True, tp_DNSNames = []\<rparr>"

definition ensureCA :: "pki \<Rightarrow> int \<Rightarrow> CertManager \<Rightarrow> fs \<Rightarrow> (cert_error + (bytes \<times> bytes)) \<times> fs" where
  "ensureCA pk now m f =
     (case load_CA pk m f of
        Some r \<Rightarrow> (Inr r, f)
      | None \<Rightarrow>
     (case pk_key pk 0 of
        None \<Rightarrow> (Inl KeyFailed, f)
      | Some key \<Rightarrow>
     (case pk_create pk (ca_template pk now) None key key of
        None \<Rightarrow> (Inl CreateFailed, f)
      | Some der \<Rightarrow>
          if fs_nodir f (cm_Dir m) then (Inl (FileError MkdirError), f)
          else
     (case writeFileAtomic (caCertPath m) (pk_pem pk der) f of
        (Some e, f1) \<Rightarrow> (Inl e, f1)
      | (None, f1) \<Rightarrow>
     (case pk_marshal pk key of
        None \<Rightarrow> (Inl MarshalFailed, f1)
      | Some keyPEM \<Rightarrow>
     (case writeFileAtomic (caKeyPath m) keyPEM f1 of
        (Some e, f2) \<Rightarrow> (Inl e, f2)
      | (None, f2) \<Rightarrow>
          (if pk_parse pk der = None then (Inl ParseFailed, f2) else (Inr (der, key), f2))))))))"

definition leaf_template :: "pki \<Rightarrow> int \<Rightarrow> string \<Rightarrow> string list \<Rightarrow> template" where
  "leaf_template pk now host extra =
     \<lparr>tp_Serial = pk_serial pk 1, tp_CommonName = host, tp_NotBefore = now - hour,
      tp_NotAfter = pk_AddDate pk 0 825 now, tp_IsCA = False, tp_DNSNames = host # extra\<rparr>"

definition IssueSelfSigned :: "pki \<Rightarrow> int \<Rightarrow> 'w hook \<Rightarrow> CertManager \<Rightarrow> string \<Rightarrow> string list \<Rightarrow> 'w
    \<Rightarrow> cert_error option \<times> 'w" where
  "IssueSelfSigned pk now hk m host extra w =
     (if host = '''' then (Some EmptyHost, w)
      else case ensureCA pk now m (hk_fs hk w) of
        (Inl e, f) \<Rightarrow> (Some (InternalCA e), hk_set hk f w)
      | (Inr (ca, caKey), f) \<Rightarrow>
     (case pk_key pk 1 of
        None \<Rightarrow> (Some KeyFailed, hk_set hk f w)
      | Some key \<Rightarrow>
     (case pk_create pk (leaf_template pk now host extra) (Some ca) key caKey of
        None \<Rightarrow> (Some CreateFailed, hk_set hk f w)
      | Some der \<Rightarrow>
     (case pk_marshal pk key of
        None \<Rightarrow> (Some MarshalFailed, hk_set hk f w)
      | Some keyPEM \<Rightarrow> writePair hk m host (pk_pem pk der @ pk_pem pk ca) keyPEM (hk_set hk f w)))))"

subsection \<open>ACME (certmgr/acme.go)\<close>

definition directoryURL :: "CertManager \<Rightarrow> string" where
  "directoryURL m =
     (if cm_DirectoryURL m \<noteq> '''' then cm_DirectoryURL m
      else ''https://acme-v02.api.letsencrypt.org/directory'')"

definition acctKeyPath :: "CertManager \<Rightarrow> string" where
  "acctKeyPath m = pathJoin [cm_Dir m, ''acme_account.key'']"

text \<open>The client of the account key, which is made and registered when there is none.\<close>

definition acmeClient :: "pki \<Rightarrow> acme \<Rightarrow> CertManager \<Rightarrow> fs \<Rightarrow> (cert_error + bytes) \<times> fs" where
  "acmeClient pk ac m f =
     (case (case ReadFile f (acctKeyPath m) of
              Inl _ \<Rightarrow> None
            | Inr pemBytes \<Rightarrow> Option.bind (pk_block pk pemBytes) (pk_parseKey pk)) of
        Some key \<Rightarrow> (Inr key, f)
      | None \<Rightarrow>
     (case pk_key pk 2 of
        None \<Rightarrow> (Inl KeyFailed, f)
      | Some key \<Rightarrow>
     (case pk_marshal pk key of
        None \<Rightarrow> (Inl MarshalFailed, f)
      | Some keyPEM \<Rightarrow>
          if fs_nodir f (cm_Dir m) then (Inl (FileError MkdirError), f)
          else
     (case writeFileAtomic (acctKeyPath m) keyPEM f of
        (Some e, f1) \<Rightarrow> (Inl e, f1)
      | (None, f1) \<Rightarrow>
          (if ac_register ac key (directoryURL m) (if cm_Email m \<noteq> '''' then ''mailto:'' @ cm_Email m else '''')
           then (Inr key, f1) else (Inl AcmeRegister, f1))))))"

definition challengeDir :: "CertManager \<Rightarrow> string" where
  "challengeDir m = pathJoin [cm_Dir m, ''.well-known'', ''acme-challenge'']"

definition challengePath :: "CertManager \<Rightarrow> string \<Rightarrow> string" where
  "challengePath m token = pathJoin [challengeDir m, token]"

definition writeChallenge :: "CertManager \<Rightarrow> string \<Rightarrow> bytes \<Rightarrow> fs \<Rightarrow> cert_error option \<times> fs" where
  "writeChallenge m token keyAuth f =
     (if fs_nodir f (challengeDir m) then (Some (FileError MkdirError), f)
      else writeFileAtomic (challengePath m token) keyAuth f)"

definition removeChallenge :: "CertManager \<Rightarrow> string \<Rightarrow> fs \<Rightarrow> fs" where
  "removeChallenge m token f = Remove (challengePath m token) f"

text \<open>One authorization of the order: the loop body, and the loop that stops at the first error.\<close>

definition authorize_one :: "acme \<Rightarrow> CertManager \<Rightarrow> string \<Rightarrow> bytes \<Rightarrow> string \<Rightarrow> fs \<Rightarrow> cert_error option \<times> fs" where
  "authorize_one ac m host key url f =
     (case ac_authz ac key url of
        None \<Rightarrow> (Some AuthorizationFailed, f)
      | Some (valid, challenges) \<Rightarrow>
          if valid then (None, f)
          else
     (case find (\<lambda>(typ, _). typ = ''http-01'') challenges of
        None \<Rightarrow> (Some (NoHTTP01 host), f)
      | Some (_, token) \<Rightarrow>
     (case ac_response ac key token of
        None \<Rightarrow> (Some ResponseFailed, f)
      | Some resp \<Rightarrow>
     (case writeChallenge m token resp f of
        (Some e, f1) \<Rightarrow> (Some (WriteChallenge e), f1)
      | (None, f1) \<Rightarrow>
          if \<not> ac_accept ac key token f1 then (Some AcceptChallenge, removeChallenge m token f1)
          else if \<not> ac_wait ac key url f1 then (Some WaitAuthorization, removeChallenge m token f1)
          else (None, removeChallenge m token f1)))))"

fun authorize_all :: "acme \<Rightarrow> CertManager \<Rightarrow> string \<Rightarrow> bytes \<Rightarrow> string list \<Rightarrow> fs \<Rightarrow> cert_error option \<times> fs" where
  "authorize_all ac m host key [] f = (None, f)"
| "authorize_all ac m host key (url # urls) f =
     (case authorize_one ac m host key url f of
        (Some e, f1) \<Rightarrow> (Some e, f1)
      | (None, f1) \<Rightarrow> authorize_all ac m host key urls f1)"

definition IssueACME :: "pki \<Rightarrow> acme \<Rightarrow> 'w hook \<Rightarrow> CertManager \<Rightarrow> string \<Rightarrow> string list \<Rightarrow> 'w
    \<Rightarrow> cert_error option \<times> 'w" where
  "IssueACME pk ac hk m host extra w =
     (if host = '''' then (Some EmptyHost, w)
      else case acmeClient pk ac m (hk_fs hk w) of
        (Inl e, f) \<Rightarrow> (Some e, hk_set hk f w)
      | (Inr acct, f) \<Rightarrow>
     (case ac_order ac acct (host # extra) of
        None \<Rightarrow> (Some AuthorizeOrder, hk_set hk f w)
      | Some (urls, fin) \<Rightarrow>
     (case authorize_all ac m host acct urls f of
        (Some e, f1) \<Rightarrow> (Some e, hk_set hk f1 w)
      | (None, f1) \<Rightarrow>
     (case pk_key pk 1 of
        None \<Rightarrow> (Some KeyFailed, hk_set hk f1 w)
      | Some key \<Rightarrow>
     (case pk_csr pk host (host # extra) key of
        None \<Rightarrow> (Some CSRFailed, hk_set hk f1 w)
      | Some csr \<Rightarrow>
     (case ac_finalize ac acct fin csr of
        None \<Rightarrow> (Some FinalizeOrder, hk_set hk f1 w)
      | Some ders \<Rightarrow>
     (case pk_marshal pk key of
        None \<Rightarrow> (Some MarshalFailed, hk_set hk f1 w)
      | Some keyPEM \<Rightarrow> writePair hk m host (concat (map (pk_pem pk) ders)) keyPEM (hk_set hk f1 w))))))))"

definition certExtraDomains :: "pki \<Rightarrow> CertManager \<Rightarrow> string \<Rightarrow> fs \<Rightarrow> string list" where
  "certExtraDomains pk m host f =
     (case read_cert pk m host f of
        None \<Rightarrow> []
      | Some c \<Rightarrow> filter (\<lambda>d. d \<noteq> host) (ct_DNSNames c))"

text \<open>The renewal loop: the time of each round is that of its start (issuance is not timed).\<close>

definition renew_one :: "pki \<Rightarrow> acme \<Rightarrow> int \<Rightarrow> 'w hook \<Rightarrow> CertManager \<Rightarrow> int \<Rightarrow> string \<Rightarrow> 'w \<Rightarrow> 'w" where
  "renew_one pk ac now hk m within h w =
     (let i = cert_Info pk now m h (hk_fs hk w) in
      if in_Source i \<noteq> SourceACME \<or> in_NotAfter i - now \<ge> within then w
      else snd (IssueACME pk ac hk m h (certExtraDomains pk m h (hk_fs hk w)) w))"

definition renewDue :: "pki \<Rightarrow> acme \<Rightarrow> int \<Rightarrow> 'w hook \<Rightarrow> CertManager \<Rightarrow> string list \<Rightarrow> int \<Rightarrow> 'w \<Rightarrow> 'w" where
  "renewDue pk ac now hk m hosts within w = fold (renew_one pk ac now hk m within) hosts w"

subsection \<open>What is assumed of the libraries\<close>

text \<open>
  PEM blocks and keys are read back, and a created certificate carries what its template and its
  parent say (x509 keeps times to the second).
\<close>

definition subject_of :: "pki \<Rightarrow> bytes \<Rightarrow> string" where
  "subject_of pk der = (case pk_parse pk der of None \<Rightarrow> '''' | Some c \<Rightarrow> ct_Subject c)"

definition to_second :: "int \<Rightarrow> int" where
  "to_second t = t div 10 ^ 9 * 10 ^ 9"

definition pki_ok :: "pki \<Rightarrow> bool" where
  "pki_ok pk \<longleftrightarrow>
     (\<forall>d r. pk_block pk (pk_pem pk d @ r) = Some d) \<and>
     (\<forall>k kp. pk_marshal pk k = Some kp \<longrightarrow> Option.bind (pk_block pk kp) (pk_parseKey pk) = Some k) \<and>
     (\<forall>t p k sk d. pk_create pk t p k sk = Some d \<longrightarrow>
        pk_parse pk d = Some \<lparr>ct_Subject = tp_CommonName t,
          ct_Issuer = (case p of None \<Rightarrow> tp_CommonName t | Some pd \<Rightarrow> subject_of pk pd),
          ct_NotAfter = to_second (tp_NotAfter t), ct_DNSNames = tp_DNSNames t\<rparr>)"

text \<open>Libraries for which this holds: everything is written as a number and a semicolon.\<close>

definition pem_code :: "'a::countable \<Rightarrow> bytes" where
  "pem_code x = dec_str (to_nat x) @ '';''"

definition pem_decode :: "bytes \<Rightarrow> 'a::countable" where
  "pem_decode b = from_nat (dec_val (takeWhile (\<lambda>c. c \<noteq> CHR '';'') b))"

lemma pem_decode_code [simp]: "pem_decode (pem_code x @ r) = x" "pem_decode (pem_code x) = x"
proof -
  have "takeWhile (\<lambda>c. c \<noteq> CHR '';'') (dec_str n @ '';'' @ r) = dec_str n" for n r
  proof -
    have "CHR '';'' \<notin> set (dec_str n)" by (rule dec_str_no_sep) (simp add: is_digit_iff)
    then show ?thesis by (subst takeWhile_append2) auto
  qed
  then have "pem_decode (pem_code x @ r) = x" for r by (simp add: pem_code_def pem_decode_def)
  from this [of r] this [of "[]"] show "pem_decode (pem_code x @ r) = x" "pem_decode (pem_code x) = x" by simp_all
qed

definition sample_pki :: pki where
  "sample_pki = \<lparr>pk_key = (\<lambda>n. Some (dec_str n)), pk_serial = int, pk_marshal = (\<lambda>k. Some (pem_code k)),
     pk_create = (\<lambda>t p k sk. Some (pem_code (tp_CommonName t,
       (case p of None \<Rightarrow> tp_CommonName t | Some pd \<Rightarrow> fst (pem_decode pd :: string \<times> string \<times> int \<times> string list)),
       to_second (tp_NotAfter t), tp_DNSNames t))),
     pk_csr = (\<lambda>cn ds k. Some (pem_code (cn, ds))), pk_pem = pem_code, pk_block = (\<lambda>b. Some (pem_decode b)),
     pk_parse = (\<lambda>d. case pem_decode d of (s, i, na, ds) \<Rightarrow>
       Some \<lparr>ct_Subject = s, ct_Issuer = i, ct_NotAfter = na, ct_DNSNames = ds\<rparr>),
     pk_parseKey = Some, pk_AddDate = (\<lambda>y d t. t + (y * 365 + d) * 24 * hour)\<rparr>"

lemma sample_pki_ok: "pki_ok sample_pki"
  by (auto simp: pki_ok_def sample_pki_def subject_of_def split: option.splits prod.splits)

text \<open>A CA that validates a domain when it finds the response among the served files.\<close>

definition sample_acme :: acme where
  "sample_acme = \<lparr>ac_register = (\<lambda>k u c. True), ac_order = (\<lambda>k ds. Some (ds, ''fin'')),
     ac_authz = (\<lambda>k u. Some (False, [(''dns-01'', ''d''), (''http-01'', ''tok'')])), ac_response = (\<lambda>k t. Some (t @ k)),
     ac_accept = (\<lambda>k t f. True), ac_wait = (\<lambda>k u f. \<exists>p. content f p = Some (''tok'' @ k)),
     ac_finalize = (\<lambda>k u csr. Some [csr])\<rparr>"

subsection \<open>Lemmas: files\<close>

named_theorems cert_files \<open>what the writes of the certificate manager leave\<close>

lemma writeFileAtomic_JSON: "writeFileAtomic p d f = (let (e, f') = writeJSONAtomic p d f in (map_option FileError e, f'))"
  by (auto simp: writeFileAtomic_def writeJSONAtomic_def split: option.splits prod.splits)

lemma writeFileAtomic_result:
  assumes "writeFileAtomic p d f = (r, f')"
  shows "content f' p = (if r = None then Some d else content f p)"
    and "q \<noteq> p \<Longrightarrow> q \<noteq> p @ ''.tmp'' \<Longrightarrow> content f' q = content f q"
    and "fs_unreadable f' = fs_unreadable f"
proof -
  obtain e where w: "writeJSONAtomic p d f = (e, f')" "r = map_option FileError e"
    using assms by (auto simp: writeFileAtomic_JSON split: prod.splits)
  show "content f' p = (if r = None then Some d else content f p)"
    "q \<noteq> p \<Longrightarrow> q \<noteq> p @ ''.tmp'' \<Longrightarrow> content f' q = content f q"
    "fs_unreadable f' = fs_unreadable f"
    using writeJSONAtomic_atomic [OF w(1)] writeJSONAtomic_readable [OF w(1)] w(2) by auto
qed

definition own_paths :: "CertManager \<Rightarrow> string \<Rightarrow> string list" where
  "own_paths m host = [certPath m host, certPath m host @ ''.tmp'', keyPath m host, keyPath m host @ ''.tmp'']"

definition ca_paths :: "CertManager \<Rightarrow> string list" where
  "ca_paths m = [caCertPath m, caCertPath m @ ''.tmp'', caKeyPath m, caKeyPath m @ ''.tmp'']"

text \<open>A host whose files are none of the CA's: every host but \<open>ca\<close>.\<close>

definition separate :: "CertManager \<Rightarrow> string \<Rightarrow> bool" where
  "separate m host \<longleftrightarrow> distinct (own_paths m host @ ca_paths m)"

lemma write_files_result:
  assumes "write_files m host c k f = (r, f')" "distinct (own_paths m host)"
  shows "r = None \<Longrightarrow> content f' (certPath m host) = Some c \<and> content f' (keyPath m host) = Some k"
    and "r \<noteq> None \<Longrightarrow> content f' (keyPath m host) = content f (keyPath m host)"
    and "q \<notin> set (own_paths m host) \<Longrightarrow> content f' q = content f q"
    and "fs_unreadable f' = fs_unreadable f"
proof -
  have "(r = None \<longrightarrow> content f' (certPath m host) = Some c \<and> content f' (keyPath m host) = Some k) \<and>
      (r \<noteq> None \<longrightarrow> content f' (keyPath m host) = content f (keyPath m host)) \<and>
      (q \<notin> set (own_paths m host) \<longrightarrow> content f' q = content f q) \<and> fs_unreadable f' = fs_unreadable f" for q
  proof (cases "fs_nodir f (cm_Dir m)")
    case True
    with assms(1) show ?thesis by (auto simp: write_files_def)
  next
    case False
    obtain r1 f1 where w1: "writeFileAtomic (certPath m host) c f = (r1, f1)" by fastforce
    obtain r2 f2 where w2: "writeFileAtomic (keyPath m host) k f1 = (r2, f2)" by fastforce
    have r: "(r, f') = (if r1 = None then (r2, f2) else (r1, f1))"
      using assms(1) False w1 w2 by (auto simp: write_files_def split: option.splits)
    show ?thesis
      using r writeFileAtomic_result [OF w1] writeFileAtomic_result [OF w2] assms(2)
      by (auto simp: own_paths_def split: if_splits)
  qed
  then show "r = None \<Longrightarrow> content f' (certPath m host) = Some c \<and> content f' (keyPath m host) = Some k"
    "r \<noteq> None \<Longrightarrow> content f' (keyPath m host) = content f (keyPath m host)"
    "q \<notin> set (own_paths m host) \<Longrightarrow> content f' q = content f q"
    "fs_unreadable f' = fs_unreadable f" by blast+
qed

definition ca_named :: "pki \<Rightarrow> CertManager \<Rightarrow> fs \<Rightarrow> bool" where
  "ca_named pk m f \<longleftrightarrow> (\<forall>ca key. load_CA pk m f = Some (ca, key) \<longrightarrow> subject_of pk ca = caCommonName)"

lemma ReadFile_cong: "content f' p = content f p \<Longrightarrow> fs_unreadable f' = fs_unreadable f \<Longrightarrow> ReadFile f' p = ReadFile f p"
  unfolding ReadFile_def by presburger

lemma load_CA_cong:
  "content f' (caCertPath m) = content f (caCertPath m) \<Longrightarrow> content f' (caKeyPath m) = content f (caKeyPath m) \<Longrightarrow>
     fs_unreadable f' = fs_unreadable f \<Longrightarrow> load_CA pk m f' = load_CA pk m f"
  unfolding load_CA_def using ReadFile_cong [of f' "caCertPath m" f] ReadFile_cong [of f' "caKeyPath m" f] by presburger

lemma pki_okD:
  assumes "pki_ok pk"
  shows "pk_block pk (pk_pem pk d @ r) = Some d" "pk_block pk (pk_pem pk d) = Some d"
    and "pk_marshal pk k = Some kp \<Longrightarrow> \<exists>b. pk_block pk kp = Some b \<and> pk_parseKey pk b = Some k"
    and "pk_create pk t p k sk = Some d' \<Longrightarrow> pk_parse pk d' = Some \<lparr>ct_Subject = tp_CommonName t,
          ct_Issuer = (case p of None \<Rightarrow> tp_CommonName t | Some pd \<Rightarrow> subject_of pk pd),
          ct_NotAfter = to_second (tp_NotAfter t), ct_DNSNames = tp_DNSNames t\<rparr>"
proof -
  show "pk_block pk (pk_pem pk d @ r) = Some d" using assms by (simp add: pki_ok_def)
  show "pk_block pk (pk_pem pk d) = Some d" using assms unfolding pki_ok_def by (metis append_Nil2)
  show "pk_marshal pk k = Some kp \<Longrightarrow> \<exists>b. pk_block pk kp = Some b \<and> pk_parseKey pk b = Some k"
    using assms by (auto simp: pki_ok_def bind_eq_Some_conv)
qed (use assms in \<open>auto simp: pki_ok_def\<close>)

lemma ensureCA_result:
  assumes "ensureCA pk now m f = (Inr (ca, key), f')" "pki_ok pk" "distinct (ca_paths m)" "ca_named pk m f"
    and "\<not> fs_unreadable f (caCertPath m)" "\<not> fs_unreadable f (caKeyPath m)"
  shows "load_CA pk m f' = Some (ca, key)" "subject_of pk ca = caCommonName"
    and "q \<notin> set (ca_paths m) \<Longrightarrow> content f' q = content f q" "fs_unreadable f' = fs_unreadable f"
proof -
  have "load_CA pk m f' = Some (ca, key) \<and> subject_of pk ca = caCommonName \<and>
      (q \<notin> set (ca_paths m) \<longrightarrow> content f' q = content f q) \<and> fs_unreadable f' = fs_unreadable f" for q
  proof (cases "load_CA pk m f")
    case (Some r)
    with assms(1,4) show ?thesis by (auto simp: ensureCA_def ca_named_def)
  next
    case None
    with assms(1) obtain k0 der kp f1 where s: "pk_key pk 0 = Some k0" "pk_create pk (ca_template pk now) None k0 k0 = Some der"
        "writeFileAtomic (caCertPath m) (pk_pem pk der) f = (None, f1)" "pk_marshal pk k0 = Some kp"
        "writeFileAtomic (caKeyPath m) kp f1 = (None, f')" "ca = der" "key = k0"
      by (auto simp: ensureCA_def split: option.splits prod.splits if_splits)
    note w1 = writeFileAtomic_result [OF s(3)] and w2 = writeFileAtomic_result [OF s(5)]
    have p: "pk_parse pk der = Some \<lparr>ct_Subject = caCommonName, ct_Issuer = caCommonName,
        ct_NotAfter = to_second (pk_AddDate pk 10 0 now), ct_DNSNames = []\<rparr>"
      using pki_okD(4) [OF assms(2) s(2)] by (simp add: ca_template_def)
    obtain b where b: "pk_block pk kp = Some b" "pk_parseKey pk b = Some k0"
      using pki_okD(3) [OF assms(2) s(4)] by blast
    have "content f' (caCertPath m) = Some (pk_pem pk der)" "content f' (caKeyPath m) = Some kp"
      using w1(1) w2(1,2) assms(3) by (simp_all add: ca_paths_def)
    with w1(3) w2(3) p b assms(5,6) have "load_CA pk m f' = Some (ca, key)"
      by (simp add: load_CA_def ReadFile_def parseCertKey_def pki_okD(2) [OF assms(2)] s(6,7))
    moreover have "subject_of pk ca = caCommonName" by (simp add: subject_of_def p s(6))
    moreover have "q \<notin> set (ca_paths m) \<longrightarrow> content f' q = content f q"
      using w1(2) w2(2) by (simp add: ca_paths_def)
    ultimately show ?thesis using w1(3) w2(3) by simp
  qed
  then show "load_CA pk m f' = Some (ca, key)" "subject_of pk ca = caCommonName"
    "q \<notin> set (ca_paths m) \<Longrightarrow> content f' q = content f q" "fs_unreadable f' = fs_unreadable f" by blast+
qed

subsection \<open>ACME: lemmas\<close>

text \<open>What an order leaves of the files: only challenges and their temporary files change.\<close>

definition offers :: "acme \<Rightarrow> string \<Rightarrow> bool" where
  "offers ac t \<longleftrightarrow> (\<exists>key url valid chs. ac_authz ac key url = Some (valid, chs) \<and> t \<in> snd ` set chs)"

definition challenge_paths :: "acme \<Rightarrow> CertManager \<Rightarrow> string set" where
  "challenge_paths ac m = {p. \<exists>t. offers ac t \<and> (p = challengePath m t \<or> p = challengePath m t @ ''.tmp'')}"

lemma find_in_set: "find P xs = Some x \<Longrightarrow> x \<in> set xs"
  by (metis find_Some_iff nth_mem)

lemma authorize_one_result:
  assumes "authorize_one ac m host key url f = (r, f')"
  shows "q \<notin> challenge_paths ac m \<Longrightarrow> content f' q = content f q"
    and "fs_unreadable f' = fs_unreadable f"
    and "content f' (challengePath m t) = content f (challengePath m t) \<or> content f' (challengePath m t) = None \<or>
      (\<exists>t'. challengePath m t = challengePath m t' @ ''.tmp'')"
proof -
  have "(q \<notin> challenge_paths ac m \<longrightarrow> content f' q = content f q) \<and> fs_unreadable f' = fs_unreadable f \<and>
      (content f' (challengePath m t) = content f (challengePath m t) \<or> content f' (challengePath m t) = None \<or>
      (\<exists>t'. challengePath m t = challengePath m t' @ ''.tmp''))" for q
  proof (cases "f' = f")
    case False
    with assms obtain valid chs ty token resp e f1 where
      au: "ac_authz ac key url = Some (valid, chs)" "find (\<lambda>(ty, _). ty = ''http-01'') chs = Some (ty, token)" and
      w: "writeChallenge m token resp f = (e, f1)" "f' = (if e = None then removeChallenge m token f1 else f1)"
      by (auto simp: authorize_one_def split: option.splits prod.splits if_splits)
    from au find_in_set [OF au(2)] have o: "offers ac token" by (force simp: offers_def)
    with False w obtain e1 where w1: "writeFileAtomic (challengePath m token) resp f = (e1, f1)" "e = None \<longleftrightarrow> e1 = None"
      by (auto simp: writeChallenge_def split: if_splits)
    note wr = writeFileAtomic_result [OF w1(1)]
    have c: "challengePath m token \<in> challenge_paths ac m" "challengePath m token @ ''.tmp'' \<in> challenge_paths ac m"
      using o by (auto simp: challenge_paths_def)
    have "q \<notin> challenge_paths ac m \<longrightarrow> content f' q = content f q"
      using wr(2) [of q] c w(2) by (auto simp: removeChallenge_def)
    moreover have "fs_unreadable f' = fs_unreadable f"
      using wr(3) w(2) by (simp add: removeChallenge_def)
    moreover have "content f' (challengePath m t) = content f (challengePath m t) \<or> content f' (challengePath m t) = None \<or>
        (\<exists>t'. challengePath m t = challengePath m t' @ ''.tmp'')"
      using wr(1) wr(2) [of "challengePath m t"] w(2) w1(2) by (auto simp: removeChallenge_def)
    ultimately show ?thesis by blast
  qed simp
  then show "q \<notin> challenge_paths ac m \<Longrightarrow> content f' q = content f q" "fs_unreadable f' = fs_unreadable f"
    "content f' (challengePath m t) = content f (challengePath m t) \<or> content f' (challengePath m t) = None \<or>
      (\<exists>t'. challengePath m t = challengePath m t' @ ''.tmp'')" by blast+
qed

lemma authorize_all_result:
  "authorize_all ac m host key urls f = (r, f') \<Longrightarrow>
     (q \<notin> challenge_paths ac m \<longrightarrow> content f' q = content f q) \<and> fs_unreadable f' = fs_unreadable f \<and>
     (content f' (challengePath m t) = content f (challengePath m t) \<or> content f' (challengePath m t) = None \<or>
      (\<exists>t'. challengePath m t = challengePath m t' @ ''.tmp''))"
proof (induction urls arbitrary: f r)
  case (Cons url urls)
  obtain r1 f1 where o: "authorize_one ac m host key url f = (r1, f1)" by fastforce
  note a = authorize_one_result [OF o]
  show ?case
  proof (cases r1)
    case None
    with Cons.prems o have "authorize_all ac m host key urls f1 = (r, f')" by simp
    from Cons.IH [OF this] a(1) [of q] a(2) a(3) [of t] show ?thesis by auto
  next
    case (Some e)
    with Cons.prems o have "f' = f1" by simp
    with a(1) [of q] a(2) a(3) [of t] show ?thesis by auto
  qed
qed simp

lemma acmeClient_result:
  assumes "acmeClient pk ac m f = (r, f')"
  shows "q \<noteq> acctKeyPath m \<Longrightarrow> q \<noteq> acctKeyPath m @ ''.tmp'' \<Longrightarrow> content f' q = content f q"
    and "fs_unreadable f' = fs_unreadable f"
proof -
  have "(q \<noteq> acctKeyPath m \<longrightarrow> q \<noteq> acctKeyPath m @ ''.tmp'' \<longrightarrow> content f' q = content f q) \<and>
      fs_unreadable f' = fs_unreadable f" for q
  proof (cases "f' = f")
    case False
    with assms obtain e kp where "writeFileAtomic (acctKeyPath m) kp f = (e, f')"
      by (auto simp: acmeClient_def split: option.splits prod.splits if_splits)
    with writeFileAtomic_result [OF this] show ?thesis by blast
  qed simp
  then show "q \<noteq> acctKeyPath m \<Longrightarrow> q \<noteq> acctKeyPath m @ ''.tmp'' \<Longrightarrow> content f' q = content f q"
    "fs_unreadable f' = fs_unreadable f" by blast+
qed

subsection \<open>The reload hook as an interface\<close>

text \<open>
  What the manager relies on of the state it works in: writing the file system is read back, and
  the hook leaves the certificate files alone (\<open>kept\<close>) while the state is one it is meant for
  (\<open>ok\<close>).
\<close>

locale cert_hook =
  fixes hk :: "'w hook" and ok :: "'w \<Rightarrow> bool" and kept :: "string \<Rightarrow> bool"
  assumes get_set: "hk_fs hk (hk_set hk f w) = f"
    and ok_set: "ok w \<Longrightarrow> ok (hk_set hk f w)"
    and hook_keeps: "hk_reload hk = Some rl \<Longrightarrow> ok w \<Longrightarrow> kept p \<Longrightarrow>
      content (hk_fs hk (snd (rl w))) p = content (hk_fs hk w) p"
    and hook_readable: "hk_reload hk = Some rl \<Longrightarrow> ok w \<Longrightarrow> fs_unreadable (hk_fs hk (snd (rl w))) = fs_unreadable (hk_fs hk w)"
    and hook_ok: "hk_reload hk = Some rl \<Longrightarrow> ok w \<Longrightarrow> ok (snd (rl w))"
begin

lemma run_hook_keeps:
  assumes "run_hook hk w = (r, w')" "ok w"
  shows "kept p \<Longrightarrow> content (hk_fs hk w') p = content (hk_fs hk w) p"
    and "fs_unreadable (hk_fs hk w') = fs_unreadable (hk_fs hk w)" "ok w'"
  using assms hook_keeps [of _ w p] hook_readable [of _ w] hook_ok [of _ w]
  by (auto simp: run_hook_def split: option.splits prod.splits)

lemma writePair_result:
  assumes "writePair hk m host c k w = (r, w')" "ok w" "distinct (own_paths m host)"
    "kept (certPath m host)" "kept (keyPath m host)"
  shows "r = None \<Longrightarrow> content (hk_fs hk w') (certPath m host) = Some c \<and> content (hk_fs hk w') (keyPath m host) = Some k"
    and "kept q \<Longrightarrow> q \<notin> set (own_paths m host) \<Longrightarrow> content (hk_fs hk w') q = content (hk_fs hk w) q"
    and "fs_unreadable (hk_fs hk w') = fs_unreadable (hk_fs hk w)" "ok w'"
proof -
  obtain e f where wf: "write_files m host c k (hk_fs hk w) = (e, f)" by fastforce
  have s: "ok (hk_set hk f w)" by (rule ok_set [OF assms(2)])
  have h: "run_hook hk (hk_set hk f w) = (r, w')" if "e = None" using assms(1) wf that by (simp add: writePair_def)
  have n: "w' = hk_set hk f w \<and> r \<noteq> None" if "e \<noteq> None" using assms(1) wf that by (auto simp: writePair_def)
  note wr = write_files_result [OF wf assms(3)]
  show "r = None \<Longrightarrow> content (hk_fs hk w') (certPath m host) = Some c \<and> content (hk_fs hk w') (keyPath m host) = Some k"
    using wr(1) h n run_hook_keeps(1) [OF h s] assms(4,5) by (cases e) (auto simp: get_set)
  show "kept q \<Longrightarrow> q \<notin> set (own_paths m host) \<Longrightarrow> content (hk_fs hk w') q = content (hk_fs hk w) q"
    using wr(3) [of q] n run_hook_keeps(1) [OF h s] by (cases e) (auto simp: get_set)
  show "fs_unreadable (hk_fs hk w') = fs_unreadable (hk_fs hk w)"
    using wr(4) n run_hook_keeps(2) [OF h s] by (cases e) (auto simp: get_set)
  show "ok w'" using s n run_hook_keeps(3) [OF h s] by (cases e) auto
qed

text \<open>A successful issue by the internal CA: the certificate that is served afterwards.\<close>

lemma IssueSelfSigned_result:
  assumes "IssueSelfSigned pk now hk m host extra w = (None, w')" "ok w" "pki_ok pk" "separate m host"
    and "ca_named pk m (hk_fs hk w)" "\<not> fs_unreadable (hk_fs hk w) (caCertPath m)" "\<not> fs_unreadable (hk_fs hk w) (caKeyPath m)"
    and "\<not> fs_unreadable (hk_fs hk w) (certPath m host)"
    and "\<And>p. p \<in> set (own_paths m host @ ca_paths m) \<Longrightarrow> kept p"
  shows "read_cert pk m host (hk_fs hk w') = Some \<lparr>ct_Subject = host, ct_Issuer = caCommonName,
        ct_NotAfter = to_second (pk_AddDate pk 0 825 now), ct_DNSNames = host # extra\<rparr>"
    and "content (hk_fs hk w') (certPath m host) \<noteq> None" "content (hk_fs hk w') (keyPath m host) \<noteq> None"
    and "ca_named pk m (hk_fs hk w')" "host \<noteq> ''''"
proof -
  from assms(1) obtain ca caKey f key der kp where s: "host \<noteq> ''''" "ensureCA pk now m (hk_fs hk w) = (Inr (ca, caKey), f)"
      "pk_key pk 1 = Some key" "pk_create pk (leaf_template pk now host extra) (Some ca) key caKey = Some der"
      "pk_marshal pk key = Some kp" "writePair hk m host (pk_pem pk der @ pk_pem pk ca) kp (hk_set hk f w) = (None, w')"
    by (auto simp: IssueSelfSigned_def split: if_splits prod.splits sum.splits option.splits)
  have d: "distinct (own_paths m host)" "distinct (ca_paths m)" "set (own_paths m host) \<inter> set (ca_paths m) = {}"
    using assms(4) by (auto simp: separate_def)
  note ca = ensureCA_result [OF s(2) assms(3) d(2) assms(5-7)]
  have k: "kept (certPath m host)" "kept (keyPath m host)" by (rule assms(9), simp add: own_paths_def)+
  note wp = writePair_result [OF s(6) ok_set [OF assms(2)] d(1) k, unfolded get_set]
  have c: "content (hk_fs hk w') (certPath m host) = Some (pk_pem pk der @ pk_pem pk ca)"
      "content (hk_fs hk w') (keyPath m host) = Some kp"
    using wp(1) by simp_all
  then show "content (hk_fs hk w') (certPath m host) \<noteq> None" "content (hk_fs hk w') (keyPath m host) \<noteq> None" by simp_all
  have p: "pk_parse pk der = Some \<lparr>ct_Subject = host, ct_Issuer = caCommonName,
        ct_NotAfter = to_second (pk_AddDate pk 0 825 now), ct_DNSNames = host # extra\<rparr>"
    using pki_okD(4) [OF assms(3) s(4)] ca(2) by (simp add: leaf_template_def)
  show "read_cert pk m host (hk_fs hk w') = Some \<lparr>ct_Subject = host, ct_Issuer = caCommonName,
        ct_NotAfter = to_second (pk_AddDate pk 0 825 now), ct_DNSNames = host # extra\<rparr>"
    using c(1) wp(3) ca(4) assms(8) p by (simp add: read_cert_def ReadFile_def pki_okD(1) [OF assms(3)])
  have "content (hk_fs hk w') q = content f q" if "q \<in> set (ca_paths m)" for q
    using wp(2) [of q] assms(9) [of q] that d(3) by auto
  then have "load_CA pk m (hk_fs hk w') = load_CA pk m f"
    using wp(3) by (intro load_CA_cong) (simp_all add: ca_paths_def)
  with ca(1,2) show "ca_named pk m (hk_fs hk w')" by (simp add: ca_named_def)
  show "host \<noteq> ''''" by (rule s(1))
qed

text \<open>An ACME issue touches the account key, the challenges and the files of its host.\<close>

lemma IssueACME_frame:
  assumes "IssueACME pk ac hk m host extra w = (r, w')" "ok w" "distinct (own_paths m host)"
    "kept (certPath m host)" "kept (keyPath m host)"
    "q \<notin> set (own_paths m host)" "q \<notin> challenge_paths ac m" "q \<noteq> acctKeyPath m" "q \<noteq> acctKeyPath m @ ''.tmp''" "kept q"
  shows "content (hk_fs hk w') q = content (hk_fs hk w) q \<and>
    fs_unreadable (hk_fs hk w') = fs_unreadable (hk_fs hk w) \<and> ok w'"
proof -
  obtain a f where ac: "acmeClient pk ac m (hk_fs hk w) = (a, f)" by fastforce
  note ar = acmeClient_result [OF ac]
  have base: "content f q = content (hk_fs hk w) q" "fs_unreadable f = fs_unreadable (hk_fs hk w)"
    using ar(1) [of q] ar(2) assms(8,9) by auto
  show ?thesis
  proof (cases "\<exists>acct urls fin f1. a = Inr acct \<and> ac_order ac acct (host # extra) = Some (urls, fin) \<and>
      authorize_all ac m host acct urls f = (None, f1) \<and> host \<noteq> ''''")
    case True
    then obtain acct urls fin f1 where t: "a = Inr acct" "ac_order ac acct (host # extra) = Some (urls, fin)"
      "authorize_all ac m host acct urls f = (None, f1)" "host \<noteq> ''''" by blast
    have f1: "content f1 q = content (hk_fs hk w) q" "fs_unreadable f1 = fs_unreadable (hk_fs hk w)"
      using authorize_all_result [OF t(3), of q] base assms(7) by auto
    from assms(1) ac t consider "w' = hk_set hk f1 w" | c kp where "writePair hk m host c kp (hk_set hk f1 w) = (r, w')"
      by (auto simp: IssueACME_def split: option.splits prod.splits)
    then show ?thesis
    proof (cases)
      case 1
      with f1 ok_set [OF assms(2)] show ?thesis by (simp add: get_set)
    next
      case 2
      from writePair_result(2-4) [OF 2 ok_set [OF assms(2)] assms(3-5), unfolded get_set] f1 assms(6,10)
      show ?thesis by auto
    qed
  next
    case False
    have "content f1 q = content (hk_fs hk w) q \<and> fs_unreadable f1 = fs_unreadable (hk_fs hk w)"
      if "authorize_all ac m host acct urls f = (e, f1)" for acct urls e f1
      using authorize_all_result [OF that, of q] base assms(7) by auto
    with assms(1) ac False base have "w' = w \<or> (\<exists>f2. w' = hk_set hk f2 w \<and> content f2 q = content (hk_fs hk w) q \<and>
        fs_unreadable f2 = fs_unreadable (hk_fs hk w))"
      by (auto simp: IssueACME_def split: if_splits option.splits prod.splits sum.splits)
    with ok_set [OF assms(2)] assms(2) show ?thesis by (auto simp: get_set)
  qed
qed

end

subsection \<open>Renewal: lemmas\<close>

text \<open>The files of \<open>h\<close> are none that an issue for another host of the list writes.\<close>

definition apart_from :: "acme \<Rightarrow> CertManager \<Rightarrow> string list \<Rightarrow> string \<Rightarrow> bool" where
  "apart_from ac m hosts h \<longleftrightarrow>
     (\<forall>p \<in> {certPath m h, keyPath m h}. p \<notin> challenge_paths ac m \<and> p \<noteq> acctKeyPath m \<and> p \<noteq> acctKeyPath m @ ''.tmp'' \<and>
        (\<forall>h' \<in> set hosts. h' \<noteq> h \<longrightarrow> p \<notin> set (own_paths m h'))) \<and>
     (\<forall>h' \<in> set hosts. distinct (own_paths m h'))"

definition due :: "pki \<Rightarrow> int \<Rightarrow> CertManager \<Rightarrow> int \<Rightarrow> string \<Rightarrow> fs \<Rightarrow> bool" where
  "due pk now m within h f \<longleftrightarrow>
     in_Source (cert_Info pk now m h f) = SourceACME \<and> in_NotAfter (cert_Info pk now m h f) - now < within"

lemma cert_Info_cong:
  "content f' (certPath m h) = content f (certPath m h) \<Longrightarrow> fs_unreadable f' = fs_unreadable f \<Longrightarrow>
     cert_Info pk now m h f' = cert_Info pk now m h f"
  using ReadFile_cong [of f' "certPath m h" f] unfolding cert_Info_def read_cert_def by presburger

context cert_hook
begin

lemma renew_one_keeps:
  assumes "ok w" "\<forall>h' \<in> set (h # hosts). kept (certPath m h') \<and> kept (keyPath m h')" "apart_from ac m hosts h" "h' \<in> set hosts" "\<not> due pk now m within h (hk_fs hk w)"
    and "w' = renew_one pk ac now hk m within h' w" "p \<in> {certPath m h, keyPath m h}"
  shows "content (hk_fs hk w') p = content (hk_fs hk w) p \<and> fs_unreadable (hk_fs hk w') = fs_unreadable (hk_fs hk w) \<and> ok w'"
proof (cases "w' = w")
  case False
  then have ne: "h' \<noteq> h" using assms(5,6) by (auto simp: renew_one_def due_def Let_def split: if_splits)
  obtain r where i: "IssueACME pk ac hk m h' (certExtraDomains pk m h' (hk_fs hk w)) w = (r, w')"
    using False assms(6) by (auto simp: renew_one_def Let_def split: if_splits) (metis prod.collapse)
  have "p \<notin> set (own_paths m h')" "p \<notin> challenge_paths ac m" "p \<noteq> acctKeyPath m" "p \<noteq> acctKeyPath m @ ''.tmp''"
      "distinct (own_paths m h')"
    using assms(3,4,7) ne by (auto simp: apart_from_def)
  then show ?thesis using IssueACME_frame [OF i assms(1)] assms(2,4,7) by auto
qed (use assms(1) in simp)

lemma renewDue_keeps:
  assumes "ok w" "\<forall>h' \<in> set (h # hosts). kept (certPath m h') \<and> kept (keyPath m h')" "apart_from ac m hosts h" "\<not> due pk now m within h (hk_fs hk w)" "p \<in> {certPath m h, keyPath m h}"
  shows "content (hk_fs hk (renewDue pk ac now hk m hosts within w)) p = content (hk_fs hk w) p"
proof -
  have "content (hk_fs hk (fold (renew_one pk ac now hk m within) hs w)) p = content (hk_fs hk w) p"
    if "set hs \<subseteq> set hosts" "ok w" "\<not> due pk now m within h (hk_fs hk w)" for hs w
    using that
  proof (induction hs arbitrary: w)
    case (Cons h' hs)
    let ?w = "renew_one pk ac now hk m within h' w"
    have "h' \<in> set hosts" using Cons.prems(1) by simp
    note k = renew_one_keeps [OF Cons.prems(2) assms(2,3) this Cons.prems(3) refl]
    have "cert_Info pk now m h (hk_fs hk ?w) = cert_Info pk now m h (hk_fs hk w)"
      using k [of "certPath m h"] by (intro cert_Info_cong) auto
    then have "\<not> due pk now m within h (hk_fs hk ?w)" using Cons.prems(3) by (simp add: due_def)
    with Cons.IH [of ?w] Cons.prems(1) k [OF assms(5)] show ?case by simp
  qed simp
  from this [OF subset_refl assms(1,4)] show ?thesis by (simp add: renewDue_def)
qed

end

subsection \<open>The manager on the file system alone\<close>

text \<open>The state is the file system and nothing is reloaded, as before a gateway is wired to it.\<close>

definition disk_hook :: "fs hook" where
  "disk_hook = \<lparr>hk_fs = (\<lambda>f. f), hk_set = (\<lambda>f _. f), hk_reload = None\<rparr>"

interpretation disk: cert_hook disk_hook "\<lambda>_. True" "\<lambda>_. True"
  by unfold_locales (simp_all add: disk_hook_def)

section \<open>Properties\<close>

text \<open>
  A renewal round changes the certificate and the key of no host that is not due: a host
  whose certificate is self-signed, absent or valid beyond the window keeps its pair, whatever
  the issues for the other hosts do and whether they fail.
\<close>

theorem renewDue_spares:
  assumes "apart_from ac m hosts h" "\<not> due pk now m within h f"
  shows "content (renewDue pk ac now disk_hook m hosts within f) (certPath m h) = content f (certPath m h) \<and>
     content (renewDue pk ac now disk_hook m hosts within f) (keyPath m h) = content f (keyPath m h)"
  using disk.renewDue_keeps [where w = f and h = h and hosts = hosts and m = m and ac = ac and pk = pk and now = now and within = within] assms by (simp add: disk_hook_def)

text \<open>Two hosts: one with a certificate of the CA \<open>x\<close> that is due, one self-signed.\<close>

definition sample_certs :: CertManager where
  "sample_certs = \<lparr>cm_Dir = ''certs'', cm_NginxDir = ''/etc/nginx/certs'', cm_Email = '''', cm_DirectoryURL = ''''\<rparr>"

definition sample_cert_file :: "string \<Rightarrow> string \<Rightarrow> int \<Rightarrow> bytes" where
  "sample_cert_file host issuer until = pem_code (pem_code (host, issuer, until, [host]))"

definition sample_cert_fs :: fs where
  "sample_cert_fs = plain_fs [(''certs/a.crt'', sample_cert_file ''a'' ''x'' 0), (''certs/a.key'', ''old''),
     (''certs/b.crt'', sample_cert_file ''b'' caCommonName 0), (''certs/b.key'', ''key'')]"

lemma sample_paths:
  "certPath sample_certs ''a'' = ''certs/a.crt''" "keyPath sample_certs ''a'' = ''certs/a.key''"
  "certPath sample_certs ''b'' = ''certs/b.crt''" "keyPath sample_certs ''b'' = ''certs/b.key''"
  "acctKeyPath sample_certs = ''certs/acme_account.key''"
  "challengePath sample_certs ''tok'' = ''certs/.well-known/acme-challenge/tok''"
  "challengePath sample_certs ''d'' = ''certs/.well-known/acme-challenge/d''"
  by code_simp+

lemma sample_offers: "offers sample_acme t \<longleftrightarrow> t = ''tok'' \<or> t = ''d''"
  by (auto simp: offers_def sample_acme_def)

lemma sample_apart: "apart_from sample_acme sample_certs [''a'', ''b''] ''b''"
  by (auto simp: apart_from_def challenge_paths_def sample_offers sample_paths own_paths_def)

lemma sample_read: "read_cert sample_pki sample_certs ''b'' sample_cert_fs =
    Some \<lparr>ct_Subject = ''b'', ct_Issuer = caCommonName, ct_NotAfter = 0, ct_DNSNames = [''b'']\<rparr>"
  by (simp add: read_cert_def ReadFile_def content_def sample_cert_fs_def plain_fs_def sample_paths sample_cert_file_def sample_pki_def)

theorem renewDue_spares_witness:
  "content (renewDue sample_pki sample_acme 0 disk_hook sample_certs [''a'', ''b''] 100 sample_cert_fs) ''certs/b.key'' = Some ''key''"
proof -
  have "\<not> due sample_pki 0 sample_certs 100 ''b'' sample_cert_fs"
    by (simp add: due_def cert_Info_def sample_read)
  from renewDue_spares [OF sample_apart this]
  show ?thesis by (simp add: sample_paths content_def sample_cert_fs_def plain_fs_def)
qed

text \<open>
  A failed registration is not retried: the key is saved before it is registered, and a saved
  key counts as a registered account.
\<close>

lemma writeFileAtomic_error: "writeFileAtomic p d f \<noteq> (Some AcmeRegister, f')"
  by (auto simp: writeFileAtomic_def split: prod.splits option.splits)

lemma register_not_retried:
  assumes "acmeClient pk ac m f = (Inl AcmeRegister, f')" "pki_ok pk" "\<not> fs_unreadable f (acctKeyPath m)"
  shows "\<exists>key. pk_key pk 2 = Some key \<and> acmeClient pk ac' m f' = (Inr key, f')"
proof -
  from assms(1) obtain key kp where s: "pk_key pk 2 = Some key" "pk_marshal pk key = Some kp"
      "writeFileAtomic (acctKeyPath m) kp f = (None, f')"
    by (auto simp: acmeClient_def writeFileAtomic_error split: option.splits prod.splits if_splits)
  note w = writeFileAtomic_result [OF s(3)]
  obtain b where "pk_block pk kp = Some b" "pk_parseKey pk b = Some key"
    using pki_okD(3) [OF assms(2) s(2)] by blast
  with w(1,3) assms(3) show ?thesis
    by (simp add: acmeClient_def ReadFile_def s(1))
qed

text \<open>A pair can be torn: when the key cannot be written the new certificate stays beside the old key.\<close>

lemma torn_pair:
  assumes "distinct (own_paths m host)" "\<not> fs_nodir f (cm_Dir m)"
    and "fs_wfault f (certPath m host @ ''.tmp'') = WOk" "\<not> fs_norename f (certPath m host)"
    and "fs_wfault f (keyPath m host @ ''.tmp'') = WOpenFails"
    and "write_files m host c k f = (r, f')"
  shows "r \<noteq> None \<and> content f' (certPath m host) = Some c \<and> content f' (keyPath m host) = content f (keyPath m host)"
  using assms by (auto simp: write_files_def writeFileAtomic_def WriteFile_def Rename_def own_paths_def)

end
