(* ===== verification/Server.thy ===== *)
theory Server
  imports GoUrl Providers Sessions Otp Totp Certs
begin

text \<open>
  The gate itself: handlers/server.go, handlers/adminauth.go, handlers/hosting.go and the
  image handler of handlers/richtext.go.  A handler is a function of an environment (the clock,
  the random source, the cryptographic primitives, the JSON codec, the network), the request
  and the world (the server's memory, the file system, the audit log) to a response and the
  next world.  Text that goes through the translation catalog is its catalog key; the pages are
  a datatype with the data their templates get.
\<close>

subsection \<open>Requests, responses, the world\<close>

record Req =
  rq_Host :: string
  rq_RemoteAddr :: string
  rq_Header :: "string \<Rightarrow> string"
  rq_Cookie :: "string \<Rightarrow> string option"
  rq_Path :: string
  rq_PathValue :: "string \<Rightarrow> string"
  rq_Query :: "string \<Rightarrow> string"
  rq_Post :: "string \<Rightarrow> string list"
  rq_badForm :: bool

definition PostFormValue :: "Req \<Rightarrow> string \<Rightarrow> string" where
  "PostFormValue r n = (case rq_Post r n of [] \<Rightarrow> '''' | v # _ \<Rightarrow> v)"

record tile =
  ti_Name :: string
  ti_URL :: string
  ti_Description :: string
  ti_Image :: string
  ti_Host :: string
  ti_Site :: string
  ti_External :: bool

record tileGroup =
  tg_Site :: string
  tg_Tiles :: "tile list"

text \<open>The certificate page of handlers/tls.go; an expiry is the time that the page formats as a date.\<close>

record tlsRow =
  tr_Host :: string
  tr_Source :: Source
  tr_Expiry :: "int option"
  tr_Valid :: bool
  tr_Has :: bool
  tr_WWW :: bool
  tr_Sub :: bool

record tlsPageData =
  tl_Rows :: "tlsRow list"
  tl_CAAvailable :: bool
  tl_Email :: string
  tl_Site :: string
  tl_HasMsg :: bool
  tl_Msg :: string
  tl_MsgOK :: bool

datatype page =
    NoPage
  | TLSPage tlsPageData
  | Body bytes
  | ErrorKey string
  | ErrorText string
  | FormPage string string string
  | ListingPage string bool "tileGroup list"
  | AdminPage string
  | FilePage string
  | Proxied

record Resp =
  rp_status :: nat
  rp_Location :: string
  rp_AuthUser :: "string option"
  rp_SetCookie :: "(string \<times> string) list"
  rp_page :: page

definition WriteHeader :: "nat \<Rightarrow> Resp" where
  "WriteHeader n = \<lparr>rp_status = n, rp_Location = '''', rp_AuthUser = None, rp_SetCookie = [], rp_page = NoPage\<rparr>"

definition SeeOther :: "string \<Rightarrow> Resp" where
  "SeeOther url = (WriteHeader 303)\<lparr>rp_Location := url\<rparr>"

definition HttpError :: "string \<Rightarrow> nat \<Rightarrow> Resp" where
  "HttpError key n = (WriteHeader n)\<lparr>rp_page := ErrorKey key\<rparr>"

definition renderHTML :: "page \<Rightarrow> nat \<Rightarrow> Resp" where
  "renderHTML p n = (WriteHeader n)\<lparr>rp_page := p\<rparr>"

record oidcState =
  os_State :: string
  os_Nonce :: string
  os_Next :: string
  os_Provider :: string

record Env =
  en_now :: int
  en_newid :: "string option"
  en_draws :: "nat \<Rightarrow> nat option"
  en_rand20 :: "bytes option"
  en_salt :: "bytes option"
  en_iter :: "User list \<Rightarrow> User list"
  en_stamp :: string
  en_sha256 :: "bytes \<Rightarrow> bytes"
  en_hmac :: "bytes \<Rightarrow> bytes \<Rightarrow> bytes"
  en_IDKey :: idkey
  en_codec :: codec
  en_ldap :: ldap_net
  en_oidc :: oidc_net
  en_richHTML :: "string \<Rightarrow> string"
  en_run :: "string \<Rightarrow> string option"
  en_rand64 :: "string \<times> string"
  en_encState :: "oidcState \<Rightarrow> string"
  en_decState :: "string \<Rightarrow> oidcState option"
  en_qr :: "string \<Rightarrow> bool"
  en_spool_line :: "string \<Rightarrow> string \<Rightarrow> string \<Rightarrow> int \<Rightarrow> bytes"
  en_cap :: "User \<Rightarrow> nat"
  en_pki :: pki
  en_acme :: acme

record Server =
  sv_Cfg :: Config
  sv_Users :: UserDirectory
  sv_Sessions :: MemoryStore
  sv_Resolver :: Resolver
  sv_LDAP :: "LDAP list"
  sv_OIDC :: "string \<Rightarrow> OIDC option"
  sv_Proxy :: "Manager option"
  sv_Audit :: bool
  sv_OTP :: "OTPStore option"
  sv_UsersPath :: string
  sv_BackupsDir :: string
  sv_SetupPath :: string
  sv_ServicesPath :: string
  sv_SecretsPath :: string
  sv_OTPQueuePath :: string
  sv_DockerProxyURL :: string
  sv_DockerExclude :: "string list"
  sv_HostingUpstream :: string
  sv_hostingProxy :: bool
  sv_UpstreamLocalhost :: string
  sv_BaseBackends :: "Backend list"
  sv_BaseProviders :: "ProviderCfg list"
  sv_links :: "Link list"
  sv_adminIPs :: "string list"
  sv_monitors :: "Monitor list"
  sv_providers :: "ProviderCfg list option"
  sv_CertMgr :: "CertManager option"

record World =
  wd_srv :: Server
  wd_fs :: fs
  wd_log :: "(string \<times> string \<times> string) list"

datatype srv_error = FileErr file_error | ApplyErr apply_error | Msg string | PwErr pw_error

subsection \<open>Network addresses of a request\<close>

definition stripPort :: "string \<Rightarrow> string" where
  "stripPort host = (case SplitHostPort host of Some (h, _) \<Rightarrow> h | None \<Rightarrow> host)"

definition ipInCIDRs :: "ip option \<Rightarrow> string list \<Rightarrow> bool" where
  "ipInCIDRs a cidrs =
     (case a of
        None \<Rightarrow> False
      | Some i \<Rightarrow> list_ex (\<lambda>c. case ParseCIDR c of Some n \<Rightarrow> net_Contains n i | None \<Rightarrow> False) cidrs)"

definition clientIP :: "Req \<Rightarrow> string list \<Rightarrow> ip option" where
  "clientIP r trusted =
     (let host = (case SplitHostPort (rq_RemoteAddr r) of Some (h, _) \<Rightarrow> h | None \<Rightarrow> rq_RemoteAddr r);
          peer = ParseIP host
      in if \<not> ipInCIDRs peer trusted then peer
         else
           let xr = TrimSpace (rq_Header r ''X-Real-IP'');
               xff = rq_Header r ''X-Forwarded-For'';
               real = (if xr \<noteq> '''' then ParseIP xr else None);
               fwd = (if xff \<noteq> '''' then ParseIP (TrimSpace (hd (Split xff CHR '',''))) else None)
           in (case real of
                 Some a \<Rightarrow> Some a
               | None \<Rightarrow> (case fwd of Some a \<Rightarrow> Some a | None \<Rightarrow> peer)))"

definition list_sep :: "char \<Rightarrow> bool" where
  "list_sep c \<longleftrightarrow> c = CHR '','' \<or> c = CHR '' '' \<or> c = CHR 0x0A \<or> c = CHR 0x0D \<or> c = CHR 0x09 \<or> c = CHR '';''"

definition normalize_one :: "string \<Rightarrow> string" where
  "normalize_one f =
     (if \<not> Contains f ''/'' then
        (case ParseIP f of
           None \<Rightarrow> f
         | Some a \<Rightarrow> if To4 a \<noteq> None then f @ ''/32'' else f @ ''/128'')
      else f)"

fun normalize_all :: "string list \<Rightarrow> string + string list" where
  "normalize_all [] = Inr []"
| "normalize_all (f # fs) =
     (let g = normalize_one f in
      if ParseCIDR g = None then Inl g
      else (case normalize_all fs of Inl e \<Rightarrow> Inl e | Inr gs \<Rightarrow> Inr (g # gs)))"

definition normalizeCIDRs :: "string \<Rightarrow> string + string list" where
  "normalizeCIDRs raw = normalize_all (FieldsFunc list_sep raw)"

subsection \<open>Sessions, audit and the admin network\<close>

definition session :: "Env \<Rightarrow> Req \<Rightarrow> World \<Rightarrow> Session option \<times> World" where
  "session e r w =
     (let s = wd_srv w in
      case rq_Cookie r (ses_CookieName (cfg_Session (sv_Cfg s))) of
        None \<Rightarrow> (None, w)
      | Some v \<Rightarrow>
          (let (ms, res) = Sessions.Get (en_now e) (sv_Sessions s) v
           in (res, w\<lparr>wd_srv := s\<lparr>sv_Sessions := ms\<rparr>\<rparr>)))"

definition setSession :: "World \<Rightarrow> string \<Rightarrow> Resp \<Rightarrow> Resp" where
  "setSession w sid rp =
     rp\<lparr>rp_SetCookie := rp_SetCookie rp @ [(ses_CookieName (cfg_Session (sv_Cfg (wd_srv w))), sid)]\<rparr>"

text \<open>Clearing sets the empty value (with a negative age).\<close>

definition clearSession :: "World \<Rightarrow> Resp \<Rightarrow> Resp" where
  "clearSession w rp = setSession w '''' rp"

definition auditFail :: "Req \<Rightarrow> string \<Rightarrow> string \<Rightarrow> World \<Rightarrow> World" where
  "auditFail r event detail w =
     (if \<not> sv_Audit (wd_srv w) then w
      else
        let i = (case clientIP r (srv_TrustedProxies (cfg_Server (sv_Cfg (wd_srv w)))) of
                   Some a \<Rightarrow> IP_String a | None \<Rightarrow> '''')
        in w\<lparr>wd_log := wd_log w @ [(i, event, detail)]\<rparr>)"

definition effectiveAdminIPs :: "Server \<Rightarrow> string list" where
  "effectiveAdminIPs s = (if sv_adminIPs s = [] then adm_IPWhitelist (cfg_Admin (sv_Cfg s)) else sv_adminIPs s)"

definition adminAllowed :: "Req \<Rightarrow> Server \<Rightarrow> bool" where
  "adminAllowed r s =
     (case clientIP r (srv_TrustedProxies (cfg_Server (sv_Cfg s))) of
        None \<Rightarrow> False
      | Some a \<Rightarrow> ipInCIDRs (Some a) (effectiveAdminIPs s))"

subsection \<open>The authorization endpoint\<close>

definition handleValidate :: "Env \<Rightarrow> Req \<Rightarrow> World \<Rightarrow> Resp \<times> World" where
  "handleValidate e r w =
     (let s = wd_srv w in
      if \<not> cfg_AuthMode (sv_Cfg s) then (WriteHeader 200, w)
      else
        let host = stripPort (firstNonEmptyStr (rq_Header r ''X-Original-Host'') (rq_Host r));
            path0 = firstNonEmptyStr (rq_Header r ''X-Original-URI'') ''/'';
            path = (case IndexByte path0 CHR ''?'' of Some i \<Rightarrow> take i path0 | None \<Rightarrow> path0);
            (be, route, ok) = Resolve (sv_Resolver s) host path
        in if \<not> ok then (WriteHeader 403, w)
           else if be_IPAllow be \<noteq> [] \<and>
             (case clientIP r (srv_TrustedProxies (cfg_Server (sv_Cfg s))) of
                None \<Rightarrow> True
              | Some a \<Rightarrow> \<not> ipInCIDRs (Some a) (be_IPAllow be))
           then (WriteHeader 403, auditFail r ''ip_denied'' (''host='' @ host) w)
           else if CanonicalRule (rt_Rule route) = ''public'' then (WriteHeader 200, w)
           else if CanonicalRule (rt_Rule route) = ''authenticated'' then
             (case session e r w of
                (Some sess, w1) \<Rightarrow>
                  if s_TwoFADone sess then ((WriteHeader 200)\<lparr>rp_AuthUser := Some (s_Email sess)\<rparr>, w1)
                  else (WriteHeader 401, w1)
              | (None, w1) \<Rightarrow> (WriteHeader 401, w1))
           else if CanonicalRule (rt_Rule route) = RuleAuthorized then
             (case session e r w of
                (None, w1) \<Rightarrow> (WriteHeader 401, w1)
              | (Some sess, w1) \<Rightarrow>
                  if \<not> s_TwoFADone sess then (WriteHeader 401, w1)
                  else (case Users.Get (sv_Users s) (s_Email sess) of
                          None \<Rightarrow> (WriteHeader 403, w1)
                        | Some u \<Rightarrow>
                            if usr_Admin u \<or> Authorized u (EffectiveGrantID be route)
                            then ((WriteHeader 200)\<lparr>rp_AuthUser := Some (s_Email sess)\<rparr>, w1)
                            else (WriteHeader 403, w1)))
           else (WriteHeader 403, w))"

subsection \<open>The dashboard\<close>

text \<open>\<open>idx\<close> of the code is the position of the block that has the site.\<close>

fun groupTiles_go :: "tileGroup list \<Rightarrow> tile list \<Rightarrow> tileGroup list" where
  "groupTiles_go out [] = out"
| "groupTiles_go out (t # ts) =
     (if ti_Site t = '''' then groupTiles_go (out @ [\<lparr>tg_Site = '''', tg_Tiles = [t]\<rparr>]) ts
      else (case update_first (\<lambda>g. tg_Site g = ti_Site t) (\<lambda>g. g\<lparr>tg_Tiles := tg_Tiles g @ [t]\<rparr>) out of
              Some out' \<Rightarrow> groupTiles_go out' ts
            | None \<Rightarrow> groupTiles_go (out @ [\<lparr>tg_Site = ti_Site t, tg_Tiles = [t]\<rparr>]) ts))"

definition groupTiles :: "tile list \<Rightarrow> tileGroup list" where
  "groupTiles ts = groupTiles_go [] ts"

definition canSeeBackend :: "User \<Rightarrow> Backend \<Rightarrow> bool" where
  "canSeeBackend u be =
     (if usr_Admin u then True
      else if list_ex (\<lambda>rt. rt_Rule rt = ''public'' \<or> rt_Rule rt = ''authenticated'') (be_Routes be) then True
      else Authorized u (be_ID be))"

definition html_escape :: "string \<Rightarrow> string" where
  "html_escape s = concat (map (\<lambda>c.
     if c = CHR 0x00 then [CHR 0xEF, CHR 0xBF, CHR 0xBD]
     else if c = CHR 0x22 then ''&#34;'' else if c = CHR 0x27 then ''&#39;''
     else if c = CHR ''&'' then ''&amp;'' else if c = CHR ''<'' then ''&lt;''
     else if c = CHR ''>'' then ''&gt;'' else [c]) s)"

definition backend_tile :: "(string \<Rightarrow> string) \<Rightarrow> Backend \<Rightarrow> tile" where
  "backend_tile rich be =
     \<lparr>ti_Name = (if be_Name be = '''' then be_ID be else be_Name be),
      ti_URL = (if be_URL be = '''' then ''//'' @ be_Host be else be_URL be),
      ti_Description = (if be_Description be = '''' then '''' else rich (be_Description be)),
      ti_Image = (if be_Image be \<noteq> '''' then ''/listing/img/'' @ be_ID be else ''''),
      ti_Host = be_Host be,
      ti_Site = (case be_Hosting be of Some h \<Rightarrow> hr_Site h | None \<Rightarrow> ''''),
      ti_External = False\<rparr>"

definition link_tile :: "Link \<Rightarrow> tile" where
  "link_tile l =
     \<lparr>ti_Name = ln_Name l, ti_URL = ln_URL l, ti_Description = html_escape (ln_Description l),
      ti_Image = '''', ti_Host = '''', ti_Site = '''', ti_External = True\<rparr>"

definition tilesFor :: "(string \<Rightarrow> string) \<Rightarrow> Server \<Rightarrow> User \<Rightarrow> tile list" where
  "tilesFor rich s u =
     map (backend_tile rich) (filter (\<lambda>be. canSeeBackend u be \<and> \<not> be_Unlisted be) (Backends (sv_Resolver s))) @
     map link_tile (filter (\<lambda>l. \<not> ln_Disabled l \<and> (usr_Admin u \<or> ln_Public l \<or> Authorized u (ln_ID l))) (sv_links s))"

definition handleListing :: "Env \<Rightarrow> Req \<Rightarrow> World \<Rightarrow> Resp \<times> World" where
  "handleListing e r w =
     (case session e r w of
        (None, w1) \<Rightarrow> (SeeOther ''/login?next=/listing'', w1)
      | (Some sess, w1) \<Rightarrow>
          if \<not> s_TwoFADone sess then (SeeOther ''/login?next=/listing'', w1)
          else
            let u = (case Users.Get (sv_Users (wd_srv w1)) (s_Email sess) of Some u \<Rightarrow> u | None \<Rightarrow> zero_User)
            in (renderHTML (ListingPage (s_Email sess) (usr_Admin u)
                  (groupTiles (tilesFor (en_richHTML e) (wd_srv w1) u))) 200, w1))"

definition listingImgDir :: "Server \<Rightarrow> string" where
  "listingImgDir s = pathJoin [Dir (sv_SetupPath s), ''listing-img'']"

definition handleListingImg :: "Env \<Rightarrow> Req \<Rightarrow> World \<Rightarrow> Resp \<times> World" where
  "handleListingImg e r w =
     (case session e r w of
        (None, w1) \<Rightarrow> (WriteHeader 404, w1)
      | (Some _, w1) \<Rightarrow>
          (case find (\<lambda>be. be_ID be = rq_PathValue r ''id'' \<and> be_Image be \<noteq> '''') (Backends (sv_Resolver (wd_srv w1))) of
             Some be \<Rightarrow> (renderHTML (FilePage (pathJoin [listingImgDir (wd_srv w1), be_Image be])) 200, w1)
           | None \<Rightarrow> (WriteHeader 404, w1)))"

subsection \<open>Redirect targets\<close>

definition sanitizeNext :: "Server \<Rightarrow> string \<Rightarrow> string" where
  "sanitizeNext s n =
     (if n = '''' then ''/listing''
      else if HasPrefix n ''/'' \<and> \<not> HasPrefix n ''//'' then n
      else (case url_Parse n of
              None \<Rightarrow> ''/listing''
            | Some u \<Rightarrow>
                if (u_Scheme u = ''http'' \<or> u_Scheme u = ''https'') \<and>
                   list_ex (\<lambda>be. be_Host be = stripPort (u_Host u)) (Backends (sv_Resolver s))
                then n else ''/listing''))"

subsection \<open>The admin gate\<close>

text \<open>\<open>None\<close> lets the request through; otherwise the response was already written.\<close>

definition adminSessionOK :: "Env \<Rightarrow> Req \<Rightarrow> World \<Rightarrow> Resp option \<times> World" where
  "adminSessionOK e r w =
     (if \<not> adminAllowed r (wd_srv w)
      then (Some (HttpError ''err.forbidden'' 403), auditFail r ''admin_ip'' '''' w)
      else (case session e r w of
              (None, w1) \<Rightarrow> (Some (SeeOther (''/login?next='' @ QueryEscape (rq_Path r))), w1)
            | (Some sess, w1) \<Rightarrow>
                if \<not> s_TwoFADone sess
                then (Some (SeeOther (''/login?next='' @ QueryEscape (rq_Path r))), w1)
                else (case Users.Get (sv_Users (wd_srv w1)) (s_Email sess) of
                        None \<Rightarrow> (Some (renderHTML (FormPage ''forbidden_admin'' '''' '''') 403),
                                  auditFail r ''admin_denied'' (''email='' @ s_Email sess) w1)
                      | Some u \<Rightarrow>
                          if usr_Admin u then (None, w1)
                          else (Some (renderHTML (FormPage ''forbidden_admin'' '''' '''') 403),
                                auditFail r ''admin_denied'' (''email='' @ s_Email sess) w1))))"

definition adminGuard :: "Env \<Rightarrow> Req \<Rightarrow> World \<Rightarrow> Resp option \<times> World" where
  "adminGuard e r w =
     (case adminSessionOK e r w of
        (Some rp, w1) \<Rightarrow> (Some rp, w1)
      | (None, w1) \<Rightarrow> if rq_badForm r then (Some (HttpError ''err.bad_request'' 400), w1) else (None, w1))"

definition handleHostingProxy :: "Env \<Rightarrow> Req \<Rightarrow> World \<Rightarrow> Resp \<times> World" where
  "handleHostingProxy e r w =
     (if sv_HostingUpstream (wd_srv w) = '''' \<or> \<not> sv_hostingProxy (wd_srv w) then (WriteHeader 404, w)
      else (case adminSessionOK e r w of
              (Some rp, w1) \<Rightarrow> (rp, w1)
            | (None, w1) \<Rightarrow> (renderHTML Proxied 200, w1)))"

subsection \<open>Reload\<close>

definition currentProviders :: "Server \<Rightarrow> ProviderCfg list" where
  "currentProviders s = (case sv_providers s of None \<Rightarrow> sv_BaseProviders s | Some ps \<Rightarrow> ps)"

definition oidcFor :: "Server \<Rightarrow> string \<Rightarrow> OIDC option" where
  "oidcFor s i = sv_OIDC s i"

definition monitor_backend :: "Monitor \<Rightarrow> Backend" where
  "monitor_backend m =
     zero_Backend\<lparr>be_ID := mo_ID m,
       be_Host := (if mo_Name m = '''' then mo_ID m else mo_Name m),
       be_Health := \<lparr>hl_URL = mo_URL m,
         hl_IntervalSeconds = (if mo_IntervalSeconds m = 0 then 30 else mo_IntervalSeconds m),
         hl_TimeoutSeconds = (if mo_TimeoutSeconds m = 0 then 5 else mo_TimeoutSeconds m)\<rparr>\<rparr>"

definition HealthTargets :: "Server \<Rightarrow> Backend list" where
  "HealthTargets s = Backends (sv_Resolver s) @ map monitor_backend (sv_monitors s)"

definition Reload :: "Env \<Rightarrow> World \<Rightarrow> srv_error option \<times> World" where
  "Reload e w =
     (let s = wd_srv w in
      case LoadServices (en_codec e) (sv_ServicesPath s) (wd_fs w) of
        Inl err \<Rightarrow> (Some (FileErr err), w)
      | Inr svc \<Rightarrow>
          let merged = sv_BaseBackends s @ filter (\<lambda>b. \<not> be_Disabled b) (svc_Backends svc);
              provs = mergeProviders (sv_BaseProviders s) (svc_Providers svc);
              sec = (case LoadSecretsRaw (en_codec e) (sv_SecretsPath s) (wd_fs w) of Inr x \<Rightarrow> x | Inl _ \<Rightarrow> zero_Secrets);
              s1 = s\<lparr>sv_Resolver := Matrix.Set merged (sv_Resolver s),
                     sv_links := svc_Links svc,
                     sv_adminIPs := svc_AdminIPWhitelist svc,
                     sv_monitors := svc_Monitors svc,
                     sv_providers := Some provs,
                     sv_OIDC := BuildOIDC provs sec (srv_ExternalURL (cfg_Server (sv_Cfg s)))\<rparr>;
              (err, f) = Apply (en_run e) (en_stamp e) (sv_Proxy s) merged (wd_fs w)
          in (map_option ApplyErr err, w\<lparr>wd_srv := s1, wd_fs := f\<rparr>))"

definition handleAdminReload :: "Env \<Rightarrow> Req \<Rightarrow> World \<Rightarrow> Resp \<times> World" where
  "handleAdminReload e r w =
     (case adminGuard e r w of
        (Some rp, w1) \<Rightarrow> (rp, w1)
      | (None, w1) \<Rightarrow>
          (case Reload e w1 of
             (Some _, w2) \<Rightarrow> (HttpError ''err.reload_failed'' 500, w2)
           | (None, w2) \<Rightarrow> (WriteHeader 200, w2)))"


section \<open>Properties\<close>

text \<open>A small installation for the examples: one protected service, one user who may use it.\<close>

definition sample_env :: "Env" where
  "sample_env = \<lparr>en_now = 1700000000000000000, en_newid = Some ''sid'', en_draws = (\<lambda>i. Some i), en_rand20 = Some (replicate 20 CHR ''k''),
     en_salt = Some ''salt'', en_iter = (\<lambda>us. us), en_stamp = ''t'', en_sha256 = (\<lambda>b. b),
     en_hmac = (\<lambda>_ _. replicate 20 CHR ''x''), en_IDKey = (\<lambda>p _ _ _ _ k. Some (take k (p @ replicate k CHR ''.''))),
     en_codec = tiny_codec zero_User, en_ldap = \<lparr>lnet_dial = (\<lambda>_. True), lnet_starttls = (\<lambda>_. True), lnet_bind = (\<lambda>_ _ _. False)\<rparr>,
     en_oidc = sample_idp, en_richHTML = (\<lambda>s. s), en_run = (\<lambda>_. None), en_rand64 = (''st'', ''n''),
     en_encState = os_Next, en_decState = (\<lambda>_. None), en_qr = (\<lambda>_. True), en_spool_line = (\<lambda>_ _ _ _. ''l''), en_cap = (\<lambda>_. 0),
     en_pki = sample_pki, en_acme = sample_acme\<rparr>"

definition sample_user :: User where
  "sample_user = \<lparr>usr_Email = ''a@x'', usr_Provider = ''local'', usr_PasswordHash = ''h'', usr_TOTPSecret = '''',
     usr_Admin = True, usr_Backends = [''svc'']\<rparr>"

definition sample_backend :: Backend where
  "sample_backend = zero_Backend\<lparr>be_ID := ''svc'', be_Host := ''h'', be_Routes := [route_of ''/'' ''authorized'' False]\<rparr>"

definition sample_session :: Session where
  "sample_session = \<lparr>s_ID = ''sid'', s_Email = ''a@x'', s_Provider = ''local'', s_TwoFADone = True, s_CreatedAt = 0, s_LastSeen = 0\<rparr>"

definition sample_server :: Server where
  "sample_server = \<lparr>sv_Cfg = zero_Config\<lparr>cfg_AuthMode := True, cfg_Admin := \<lparr>adm_IPWhitelist = [''10.0.0.0/8'']\<rparr>\<rparr>,
     sv_Users = NewUserDirectory [sample_user],
     sv_Sessions = (NewMemoryStore 0 0)\<lparr>ms_m := [''sid'' \<mapsto> sample_session]\<rparr>,
     sv_Resolver = \<lparr>rs_backends = [sample_backend]\<rparr>, sv_LDAP = [], sv_OIDC = Map.empty, sv_Proxy = None, sv_Audit = False,
     sv_OTP = None, sv_UsersPath = ''users.json'', sv_BackupsDir = ''backups'', sv_SetupPath = ''setup.json'',
     sv_ServicesPath = ''services.json'', sv_SecretsPath = ''secrets.json'', sv_OTPQueuePath = '''',
     sv_DockerProxyURL = '''', sv_DockerExclude = [], sv_HostingUpstream = '''', sv_hostingProxy = False,
     sv_UpstreamLocalhost = '''', sv_BaseBackends = [], sv_BaseProviders = [], sv_links = [], sv_adminIPs = [],
     sv_monitors = [], sv_providers = None, sv_CertMgr = None\<rparr>"

definition sample_world :: World where
  "sample_world = \<lparr>wd_srv = sample_server, wd_fs = plain_fs [], wd_log = []\<rparr>"

definition sample_req :: Req where
  "sample_req = \<lparr>rq_Host = ''h'', rq_RemoteAddr = ''10.0.0.1:5000'', rq_Header = (\<lambda>_. ''''), rq_Cookie = (\<lambda>_. Some ''sid''),
     rq_Path = ''/'', rq_PathValue = (\<lambda>_. ''''), rq_Query = (\<lambda>_. ''''), rq_Post = (\<lambda>_. []), rq_badForm = False\<rparr>"

text \<open>The session a request carries: its cookie names a stored one inside both windows.\<close>

definition carries :: "Env \<Rightarrow> Req \<Rightarrow> World \<Rightarrow> Session \<Rightarrow> bool" where
  "carries e r w x \<longleftrightarrow> (\<exists>v. rq_Cookie r (ses_CookieName (cfg_Session (sv_Cfg (wd_srv w)))) = Some v \<and> v \<noteq> '''' \<and>
     ms_m (sv_Sessions (wd_srv w)) v = Some x \<and> \<not> expired (en_now e) (sv_Sessions (wd_srv w)) x)"

lemma session_carries:
  "(\<exists>w1. session e r w = (Some y, w1)) \<longleftrightarrow> (\<exists>x. carries e r w x \<and> y = x\<lparr>s_LastSeen := en_now e\<rparr>)"
  by (auto simp: session_def carries_def Sessions.Get_def Let_def split: option.splits prod.splits)

text \<open>The request path \<open>/validate\<close> decides about, and the networks it checks.\<close>

definition asked_host :: "Req \<Rightarrow> string" where
  "asked_host r = stripPort (firstNonEmptyStr (rq_Header r ''X-Original-Host'') (rq_Host r))"

definition asked_path :: "Req \<Rightarrow> string" where
  "asked_path r =
     (let p = firstNonEmptyStr (rq_Header r ''X-Original-URI'') ''/''
      in case IndexByte p CHR ''?'' of Some i \<Rightarrow> take i p | None \<Rightarrow> p)"

definition net_admits :: "Req \<Rightarrow> Server \<Rightarrow> Backend \<Rightarrow> bool" where
  "net_admits r s be \<longleftrightarrow> be_IPAllow be = [] \<or>
     ipInCIDRs (clientIP r (srv_TrustedProxies (cfg_Server (sv_Cfg s)))) (be_IPAllow be)"

lemma validate_decides:
  assumes "cfg_AuthMode (sv_Cfg (wd_srv w))"
  shows "rp_status (fst (handleValidate e r w)) = 200 \<longleftrightarrow>
    (\<exists>be rt. Resolve (sv_Resolver (wd_srv w)) (asked_host r) (asked_path r) = (be, rt, True) \<and>
       net_admits r (wd_srv w) be \<and>
       (CanonicalRule (rt_Rule rt) = ''public'' \<or>
        (\<exists>x. carries e r w x \<and> s_TwoFADone x \<and>
          (CanonicalRule (rt_Rule rt) = ''authenticated'' \<or>
           CanonicalRule (rt_Rule rt) = ''authorized'' \<and>
           (\<exists>u. Users.Get (sv_Users (wd_srv w)) (s_Email x) = Some u \<and>
              (usr_Admin u \<or> EffectiveGrantID be rt \<in> set (usr_Backends u)))))))"
proof -
  obtain be rt ok where R: "Resolve (sv_Resolver (wd_srv w)) (asked_host r) (asked_path r) = (be, rt, ok)"
    by (metis prod_cases3)
  have ip: "(case a of None \<Rightarrow> True | Some x \<Rightarrow> \<not> ipInCIDRs (Some x) ns) \<longleftrightarrow> \<not> ipInCIDRs a ns" for a ns
    by (simp add: ipInCIDRs_def split: option.split)
  have D: "rp_status (fst (handleValidate e r w)) =
      (if \<not> ok \<or> \<not> net_admits r (wd_srv w) be then 403
       else if CanonicalRule (rt_Rule rt) = ''public'' then 200
       else if CanonicalRule (rt_Rule rt) = ''authenticated'' then
         (case fst (session e r w) of None \<Rightarrow> 401 | Some x \<Rightarrow> if s_TwoFADone x then 200 else 401)
       else if CanonicalRule (rt_Rule rt) = ''authorized'' then
         (case fst (session e r w) of None \<Rightarrow> 401 | Some x \<Rightarrow>
            if \<not> s_TwoFADone x then 401
            else (case Users.Get (sv_Users (wd_srv w)) (s_Email x) of None \<Rightarrow> 403
                  | Some u \<Rightarrow> if usr_Admin u \<or> Authorized u (EffectiveGrantID be rt) then 200 else 403))
       else 403)"
    using assms R unfolding handleValidate_def Let_def asked_host_def [symmetric] asked_path_def [unfolded Let_def, symmetric] ip
    by (simp add: net_admits_def WriteHeader_def RuleAuthorized_def split: option.split prod.split)
  have A: "Authorized u g \<longleftrightarrow> g \<in> set (usr_Backends u)" for u g
    by (auto simp: Authorized_def list_ex_iff)
  have C: "fst (session e r w) = Some y \<longleftrightarrow> (\<exists>x. carries e r w x \<and> y = x\<lparr>s_LastSeen := en_now e\<rparr>)" for y
    using session_carries [of e r w y] by (cases "session e r w") auto
  have U: "carries e r w x \<Longrightarrow> carries e r w y \<Longrightarrow> x = y" for x y
    by (auto simp: carries_def)
  show ?thesis
  proof (cases "fst (session e r w)")
    case None
    then have "\<not> carries e r w x" for x using C by force
    then show ?thesis unfolding D R None by auto
  next
    case (Some y)
    then obtain x where x: "carries e r w x" "y = x\<lparr>s_LastSeen := en_now e\<rparr>" using C by blast
    have "(\<exists>x. carries e r w x \<and> P x) \<longleftrightarrow> P x" for P
      using x(1) U by blast
    then show ?thesis
      unfolding D R Some
      by (cases "ok \<and> net_admits r (wd_srv w) be") (auto simp: x(2) A split: option.split)
  qed
qed

text \<open>
  C2: with authentication on, \<open>/validate\<close> answers 200 exactly when a route is found whose
  backend admits the client's network and the route is public, or the request carries a live
  session with its second factor completed and either the route only asks for that, or the
  session's user exists and is an administrator or holds the grant the path needs.
\<close>

theorem validate_200:
  assumes "cfg_AuthMode (sv_Cfg (wd_srv w))"
  shows "rp_status (fst (handleValidate e r w)) = 200 \<longleftrightarrow>
    (\<exists>be rt. Resolve (sv_Resolver (wd_srv w)) (asked_host r) (asked_path r) = (be, rt, True) \<and>
       net_admits r (wd_srv w) be \<and>
       (CanonicalRule (rt_Rule rt) = ''public'' \<or>
        (\<exists>x. carries e r w x \<and> s_TwoFADone x \<and>
          (CanonicalRule (rt_Rule rt) = ''authenticated'' \<or>
           CanonicalRule (rt_Rule rt) = ''authorized'' \<and>
           (\<exists>u. Users.Get (sv_Users (wd_srv w)) (s_Email x) = Some u \<and>
              (usr_Admin u \<or> EffectiveGrantID be rt \<in> set (usr_Backends u)))))))"
  by (rule validate_decides [OF assms])

theorem validate_200_witness:
  "rp_status (fst (handleValidate sample_env sample_req sample_world)) = 200 \<and>
   rp_status (fst (handleValidate sample_env (sample_req\<lparr>rq_Cookie := (\<lambda>_. None)\<rparr>) sample_world)) \<noteq> 200"
proof -
  have on: "cfg_AuthMode (sv_Cfg (wd_srv sample_world))" by (simp add: sample_world_def sample_server_def)
  have r: "Resolve (sv_Resolver (wd_srv sample_world)) ''h'' ''/'' = (sample_backend, route_of ''/'' ''authorized'' False, True)"
    by (simp add: sample_world_def sample_server_def sample_backend_def zero_Backend_def Resolve_def route_of_def pathMatches_def)
  have a: "asked_host sample_req = ''h''" "asked_path sample_req = ''/''"
      "asked_host (sample_req\<lparr>rq_Cookie := (\<lambda>_. None)\<rparr>) = ''h''" "asked_path (sample_req\<lparr>rq_Cookie := (\<lambda>_. None)\<rparr>) = ''/''"
    by code_simp+
  have c: "carries sample_env sample_req sample_world sample_session" "\<not> carries sample_env (sample_req\<lparr>rq_Cookie := (\<lambda>_. None)\<rparr>) sample_world x" for x
    by (simp_all add: carries_def sample_req_def sample_world_def sample_server_def expired_def NewMemoryStore_def)
  have n: "net_admits q (wd_srv sample_world) sample_backend" for q
    by (simp add: net_admits_def sample_backend_def zero_Backend_def)
  have u: "Users.Get (sv_Users (wd_srv sample_world)) ''a@x'' = Some sample_user"
    by (simp add: sample_world_def sample_server_def NewUserDirectory_def Replace_def Users.Get_def sample_user_def)
  have x: "s_TwoFADone sample_session" "s_Email sample_session = ''a@x''" "usr_Admin sample_user"
    by (simp_all add: sample_session_def sample_user_def)
  have p: "CanonicalRule (rt_Rule (route_of ''/'' ''authorized'' False)) = ''authorized''"
    by (simp add: route_of_def CanonicalRule_def rule_names)
  show ?thesis
    using validate_200 [OF on, of sample_env sample_req] validate_200 [OF on, of sample_env "sample_req\<lparr>rq_Cookie := (\<lambda>_. None)\<rparr>"]
    unfolding a r using c n u x p by auto
qed

text \<open>The address of the TCP peer.\<close>

definition peer_ip :: "Req \<Rightarrow> ip option" where
  "peer_ip r = ParseIP (case SplitHostPort (rq_RemoteAddr r) of Some (h, _) \<Rightarrow> h | None \<Rightarrow> rq_RemoteAddr r)"

text \<open>
  The address a request is judged by is that of the TCP peer, whatever the forwarding
  headers say, unless the peer itself is one of the trusted proxies.
\<close>

theorem clientIP_untrusted:
  assumes "rq_RemoteAddr r' = rq_RemoteAddr r" "\<not> ipInCIDRs (peer_ip r) trusted"
  shows "clientIP r' trusted = peer_ip r \<and> clientIP r trusted = peer_ip r"
proof -
  have c: "clientIP q trusted = peer_ip q" if "\<not> ipInCIDRs (peer_ip q) trusted" for q
    using that by (simp add: clientIP_def peer_ip_def Let_def)
  have "peer_ip r' = peer_ip r" unfolding peer_ip_def assms(1) ..
  with assms(2) c show ?thesis by metis
qed

theorem clientIP_untrusted_witness:
  "clientIP (sample_req\<lparr>rq_RemoteAddr := ''8.8.8.8:1'', rq_Header := (\<lambda>_. ''10.0.0.1'')\<rparr>) [''10.0.0.0/8''] =
   peer_ip (sample_req\<lparr>rq_RemoteAddr := ''8.8.8.8:1''\<rparr>)"
proof -
  have "\<not> ipInCIDRs (peer_ip (sample_req\<lparr>rq_RemoteAddr := ''8.8.8.8:1''\<rparr>)) [''10.0.0.0/8'']"
    by code_simp
  then show ?thesis
    using clientIP_untrusted [of "sample_req\<lparr>rq_RemoteAddr := ''8.8.8.8:1'', rq_Header := (\<lambda>_. ''10.0.0.1'')\<rparr>"
        "sample_req\<lparr>rq_RemoteAddr := ''8.8.8.8:1''\<rparr>"] by simp
qed

text \<open>
  C9: the admin gate lets a request through exactly when its form can be parsed, its address is
  in an admin network, and it carries a live, completed session of a user who exists and is an
  administrator.
\<close>

theorem adminGuard_passes:
  "fst (adminGuard e r w) = None \<longleftrightarrow>
     \<not> rq_badForm r \<and> adminAllowed r (wd_srv w) \<and>
     (\<exists>x u. carries e r w x \<and> s_TwoFADone x \<and>
        Users.Get (sv_Users (wd_srv w)) (s_Email x) = Some u \<and> usr_Admin u)"
proof -
  have C: "(\<exists>w1. session e r w = (Some y, w1)) \<longleftrightarrow> (\<exists>x. carries e r w x \<and> y = x\<lparr>s_LastSeen := en_now e\<rparr>)" for y
    by (rule session_carries)
  have Us: "sv_Users (wd_srv (snd (session e r w))) = sv_Users (wd_srv w)"
    by (auto simp: session_def Let_def split: option.split prod.split)
  have P: "fst (adminGuard e r w) = None \<longleftrightarrow> \<not> rq_badForm r \<and> adminAllowed r (wd_srv w) \<and>
      (\<exists>y u. fst (session e r w) = Some y \<and> s_TwoFADone y \<and>
         Users.Get (sv_Users (wd_srv w)) (s_Email y) = Some u \<and> usr_Admin u)"
    using Us by (auto simp: adminGuard_def adminSessionOK_def split: option.splits prod.splits)
  have F: "fst (session e r w) = Some y \<longleftrightarrow> (\<exists>x. carries e r w x \<and> y = x\<lparr>s_LastSeen := en_now e\<rparr>)" for y
    using C [of y] by (cases "session e r w") auto
  show ?thesis
    unfolding P F by (metis (no_types, lifting) Session.select_convs(2,4) Session.surjective Session.update_convs(6))
qed


text \<open>A backslash after the first slash gets through, which browsers read as a second slash.\<close>

theorem sanitizeNext_backslash: "sanitizeNext s ([CHR ''/'', CHR 0x5C] @ ''evil.com'') = [CHR ''/'', CHR 0x5C] @ ''evil.com''"
  by (simp add: sanitizeNext_def)

text \<open>Every network that \<open>normalizeCIDRs\<close> returns parses, and it returns one per entry.\<close>

theorem normalizeCIDRs_valid:
  assumes "normalizeCIDRs raw = Inr cs"
  shows "list_all (\<lambda>c. ParseCIDR c \<noteq> None) cs \<and> length cs = length (FieldsFunc list_sep raw)"
proof -
  have "normalize_all fs = Inr cs \<Longrightarrow> list_all (\<lambda>c. ParseCIDR c \<noteq> None) cs \<and> length cs = length fs" for fs
    by (induction fs arbitrary: cs) (auto simp: Let_def split: if_splits sum.splits)
  with assms show ?thesis by (simp add: normalizeCIDRs_def)
qed

theorem normalizeCIDRs_valid_witness:
  "list_all (\<lambda>c. ParseCIDR c \<noteq> None) [''10.0.0.1/32'', ''192.168.0.0/16'']"
proof -
  have "normalizeCIDRs ''10.0.0.1, 192.168.0.0/16'' = Inr [''10.0.0.1/32'', ''192.168.0.0/16'']" by code_simp
  from normalizeCIDRs_valid [OF this] show ?thesis by simp
qed

text \<open>What a successful reload leaves in memory and on disk.\<close>

lemma Reload_result:
  assumes "Reload e w = (None, w')" "sv_Proxy (wd_srv w) = Some m"
    and "mgr_OutPath m \<noteq> ''''" "mgr_OutPath m \<noteq> pathJoin [mgr_BackupsDir m, ''backends-'' @ en_stamp e @ ''.conf'']"
    and "\<not> glob_match (Clean (mgr_BackupsDir m)) ''backends-'' ''.conf'' (mgr_OutPath m)"
  shows "\<exists>svc. LoadServices (en_codec e) (sv_ServicesPath (wd_srv w)) (wd_fs w) = Inr svc \<and>
     rs_backends (sv_Resolver (wd_srv w')) =
       sv_BaseBackends (wd_srv w) @ filter (\<lambda>b. \<not> be_Disabled b) (svc_Backends svc) \<and>
     content (wd_fs w') (mgr_OutPath m) = Some (Generate (mgr_Gen m (wd_fs w)) (rs_backends (sv_Resolver (wd_srv w'))))"
proof -
  obtain svc where svc: "LoadServices (en_codec e) (sv_ServicesPath (wd_srv w)) (wd_fs w) = Inr svc"
    using assms(1) by (auto simp: Reload_def Let_def split: sum.splits)
  let ?bs = "sv_BaseBackends (wd_srv w) @ filter (\<lambda>b. \<not> be_Disabled b) (svc_Backends svc)"
  obtain f where ap: "Apply (en_run e) (en_stamp e) (Some m) ?bs (wd_fs w) = (None, f)"
    and w': "rs_backends (sv_Resolver (wd_srv w')) = ?bs" "wd_fs w' = f"
    using assms(1,2) svc by (auto simp: Reload_def Let_def Matrix.Set_def split: prod.splits)
  show ?thesis
    using Apply_atomic_aux [OF ap assms(3-5)] svc w' by auto
qed

text \<open>
  C11: after a successful reload the resolver serves the static backends and the enabled ones of
  services.json, and NGINX is given the configuration of exactly the same list.
\<close>

theorem Reload_consistent:
  assumes "Reload e w = (None, w')" "sv_Proxy (wd_srv w) = Some m"
    and "mgr_OutPath m \<noteq> ''''" "mgr_OutPath m \<noteq> pathJoin [mgr_BackupsDir m, ''backends-'' @ en_stamp e @ ''.conf'']"
    and "\<not> glob_match (Clean (mgr_BackupsDir m)) ''backends-'' ''.conf'' (mgr_OutPath m)"
  shows "\<exists>svc. LoadServices (en_codec e) (sv_ServicesPath (wd_srv w)) (wd_fs w) = Inr svc \<and>
     rs_backends (sv_Resolver (wd_srv w')) =
       sv_BaseBackends (wd_srv w) @ filter (\<lambda>b. \<not> be_Disabled b) (svc_Backends svc) \<and>
     content (wd_fs w') (mgr_OutPath m) = Some (Generate (mgr_Gen m (wd_fs w)) (rs_backends (sv_Resolver (wd_srv w'))))"
  by (rule Reload_result [OF assms])

theorem Reload_consistent_witness:
  "let w = sample_world\<lparr>wd_srv := sample_server\<lparr>sv_Proxy := Some sample_manager, sv_BaseBackends := [sample_backend]\<rparr>\<rparr>;
       w' = snd (Reload sample_env w)
   in rs_backends (sv_Resolver (wd_srv w')) = [sample_backend] \<and>
      content (wd_fs w') ''out.conf'' = Some (Generate sample_gen [sample_backend])"
proof -
  let ?w = "sample_world\<lparr>wd_srv := sample_server\<lparr>sv_Proxy := Some sample_manager, sv_BaseBackends := [sample_backend]\<rparr>\<rparr>"
  have l: "LoadServices (en_codec sample_env) (sv_ServicesPath (wd_srv ?w)) (wd_fs ?w) = Inr zero_Services"
    by (simp add: LoadServices_def ReadFile_def sample_world_def sample_server_def)
  have "fst (Apply (en_run sample_env) st (Some sample_manager) bs (plain_fs [])) = None" for st bs
    by (simp add: Apply_def reload_def sample_manager_def sample_env_def ReadFile_def WriteFile_def Rename_def Let_def)
  then have "fst (Reload sample_env ?w) = None"
    by (simp only: Reload_def l Let_def sum.case case_prod_unfold fst_conv) (simp add: sample_world_def sample_server_def)
  then obtain w' where r: "Reload sample_env ?w = (None, w')"
    by (metis prod.collapse)
  have p: "sv_Proxy (wd_srv ?w) = Some sample_manager" "sv_BaseBackends (wd_srv ?w) = [sample_backend]"
    by (simp_all add: sample_world_def sample_server_def)
  have "Clean '''' = ''.''" "pathJoin ['''', ''backends-'' @ ''t'' @ ''.conf''] = ''backends-t.conf''"
    by code_simp+
  then show ?thesis
    using Reload_consistent [OF r p(1)] r l p(2)
    by (simp add: sample_manager_def glob_match_def sample_env_def zero_Services_def)
qed

end
