(* ===== verification/Mutate.thy ===== *)
theory Mutate
  imports Server
begin

text \<open>
  The two mutation loops of handlers/admin.go behind every admin operation, and
  handlers/profile.go and handlers/setup.go where they use them.  \<open>mutateUsers\<close> lists the
  directory, edits the list, saves it and replaces the directory; \<open>mutateServices\<close> loads
  services.json, edits it, saves it and reloads.

  \<open>UserDirectory.All\<close> copies the user structs but not the arrays behind their \<open>Backends\<close> slices.
  An edit that filters such a slice in place therefore also changes what the directory holds,
  before anything is saved.  The edit returns this side effect as a function on the users of
  the directory; it is the identity for the edits that assign whole fields.
\<close>

type_synonym user_edit = "User list \<Rightarrow> srv_error + (User list \<times> (User \<Rightarrow> User))"

definition alias_users :: "(User \<Rightarrow> User) \<Rightarrow> UserDirectory \<Rightarrow> UserDirectory" where
  "alias_users al d = d\<lparr>ud_byEmail := map (\<lambda>(k, u). (k, al u)) (ud_byEmail d)\<rparr>"

definition mutateUsers :: "Env \<Rightarrow> user_edit \<Rightarrow> World \<Rightarrow> srv_error option \<times> World" where
  "mutateUsers e fn w =
     (let s = wd_srv w; users = All (en_iter e) (sv_Users s) in
      case fn users of
        Inl err \<Rightarrow> (Some err, w)
      | Inr (users', al) \<Rightarrow>
          (let s1 = s\<lparr>sv_Users := alias_users al (sv_Users s)\<rparr> in
           case SaveUsers (en_codec e) (en_stamp e) (sv_UsersPath s) (sv_BackupsDir s) users' (wd_fs w) of
             (Some err, f) \<Rightarrow> (Some (FileErr err), w\<lparr>wd_srv := s1, wd_fs := f\<rparr>)
           | (None, f) \<Rightarrow>
               (None, w\<lparr>wd_srv := s1\<lparr>sv_Users := Replace users' (sv_Users s1)\<rparr>, wd_fs := f\<rparr>)))"

text \<open>The edits that change one user, found by email, and assign whole fields.\<close>

definition edit_user :: "string \<Rightarrow> (User \<Rightarrow> User) \<Rightarrow> user_edit" where
  "edit_user email f users =
     (case update_first (\<lambda>u. usr_Email u = email) f users of
        None \<Rightarrow> Inl (Msg ''user not found'')
      | Some users' \<Rightarrow> Inr (users', \<lambda>u. u))"

text \<open>The edit of a service may remove an image file on its way.\<close>

definition mutateServicesIO :: "Env \<Rightarrow> (Services \<Rightarrow> fs \<Rightarrow> (srv_error + Services) \<times> fs) \<Rightarrow> World
    \<Rightarrow> srv_error option \<times> World" where
  "mutateServicesIO e fn w =
     (let s = wd_srv w in
      case LoadServices (en_codec e) (sv_ServicesPath s) (wd_fs w) of
        Inl err \<Rightarrow> (Some (FileErr err), w)
      | Inr svc \<Rightarrow>
          (case fn svc (wd_fs w) of
             (Inl err, f0) \<Rightarrow> (Some err, w\<lparr>wd_fs := f0\<rparr>)
           | (Inr svc', f0) \<Rightarrow>
               (case SaveServices (en_codec e) (en_stamp e) (sv_ServicesPath s) (sv_BackupsDir s) svc' f0 of
                  (Some err, f) \<Rightarrow> (Some (FileErr err), w\<lparr>wd_fs := f\<rparr>)
                | (None, f) \<Rightarrow> Reload e (w\<lparr>wd_fs := f\<rparr>))))"

definition mutateServices :: "Env \<Rightarrow> (Services \<Rightarrow> srv_error + Services) \<Rightarrow> World \<Rightarrow> srv_error option \<times> World" where
  "mutateServices e fn w = mutateServicesIO e (\<lambda>svc f. (fn svc, f)) w"

definition idTaken :: "Server \<Rightarrow> Services \<Rightarrow> string \<Rightarrow> bool" where
  "idTaken s svc i \<longleftrightarrow>
     list_ex (\<lambda>b. be_ID b = i) (sv_BaseBackends s) \<or> list_ex (\<lambda>b. be_ID b = i) (svc_Backends svc) \<or>
     list_ex (\<lambda>l. ln_ID l = i) (svc_Links svc)"

text \<open>An error is answered with its text: here the error value itself.\<close>

definition err_text :: "srv_error \<Rightarrow> string" where
  "err_text err = (case err of Msg m \<Rightarrow> m | FileErr _ \<Rightarrow> ''file'' | ApplyErr _ \<Rightarrow> ''apply'' | PwErr _ \<Rightarrow> ''password'')"

definition afterMutation :: "Req \<Rightarrow> srv_error option \<Rightarrow> Resp" where
  "afterMutation r err =
     (case err of
        Some x \<Rightarrow> (WriteHeader 400)\<lparr>rp_page := ErrorText (err_text x)\<rparr>
      | None \<Rightarrow>
          let ref = rq_Header r ''Referer'' in
          SeeOther
            (if ref = '''' then ''/admin/servizi''
             else (case url_Parse ref of
                     None \<Rightarrow> ''/admin/servizi''
                   | Some u \<Rightarrow> if HasPrefix (u_Path u) ''/admin'' \<and> u_Path u \<noteq> ''/admin/backend/edit''
                              then u_Path u else ''/admin/servizi'')))"

text \<open>A handler behind the admin gate.\<close>

definition guarded :: "Env \<Rightarrow> Req \<Rightarrow> (World \<Rightarrow> Resp \<times> World) \<Rightarrow> World \<Rightarrow> Resp \<times> World" where
  "guarded e r h w =
     (case adminGuard e r w of
        (Some rp, w1) \<Rightarrow> (rp, w1)
      | (None, w1) \<Rightarrow> h w1)"

definition user_op :: "Env \<Rightarrow> Req \<Rightarrow> user_edit \<Rightarrow> World \<Rightarrow> Resp \<times> World" where
  "user_op e r fn w = (let (err, w1) = mutateUsers e fn w in (afterMutation r err, w1))"

definition service_op :: "Env \<Rightarrow> Req \<Rightarrow> (Services \<Rightarrow> srv_error + Services) \<Rightarrow> World \<Rightarrow> Resp \<times> World" where
  "service_op e r fn w = (let (err, w1) = mutateServices e fn w in (afterMutation r err, w1))"

subsection \<open>Lemmas\<close>

lemma alias_id [simp]: "alias_users (\<lambda>u. u) d = d"
  by (simp add: alias_users_def case_prod_unfold)

lemma alias_ok: "dir_ok d \<Longrightarrow> (\<And>u. usr_Email (al u) = usr_Email u) \<Longrightarrow> dir_ok (alias_users al d)"
  by (simp add: dir_ok_def keyed_def alias_users_def case_prod_unfold comp_def)

lemma map_of_map_values: "map_of (map (\<lambda>(k, u). (k, g u)) m) i = map_option g (map_of m i)"
  by (induction m) auto

lemma Get_alias: "Users.Get (alias_users al d) i = map_option al (Users.Get d i)"
  by (simp add: Users.Get_def alias_users_def map_of_map_values)

text \<open>What a mutation that saves leaves in memory and on disk.\<close>

lemma mutateUsers_ok:
  assumes "mutateUsers e fn w = (None, w')"
  shows "\<exists>us al f. fn (All (en_iter e) (sv_Users (wd_srv w))) = Inr (us, al) \<and>
     SaveUsers (en_codec e) (en_stamp e) (sv_UsersPath (wd_srv w)) (sv_BackupsDir (wd_srv w)) us (wd_fs w) = (None, f) \<and>
     Users.Get (sv_Users (wd_srv w')) = Users.Get (Replace us (sv_Users (wd_srv w))) \<and> wd_fs w' = f \<and>
     sv_UsersPath (wd_srv w') = sv_UsersPath (wd_srv w)"
proof -
  have g: "Users.Get (Replace us d) = Users.Get (Replace us d')" for us d d'
    by (simp add: Users.Get_def Replace_def fun_eq_iff)
  from assms show ?thesis
    unfolding mutateUsers_def Let_def
    by (auto split: sum.splits prod.splits option.splits intro: g)
qed

lemma mutateUsers_error:
  assumes "mutateUsers e fn w = (Some err, w')"
  shows "w' = w \<or> (\<exists>us al f x. fn (All (en_iter e) (sv_Users (wd_srv w))) = Inr (us, al) \<and>
     SaveUsers (en_codec e) (en_stamp e) (sv_UsersPath (wd_srv w)) (sv_BackupsDir (wd_srv w)) us (wd_fs w) = (Some x, f) \<and>
     w' = w\<lparr>wd_srv := (wd_srv w)\<lparr>sv_Users := alias_users al (sv_Users (wd_srv w))\<rparr>, wd_fs := f\<rparr>)"
  using assms unfolding mutateUsers_def Let_def
  by (auto split: sum.splits prod.splits option.splits)

text \<open>Disk and memory agree after a mutation that reports success.\<close>

lemma mutateUsers_disk:
  assumes mu: "mutateUsers e fn w = (None, w')"
    and codec: "\<And>us al. fn (All (en_iter e) (sv_Users (wd_srv w))) = Inr (us, al) \<Longrightarrow>
        dec_users (en_codec e) False (enc_users (en_codec e) us) = Some us"
    and place: "file_place ''users'' (en_stamp e) (sv_UsersPath (wd_srv w)) (sv_BackupsDir (wd_srv w))"
    and rd: "\<not> fs_unreadable (wd_fs w) (sv_UsersPath (wd_srv w))"
  shows "\<exists>us. LoadUsers (en_codec e) (sv_UsersPath (wd_srv w')) (wd_fs w') = Inr us \<and>
     Users.Get (sv_Users (wd_srv w')) = Users.Get (Replace us (sv_Users (wd_srv w)))"
proof -
  obtain us al f where fn: "fn (All (en_iter e) (sv_Users (wd_srv w))) = Inr (us, al)"
    and sv: "SaveUsers (en_codec e) (en_stamp e) (sv_UsersPath (wd_srv w)) (sv_BackupsDir (wd_srv w)) us (wd_fs w) = (None, f)"
    and g: "Users.Get (sv_Users (wd_srv w')) = Users.Get (Replace us (sv_Users (wd_srv w)))"
    and f: "wd_fs w' = f" and p: "sv_UsersPath (wd_srv w') = sv_UsersPath (wd_srv w)"
    using mutateUsers_ok [OF mu] by blast
  have "LoadUsers (en_codec e) (sv_UsersPath (wd_srv w)) f = Inr us"
    using users_file.save_load [OF _ _ sv] codec [OF fn] place rd by blast
  with g f p show ?thesis by auto
qed

text \<open>The directory lemmas, instantiated for a mutation by a list edit.\<close>

lemma mutateUsers_lookup:
  assumes mu: "mutateUsers e fn w = (None, w')"
    and fn: "fn (All (en_iter e) (sv_Users (wd_srv w))) = Inr (us, al)"
  shows "Users.Get (sv_Users (wd_srv w')) i = Users.Get (Replace us (sv_Users (wd_srv w))) i"
  using mutateUsers_ok [OF mu] fn by auto

lemma edit_user_lookup:
  assumes mu: "mutateUsers e (edit_user k f) w = (None, w')"
    and ok: "dir_ok (sv_Users (wd_srv w))" "iterates (en_iter e)"
    and keep: "\<And>u. usr_Email (f u) = usr_Email u"
  shows "Users.Get (sv_Users (wd_srv w')) i =
     (if i = k then map_option f (Users.Get (sv_Users (wd_srv w)) k) else Users.Get (sv_Users (wd_srv w)) i)"
proof -
  obtain us al where fn: "edit_user k f (All (en_iter e) (sv_Users (wd_srv w))) = Inr (us, al)"
    using mutateUsers_ok [OF mu] by blast
  then have "update_first (\<lambda>u. usr_Email u = k) f (All (en_iter e) (sv_Users (wd_srv w))) = Some us"
    by (simp add: edit_user_def split: option.splits)
  from ud.lookup_edit [OF ok this keep] show ?thesis
    using mutateUsers_lookup [OF mu fn] by simp
qed


section \<open>Properties\<close>

text \<open>
  C10: a user edit that reports success changes the record of the named user and of nobody else
  in the directory that logins and authorization consult, and the users file then loads to a
  list that gives the same directory: a restart finds the same users.  The codec is required to
  read back the list that was saved.
\<close>

theorem edit_user_everywhere:
  assumes "mutateUsers e (edit_user k f) w = (None, w')"
    and "dir_ok (sv_Users (wd_srv w))" "iterates (en_iter e)" "\<And>u. usr_Email (f u) = usr_Email u"
    and "\<And>us al. edit_user k f (All (en_iter e) (sv_Users (wd_srv w))) = Inr (us, al) \<Longrightarrow>
       dec_users (en_codec e) False (enc_users (en_codec e) us) = Some us"
    and "file_place ''users'' (en_stamp e) (sv_UsersPath (wd_srv w)) (sv_BackupsDir (wd_srv w))"
    and "\<not> fs_unreadable (wd_fs w) (sv_UsersPath (wd_srv w))"
  shows "(\<forall>i. Users.Get (sv_Users (wd_srv w')) i =
       (if i = k then map_option f (Users.Get (sv_Users (wd_srv w)) k) else Users.Get (sv_Users (wd_srv w)) i)) \<and>
     (\<exists>us. LoadUsers (en_codec e) (sv_UsersPath (wd_srv w')) (wd_fs w') = Inr us \<and>
       Users.Get (NewUserDirectory us) = Users.Get (sv_Users (wd_srv w')))"
proof -
  have r: "Users.Get (Replace us d) = Users.Get (NewUserDirectory us)" for us d
    by (simp add: fun_eq_iff Users.Get_def Replace_def NewUserDirectory_def)
  have "\<exists>us. LoadUsers (en_codec e) (sv_UsersPath (wd_srv w')) (wd_fs w') = Inr us \<and>
      Users.Get (sv_Users (wd_srv w')) = Users.Get (Replace us (sv_Users (wd_srv w)))"
    by (rule mutateUsers_disk [OF assms(1) _ assms(6,7)]) (rule assms(5))
  then show ?thesis
    using edit_user_lookup [OF assms(1-4)] r by metis
qed

theorem edit_user_everywhere_witness:
  "let e = sample_env\<lparr>en_codec := tiny_codec (sample_user\<lparr>usr_Admin := False\<rparr>)\<rparr>;
       w' = snd (mutateUsers e (edit_user ''a@x'' (\<lambda>u. u\<lparr>usr_Admin := False\<rparr>)) sample_world)
   in Users.Get (sv_Users (wd_srv w')) ''a@x'' = Some (sample_user\<lparr>usr_Admin := False\<rparr>)"
proof -
  let ?e = "sample_env\<lparr>en_codec := tiny_codec (sample_user\<lparr>usr_Admin := False\<rparr>)\<rparr>"
  let ?f = "\<lambda>u. u\<lparr>usr_Admin := False\<rparr>"
  have all: "All (en_iter ?e) (sv_Users (wd_srv sample_world)) = [sample_user]"
    by (simp add: sample_env_def sample_world_def sample_server_def All_def NewUserDirectory_def Replace_def)
  have em: "usr_Email sample_user = ''a@x''" by (simp add: sample_user_def)
  have ed: "edit_user ''a@x'' ?f [sample_user] = Inr ([?f sample_user], \<lambda>u. u)"
    by (simp add: edit_user_def em)
  have g: "Users.Get (sv_Users (wd_srv sample_world)) ''a@x'' = Some sample_user"
    by (simp add: sample_world_def sample_server_def NewUserDirectory_def Replace_def Users.Get_def em)
  have "fst (SaveUsers cd st ''users.json'' ''backups'' us (plain_fs [])) = None" for cd st us
    by (simp add: SaveUsers_def writeJSONAtomic_def WriteFile_def Rename_def snapshotAndPrune_def)
  then have "fst (mutateUsers ?e (edit_user ''a@x'' ?f) sample_world) = None"
    unfolding mutateUsers_def Let_def all ed
    by (simp add: case_prod_unfold sample_world_def sample_server_def split: option.split)
  then obtain w' where m: "mutateUsers ?e (edit_user ''a@x'' ?f) sample_world = (None, w')"
    by (metis prod.collapse)
  have d: "dir_ok (sv_Users (wd_srv sample_world))" by (simp add: sample_world_def sample_server_def dir_ok_New)
  have i: "iterates (en_iter ?e)" by (simp add: sample_env_def iterates_id)
  have p: "file_place ''users'' (en_stamp ?e) (sv_UsersPath (wd_srv sample_world)) (sv_BackupsDir (wd_srv sample_world))"
    by (simp add: sample_env_def sample_world_def sample_server_def users_place)
  have "Users.Get (sv_Users (wd_srv w')) ''a@x'' = map_option ?f (Users.Get (sv_Users (wd_srv sample_world)) ''a@x'')"
    using edit_user_everywhere [OF m d i _ _ p, THEN conjunct1, THEN spec, of "''a@x''"] unfolding all ed
    by (simp add: sample_world_def sample_server_def)
  then show ?thesis by (simp add: m g)
qed

end
