(* ===== verification/Login.thy ===== *)
theory Login
  imports Mutate
begin

text \<open>
  The handlers that open, complete and close sessions: handlers/login.go, handlers/otp.go,
  handlers/oidc.go, handlers/setup.go, handlers/profile.go and handlers/i18n.go.  A panic inside
  a handler (only the password hash can raise one) aborts the request: status 0, and the world
  as it was at that point.
\<close>

definition Aborted :: Resp where
  "Aborted = WriteHeader 0"

text \<open>The pages carry the template's name, the sanitized next URL and an error key.\<close>

definition loginPage :: "World \<Rightarrow> string \<Rightarrow> string \<Rightarrow> nat \<Rightarrow> Resp" where
  "loginPage w nxt key n = renderHTML (FormPage ''login'' (sanitizeNext (wd_srv w) nxt) key) n"

definition totpPage :: "World \<Rightarrow> string \<Rightarrow> string \<Rightarrow> nat \<Rightarrow> Resp" where
  "totpPage w nxt key n = renderHTML (FormPage ''totp'' (sanitizeNext (wd_srv w) nxt) key) n"

definition with_sessions :: "World \<Rightarrow> MemoryStore \<Rightarrow> World" where
  "with_sessions w ms = w\<lparr>wd_srv := (wd_srv w)\<lparr>sv_Sessions := ms\<rparr>\<rparr>"

text \<open>\<open>s.Sessions.Create\<close>, \<open>Complete2FA\<close> and \<open>Delete\<close> on the world.\<close>

definition create_session :: "Env \<Rightarrow> World \<Rightarrow> string \<Rightarrow> string \<Rightarrow> Session option \<times> World" where
  "create_session e w email provider =
     (let (ms, res) = Create (en_now e) (en_newid e) (sv_Sessions (wd_srv w)) email provider
      in (res, with_sessions w ms))"

definition complete_session :: "World \<Rightarrow> string \<Rightarrow> World" where
  "complete_session w sid = with_sessions w (fst (Complete2FA (sv_Sessions (wd_srv w)) sid))"

definition delete_session :: "World \<Rightarrow> string \<Rightarrow> World" where
  "delete_session w sid = with_sessions w (Delete (sv_Sessions (wd_srv w)) sid)"

subsection \<open>handlers/login.go\<close>

definition handleLoginForm :: "Env \<Rightarrow> Req \<Rightarrow> World \<Rightarrow> Resp \<times> World" where
  "handleLoginForm e r w = (loginPage w (rq_Query r ''next'') '''' 200, w)"

fun ldapLogin :: "Env \<Rightarrow> LDAP list \<Rightarrow> string \<Rightarrow> string \<Rightarrow> string \<Rightarrow> World \<Rightarrow> (Resp \<times> World) option" where
  "ldapLogin e [] email password nxt w = None"
| "ldapLogin e (lp # lps) email password nxt w =
     (case LDAP_Authenticate (en_ldap e) lp email password of
        Inl _ \<Rightarrow> ldapLogin e lps email password nxt w
      | Inr _ \<Rightarrow>
          (case create_session e w email (ld_id lp) of
             (None, w1) \<Rightarrow> Some (loginPage w1 nxt ''err.internal'' 500, w1)
           | (Some sess, w1) \<Rightarrow>
               Some (setSession w1 (s_ID sess) (SeeOther nxt), complete_session w1 (s_ID sess))))"

definition handleLoginSubmit :: "Env \<Rightarrow> Req \<Rightarrow> World \<Rightarrow> Resp \<times> World" where
  "handleLoginSubmit e r w =
     (if rq_badForm r then (loginPage w ''/listing'' ''err.bad_request'' 400, w)
      else
        let s = wd_srv w;
            nxt = sanitizeNext s (PostFormValue r ''next'');
            email = PostFormValue r ''email'';
            password = PostFormValue r ''password''
        in case Local_Authenticate (en_IDKey e) (sv_Users s) email password of
             None \<Rightarrow> (Aborted, w)
           | Some (Inl err) \<Rightarrow>
               if err \<noteq> ErrInvalidCredentials then (loginPage w nxt ''err.internal'' 500, w)
               else (case ldapLogin e (sv_LDAP s) email password nxt w of
                       Some res \<Rightarrow> res
                     | None \<Rightarrow>
                         (loginPage w nxt ''err.bad_credentials'' 401,
                          auditFail r ''login'' (''email='' @ email) w))
           | Some (Inr _) \<Rightarrow>
               (case create_session e w email ''local'' of
                  (None, w1) \<Rightarrow> (loginPage w1 nxt ''err.internal'' 500, w1)
                | (Some sess, w1) \<Rightarrow>
                    if cfg_DisableTOTP (sv_Cfg s)
                    then (setSession w1 (s_ID sess) (SeeOther nxt), complete_session w1 (s_ID sess))
                    else (setSession w1 (s_ID sess) (SeeOther (''/login/totp?next='' @ QueryEscape nxt)), w1)))"

definition handleTOTPForm :: "Env \<Rightarrow> Req \<Rightarrow> World \<Rightarrow> Resp \<times> World" where
  "handleTOTPForm e r w =
     (case session e r w of
        (None, w1) \<Rightarrow> (SeeOther ''/login'', w1)
      | (Some _, w1) \<Rightarrow> (totpPage w1 (rq_Query r ''next'') '''' 200, w1))"

text \<open>Seconds of the clock, as \<open>t.Unix()\<close> gives them.\<close>

definition unix :: "int \<Rightarrow> int" where
  "unix t = t div 1000000000"

definition handleTOTPSubmit :: "Env \<Rightarrow> Req \<Rightarrow> World \<Rightarrow> Resp \<times> World" where
  "handleTOTPSubmit e r w =
     (case session e r w of
        (None, w1) \<Rightarrow> (SeeOther ''/login'', w1)
      | (Some sess, w1) \<Rightarrow>
          if rq_badForm r then (totpPage w1 ''/listing'' ''err.bad_request'' 400, w1)
          else
            let nxt = sanitizeNext (wd_srv w1) (PostFormValue r ''next'') in
            if (case Users.Get (sv_Users (wd_srv w1)) (s_Email sess) of
                  None \<Rightarrow> False
                | Some user \<Rightarrow>
                    VerifyTOTP (en_hmac e) (usr_TOTPSecret user) (PostFormValue r ''code'') (unix (en_now e)))
            then (SeeOther nxt, complete_session w1 (s_ID sess))
            else (totpPage w1 nxt ''err.bad_code'' 401, auditFail r ''totp'' (''email='' @ s_Email sess) w1))"

definition handleLogout :: "Env \<Rightarrow> Req \<Rightarrow> World \<Rightarrow> Resp \<times> World" where
  "handleLogout e r w =
     (case session e r w of
        (None, w1) \<Rightarrow> (clearSession w1 (SeeOther ''/login''), w1)
      | (Some sess, w1) \<Rightarrow> (clearSession w1 (SeeOther ''/login''), delete_session w1 (s_ID sess)))"

subsection \<open>handlers/otp.go\<close>

definition otpEnabled :: "Server \<Rightarrow> bool" where
  "otpEnabled s \<longleftrightarrow> sv_OTP s \<noteq> None \<and> otc_Enabled (cfg_OneTimeCode (sv_Cfg s))"

definition codePage :: "string \<Rightarrow> World \<Rightarrow> string \<Rightarrow> string \<Rightarrow> nat \<Rightarrow> Resp" where
  "codePage t w nxt key n = renderHTML (FormPage t nxt key) n"

definition handleCodeRequestForm :: "Env \<Rightarrow> Req \<Rightarrow> World \<Rightarrow> Resp \<times> World" where
  "handleCodeRequestForm e r w =
     (if \<not> otpEnabled (wd_srv w) then (SeeOther ''/login'', w)
      else (codePage ''code_request'' w (sanitizeNext (wd_srv w) (rq_Query r ''next'')) '''' 200, w))"

text \<open>The queue is appended to; a failed open or write is only logged.\<close>

definition spoolCode :: "Env \<Rightarrow> string \<Rightarrow> string \<Rightarrow> string \<Rightarrow> int \<Rightarrow> World \<Rightarrow> World" where
  "spoolCode e email code i ttlMin w =
     (let p = sv_OTPQueuePath (wd_srv w) in
      if p = '''' then w
      else
        let old = (case content (wd_fs w) p of Some b \<Rightarrow> b | None \<Rightarrow> '''') in
        w\<lparr>wd_fs := snd (WriteFile p (old @ en_spool_line e email code i ttlMin) (wd_fs w))\<rparr>)"

definition deliverCode :: "Env \<Rightarrow> Req \<Rightarrow> string \<Rightarrow> string \<Rightarrow> World \<Rightarrow> World" where
  "deliverCode e r email code w =
     (let s = wd_srv w;
          i = (case clientIP r (srv_TrustedProxies (cfg_Server (sv_Cfg s))) of Some a \<Rightarrow> IP_String a | None \<Rightarrow> '''');
          ttl0 = otc_TTLMinutes (cfg_OneTimeCode (sv_Cfg s));
          ttl = (if ttl0 \<le> 0 then 10 else ttl0)
      in spoolCode e email code i ttl w)"

definition handleCodeRequestSubmit :: "Env \<Rightarrow> Req \<Rightarrow> World \<Rightarrow> Resp \<times> World" where
  "handleCodeRequestSubmit e r w =
     (let s = wd_srv w in
      if \<not> otpEnabled s then (SeeOther ''/login'', w)
      else
        let nxt = sanitizeNext s (PostFormValue r ''next''); email = PostFormValue r ''email'';
            rp = codePage ''code_verify'' w nxt '''' 200
        in if Users.Get (sv_Users s) email = None then (rp, w)
           else (case Issue (en_sha256 e) (en_now e) (en_draws e) email (the (sv_OTP s)) of
                   None \<Rightarrow> (Aborted, w)
                 | Some ((code, ok), o') \<Rightarrow>
                     (let w1 = w\<lparr>wd_srv := s\<lparr>sv_OTP := Some o'\<rparr>\<rparr> in
                      (rp, if ok then deliverCode e r email code w1 else w1))))"

definition handleCodeVerifySubmit :: "Env \<Rightarrow> Req \<Rightarrow> World \<Rightarrow> Resp \<times> World" where
  "handleCodeVerifySubmit e r w =
     (let s = wd_srv w in
      if \<not> otpEnabled s then (SeeOther ''/login'', w)
      else
        let nxt = sanitizeNext s (PostFormValue r ''next''); email = PostFormValue r ''email'';
            code = PostFormValue r ''code'';
            (ok, w1) =
              (if Users.Get (sv_Users s) email = None then (False, w)
               else let (b, o') = Verify (en_sha256 e) (en_now e) email code (the (sv_OTP s))
                    in (b, w\<lparr>wd_srv := s\<lparr>sv_OTP := Some o'\<rparr>\<rparr>))
        in if \<not> ok then
             (codePage ''code_verify'' w1 nxt ''Codice non valido o scaduto.'' 401,
              auditFail r ''otp'' (''email='' @ email) w1)
           else (case create_session e w1 email ''otp'' of
                   (None, w2) \<Rightarrow> (codePage ''code_verify'' w2 nxt ''Errore interno.'' 500, w2)
                 | (Some sess, w2) \<Rightarrow>
                     if cfg_DisableTOTP (sv_Cfg s)
                     then (setSession w2 (s_ID sess) (SeeOther nxt), complete_session w2 (s_ID sess))
                     else (setSession w2 (s_ID sess) (SeeOther (''/login/totp?next='' @ QueryEscape nxt)), w2)))"

subsection \<open>handlers/oidc.go\<close>

definition oidcStateCookie :: string where "oidcStateCookie = ''xtk_oidc''"

definition set_oidc :: "World \<Rightarrow> string \<Rightarrow> OIDC \<Rightarrow> World" where
  "set_oidc w i p = w\<lparr>wd_srv := (wd_srv w)\<lparr>sv_OIDC := (sv_OIDC (wd_srv w))(i \<mapsto> p)\<rparr>\<rparr>"

definition oidcButtons :: "Server \<Rightarrow> (string \<times> string) list" where
  "oidcButtons s = concat (map (\<lambda>p. case oidcFor s (prv_ID p) of
       Some pr \<Rightarrow> [(od_id pr, od_name pr)] | None \<Rightarrow> []) (currentProviders s))"

definition handleOIDCStart :: "Env \<Rightarrow> Req \<Rightarrow> World \<Rightarrow> Resp \<times> World" where
  "handleOIDCStart e r w =
     (let i = rq_PathValue r ''provider'' in
      case oidcFor (wd_srv w) i of
        None \<Rightarrow> (SeeOther ''/login'', w)
      | Some p \<Rightarrow>
          let nxt = sanitizeNext (wd_srv w) (rq_Query r ''next'');
              (state, nonce) = en_rand64 e;
              st = \<lparr>os_State = state, os_Nonce = nonce, os_Next = nxt, os_Provider = i\<rparr>;
              (res, p') = AuthURL (en_oidc e) p state nonce;
              w1 = set_oidc w i p'
          in (case res of
                Inl _ \<Rightarrow> (loginPage w1 nxt ''err.provider_unavailable'' 502,
                          auditFail r ''oidc'' (''provider='' @ i @ '' discovery'') w1)
              | Inr url \<Rightarrow>
                  ((SeeOther url)\<lparr>rp_SetCookie := [(oidcStateCookie, en_encState e st)]\<rparr>, w1)))"

definition readOIDCState :: "Env \<Rightarrow> Req \<Rightarrow> oidcState option" where
  "readOIDCState e r =
     (case rq_Cookie r oidcStateCookie of
        None \<Rightarrow> None
      | Some v \<Rightarrow>
          (case en_decState e v of
             None \<Rightarrow> None
           | Some st \<Rightarrow> if os_State st = '''' \<or> os_Nonce st = '''' then None else Some st))"

definition clearOIDCState :: "Resp \<Rightarrow> Resp" where
  "clearOIDCState rp = rp\<lparr>rp_SetCookie := (oidcStateCookie, '''') # rp_SetCookie rp\<rparr>"

definition handleOIDCCallback :: "Env \<Rightarrow> Req \<Rightarrow> World \<Rightarrow> Resp \<times> World" where
  "handleOIDCCallback e r w =
     (let i = rq_PathValue r ''provider'';
          fail = (\<lambda>nxt key n detail w. (clearOIDCState (loginPage w nxt key n),
                    auditFail r ''oidc'' (''provider='' @ i @ detail) w))
      in case oidcFor (wd_srv w) i of
        None \<Rightarrow> (SeeOther ''/login'', w)
      | Some p \<Rightarrow>
          (case readOIDCState e r of
             None \<Rightarrow> fail ''/listing'' ''err.login_expired'' 400 '' state'' w
           | Some st \<Rightarrow>
               if os_Provider st \<noteq> i then fail ''/listing'' ''err.login_expired'' 400 '' state'' w
               else if rq_Query r ''error'' \<noteq> '''' then
                 fail (os_Next st) ''err.idp_denied'' 401 ('' idp_error='' @ rq_Query r ''error'') w
               else if rq_Query r ''state'' \<noteq> os_State st then fail (os_Next st) ''err.csrf'' 400 '' csrf'' w
               else
                 let (res, p') = Exchange (en_oidc e) p (rq_Query r ''code'') (os_Nonce st);
                     w1 = set_oidc w i p'
                 in (case res of
                       Inl _ \<Rightarrow> fail (os_Next st) ''err.auth_failed'' 401 '' exchange'' w1
                     | Inr idn \<Rightarrow>
                         if (case Users.Get (sv_Users (wd_srv w1)) (idn_Email idn) of
                               None \<Rightarrow> True | Some u \<Rightarrow> usr_Provider u \<noteq> i)
                         then fail (os_Next st) (''err.not_provisioned: '' @ idn_Email idn) 403
                                ('' email='' @ idn_Email idn @ '' not_provisioned'') w1
                         else (case create_session e w1 (idn_Email idn) i of
                                 (None, w2) \<Rightarrow> (clearOIDCState (loginPage w2 (os_Next st) ''err.internal'' 500), w2)
                               | (Some sess, w2) \<Rightarrow>
                                   (clearOIDCState (setSession w2 (s_ID sess) (SeeOther (os_Next st))),
                                    complete_session w2 (s_ID sess))))))"

subsection \<open>handlers/setup.go\<close>

definition setupError :: Resp where
  "setupError = HttpError ''err.setup_unavailable'' 403"

definition validSetup :: "Env \<Rightarrow> string \<Rightarrow> World \<Rightarrow> SetupState option" where
  "validSetup e token w =
     (case LoadSetup (en_codec e) (sv_SetupPath (wd_srv w)) (wd_fs w) of
        Inl _ \<Rightarrow> None
      | Inr st \<Rightarrow>
          if token = '''' \<or> st_Token st = '''' then None
          else if token \<noteq> st_Token st then None
          else if en_now e > st_ExpiresAt st then None
          else Some st)"

definition handleSetupForm :: "Env \<Rightarrow> Req \<Rightarrow> World \<Rightarrow> Resp \<times> World" where
  "handleSetupForm e r w =
     (case validSetup e (rq_Query r ''token'') w of
        None \<Rightarrow> (setupError, w)
      | Some st \<Rightarrow> (renderHTML (FormPage ''setup_cred'' (st_Token st) '''') 200, w))"

text \<open>\<open>url.Values.Encode\<close> sorts the keys.\<close>

definition otpauthURI :: "string \<Rightarrow> string \<Rightarrow> string" where
  "otpauthURI email secret =
     ''otpauth://totp/'' @ PathEscape (''Xal-Tor-Ka:'' @ email) @
     ''?algorithm=SHA1&digits=6&issuer=Xal-Tor-Ka&period=30&secret='' @ QueryEscape secret"

definition renderTOTPStep :: "Env \<Rightarrow> SetupState \<Rightarrow> string \<Rightarrow> Resp" where
  "renderTOTPStep e st key =
     (if \<not> en_qr e (otpauthURI (st_Email st) (st_TOTPSecret st)) then setupError
      else renderHTML (FormPage ''setup_totp'' (st_Token st) key) 200)"

definition setup_user :: "SetupState \<Rightarrow> User" where
  "setup_user st = \<lparr>usr_Email = st_Email st, usr_Provider = ''local'', usr_PasswordHash = st_PasswordHash st,
     usr_TOTPSecret = st_TOTPSecret st, usr_Admin = True, usr_Backends = []\<rparr>"

definition finalizeSetup :: "Env \<Rightarrow> SetupState \<Rightarrow> World \<Rightarrow> Resp \<times> World" where
  "finalizeSetup e st w =
     (let s = wd_srv w;
          newUser = setup_user st;
          users = All (en_iter e) (sv_Users s);
          users' = (case update_first (\<lambda>u. usr_Email u = usr_Email newUser) (\<lambda>_. newUser) users of
                      Some us \<Rightarrow> us | None \<Rightarrow> users @ [newUser])
      in case SaveUsers (en_codec e) (en_stamp e) (sv_UsersPath s) (sv_BackupsDir s) users' (wd_fs w) of
           (Some _, f) \<Rightarrow> (setupError, w\<lparr>wd_fs := f\<rparr>)
         | (None, f) \<Rightarrow>
             (renderHTML (FormPage ''setup_done'' '''' '''') 200,
              w\<lparr>wd_srv := s\<lparr>sv_Users := Replace users' (sv_Users s)\<rparr>, wd_fs := Remove (sv_SetupPath s) f\<rparr>))"

definition setupStepCred :: "Env \<Rightarrow> Req \<Rightarrow> SetupState \<Rightarrow> World \<Rightarrow> Resp \<times> World" where
  "setupStepCred e r st w =
     (let pw = PostFormValue r ''password'' in
      if pw = '''' \<or> pw \<noteq> PostFormValue r ''password2''
      then (renderHTML (FormPage ''setup_cred'' (st_Token st) ''setup.err.pw_mismatch'') 400, w)
      else (case HashPassword (en_IDKey e) (en_salt e) pw of
              None \<Rightarrow> (Aborted, w)
            | Some (Inl _) \<Rightarrow> (setupError, w)
            | Some (Inr hash) \<Rightarrow>
                if cfg_DisableTOTP (sv_Cfg (wd_srv w))
                then finalizeSetup e (st\<lparr>st_PasswordHash := hash, st_TOTPSecret := ''''\<rparr>) w
                else (case NewTOTPSecret (en_rand20 e) of
                        None \<Rightarrow> (setupError, w)
                      | Some secret \<Rightarrow>
                          let st' = st\<lparr>st_PasswordHash := hash, st_TOTPSecret := secret\<rparr> in
                          (case SaveSetup (en_codec e) (sv_SetupPath (wd_srv w)) st' (wd_fs w) of
                             (Some _, f) \<Rightarrow> (setupError, w\<lparr>wd_fs := f\<rparr>)
                           | (None, f) \<Rightarrow> (renderTOTPStep e st' '''', w\<lparr>wd_fs := f\<rparr>)))))"

definition setupStepConfirm :: "Env \<Rightarrow> Req \<Rightarrow> SetupState \<Rightarrow> World \<Rightarrow> Resp \<times> World" where
  "setupStepConfirm e r st w =
     (if st_TOTPSecret st = '''' \<or> st_PasswordHash st = '''' then (setupError, w)
      else if \<not> VerifyTOTP (en_hmac e) (st_TOTPSecret st) (PostFormValue r ''code'') (unix (en_now e))
      then (renderTOTPStep e st ''err.bad_code'', w)
      else finalizeSetup e st w)"

definition handleSetupSubmit :: "Env \<Rightarrow> Req \<Rightarrow> World \<Rightarrow> Resp \<times> World" where
  "handleSetupSubmit e r w =
     (if rq_badForm r then (setupError, w)
      else (case validSetup e (PostFormValue r ''token'') w of
              None \<Rightarrow> (setupError, w)
            | Some st \<Rightarrow>
                if PostFormValue r ''step'' = ''cred'' then setupStepCred e r st w
                else if PostFormValue r ''step'' = ''confirm'' then setupStepConfirm e r st w
                else (setupError, w)))"

subsection \<open>handlers/profile.go\<close>

definition currentUser :: "Env \<Rightarrow> Req \<Rightarrow> World \<Rightarrow> User option \<times> World" where
  "currentUser e r w =
     (case session e r w of
        (None, w1) \<Rightarrow> (None, w1)
      | (Some sess, w1) \<Rightarrow>
          if \<not> s_TwoFADone sess then (None, w1)
          else (Users.Get (sv_Users (wd_srv w1)) (s_Email sess), w1))"

definition handleProfile :: "Env \<Rightarrow> Req \<Rightarrow> World \<Rightarrow> Resp \<times> World" where
  "handleProfile e r w =
     (case currentUser e r w of
        (None, w1) \<Rightarrow> (SeeOther ''/login?next=/profilo'', w1)
      | (Some u, w1) \<Rightarrow>
          (renderHTML (ListingPage (usr_Email u) (usr_Admin u)
             [\<lparr>tg_Site = '''', tg_Tiles = tilesFor (en_richHTML e) (wd_srv w1) u\<rparr>]) 200, w1))"

definition handleProfilePassword :: "Env \<Rightarrow> Req \<Rightarrow> World \<Rightarrow> Resp \<times> World" where
  "handleProfilePassword e r w =
     (case currentUser e r w of
        (None, w1) \<Rightarrow> (SeeOther ''/login?next=/profilo'', w1)
      | (Some u, w1) \<Rightarrow>
          if usr_Provider u \<noteq> ''local'' then (SeeOther ''/profilo?err=local'', w1)
          else if rq_badForm r then (SeeOther ''/profilo?err=pw'', w1)
          else (case VerifyPassword (en_IDKey e) (usr_PasswordHash u) (PostFormValue r ''current'') of
                  None \<Rightarrow> (Aborted, w1)
                | Some (Inl _) \<Rightarrow> (SeeOther ''/profilo?err=pw'', auditFail r ''profile_pw'' (''email='' @ usr_Email u) w1)
                | Some (Inr _) \<Rightarrow>
                    if PostFormValue r ''password'' = '''' then (SeeOther ''/profilo?err=pw'', w1)
                    else (case HashPassword (en_IDKey e) (en_salt e) (PostFormValue r ''password'') of
                            None \<Rightarrow> (Aborted, w1)
                          | Some (Inl _) \<Rightarrow> (HttpError ''err.internal'' 500, w1)
                          | Some (Inr hash) \<Rightarrow>
                              (case mutateUsers e (edit_user (usr_Email u) (\<lambda>x. x\<lparr>usr_PasswordHash := hash\<rparr>)) w1 of
                                 (Some _, w2) \<Rightarrow> (HttpError ''err.internal'' 500, w2)
                               | (None, w2) \<Rightarrow> (SeeOther ''/profilo?ok=pw'', w2)))))"

definition handleProfileTOTP :: "Env \<Rightarrow> Req \<Rightarrow> World \<Rightarrow> Resp \<times> World" where
  "handleProfileTOTP e r w =
     (case currentUser e r w of
        (None, w1) \<Rightarrow> (SeeOther ''/login?next=/profilo'', w1)
      | (Some u, w1) \<Rightarrow>
          (case NewTOTPSecret (en_rand20 e) of
             None \<Rightarrow> (HttpError ''err.internal'' 500, w1)
           | Some secret \<Rightarrow>
               (case mutateUsers e (edit_user (usr_Email u) (\<lambda>x. x\<lparr>usr_TOTPSecret := secret\<rparr>)) w1 of
                  (Some _, w2) \<Rightarrow> (HttpError ''err.internal'' 500, w2)
                | (None, w2) \<Rightarrow>
                    if \<not> en_qr e (otpauthURI (usr_Email u) secret) then (HttpError ''err.qr'' 500, w2)
                    else (renderHTML (FormPage ''profile_qr'' secret '''') 200, w2))))"

subsection \<open>handlers/i18n.go\<close>

definition handleSetLang :: "(string \<Rightarrow> bool) \<Rightarrow> Req \<Rightarrow> World \<Rightarrow> Resp \<times> World" where
  "handleSetLang supported r w =
     (let code = rq_PathValue r ''code'';
          nxt0 = rq_Query r ''next'';
          nxt = (if nxt0 \<noteq> '''' then nxt0
                 else (case url_Parse (rq_Header r ''Referer'') of
                         None \<Rightarrow> ''''
                       | Some u \<Rightarrow>
                           if u_Path u = '''' then ''''
                           else if u_RawQuery u \<noteq> '''' then u_Path u @ ''?'' @ u_RawQuery u else u_Path u));
          rp = SeeOther (sanitizeNext (wd_srv w) nxt)
      in (if supported code then rp\<lparr>rp_SetCookie := [(''xtk_lang'', code)]\<rparr> else rp, w))"

end
