(* ===== verification/Admin.thy ===== *)
theory Admin
  imports Login
begin

text \<open>
  The admin operations of handlers/admin.go on users and services.  Each handler is the admin
  gate, the reading of the form, and one edit handed to \<open>mutateUsers\<close> or \<open>mutateServices\<close>.
\<close>

subsection \<open>Upstreams and names\<close>

definition after_scheme :: "string \<Rightarrow> string" where
  "after_scheme u = (case Index u ''://'' of Some i \<Rightarrow> drop (i + 3) u | None \<Rightarrow> u)"

definition before_slash :: "string \<Rightarrow> string" where
  "before_slash s = (case IndexByte s CHR ''/'' of Some i \<Rightarrow> take i s | None \<Rightarrow> s)"

definition hostInternalize :: "string \<Rightarrow> string \<Rightarrow> string" where
  "hostInternalize target upstream =
     (if target = '''' then upstream
      else (case Index upstream ''://'' of
              None \<Rightarrow> upstream
            | Some i \<Rightarrow>
                let rest = drop (i + 3) upstream;
                    (hostport, tail) = (case IndexByte rest CHR ''/'' of
                                          Some j \<Rightarrow> (take j rest, drop j rest) | None \<Rightarrow> (rest, ''''));
                    (host, port) = (case SplitHostPort hostport of Some hp \<Rightarrow> hp | None \<Rightarrow> (hostport, ''''))
                in if host \<noteq> ''localhost'' \<and> host \<noteq> ''127.0.0.1'' then upstream
                   else take (i + 3) upstream @ (if port \<noteq> '''' then target @ '':'' @ port else target) @ tail))"

definition hostInternalPort :: "string \<Rightarrow> int" where
  "hostInternalPort upstream =
     (case SplitHostPort (before_slash (after_scheme upstream)) of
        None \<Rightarrow> 0
      | Some (host, port) \<Rightarrow> if host \<noteq> ''host.docker.internal'' then 0 else fst (Atoi port))"

definition validateUpstream :: "string \<Rightarrow> upstream_error option" where
  "validateUpstream upstream =
     (case SplitHostPort (before_slash (after_scheme upstream)) of
        None \<Rightarrow> Some WantHostPort
      | Some (host, port) \<Rightarrow>
          if host = '''' then Some WantHostPort
          else (let (n, ok) = Atoi port in if \<not> ok \<or> n < 1 \<or> n > 65535 then Some InvalidPort else None))"

definition name_char :: "char \<Rightarrow> bool" where
  "name_char c \<longleftrightarrow> (CHR ''a'' \<le> c \<and> c \<le> CHR ''z'') \<or> is_digit c \<or> c = CHR ''-''"

text \<open>
  On ASCII names: the code walks the runes of the name, so a multi-byte character becomes one
  dash there and one per byte here.
\<close>

definition sanitizeName :: "string \<Rightarrow> string" where
  "sanitizeName n =
     TrimFunc (\<lambda>c. c = CHR ''-'')
       (map (\<lambda>c. if name_char c then c else CHR ''-'') (ToLower (TrimPrefix n ''/'')))"

definition excluded :: "string \<Rightarrow> string list \<Rightarrow> bool" where
  "excluded name deny \<longleftrightarrow> list_ex (\<lambda>d. d \<noteq> '''' \<and> Contains (ToLower name) (ToLower d)) deny"

definition splitMatch :: "string \<Rightarrow> string \<times> bool" where
  "splitMatch p = (if HasPrefix p ''= '' then (TrimSpace (drop 2 p), True) else (p, False))"

definition joinMatch :: "string \<Rightarrow> bool \<Rightarrow> string" where
  "joinMatch path exact = (if exact then ''= '' @ TrimSpace path else TrimSpace path)"

definition valid_rule :: "string \<Rightarrow> bool" where
  "valid_rule rule \<longleftrightarrow> rule = RulePublic \<or> rule = RuleAuthenticated \<or> rule = RuleAuthorized"

subsection \<open>Users\<close>

definition handleUserEmail :: "Env \<Rightarrow> Req \<Rightarrow> World \<Rightarrow> Resp \<times> World" where
  "handleUserEmail e r = guarded e r (\<lambda>w.
     let old = PostFormValue r ''old''; neu = TrimSpace (PostFormValue r ''email'') in
     if neu = '''' then (HttpError ''err.email_required'' 400, w)
     else user_op e r (\<lambda>users.
       if list_ex (\<lambda>u. usr_Email u = neu \<and> neu \<noteq> old) users then Inl (Msg ''email already in use'')
       else edit_user old (\<lambda>u. u\<lparr>usr_Email := neu\<rparr>) users) w)"

definition handleUserPassword :: "Env \<Rightarrow> Req \<Rightarrow> World \<Rightarrow> Resp \<times> World" where
  "handleUserPassword e r = guarded e r (\<lambda>w.
     let email = PostFormValue r ''email''; pw = PostFormValue r ''password'' in
     if pw = '''' then (HttpError ''err.password_required'' 400, w)
     else (case HashPassword (en_IDKey e) (en_salt e) pw of
             None \<Rightarrow> (Aborted, w)
           | Some (Inl _) \<Rightarrow> (HttpError ''err.internal'' 500, w)
           | Some (Inr hash) \<Rightarrow> user_op e r (edit_user email (\<lambda>u. u\<lparr>usr_PasswordHash := hash\<rparr>)) w))"

text \<open>
  The counting loop of \<open>handleUserAdmin\<close>: the position of the last user with the email (the
  directory has at most one) and the number of administrators.
\<close>

fun admin_scan :: "string \<Rightarrow> nat \<Rightarrow> User list \<Rightarrow> nat option \<times> nat \<Rightarrow> nat option \<times> nat" where
  "admin_scan email i [] st = st"
| "admin_scan email i (u # us) (target, admins) =
     admin_scan email (Suc i) us
       (if usr_Email u = email then Some i else target, if usr_Admin u then Suc admins else admins)"

definition toggle_admin :: "string \<Rightarrow> user_edit" where
  "toggle_admin email users =
     (case admin_scan email 0 users (None, 0) of
        (None, _) \<Rightarrow> Inl (Msg ''user not found'')
      | (Some t, admins) \<Rightarrow>
          if usr_Admin (users ! t) \<and> admins \<le> 1 then Inl (Msg ''at least one administrator must remain'')
          else Inr (users[t := (users ! t)\<lparr>usr_Admin := \<not> usr_Admin (users ! t)\<rparr>], \<lambda>u. u))"

definition handleUserAdmin :: "Env \<Rightarrow> Req \<Rightarrow> World \<Rightarrow> Resp \<times> World" where
  "handleUserAdmin e r = guarded e r (user_op e r (toggle_admin (PostFormValue r ''email'')))"

definition renderAdminQR :: "Env \<Rightarrow> string \<Rightarrow> string \<Rightarrow> Resp" where
  "renderAdminQR e email secret =
     (if \<not> en_qr e (otpauthURI email secret) then HttpError ''err.qr'' 500
      else renderHTML (FormPage ''admin_qr'' email secret) 200)"

definition add_user :: "User \<Rightarrow> user_edit" where
  "add_user nu users =
     (if list_ex (\<lambda>u. usr_Email u = usr_Email nu) users then Inl (Msg ''user already exists'')
      else Inr (users @ [nu], \<lambda>u. u))"

definition handleUserAdd :: "Env \<Rightarrow> Req \<Rightarrow> World \<Rightarrow> Resp \<times> World" where
  "handleUserAdd e r = guarded e r (\<lambda>w.
     let email = PostFormValue r ''email''; pw = PostFormValue r ''password'';
         noTOTP = cfg_DisableTOTP (sv_Cfg (wd_srv w)) in
     if email = '''' \<or> pw = '''' then (HttpError ''err.email_password_required'' 400, w)
     else (case HashPassword (en_IDKey e) (en_salt e) pw of
             None \<Rightarrow> (Aborted, w)
           | Some (Inl _) \<Rightarrow> (HttpError ''err.internal'' 500, w)
           | Some (Inr hash) \<Rightarrow>
               (case (if noTOTP then Some '''' else NewTOTPSecret (en_rand20 e)) of
                  None \<Rightarrow> (HttpError ''err.internal'' 500, w)
                | Some secret \<Rightarrow>
                    (case mutateUsers e (add_user
                            \<lparr>usr_Email = email, usr_Provider = ''local'', usr_PasswordHash = hash,
                             usr_TOTPSecret = secret, usr_Admin = False, usr_Backends = rq_Post r ''authz''\<rparr>) w of
                       (Some err, w1) \<Rightarrow> ((WriteHeader 400)\<lparr>rp_page := ErrorText (err_text err)\<rparr>, w1)
                     | (None, w1) \<Rightarrow>
                         if noTOTP then (afterMutation r None, w1) else (renderAdminQR e email secret, w1)))))"

definition del_user :: "string \<Rightarrow> user_edit" where
  "del_user email users = Inr (filter (\<lambda>u. usr_Email u \<noteq> email) users, \<lambda>u. u)"

definition handleUserDel :: "Env \<Rightarrow> Req \<Rightarrow> World \<Rightarrow> Resp \<times> World" where
  "handleUserDel e r = guarded e r (user_op e r (del_user (PostFormValue r ''email'')))"

definition handleUserAuthz :: "Env \<Rightarrow> Req \<Rightarrow> World \<Rightarrow> Resp \<times> World" where
  "handleUserAuthz e r = guarded e r
     (user_op e r (edit_user (PostFormValue r ''email'') (\<lambda>u. u\<lparr>usr_Backends := rq_Post r ''authz''\<rparr>)))"

definition handleUserTOTP :: "Env \<Rightarrow> Req \<Rightarrow> World \<Rightarrow> Resp \<times> World" where
  "handleUserTOTP e r = guarded e r (\<lambda>w.
     let email = PostFormValue r ''email'' in
     case NewTOTPSecret (en_rand20 e) of
       None \<Rightarrow> (HttpError ''err.internal'' 500, w)
     | Some secret \<Rightarrow>
         (case mutateUsers e (edit_user email (\<lambda>u. u\<lparr>usr_TOTPSecret := secret\<rparr>)) w of
            (Some err, w1) \<Rightarrow> ((WriteHeader 400)\<lparr>rp_page := ErrorText (err_text err)\<rparr>, w1)
          | (None, w1) \<Rightarrow> (renderAdminQR e email secret, w1)))"

subsection \<open>Grants\<close>

text \<open>
  What the array behind the directory's slice \<open>arr\<close> holds after the in-place filter to \<open>kept\<close>
  and the appends of \<open>new\<close>, when the array has room for \<open>cap\<close> elements: the appends write into
  it until it is full, and the final sort reaches it only if everything fitted.
\<close>

definition residue :: "nat \<Rightarrow> string list \<Rightarrow> string list \<Rightarrow> string list \<Rightarrow> string list" where
  "residue cap arr kept new =
     (let fit = take (cap - length kept) new;
          written = (if length kept + length new \<le> cap then sort (kept @ new) else kept @ fit)
      in take (length arr) (written @ drop (length written) arr))"

text \<open>The grant identifiers the form wants for an email, each once.\<close>

definition wanted :: "string \<Rightarrow> (string \<times> string list) list \<Rightarrow> string \<Rightarrow> string list" where
  "wanted backendID grants email =
     remdups (map (\<lambda>(path, _). GrantID backendID path) (filter (\<lambda>(_, emails). email \<in> set emails) grants))"

definition path_grants_kept :: "string \<Rightarrow> User \<Rightarrow> string list" where
  "path_grants_kept backendID u = filter (\<lambda>i. \<not> HasPrefix i (backendID @ ''#'')) (usr_Backends u)"

definition applyPathGrants :: "Env \<Rightarrow> string \<Rightarrow> (string \<times> string list) list \<Rightarrow> World \<Rightarrow> srv_error option \<times> World" where
  "applyPathGrants e backendID grants =
     mutateUsers e (\<lambda>users. Inr
       (map (\<lambda>u. u\<lparr>usr_Backends := sort (path_grants_kept backendID u @ wanted backendID grants (usr_Email u))\<rparr>) users,
        \<lambda>u. u\<lparr>usr_Backends := residue (en_cap e u) (usr_Backends u) (path_grants_kept backendID u)
                (wanted backendID grants (usr_Email u))\<rparr>))"

definition service_grant :: "string list \<Rightarrow> string \<Rightarrow> User \<Rightarrow> User" where
  "service_grant enabled backendID u =
     (let has = backendID \<in> set (usr_Backends u); on = usr_Email u \<in> set enabled in
      if on \<and> \<not> has then u\<lparr>usr_Backends := usr_Backends u @ [backendID]\<rparr>
      else if \<not> on \<and> has then u\<lparr>usr_Backends := filter (\<lambda>i. i \<noteq> backendID) (usr_Backends u)\<rparr>
      else u)"

definition applyServiceGrants :: "Env \<Rightarrow> Req \<Rightarrow> string \<Rightarrow> World \<Rightarrow> srv_error option \<times> World" where
  "applyServiceGrants e r backendID w =
     (if PostFormValue r ''svcuser_sent'' = '''' then (None, w)
      else let enabled = rq_Post r ''svcuser'' in
        mutateUsers e (\<lambda>users. Inr
          (map (service_grant enabled backendID) users,
           \<lambda>u. if usr_Email u \<notin> set enabled \<and> backendID \<in> set (usr_Backends u)
               then u\<lparr>usr_Backends :=
                 (let kept = filter (\<lambda>i. i \<noteq> backendID) (usr_Backends u)
                  in kept @ drop (length kept) (usr_Backends u))\<rparr>
               else u)) w)"

subsection \<open>Services\<close>

definition int_field :: "Req \<Rightarrow> string \<Rightarrow> int \<Rightarrow> int" where
  "int_field r n d = (let v = fst (Atoi (PostFormValue r n)) in if v \<le> 0 then d else v)"

definition handleMonitorAdd :: "Env \<Rightarrow> Req \<Rightarrow> World \<Rightarrow> Resp \<times> World" where
  "handleMonitorAdd e r = guarded e r (\<lambda>w.
     let i = PostFormValue r ''id''; url = PostFormValue r ''url'' in
     if i = '''' \<or> url = '''' then (HttpError ''err.id_url_required'' 400, w)
     else service_op e r (\<lambda>svc.
       if list_ex (\<lambda>m. mo_ID m = i) (svc_Monitors svc) then Inl (Msg ''id already exists'')
       else Inr (svc\<lparr>svc_Monitors := svc_Monitors svc @
         [\<lparr>mo_ID = i, mo_Name = PostFormValue r ''name'', mo_URL = url,
           mo_IntervalSeconds = int_field r ''interval'' 30, mo_TimeoutSeconds = int_field r ''timeout'' 5\<rparr>]\<rparr>)) w)"

definition handleMonitorDel :: "Env \<Rightarrow> Req \<Rightarrow> World \<Rightarrow> Resp \<times> World" where
  "handleMonitorDel e r = guarded e r (service_op e r (\<lambda>svc.
     Inr (svc\<lparr>svc_Monitors := filter (\<lambda>m. mo_ID m \<noteq> PostFormValue r ''id'') (svc_Monitors svc)\<rparr>)))"

definition discovered_backend :: "string \<Rightarrow> string \<Rightarrow> int \<Rightarrow> Backend" where
  "discovered_backend name rule port =
     (let host = name @ ''.localhost''; upstream = ''http://host.docker.internal:'' @ Itoa port in
      zero_Backend\<lparr>be_ID := name, be_Name := name, be_Host := host, be_URL := ''//'' @ host,
        be_Routes := [\<lparr>rt_Path = ''/'', rt_Rule = rule, rt_Upstream = upstream, rt_OwnGrants = False\<rparr>],
        be_Health := \<lparr>hl_URL = upstream @ ''/'', hl_IntervalSeconds = 30, hl_TimeoutSeconds = 5\<rparr>\<rparr>)"

definition form_rule :: "Req \<Rightarrow> string" where
  "form_rule r = (let rule = CanonicalRule (PostFormValue r ''rule'') in
     if valid_rule rule then rule else RuleAuthorized)"

definition handleDiscoverAdd :: "Env \<Rightarrow> Req \<Rightarrow> World \<Rightarrow> Resp \<times> World" where
  "handleDiscoverAdd e r = guarded e r (\<lambda>w.
     let name = sanitizeName (PostFormValue r ''name''); port = fst (Atoi (PostFormValue r ''port'')) in
     if name = '''' \<or> port \<le> 0 \<or> port > 65535 then (HttpError ''err.invalid_container_port'' 400, w)
     else service_op e r (\<lambda>svc.
       if idTaken (wd_srv w) svc name then Inl (Msg ''id already exists'')
       else Inr (svc\<lparr>svc_Backends := svc_Backends svc @ [discovered_backend name (form_rule r) port]\<rparr>)) w)"

text \<open>The bulk loop: bad ports and taken names are skipped.\<close>

fun add_host_ports :: "Server \<Rightarrow> Req \<Rightarrow> string list \<Rightarrow> Services \<Rightarrow> Services" where
  "add_host_ports s r [] svc = svc"
| "add_host_ports s r (ps # rest) svc =
     (let (port, ok) = Atoi ps in
      if \<not> ok \<or> port < 1 \<or> port > 65535 then add_host_ports s r rest svc
      else
        let name0 = sanitizeName (PostFormValue r (''name_'' @ ps));
            name = (if name0 = '''' then ''host-'' @ Itoa port else name0)
        in if idTaken s svc name then add_host_ports s r rest svc
           else add_host_ports s r rest
             (svc\<lparr>svc_Backends := svc_Backends svc @ [discovered_backend name (form_rule r) port]\<rparr>))"

definition handleHostScanAdd :: "Env \<Rightarrow> Req \<Rightarrow> World \<Rightarrow> Resp \<times> World" where
  "handleHostScanAdd e r = guarded e r (\<lambda>w.
     service_op e r (\<lambda>svc. Inr (add_host_ports (wd_srv w) r (rq_Post r ''ports'') svc)) w)"

definition handleLinkAdd :: "Env \<Rightarrow> Req \<Rightarrow> World \<Rightarrow> Resp \<times> World" where
  "handleLinkAdd e r = guarded e r (\<lambda>w.
     let i = PostFormValue r ''id''; name = PostFormValue r ''name''; url = PostFormValue r ''url'' in
     if i = '''' \<or> name = '''' \<or> url = '''' then (HttpError ''err.id_name_url_required'' 400, w)
     else service_op e r (\<lambda>svc.
       if idTaken (wd_srv w) svc i then Inl (Msg ''id already exists'')
       else Inr (svc\<lparr>svc_Links := svc_Links svc @
         [\<lparr>ln_ID = i, ln_Name = name, ln_URL = url, ln_Description = PostFormValue r ''desc'',
           ln_Public = (PostFormValue r ''public'' \<noteq> ''''), ln_Disabled = False\<rparr>]\<rparr>)) w)"

definition handleLinkDel :: "Env \<Rightarrow> Req \<Rightarrow> World \<Rightarrow> Resp \<times> World" where
  "handleLinkDel e r = guarded e r (service_op e r (\<lambda>svc.
     Inr (svc\<lparr>svc_Links := filter (\<lambda>l. ln_ID l \<noteq> PostFormValue r ''id'') (svc_Links svc)\<rparr>)))"

definition handleLinkToggle :: "Env \<Rightarrow> Req \<Rightarrow> World \<Rightarrow> Resp \<times> World" where
  "handleLinkToggle e r = guarded e r (service_op e r (\<lambda>svc.
     case update_first (\<lambda>l. ln_ID l = PostFormValue r ''id'') (\<lambda>l. l\<lparr>ln_Disabled := \<not> ln_Disabled l\<rparr>) (svc_Links svc) of
       None \<Rightarrow> Inl (Msg ''link not found'')
     | Some ls \<Rightarrow> Inr (svc\<lparr>svc_Links := ls\<rparr>)))"

definition handleBackendDel :: "Env \<Rightarrow> Req \<Rightarrow> World \<Rightarrow> Resp \<times> World" where
  "handleBackendDel e r = guarded e r (service_op e r (\<lambda>svc.
     Inr (svc\<lparr>svc_Backends := filter (\<lambda>b. be_ID b \<noteq> PostFormValue r ''id'') (svc_Backends svc)\<rparr>)))"

definition handleBackendToggle :: "Env \<Rightarrow> Req \<Rightarrow> World \<Rightarrow> Resp \<times> World" where
  "handleBackendToggle e r = guarded e r (service_op e r (\<lambda>svc.
     case update_first (\<lambda>b. be_ID b = PostFormValue r ''id'') (\<lambda>b. b\<lparr>be_Disabled := \<not> be_Disabled b\<rparr>) (svc_Backends svc) of
       None \<Rightarrow> Inl (Msg ''backend not found'')
     | Some bs \<Rightarrow> Inr (svc\<lparr>svc_Backends := bs\<rparr>)))"

definition handleBackendAdd :: "Env \<Rightarrow> Req \<Rightarrow> World \<Rightarrow> Resp \<times> World" where
  "handleBackendAdd e r = guarded e r (\<lambda>w.
     let i = PostFormValue r ''id''; host = PostFormValue r ''host'';
         upstream = hostInternalize (sv_UpstreamLocalhost (wd_srv w)) (PostFormValue r ''upstream'');
         rule = CanonicalRule (PostFormValue r ''rule'');
         path = (if PostFormValue r ''path'' = '''' then ''/'' else PostFormValue r ''path'') in
     if i = '''' \<or> host = '''' \<or> upstream = '''' then (HttpError ''err.id_host_upstream_required'' 400, w)
     else if \<not> valid_rule rule then (HttpError ''err.invalid_rule'' 400, w)
     else case normalizeCIDRs (PostFormValue r ''ip_allow'') of
       Inl bad \<Rightarrow> ((WriteHeader 400)\<lparr>rp_page := ErrorText bad\<rparr>, w)
     | Inr ipAllow \<Rightarrow>
         if (case LoadServices (en_codec e) (sv_ServicesPath (wd_srv w)) (wd_fs w) of
               Inl _ \<Rightarrow> False | Inr cur \<Rightarrow> idTaken (wd_srv w) cur i)
         then (SeeOther (''/admin/backend/edit?id='' @ QueryEscape i), w)
         else
           let hs = PostFormValue r ''hosting_site'';
               ref = (if hs \<noteq> '''' then Some \<lparr>hr_Site = hs, hr_Vhost = PostFormValue r ''hosting_vhost''\<rparr> else None)
           in service_op e r (\<lambda>svc.
                if idTaken (wd_srv w) svc i then Inl (Msg ''id already exists'')
                else Inr (svc\<lparr>svc_Backends := svc_Backends svc @
                  [zero_Backend\<lparr>be_ID := i, be_Name := PostFormValue r ''name'', be_Host := host,
                     be_URL := PostFormValue r ''url'', be_WWW := (PostFormValue r ''www'' \<noteq> ''''),
                     be_IPAllow := ipAllow,
                     be_Routes := [\<lparr>rt_Path = path, rt_Rule = rule, rt_Upstream = upstream, rt_OwnGrants = False\<rparr>],
                     be_Hosting := ref\<rparr>]\<rparr>)) w)"

definition handleAdminIPs :: "Env \<Rightarrow> Req \<Rightarrow> World \<Rightarrow> Resp \<times> World" where
  "handleAdminIPs e r = guarded e r (\<lambda>w.
     case normalizeCIDRs (PostFormValue r ''ip_whitelist'') of
       Inl bad \<Rightarrow> ((WriteHeader 400)\<lparr>rp_page := ErrorText bad\<rparr>, w)
     | Inr cidrs \<Rightarrow>
         let effective = (if cidrs = [] then adm_IPWhitelist (cfg_Admin (sv_Cfg (wd_srv w))) else cidrs);
             ip = clientIP r (srv_TrustedProxies (cfg_Server (sv_Cfg (wd_srv w))))
         in if ip = None \<or> \<not> ipInCIDRs ip effective then (HttpError ''err.ip_lockout'' 400, w)
            else service_op e r (\<lambda>svc. Inr (svc\<lparr>svc_AdminIPWhitelist := cidrs\<rparr>)) w)"

subsection \<open>The service edit form\<close>

datatype upload = NoFile | UploadError | Upload bytes

definition maxListingImg :: nat where "maxListingImg = 2097152"

definition image_ext :: "string \<Rightarrow> string" where
  "image_ext mime =
     (if mime = ''image/png'' then ''.png'' else if mime = ''image/jpeg'' then ''.jpg''
      else if mime = ''image/webp'' then ''.webp'' else if mime = ''image/gif'' then ''.gif'' else '''')"

text \<open>\<open>r.FormValue\<close>: the body's parameters come before the query's.\<close>

definition FormValue :: "Req \<Rightarrow> string \<Rightarrow> string" where
  "FormValue r n = (case rq_Post r n of [] \<Rightarrow> rq_Query r n | v # _ \<Rightarrow> v)"

text \<open>
  \<open>detect\<close> is \<open>http.DetectContentType\<close>; a reading error is an \<open>UploadError\<close>.  The old images
  are found for an identifier without path separators or glob characters.
\<close>

definition saveListingImage :: "(bytes \<Rightarrow> string) \<Rightarrow> Req \<Rightarrow> upload \<Rightarrow> string \<Rightarrow> World
    \<Rightarrow> (string + string \<times> bool) \<times> World" where
  "saveListingImage detect r up i w =
     (if FormValue r ''img_remove'' = ''1'' then (Inr ('''', True), w)
      else (case up of
              NoFile \<Rightarrow> (Inr ('''', False), w)
            | UploadError \<Rightarrow> (Inl ''upload'', w)
            | Upload data \<Rightarrow>
                if length data > maxListingImg then (Inl ''immagine troppo grande (max 2 MB)'', w)
                else
                  let ext = image_ext (detect data); dir = listingImgDir (wd_srv w); f = wd_fs w in
                  if ext = '''' then (Inl ''formato immagine non supportato (usa PNG/JPEG/WebP/GIF)'', w)
                  else if fs_nodir f dir then (Inl ''mkdir'', w)
                  else
                    let f1 = fold Remove (Glob dir (i @ ''.'') '''' f) f in
                    (case WriteFile (pathJoin [dir, i @ ext]) data f1 of
                       (Some _, f2) \<Rightarrow> (Inl ''write'', w\<lparr>wd_fs := f2\<rparr>)
                     | (None, f2) \<Rightarrow> (Inr (i @ ext, False), w\<lparr>wd_fs := f2\<rparr>))))"

definition removeListingImage :: "Server \<Rightarrow> string \<Rightarrow> fs \<Rightarrow> fs" where
  "removeListingImage s name f = (if name \<noteq> '''' then Remove (pathJoin [listingImgDir s, name]) f else f)"

definition nonneg_field :: "Req \<Rightarrow> string \<Rightarrow> int" where
  "nonneg_field r n = (let v = fst (Atoi (TrimSpace (PostFormValue r n))) in if v < 0 then 0 else v)"

definition parseNginxOpts :: "Req \<Rightarrow> NginxOpts" where
  "parseNginxOpts r =
     \<lparr>ngx_ProxyTimeout = nonneg_field r ''ngx_timeout'', ngx_MaxBodyMB = nonneg_field r ''ngx_maxbody'',
      ngx_WebSocket = (PostFormValue r ''ngx_ws'' \<noteq> ''''), ngx_NoBuffering = (PostFormValue r ''ngx_nobuf'' \<noteq> ''''),
      ngx_BackendSelfSigned = (PostFormValue r ''ngx_selfsigned'' \<noteq> ''''),
      ngx_CustomServer = TrimSpace (PostFormValue r ''ngx_custom_srv''),
      ngx_CustomLocation = TrimSpace (PostFormValue r ''ngx_custom_loc'')\<rparr>"

definition nth_or :: "string list \<Rightarrow> nat \<Rightarrow> string option" where
  "nth_or xs i = (if i < length xs then Some (xs ! i) else None)"

text \<open>
  The override rows of the form: the routes they give and the lists of users of the paths that
  do not inherit (a later row for the same path replaces the earlier list).
\<close>

fun override_rows :: "Req \<Rightarrow> string \<Rightarrow> nat \<Rightarrow> string list \<Rightarrow> Route list \<times> (string \<times> string list) list
    \<Rightarrow> Route list \<times> (string \<times> string list) list" where
  "override_rows r up i [] acc = acc"
| "override_rows r up i (op # ops) (routes, grants) =
     (let (cp, exact0) = splitMatch (TrimSpace op) in
      if cp = '''' then override_rows r up (Suc i) ops (routes, grants)
      else
        let orule0 = (case nth_or (rq_Post r ''orule'') i of Some x \<Rightarrow> x | None \<Rightarrow> RuleAuthenticated);
            orule = (if valid_rule orule0 then orule0 else ''authenticated'');
            exact = (exact0 \<or> nth_or (rq_Post r ''omatch'') i = Some ''exact'');
            own = (nth_or (rq_Post r ''oinherit'') i = Some ''0'');
            rp = joinMatch cp exact;
            em = (case nth_or (rq_Post r ''ousers'') i of Some x \<Rightarrow> Fields x | None \<Rightarrow> [])
        in override_rows r up (Suc i) ops
             (routes @ [\<lparr>rt_Path = rp, rt_Rule = orule, rt_Upstream = up, rt_OwnGrants = own\<rparr>],
              if own then AList.update rp em grants else grants))"

definition waf_of_form :: "Req \<Rightarrow> WafCfg option \<Rightarrow> WafCfg option" where
  "waf_of_form r old =
     (if PostFormValue r ''waf_enabled'' = '''' then None
      else Some
        \<lparr>waf_Enabled = True,
         waf_Mode = (if PostFormValue r ''waf_mode'' = ''block'' then ''block'' else ''detect''),
         waf_Paranoia = (case old of Some x \<Rightarrow> waf_Paranoia x | None \<Rightarrow> 0),
         waf_Threshold = (case old of Some x \<Rightarrow> waf_Threshold x | None \<Rightarrow> 0),
         waf_DisabledRules =
           concat (map (\<lambda>f. let (n, ok) = Atoi (TrimRight f CHR '','') in if ok \<and> n > 0 then [n] else [])
             (Fields (PostFormValue r ''waf_disabled_rules''))),
         waf_IgnoreIPs = map (\<lambda>f. TrimRight f CHR '','') (Fields (PostFormValue r ''waf_ignore_ips'')),
         waf_CustomRules = TrimSpace (PostFormValue r ''waf_custom_rules'')\<rparr>)"

definition edit_upstream :: "string \<Rightarrow> Backend \<Rightarrow> string" where
  "edit_upstream upstream b =
     (if be_Hosting b \<noteq> None \<and> be_Routes b \<noteq> [] then rt_Upstream (hd (be_Routes b)) else upstream)"

definition form_path :: "Req \<Rightarrow> string" where
  "form_path r = (if PostFormValue r ''path'' = '''' then ''/'' else PostFormValue r ''path'')"

definition form_rows :: "Req \<Rightarrow> string \<Rightarrow> Backend \<Rightarrow> Route list \<times> (string \<times> string list) list" where
  "form_rows r upstream b =
     (let up = edit_upstream upstream b in
      override_rows r up 0 (rq_Post r ''opath'')
        ([\<lparr>rt_Path = form_path r, rt_Rule = form_rule r, rt_Upstream = up, rt_OwnGrants = False\<rparr>], []))"

definition edited_backend :: "Req \<Rightarrow> string \<Rightarrow> string list \<Rightarrow> string \<times> bool \<Rightarrow> Backend \<Rightarrow> Backend" where
  "edited_backend r upstream ipAllow img b =
     b\<lparr>be_Name := PostFormValue r ''name'', be_Description := PostFormValue r ''description'',
       be_Unlisted := (PostFormValue r ''listed'' = ''''),
       be_Image := (if snd img then '''' else if fst img \<noteq> '''' then fst img else be_Image b),
       be_Host := PostFormValue r ''host'', be_URL := PostFormValue r ''url'',
       be_WWW := (PostFormValue r ''www'' \<noteq> ''''), be_IPAllow := ipAllow, be_Nginx := parseNginxOpts r,
       be_Routes := fst (form_rows r upstream b), be_Waf := waf_of_form r (be_Waf b)\<rparr>"

definition handleBackendEdit :: "(bytes \<Rightarrow> string) \<Rightarrow> upload \<Rightarrow> Env \<Rightarrow> Req \<Rightarrow> World \<Rightarrow> Resp \<times> World" where
  "handleBackendEdit detect up e r = guarded e r (\<lambda>w.
     let i = PostFormValue r ''id'';
         upstream = hostInternalize (sv_UpstreamLocalhost (wd_srv w)) (PostFormValue r ''upstream'') in
     if validateUpstream upstream \<noteq> None then ((WriteHeader 400)\<lparr>rp_page := ErrorText ''invalid upstream''\<rparr>, w)
     else if PostFormValue r ''host'' = '''' then (HttpError ''err.host_required'' 400, w)
     else case normalizeCIDRs (PostFormValue r ''ip_allow'') of
       Inl bad \<Rightarrow> ((WriteHeader 400)\<lparr>rp_page := ErrorText bad\<rparr>, w)
     | Inr ipAllow \<Rightarrow>
         (case saveListingImage detect r up i w of
            (Inl bad, w1) \<Rightarrow> ((WriteHeader 400)\<lparr>rp_page := ErrorText bad\<rparr>, w1)
          | (Inr img, w1) \<Rightarrow>
              let found = (\<lambda>svc. find (\<lambda>b. be_ID b = i) (svc_Backends svc));
                  grants = (case LoadServices (en_codec e) (sv_ServicesPath (wd_srv w1)) (wd_fs w1) of
                              Inl _ \<Rightarrow> []
                            | Inr svc \<Rightarrow> (case found svc of None \<Rightarrow> [] | Some b \<Rightarrow> snd (form_rows r upstream b)));
                  (err1, w2) = mutateServicesIO e (\<lambda>svc f.
                    case update_first (\<lambda>b. be_ID b = i) (edited_backend r upstream ipAllow img) (svc_Backends svc) of
                      None \<Rightarrow> (Inl (Msg ''backend not found''), f)
                    | Some bs \<Rightarrow> (Inr (svc\<lparr>svc_Backends := bs\<rparr>),
                        (case found svc of
                           Some b \<Rightarrow> if snd img then removeListingImage (wd_srv w1) (be_Image b) f else f
                         | None \<Rightarrow> f))) w1;
                  (err2, w3) = (case err1 of Some x \<Rightarrow> (Some x, w2) | None \<Rightarrow> applyServiceGrants e r i w2);
                  (err3, w4) = (case err2 of Some x \<Rightarrow> (Some x, w3) | None \<Rightarrow> applyPathGrants e i grants w3)
              in (afterMutation r err3, w4)))"

subsection \<open>Admin pages\<close>

definition serviceLabel :: "Backend \<Rightarrow> string \<Rightarrow> string" where
  "serviceLabel b site =
     (let name = (if be_Name b = '''' then be_ID b else be_Name b) in
      if site = '''' then name
      else (case be_Hosting b of
              Some h \<Rightarrow> if hr_Vhost h \<noteq> '''' then hr_Vhost h else TrimPrefix name (site @ ''/'')
            | None \<Rightarrow> TrimPrefix name (site @ ''/'')))"

record svcGroup =
  sg_Site :: string
  sg_Backends :: "(Backend \<times> string) list"

definition own_site :: "Backend \<Rightarrow> string" where
  "own_site b = (case be_Hosting b of Some h \<Rightarrow> hr_Site h | None \<Rightarrow> '''')"

definition group_site :: "Backend list \<Rightarrow> Backend \<Rightarrow> string" where
  "group_site bs b =
     (if own_site b \<noteq> '''' then own_site b
      else (case find (\<lambda>c. be_Host c = be_Host b \<and> own_site c \<noteq> '''') bs of
              Some c \<Rightarrow> own_site c
            | None \<Rightarrow>
                if be_Host b \<noteq> '''' \<and> length (filter (\<lambda>c. be_Host c = be_Host b) bs) > 1 then be_Host b else ''''))"

fun group_services :: "svcGroup list \<Rightarrow> (Backend \<times> string) list \<Rightarrow> svcGroup list" where
  "group_services out [] = out"
| "group_services out ((b, site) # rest) =
     (let it = (b, serviceLabel b site) in
      if site = '''' then group_services (out @ [\<lparr>sg_Site = '''', sg_Backends = [it]\<rparr>]) rest
      else (case update_first (\<lambda>g. sg_Site g = site) (\<lambda>g. g\<lparr>sg_Backends := sg_Backends g @ [it]\<rparr>) out of
              Some out' \<Rightarrow> group_services out' rest
            | None \<Rightarrow> group_services (out @ [\<lparr>sg_Site = site, sg_Backends = [it]\<rparr>]) rest))"

definition groupServiceBackends :: "Backend list \<Rightarrow> svcGroup list" where
  "groupServiceBackends bs =
     map (\<lambda>g. if length (sg_Backends g) = 1
              then g\<lparr>sg_Backends := map (\<lambda>(b, l). (b, serviceLabel b '''')) (sg_Backends g)\<rparr> else g)
       (group_services [] (map (\<lambda>b. (b, group_site bs b)) bs))"

definition backendGated :: "Backend \<Rightarrow> bool" where
  "backendGated b \<longleftrightarrow> be_Routes b = [] \<or> list_ex (\<lambda>rt. rt_Rule rt \<noteq> ''public'') (be_Routes b)"

definition authGatedServiceIDs :: "Server \<Rightarrow> Services \<Rightarrow> string list" where
  "authGatedServiceIDs s svc =
     sort (remdups (map be_ID (filter backendGated (sv_BaseBackends s)) @
       map be_ID (filter backendGated (svc_Backends svc)) @ map ln_ID (svc_Links svc)))"

definition pathGrantees :: "Env \<Rightarrow> Server \<Rightarrow> string \<Rightarrow> string \<Rightarrow> string" where
  "pathGrantees e s backendID path =
     (let want = GrantID backendID path in
      if want = backendID then ''''
      else Join (sort (map usr_Email (filter (\<lambda>u. want \<in> set (usr_Backends u)) (All (en_iter e) (sv_Users s))))) '' '')"

definition serviceUsers :: "Env \<Rightarrow> Server \<Rightarrow> string \<Rightarrow> (string \<times> bool \<times> bool) list" where
  "serviceUsers e s backendID =
     sort_key fst (map (\<lambda>u. (usr_Email u, backendID \<in> set (usr_Backends u), usr_Admin u)) (All (en_iter e) (sv_Users s)))"


section \<open>Properties\<close>

lemma admin_scan_result:
  "admin_scan email i us (t, a) = (t', a') \<Longrightarrow>
   a' = a + length (filter usr_Admin us) \<and>
   (t' = t \<or> (\<exists>k < length us. t' = Some (i + k) \<and> usr_Email (us ! k) = email))"
proof (induction us arbitrary: i t a)
  case (Cons u us)
  then have IH: "a' = (if usr_Admin u then Suc a else a) + length (filter usr_Admin us)"
    "t' = (if usr_Email u = email then Some i else t) \<or> (\<exists>k < length us. t' = Some (Suc i + k) \<and> usr_Email (us ! k) = email)"
    using Cons.IH [of "Suc i" "if usr_Email u = email then Some i else t" "if usr_Admin u then Suc a else a"] by simp_all
  from IH(2) have "t' = t \<or> (\<exists>k < length (u # us). t' = Some (i + k) \<and> usr_Email ((u # us) ! k) = email)"
  proof
    assume "t' = (if usr_Email u = email then Some i else t)"
    then show ?thesis by (auto intro: exI [of _ "0::nat"] split: if_splits)
  next
    assume "\<exists>k < length us. t' = Some (Suc i + k) \<and> usr_Email (us ! k) = email"
    then obtain k where "k < length us" "t' = Some (Suc i + k)" "usr_Email (us ! k) = email" by blast
    then show ?thesis by (intro disjI2 exI [of _ "Suc k"]) simp
  qed
  with IH(1) show ?case by simp
qed simp

lemma toggle_keeps_one:
  assumes "toggle_admin email us = Inr (us', al)" "list_ex usr_Admin us"
  shows "list_ex usr_Admin us'"
proof -
  obtain t n where sc: "admin_scan email 0 us (None, 0) = (Some t, n)"
    and g: "\<not> (usr_Admin (us ! t) \<and> n \<le> 1)" and us': "us' = us[t := (us ! t)\<lparr>usr_Admin := \<not> usr_Admin (us ! t)\<rparr>]"
    using assms(1) by (auto simp: toggle_admin_def split: prod.splits option.splits if_splits)
  have t: "t < length us" and n: "n = length (filter usr_Admin us)"
    using admin_scan_result [OF sc] by auto
  show ?thesis
  proof (cases "usr_Admin (us ! t)")
    case False
    have "(us ! t)\<lparr>usr_Admin := True\<rparr> \<in> set us'"
      using us' t False by (metis (mono_tags) set_update_memI)
    then show ?thesis by (force simp: list_ex_iff)
  next
    case True
    then have n2: "2 \<le> length (filter usr_Admin us)" using g n by linarith
    have "\<exists>j < length us. j \<noteq> t \<and> usr_Admin (us ! j)"
    proof (rule ccontr)
      assume "\<not> ?thesis"
      then have "{i. i < length us \<and> usr_Admin (us ! i)} \<subseteq> {t}" by blast
      then have "card {i. i < length us \<and> usr_Admin (us ! i)} \<le> 1"
        by (metis card_mono finite.emptyI finite_insert is_singletonI is_singleton_altdef)
      with n2 show False by (simp add: length_filter_conv_card)
    qed
    then obtain j where "j < length us" "j \<noteq> t" "usr_Admin (us ! j)" by blast
    moreover from this have "us ! j \<in> set us'"
      using us' by (metis length_list_update nth_list_update_neq nth_mem)
    ultimately show ?thesis by (auto simp: list_ex_iff)
  qed
qed

text \<open>
  C26: switching the administrator flag of a user never leaves the directory without an
  administrator.
\<close>

theorem toggle_admin_keeps_one:
  assumes "toggle_admin email us = Inr (us', al)" "list_ex usr_Admin us"
  shows "list_ex usr_Admin us'"
  by (rule toggle_keeps_one [OF assms])

theorem toggle_admin_keeps_one_witness:
  "\<exists>us' al. toggle_admin ''a@x'' [sample_user, sample_user\<lparr>usr_Email := ''b@x''\<rparr>] = Inr (us', al) \<and> list_ex usr_Admin us'"
proof -
  let ?us = "[sample_user, sample_user\<lparr>usr_Email := ''b@x''\<rparr>]"
  obtain us' al where t: "toggle_admin ''a@x'' ?us = Inr (us', al)"
    by (simp add: toggle_admin_def sample_user_def)
  with toggle_admin_keeps_one [OF t] show ?thesis by (simp add: sample_user_def)
qed

text \<open>Deleting the user has no such guard: the only administrator can be removed.\<close>

theorem del_user_last_admin: "del_user ''a@x'' [sample_user] = Inr ([], \<lambda>u. u)"
  by (simp add: del_user_def sample_user_def)

lemma set_wanted: "g \<in> set (wanted b grants em) \<longleftrightarrow> (\<exists>(p, ems) \<in> set grants. g = GrantID b p \<and> em \<in> set ems)"
  by (force simp: wanted_def)

lemma kept_grants:
  "set (path_grants_kept b u) = {g \<in> set (usr_Backends u). \<not> HasPrefix g (b @ ''#'')}"
  by (auto simp: path_grants_kept_def)

lemma applyPathGrants_lookup:
  assumes "applyPathGrants e b grants w = (None, w')" "dir_ok (sv_Users (wd_srv w))" "iterates (en_iter e)"
  shows "Users.Get (sv_Users (wd_srv w')) em =
     map_option (\<lambda>u. u\<lparr>usr_Backends := sort (path_grants_kept b u @ wanted b grants (usr_Email u))\<rparr>)
       (Users.Get (sv_Users (wd_srv w)) em)"
  by (subst mutateUsers_lookup [OF assms(1) [unfolded applyPathGrants_def] refl])
     (rule ud.lookup_map [OF assms(2,3)], simp)

text \<open>
  Setting the user lists of a service's paths gives every user exactly the listed paths of
  that service, and leaves all grants of other services and of the whole service as they are.
\<close>

theorem applyPathGrants_exact:
  assumes "applyPathGrants e b grants w = (None, w')"
    and "dir_ok (sv_Users (wd_srv w))" "iterates (en_iter e)"
    and "\<forall>(p, ems) \<in> set grants. p \<noteq> '''' \<and> p \<noteq> ''/''"
    and "Users.Get (sv_Users (wd_srv w)) em = Some u"
  shows "\<exists>u'. Users.Get (sv_Users (wd_srv w')) em = Some u' \<and>
     (\<forall>g. g \<in> set (usr_Backends u') \<longleftrightarrow>
        (if HasPrefix g (b @ ''#'') then \<exists>(p, ems) \<in> set grants. g = GrantID b p \<and> em \<in> set ems
         else g \<in> set (usr_Backends u)))"
proof -
  have em: "usr_Email u = em" using Get_email [OF assms(2,5)] .
  have pre: "HasPrefix (GrantID b p) (b @ ''#'')" if "(p, ems) \<in> set grants" for p ems
    using assms(4) that GrantID_own_prefix by blast
  have "g \<in> set (path_grants_kept b u @ wanted b grants em) \<longleftrightarrow>
      (if HasPrefix g (b @ ''#'') then \<exists>(p, ems) \<in> set grants. g = GrantID b p \<and> em \<in> set ems
       else g \<in> set (usr_Backends u))" for g
  proof (cases "HasPrefix g (b @ ''#'')")
    case True
    then show ?thesis by (simp add: kept_grants set_wanted)
  next
    case False
    then have "g \<notin> set (wanted b grants em)" using pre by (auto simp: set_wanted)
    with False show ?thesis by (simp add: kept_grants)
  qed
  then show ?thesis
    using applyPathGrants_lookup [OF assms(1-3), of em] assms(5) em by simp
qed

lemma SaveUsers_plain: "fst (SaveUsers cd st p d us (plain_fs [])) = None"
  by (simp add: SaveUsers_def writeJSONAtomic_def WriteFile_def Rename_def snapshotAndPrune_def)

lemma sample_directory:
  "Users.Get (sv_Users (wd_srv sample_world)) ''a@x'' = Some sample_user"
  "dir_ok (sv_Users (wd_srv sample_world))" "iterates (en_iter sample_env)"
  by (simp_all add: sample_world_def sample_server_def NewUserDirectory_def Replace_def Users.Get_def sample_user_def
      sample_env_def iterates_id dir_ok_def keyed_def)

lemma sample_applyPathGrants: "\<exists>w'. applyPathGrants sample_env b grants sample_world = (None, w')"
proof -
  have "fst (applyPathGrants sample_env b grants sample_world) = None"
    using SaveUsers_plain
    by (simp add: applyPathGrants_def mutateUsers_def Let_def case_prod_unfold sample_world_def sample_server_def
        split: option.split)
  then show ?thesis by (metis prod.collapse)
qed

theorem applyPathGrants_exact_witness:
  "\<exists>w' u'. applyPathGrants sample_env ''svc'' [(''/a'', [''a@x'']), (''/b'', [''c@x''])] sample_world = (None, w') \<and>
     Users.Get (sv_Users (wd_srv w')) ''a@x'' = Some u' \<and> ''svc#/a'' \<in> set (usr_Backends u') \<and>
     ''svc#/b'' \<notin> set (usr_Backends u') \<and> ''svc'' \<in> set (usr_Backends u')"
proof -
  obtain w' where w': "applyPathGrants sample_env ''svc'' [(''/a'', [''a@x'']), (''/b'', [''c@x''])] sample_world = (None, w')"
    using sample_applyPathGrants by blast
  have "\<exists>u'. Users.Get (sv_Users (wd_srv w')) ''a@x'' = Some u' \<and> (\<forall>g. g \<in> set (usr_Backends u') \<longleftrightarrow>
        (if HasPrefix g (''svc'' @ ''#'') then \<exists>(p, ems) \<in> set [(''/a'', [''a@x'']), (''/b'', [''c@x''])].
            g = GrantID ''svc'' p \<and> ''a@x'' \<in> set ems
         else g \<in> set (usr_Backends sample_user)))"
    by (rule applyPathGrants_exact [OF w' sample_directory(2,3) _ sample_directory(1)]) simp
  then obtain u' where u': "Users.Get (sv_Users (wd_srv w')) ''a@x'' = Some u'" and
    g: "\<And>g. g \<in> set (usr_Backends u') \<longleftrightarrow>
        (if HasPrefix g (''svc'' @ ''#'') then \<exists>(p, ems) \<in> set [(''/a'', [''a@x'']), (''/b'', [''c@x''])].
            g = GrantID ''svc'' p \<and> ''a@x'' \<in> set ems
         else g \<in> set (usr_Backends sample_user))"
    by blast
  have "''svc#/a'' \<in> set (usr_Backends u')" "''svc#/b'' \<notin> set (usr_Backends u')" "''svc'' \<in> set (usr_Backends u')"
    unfolding g by (simp_all add: GrantID_def sample_user_def)
  with w' u' show ?thesis by blast
qed

text \<open>
  A save that fails is reported, but the directory in memory has lost the grant already: the
  filter worked on the array the directory's own slice refers to.
\<close>

theorem failed_save_changes_grants:
  "let u = sample_user\<lparr>usr_Backends := [''svc#/a'', ''other'']\<rparr>;
       w = sample_world\<lparr>wd_srv := sample_server\<lparr>sv_Users := NewUserDirectory [u]\<rparr>,
                        wd_fs := (plain_fs [])\<lparr>fs_wfault := (\<lambda>_. WOpenFails)\<rparr>\<rparr>;
       (err, w') = applyPathGrants sample_env ''svc'' [] w
   in err \<noteq> None \<and> map_option usr_Backends (Users.Get (sv_Users (wd_srv w')) ''a@x'') = Some [''other'', ''other'']"
  by (simp add: applyPathGrants_def mutateUsers_def Let_def sample_world_def sample_server_def SaveUsers_def
      writeJSONAtomic_def WriteFile_def snapshotAndPrune_def NewUserDirectory_def Replace_def Users.Get_def sample_user_def
      alias_users_def residue_def path_grants_kept_def wanted_def sample_env_def content_def plain_fs_def)

text \<open>
  C5: from the form to the decision: after the user lists of a service's paths are set, a user
  with a live, completed session is let through to a path with its own list exactly when the
  list names the user, or the user is an administrator.
\<close>

theorem path_grant_decides:
  assumes "applyPathGrants e (be_ID be) grants w = (None, w')"
    and "dir_ok (sv_Users (wd_srv w))" "iterates (en_iter e)" "\<forall>(p, ems) \<in> set grants. p \<noteq> '''' \<and> p \<noteq> ''/''"
    and "Users.Get (sv_Users (wd_srv w)) em = Some u"
    and "cfg_AuthMode (sv_Cfg (wd_srv w'))"
    and "Resolve (sv_Resolver (wd_srv w')) (asked_host r) (asked_path r) = (be, rt, True)"
    and "net_admits r (wd_srv w') be" "CanonicalRule (rt_Rule rt) = ''authorized''"
    and "rt_OwnGrants rt" "rt_Path rt \<noteq> ''''" "rt_Path rt \<noteq> ''/''"
    and "carries e' r w' x" "s_TwoFADone x" "s_Email x = em"
  shows "rp_status (fst (handleValidate e' r w')) = 200 \<longleftrightarrow>
     usr_Admin u \<or> (\<exists>ems. (rt_Path rt, ems) \<in> set grants \<and> em \<in> set ems)"
proof -
  let ?u = "u\<lparr>usr_Backends := sort (path_grants_kept (be_ID be) u @ wanted (be_ID be) grants em)\<rparr>"
  have em: "usr_Email u = em" using Get_email [OF assms(2,5)] .
  have u': "Users.Get (sv_Users (wd_srv w')) em = Some ?u"
    using applyPathGrants_lookup [OF assms(1-3), of em] assms(5) em by simp
  have eg: "EffectiveGrantID be rt = GrantID (be_ID be) (rt_Path rt)"
    using assms(10) by (simp add: EffectiveGrantID_def)
  have inj: "GrantID (be_ID be) (rt_Path rt) = GrantID (be_ID be) p \<longleftrightarrow> p = rt_Path rt" if "(p, ems) \<in> set grants" for p ems
    using assms(4,11,12) that by (auto simp: GrantID_def)
  have "EffectiveGrantID be rt \<in> set (usr_Backends ?u) \<longleftrightarrow> (\<exists>ems. (rt_Path rt, ems) \<in> set grants \<and> em \<in> set ems)"
    unfolding eg using GrantID_own_prefix [of "be_ID be" "rt_Path rt"] assms(11,12) inj
    by (auto simp: kept_grants set_wanted)
  moreover have "carries e' r w' y \<longleftrightarrow> y = x" for y
    using assms(13) by (auto simp: carries_def)
  ultimately show ?thesis
    unfolding validate_decides [OF assms(6)] using assms(7-9,14,15) u' by auto
qed

lemma mutateUsers_frame: "wd_srv (snd (mutateUsers e fn w)) = (wd_srv w)\<lparr>sv_Users := sv_Users (wd_srv (snd (mutateUsers e fn w)))\<rparr>"
  by (auto simp: mutateUsers_def Let_def split: sum.split prod.split option.split)

lemma applyPathGrants_frame:
  "wd_srv (snd (applyPathGrants e b grants w)) = (wd_srv w)\<lparr>sv_Users := sv_Users (wd_srv (snd (applyPathGrants e b grants w)))\<rparr>"
  unfolding applyPathGrants_def by (rule mutateUsers_frame)

definition area_backend :: Backend where
  "area_backend = zero_Backend\<lparr>be_ID := ''svc'', be_Host := ''h'', be_Routes := [route_of ''/a'' ''authorized'' True]\<rparr>"

definition area_user :: User where
  "area_user = sample_user\<lparr>usr_Admin := False\<rparr>"

definition area_world :: World where
  "area_world = sample_world\<lparr>wd_srv := sample_server\<lparr>sv_Users := NewUserDirectory [area_user],
     sv_Resolver := \<lparr>rs_backends = [area_backend]\<rparr>\<rparr>\<rparr>"

definition area_req :: Req where
  "area_req = sample_req\<lparr>rq_Header := (\<lambda>k. if k = ''X-Original-URI'' then ''/a/x?y'' else '''')\<rparr>"

theorem path_grant_decides_witness:
  "\<exists>w'. applyPathGrants sample_env ''svc'' [(''/a'', [''a@x''])] area_world = (None, w') \<and>
        rp_status (fst (handleValidate sample_env area_req w')) = 200"
proof -
  have "fst (applyPathGrants sample_env ''svc'' [(''/a'', [''a@x''])] area_world) = None"
    using SaveUsers_plain
    by (simp add: applyPathGrants_def mutateUsers_def Let_def case_prod_unfold area_world_def sample_world_def sample_server_def
        split: option.split)
  then obtain w' where w': "applyPathGrants sample_env (be_ID area_backend) [(''/a'', [''a@x''])] area_world = (None, w')"
    by (simp add: area_backend_def zero_Backend_def) (metis prod.collapse)
  have s: "wd_srv w' = (wd_srv area_world)\<lparr>sv_Users := sv_Users (wd_srv w')\<rparr>"
    using applyPathGrants_frame [of sample_env "be_ID area_backend" "[(''/a'', [''a@x''])]" area_world] by (simp only: w' snd_conv)
  have dir: "dir_ok (sv_Users (wd_srv area_world))"
    by (simp add: area_world_def dir_ok_New)
  have u: "Users.Get (sv_Users (wd_srv area_world)) ''a@x'' = Some area_user"
    by (simp add: area_world_def NewUserDirectory_def Replace_def Users.Get_def area_user_def sample_user_def)
  have frame: "sv_Sessions (wd_srv w') = sv_Sessions sample_server" "sv_Cfg (wd_srv w') = sv_Cfg sample_server"
      "sv_Resolver (wd_srv w') = \<lparr>rs_backends = [area_backend]\<rparr>"
    using arg_cong [OF s, of sv_Sessions] arg_cong [OF s, of sv_Cfg] arg_cong [OF s, of sv_Resolver]
    by (simp_all add: area_world_def)
  have auth: "cfg_AuthMode (sv_Cfg (wd_srv w'))"
    unfolding frame by (simp add: sample_server_def)
  have host: "asked_host area_req = ''h''" "asked_path area_req = ''/a/x''"
    by code_simp+
  have res: "Resolve (sv_Resolver (wd_srv w')) (asked_host area_req) (asked_path area_req) =
      (area_backend, route_of ''/a'' ''authorized'' True, True)"
    unfolding host frame
    by (simp add: area_backend_def zero_Backend_def Resolve_def route_of_def pathMatches_def TrimRightFunc_def)
  have net: "net_admits area_req (wd_srv w') area_backend"
    by (simp add: net_admits_def area_backend_def zero_Backend_def)
  have car: "carries sample_env area_req w' sample_session"
    unfolding carries_def expired_def frame
    by (simp add: area_req_def sample_req_def sample_server_def NewMemoryStore_def)
  have "rp_status (fst (handleValidate sample_env area_req w')) = 200 \<longleftrightarrow>
      usr_Admin area_user \<or> (\<exists>ems. (rt_Path (route_of ''/a'' ''authorized'' True), ems) \<in> set [(''/a'', [''a@x''])] \<and> ''a@x'' \<in> set ems)"
    by (rule path_grant_decides [OF w' dir sample_directory(3) _ u auth res net _ _ _ _ car])
       (simp_all add: route_of_def sample_session_def CanonicalRule_def rule_names)
  then show ?thesis using w' by (simp add: route_of_def area_backend_def zero_Backend_def)
qed

end
