(* ===== verification/ProviderAdmin.thy ===== *)
theory ProviderAdmin
  imports Admin
begin

text \<open>
  The provider administration of handlers/providers.go: runtime providers live in services.json
  and their client secrets in secrets.json.
\<close>

definition providerRedirect :: "Server \<Rightarrow> string \<Rightarrow> string" where
  "providerRedirect s i = TrimRight (srv_ExternalURL (cfg_Server (sv_Cfg s))) CHR ''/'' @ ''/auth/'' @ i @ ''/callback''"

definition isConfigProvider :: "Server \<Rightarrow> string \<Rightarrow> bool" where
  "isConfigProvider s i \<longleftrightarrow> list_ex (\<lambda>p. prv_ID p = i) (sv_BaseProviders s)"

definition setProviderSecret :: "Env \<Rightarrow> string \<Rightarrow> string \<Rightarrow> World \<Rightarrow> srv_error option \<times> World" where
  "setProviderSecret e i secret w =
     (case LoadSecretsRaw (en_codec e) (sv_SecretsPath (wd_srv w)) (wd_fs w) of
        Inl err \<Rightarrow> (Some (FileErr err), w)
      | Inr sec \<Rightarrow>
          (let (r, f) = SaveSecrets (en_codec e) (en_stamp e) (sv_SecretsPath (wd_srv w)) (sv_BackupsDir (wd_srv w))
                 (sec\<lparr>sec_Providers := (sec_Providers sec)(i \<mapsto> \<lparr>ps_ClientSecret = secret\<rparr>)\<rparr>) (wd_fs w)
           in (map_option FileErr r, w\<lparr>wd_fs := f\<rparr>)))"

definition providerRedirectAfter :: "srv_error option \<Rightarrow> Resp" where
  "providerRedirectAfter err =
     (case err of Some x \<Rightarrow> (WriteHeader 400)\<lparr>rp_page := ErrorText (err_text x)\<rparr> | None \<Rightarrow> SeeOther ''/admin/providers'')"

definition handleProviderAdd :: "Env \<Rightarrow> Req \<Rightarrow> World \<Rightarrow> Resp \<times> World" where
  "handleProviderAdd e r = guarded e r (\<lambda>w.
     let i = TrimSpace (PostFormValue r ''id''); name = TrimSpace (PostFormValue r ''name'');
         issuer = TrimSpace (PostFormValue r ''issuer''); clientID = TrimSpace (PostFormValue r ''client_id'');
         secret = PostFormValue r ''client_secret''; enabled = (PostFormValue r ''enabled'' \<noteq> '''') in
     if i = '''' then (HttpError ''err.prov_id_required'' 400, w)
     else if isConfigProvider (wd_srv w) i then (HttpError ''err.prov_exists'' 400, w)
     else if enabled \<and> (issuer = '''' \<or> clientID = '''') then (HttpError ''err.prov_incomplete'' 400, w)
     else (case (if secret \<noteq> '''' then setProviderSecret e i secret w else (None, w)) of
             (Some _, w1) \<Rightarrow> (HttpError ''err.internal'' 500, w1)
           | (None, w1) \<Rightarrow>
               (let (err, w2) = mutateServices e (\<lambda>svc.
                      if list_ex (\<lambda>p. prv_ID p = i) (svc_Providers svc) then Inl (Msg ''err.prov_exists'')
                      else Inr (svc\<lparr>svc_Providers := svc_Providers svc @
                        [zero_Provider\<lparr>prv_ID := i, prv_Type := ''oidc'', prv_Name := name, prv_Enabled := enabled,
                           prv_Issuer := issuer, prv_ClientID := clientID\<rparr>]\<rparr>)) w1
                in (providerRedirectAfter err, w2))))"

definition handleProviderEdit :: "Env \<Rightarrow> Req \<Rightarrow> World \<Rightarrow> Resp \<times> World" where
  "handleProviderEdit e r = guarded e r (\<lambda>w.
     let i = PostFormValue r ''id''; name = TrimSpace (PostFormValue r ''name'');
         issuer = TrimSpace (PostFormValue r ''issuer''); clientID = TrimSpace (PostFormValue r ''client_id'');
         secret = PostFormValue r ''client_secret''; enabled = (PostFormValue r ''enabled'' \<noteq> '''') in
     if enabled \<and> (issuer = '''' \<or> clientID = '''') then (HttpError ''err.prov_incomplete'' 400, w)
     else (case (if secret \<noteq> '''' then setProviderSecret e i secret w else (None, w)) of
             (Some _, w1) \<Rightarrow> (HttpError ''err.internal'' 500, w1)
           | (None, w1) \<Rightarrow>
               (let (err, w2) = mutateServices e (\<lambda>svc.
                      case update_first (\<lambda>p. prv_ID p = i)
                             (\<lambda>p. p\<lparr>prv_Name := name, prv_Issuer := issuer, prv_ClientID := clientID, prv_Enabled := enabled\<rparr>)
                             (svc_Providers svc) of
                        None \<Rightarrow> Inl (Msg ''err.backend_not_found'')
                      | Some ps \<Rightarrow> Inr (svc\<lparr>svc_Providers := ps\<rparr>)) w1
                in (providerRedirectAfter err, w2))))"

definition handleProviderDel :: "Env \<Rightarrow> Req \<Rightarrow> World \<Rightarrow> Resp \<times> World" where
  "handleProviderDel e r = guarded e r (\<lambda>w.
     let i = PostFormValue r ''id'';
         (err, w1) = mutateServices e (\<lambda>svc.
           Inr (svc\<lparr>svc_Providers := filter (\<lambda>p. prv_ID p \<noteq> i) (svc_Providers svc)\<rparr>)) w;
         w2 = (if err = None then snd (setProviderSecret e i '''' w1) else w1)
     in (providerRedirectAfter err, w2))"

definition handleProviderToggle :: "Env \<Rightarrow> Req \<Rightarrow> World \<Rightarrow> Resp \<times> World" where
  "handleProviderToggle e r = guarded e r (\<lambda>w.
     let (err, w1) = mutateServices e (\<lambda>svc.
           case update_first (\<lambda>p. prv_ID p = PostFormValue r ''id'') (\<lambda>p. p\<lparr>prv_Enabled := \<not> prv_Enabled p\<rparr>) (svc_Providers svc) of
             None \<Rightarrow> Inl (Msg ''err.backend_not_found'')
           | Some ps \<Rightarrow> Inr (svc\<lparr>svc_Providers := ps\<rparr>)) w
     in (providerRedirectAfter err, w1))"

text \<open>A discovery against a fresh client; nothing is stored.\<close>

definition handleProviderTest :: "Env \<Rightarrow> Req \<Rightarrow> World \<Rightarrow> Resp \<times> World" where
  "handleProviderTest e r = guarded e r (\<lambda>w.
     let i = PostFormValue r ''id'';
         sec = (case LoadSecretsRaw (en_codec e) (sv_SecretsPath (wd_srv w)) (wd_fs w) of Inr x \<Rightarrow> x | Inl _ \<Rightarrow> zero_Secrets);
         ok = (case find (\<lambda>p. prv_ID p = i) (currentProviders (wd_srv w)) of
                 None \<Rightarrow> False
               | Some c \<Rightarrow>
                   prv_Type c = ''oidc'' \<and> prv_Issuer c \<noteq> '''' \<and> prv_ClientID c \<noteq> '''' \<and>
                   (case fst (AuthURL (en_oidc e)
                       (NewOIDC (prv_ID c) (prv_Name c) (prv_Issuer c) (prv_ClientID c)
                          (case sec_Providers sec (prv_ID c) of None \<Rightarrow> '''' | Some ps \<Rightarrow> ps_ClientSecret ps)
                          (providerRedirect (wd_srv w) (prv_ID c)) []) ''probe'' ''probe'') of
                      Inr _ \<Rightarrow> True | Inl _ \<Rightarrow> False))
     in (SeeOther (''/admin/providers?tested='' @ i @ ''&ok='' @ (if ok then ''1'' else ''0'')), w))"

end
