(* ===== verification/TlsAdmin.thy ===== *)
theory TlsAdmin
  imports Mutate
begin

text \<open>
  The certificate page of handlers/tls.go: the hosts that can have a certificate, the grouping of
  the rows, and the handlers that issue, renew and delete through the certificate manager.  The
  manager works on the world of the server and its reload hook is the server's \<open>Reload\<close>, as main.go
  wires it.
\<close>

subsection \<open>Hosts\<close>

fun hosts_loop :: "(Backend \<Rightarrow> bool) \<Rightarrow> string list \<Rightarrow> Backend list \<Rightarrow> string list" where
  "hosts_loop want seen [] = []"
| "hosts_loop want seen (b # bs) =
     (if be_Host b = '''' \<or> be_Host b \<in> set seen \<or> \<not> want b then hosts_loop want seen bs
      else be_Host b # hosts_loop want (be_Host b # seen) bs)"

definition servedHosts :: "Server \<Rightarrow> string list" where
  "servedHosts s = hosts_loop (\<lambda>_. True) [] (Backends (sv_Resolver s))"

definition upstreamHost :: "string \<Rightarrow> string" where
  "upstreamHost u =
     takeWhile (\<lambda>c. c \<noteq> CHR '':'' \<and> c \<noteq> CHR ''/'') (TrimPrefix (TrimPrefix u ''http://'') ''https://'')"

definition backendBelongsToSite :: "Backend \<Rightarrow> string \<Rightarrow> bool" where
  "backendBelongsToSite b site =
     (case be_Hosting b of
        Some h \<Rightarrow> hr_Site h = site
      | None \<Rightarrow>
          list_ex (\<lambda>rt. let h = upstreamHost (rt_Upstream rt) in
             h = site @ ''.site'' \<or> HasPrefix h (site @ ''-'') \<and> HasSuffix h ''.site'') (be_Routes b))"

definition servedHostsForSite :: "Server \<Rightarrow> string \<Rightarrow> string list" where
  "servedHostsForSite s site = hosts_loop (\<lambda>b. backendBelongsToSite b site) [] (Backends (sv_Resolver s))"

definition hostWWW :: "Server \<Rightarrow> string \<Rightarrow> bool" where
  "hostWWW s host = (case find (\<lambda>b. be_Host b = host) (Backends (sv_Resolver s)) of Some b \<Rightarrow> be_WWW b | None \<Rightarrow> False)"

subsection \<open>Grouping of the rows\<close>

definition registrableDomain :: "string \<Rightarrow> string" where
  "registrableDomain host =
     (let p = Split host CHR ''.'' in
      if length p \<le> 2 then host else Join (drop (length p - 2) p) ''.'')"

text \<open>The first loop: the order of the groups and the rows of each.\<close>

definition add_row :: "tlsRow \<Rightarrow> string list \<times> (string \<Rightarrow> tlsRow list) \<Rightarrow> string list \<times> (string \<Rightarrow> tlsRow list)" where
  "add_row r = (\<lambda>(order, groups).
     let p = registrableDomain (tr_Host r) in
     (if p \<in> set order then order else order @ [p], groups(p := groups p @ [r])))"

text \<open>The body of the second loop: the parent's own rows, then the others by host.\<close>

definition group_block :: "string \<Rightarrow> tlsRow list \<Rightarrow> tlsRow list" where
  "group_block p rs =
     filter (\<lambda>r. tr_Host r = p) rs @
     sort_key tr_Host (map (\<lambda>r. r\<lparr>tr_Sub := True\<rparr>) (filter (\<lambda>r. tr_Host r \<noteq> p) rs))"

definition groupTLSRows :: "tlsRow list \<Rightarrow> tlsRow list" where
  "groupTLSRows rows =
     (let (order, groups) = fold add_row rows ([], \<lambda>_. []) in
      concat (map (\<lambda>p. group_block p (groups p)) order))"

subsection \<open>The manager in the server\<close>

definition world_hook :: "Env \<Rightarrow> World hook" where
  "world_hook e =
     \<lparr>hk_fs = wd_fs, hk_set = (\<lambda>f w. w\<lparr>wd_fs := f\<rparr>),
      hk_reload = Some (\<lambda>w. let (err, w') = Reload e w in (map_option err_text err, w'))\<rparr>"

definition setBackendWWW :: "Env \<Rightarrow> string \<Rightarrow> bool \<Rightarrow> World \<Rightarrow> srv_error option \<times> World" where
  "setBackendWWW e host www w =
     mutateServices e (\<lambda>svc. Inr (svc\<lparr>svc_Backends :=
       map (\<lambda>b. if be_Host b = host then b\<lparr>be_WWW := www\<rparr> else b) (svc_Backends svc)\<rparr>)) w"

subsection \<open>Handlers\<close>

definition tlsRedirect :: "string \<Rightarrow> bool \<Rightarrow> Resp" where
  "tlsRedirect msg ok = SeeOther (''/admin/tls?msg='' @ msg @ ''&ok='' @ (if ok then ''1'' else ''0''))"

definition tls_row :: "Server \<Rightarrow> Info \<Rightarrow> tlsRow" where
  "tls_row s i =
     (let has = in_Source i \<noteq> SourceNone in
      \<lparr>tr_Host = in_Host i, tr_Source = in_Source i, tr_Expiry = (if has then Some (in_NotAfter i) else None),
       tr_Valid = in_Valid i, tr_Has = has, tr_WWW = hostWWW s (in_Host i), tr_Sub = False\<rparr>)"

definition handleAdminTLS :: "Env \<Rightarrow> Req \<Rightarrow> World \<Rightarrow> Resp \<times> World" where
  "handleAdminTLS e r w = guarded e r (\<lambda>w.
     let s = wd_srv w; site = rq_Query r ''site''; msg = rq_Query r ''msg'';
         hosts = (if site \<noteq> '''' then servedHostsForSite s site else servedHosts s);
         d0 = \<lparr>tl_Rows = [], tl_CAAvailable = False, tl_Email = '''', tl_Site = site,
               tl_HasMsg = False, tl_Msg = '''', tl_MsgOK = False\<rparr>;
         d1 = (case sv_CertMgr s of
                 None \<Rightarrow> d0
               | Some cm \<Rightarrow>
                   d0\<lparr>tl_Rows := groupTLSRows (map (tls_row s) (cert_List (en_pki e) (en_now e) cm hosts (wd_fs w))),
                      tl_CAAvailable := CAExists (Some cm) (wd_fs w),
                      tl_Email := acme_Email (tls_ACME (cfg_TLS (sv_Cfg s)))\<rparr>);
         d2 = (if msg \<noteq> '''' then d1\<lparr>tl_HasMsg := True, tl_Msg := msg, tl_MsgOK := (rq_Query r ''ok'' = ''1'')\<rparr> else d1)
     in (renderHTML (TLSPage d2) 200, w)) w"

definition handleTLSIssue :: "Env \<Rightarrow> Req \<Rightarrow> World \<Rightarrow> Resp \<times> World" where
  "handleTLSIssue e r w = guarded e r (\<lambda>w.
     let host = PostFormValue r ''host''; mode = PostFormValue r ''mode'' in
     case sv_CertMgr (wd_srv w) of
       None \<Rightarrow> (tlsRedirect ''issue_failed'' False, w)
     | Some cm \<Rightarrow>
         if host = '''' then (tlsRedirect ''issue_failed'' False, w)
         else
           let www = (PostFormValue r ''www'' \<noteq> '''');
               w1 = snd (setBackendWWW e host www w);
               extra = (if www then [''www.'' @ host] else []);
               (err, w2) = (if mode = ''acme''
                  then IssueACME (en_pki e) (en_acme e) (world_hook e) cm host extra w1
                  else IssueSelfSigned (en_pki e) (en_now e) (world_hook e) cm host extra w1)
           in (if err \<noteq> None then tlsRedirect ''issue_failed'' False else tlsRedirect ''issued'' True, w2)) w"

definition handleTLSRenew :: "Env \<Rightarrow> Req \<Rightarrow> World \<Rightarrow> Resp \<times> World" where
  "handleTLSRenew e r w = guarded e r (\<lambda>w.
     let host = PostFormValue r ''host'' in
     case sv_CertMgr (wd_srv w) of
       None \<Rightarrow> (tlsRedirect ''issue_failed'' False, w)
     | Some cm \<Rightarrow>
         if host = '''' then (tlsRedirect ''issue_failed'' False, w)
         else
           let extra = (if hostWWW (wd_srv w) host then [''www.'' @ host] else []);
               (err, w2) = IssueACME (en_pki e) (en_acme e) (world_hook e) cm host extra w
           in (if err \<noteq> None then tlsRedirect ''issue_failed'' False else tlsRedirect ''renewed'' True, w2)) w"

definition handleTLSDelete :: "Env \<Rightarrow> Req \<Rightarrow> World \<Rightarrow> Resp \<times> World" where
  "handleTLSDelete e r w = guarded e r (\<lambda>w.
     let host = PostFormValue r ''host'' in
     (tlsRedirect ''deleted'' True,
      case sv_CertMgr (wd_srv w) of
        Some cm \<Rightarrow> if host \<noteq> '''' then snd (cert_Delete (world_hook e) cm host w) else w
      | None \<Rightarrow> w)) w"

definition handleTLSCA :: "Env \<Rightarrow> Req \<Rightarrow> World \<Rightarrow> Resp \<times> World" where
  "handleTLSCA e r w = guarded e r (\<lambda>w.
     (case sv_CertMgr (wd_srv w) of
        None \<Rightarrow> (WriteHeader 404, w)
      | Some cm \<Rightarrow>
          if \<not> CAExists (Some cm) (wd_fs w) then (WriteHeader 404, w)
          else (case CACertPEM cm (wd_fs w) of
                  Inl _ \<Rightarrow> (HttpError ''err.internal'' 500, w)
                | Inr p \<Rightarrow> (renderHTML (Body p) 200, w)))) w"

subsection \<open>Lemmas: grouping\<close>

definition row_domain :: "tlsRow \<Rightarrow> string" where
  "row_domain r = registrableDomain (tr_Host r)"

definition plain_row :: "tlsRow \<Rightarrow> tlsRow" where
  "plain_row r = r\<lparr>tr_Sub := False\<rparr>"

lemma plain_row_Sub [simp]: "plain_row (r\<lparr>tr_Sub := b\<rparr>) = plain_row r"
  by (simp add: plain_row_def)

lemma add_row_eq:
  "add_row r (order, groups) =
     (if row_domain r \<in> set order then order else order @ [row_domain r], groups(row_domain r := groups (row_domain r) @ [r]))"
  by (simp add: add_row_def row_domain_def Let_def)

lemma fold_rows:
  assumes "fold add_row rows (order, groups) = (order', groups')" "distinct order"
  shows "groups' = (\<lambda>p. groups p @ filter (\<lambda>r. row_domain r = p) rows) \<and> distinct order' \<and>
    set order' = set order \<union> row_domain ` set rows"
  using assms
proof (induction rows arbitrary: order groups)
  case (Cons r rows)
  let ?p = "row_domain r"
  have "fold add_row rows (if ?p \<in> set order then order else order @ [?p], groups(?p := groups ?p @ [r])) = (order', groups')"
    using Cons.prems(1) by (simp only: fold_simps add_row_eq)
  from Cons.IH [OF this] Cons.prems(2) show ?case by (auto simp: fun_eq_iff)
qed simp

lemma mset_by_key:
  "distinct ps \<Longrightarrow> mset (concat (map (\<lambda>p. filter (\<lambda>x. f x = p) xs) ps)) = mset (filter (\<lambda>x. f x \<in> set ps) xs)"
proof (induction ps)
  case (Cons p ps)
  have "filter_mset (\<lambda>x. f x = p \<or> f x \<in> set ps) A =
      filter_mset (\<lambda>x. f x = p) A + filter_mset (\<lambda>x. f x \<in> set ps) A" for A
    using Cons.prems by (induction A) auto
  with Cons show ?case by simp
qed simp

lemma mset_group_block: "mset (map plain_row (group_block p rs)) = mset (map plain_row rs)"
proof -
  have "image_mset plain_row (mset (group_block p rs)) =
      image_mset plain_row (filter_mset (\<lambda>r. tr_Host r = p) (mset rs)) + image_mset plain_row (filter_mset (\<lambda>r. tr_Host r \<noteq> p) (mset rs))"
    by (simp add: group_block_def multiset.map_comp comp_def)
  also have "\<dots> = image_mset plain_row (mset rs)"
    by (simp only: image_mset_union [symmetric] multiset_partition [symmetric])
  finally show ?thesis by simp
qed

lemma row_domain_Sub [simp]: "row_domain (r\<lparr>tr_Sub := b\<rparr>) = row_domain r"
  by (simp add: row_domain_def)

lemma domains_group_block:
  "map row_domain (group_block p (filter (\<lambda>r. row_domain r = p) rows)) = replicate (length (filter (\<lambda>r. row_domain r = p) rows)) p"
proof (rule replicate_eqI)
  let ?rs = "filter (\<lambda>r. row_domain r = p) rows"
  have "size (mset (map plain_row (group_block p ?rs))) = size (mset (map plain_row ?rs))"
    by (simp only: mset_group_block)
  then show "length (map row_domain (group_block p ?rs)) = length ?rs"
    unfolding size_mset length_map .
  show "q = p" if "q \<in> set (map row_domain (group_block p ?rs))" for q
    using that by (auto simp: group_block_def)
qed

lemma remdups_adj_runs:
  "distinct ps \<Longrightarrow> remdups_adj (concat (map (\<lambda>p. replicate (n p) p) ps)) = filter (\<lambda>p. n p \<noteq> 0) ps"
proof (induction ps)
  case (Cons p ps)
  let ?rest = "concat (map (\<lambda>p. replicate (n p) p) ps)"
  have "?rest = [] \<or> hd ?rest \<noteq> p"
  proof (cases "?rest = []")
    case False
    then have "hd ?rest \<in> set ?rest" by (rule hd_in_set)
    then obtain q where "q \<in> set ps" "hd ?rest \<in> set (replicate (n q) q)" by fastforce
    then have "hd ?rest \<in> set ps" by (simp split: if_splits)
    with Cons.prems show ?thesis by auto
  qed simp
  then have "remdups_adj (replicate (n p) p @ ?rest) = remdups_adj (replicate (n p) p) @ remdups_adj ?rest"
    by (intro remdups_adj_append') auto
  with Cons show ?case by (simp add: remdups_adj_replicate)
qed simp

text \<open>
  The page lists every row once, the rows of one registrable domain follow each other, and a row
  is nested exactly when its host is not the domain itself.
\<close>

theorem groupTLSRows_groups:
  assumes "list_all (\<lambda>r. \<not> tr_Sub r) rows"
  shows "mset (map plain_row (groupTLSRows rows)) = mset rows \<and>
    distinct (remdups_adj (map row_domain (groupTLSRows rows))) \<and>
    list_all (\<lambda>r. tr_Sub r = (tr_Host r \<noteq> row_domain r)) (groupTLSRows rows)"
proof -
  obtain order groups where fo: "fold add_row rows ([], \<lambda>_. []) = (order, groups)" by fastforce
  have o: "groups p = filter (\<lambda>r. row_domain r = p) rows" "distinct order" "set order = row_domain ` set rows" for p
    using fold_rows [OF fo] by auto
  have out: "groupTLSRows rows = concat (map (\<lambda>p. group_block p (filter (\<lambda>r. row_domain r = p) rows)) order)"
    by (simp add: groupTLSRows_def fo o(1))
  have "mset (map plain_row (concat (map (\<lambda>p. group_block p (g p)) ps))) = mset (map plain_row (concat (map g ps)))" for g ps
    using mset_group_block by (induction ps) (auto simp del: map_map)
  then have "mset (map plain_row (groupTLSRows rows)) = image_mset plain_row (mset rows)"
    using o(3) by (simp add: out mset_by_key [OF o(2)])
  also have "\<dots> = mset rows"
    using assms by (induction rows) (auto simp: plain_row_def)
  finally have m: "mset (map plain_row (groupTLSRows rows)) = mset rows" .
  have "map row_domain (groupTLSRows rows) =
      concat (map (\<lambda>p. replicate (length (filter (\<lambda>r. row_domain r = p) rows)) p) order)"
    by (simp add: out map_concat comp_def domains_group_block)
  then have "distinct (remdups_adj (map row_domain (groupTLSRows rows)))"
    using o(2) by (simp add: remdups_adj_runs)
  moreover have "list_all (\<lambda>r. tr_Sub r = (tr_Host r \<noteq> row_domain r)) (groupTLSRows rows)"
    using assms by (auto simp: out group_block_def list_all_iff)
  ultimately show ?thesis using m by blast
qed

theorem groupTLSRows_groups_witness:
  "map tr_Host (groupTLSRows (map (\<lambda>h. \<lparr>tr_Host = h, tr_Source = SourceNone, tr_Expiry = None, tr_Valid = False,
     tr_Has = False, tr_WWW = False, tr_Sub = False\<rparr>) [''b.x.it'', ''y.it'', ''x.it'', ''a.x.it''])) =
   [''x.it'', ''a.x.it'', ''b.x.it'', ''y.it'']"
  by code_simp

subsection \<open>The gate's world as the state of the certificate manager\<close>

text \<open>Files that a reload does not touch.\<close>

definition gate_kept :: "Env \<Rightarrow> Manager \<Rightarrow> string \<Rightarrow> bool" where
  "gate_kept e m p \<longleftrightarrow> p \<noteq> mgr_OutPath m \<and> p \<noteq> mgr_OutPath m @ ''.tmp'' \<and>
     p \<noteq> pathJoin [mgr_BackupsDir m, ''backends-'' @ en_stamp e @ ''.conf''] \<and>
     \<not> glob_match (Clean (mgr_BackupsDir m)) ''backends-'' ''.conf'' p"

lemma Reload_frame:
  assumes "Reload e w = (r, w')" "sv_Proxy (wd_srv w) = Some m"
  shows "sv_Proxy (wd_srv w') = Some m"
    and "gate_kept e m p \<Longrightarrow> content (wd_fs w') p = content (wd_fs w) p"
    and "fs_unreadable (wd_fs w') = fs_unreadable (wd_fs w)"
proof -
  have "sv_Proxy (wd_srv w') = Some m \<and> (gate_kept e m p \<longrightarrow> content (wd_fs w') p = content (wd_fs w) p) \<and>
      fs_unreadable (wd_fs w') = fs_unreadable (wd_fs w)"
  proof (cases "w' = w")
    case False
    with assms obtain bs e1 f1 where a: "Apply (en_run e) (en_stamp e) (Some m) bs (wd_fs w) = (e1, f1)" "wd_fs w' = f1"
        "sv_Proxy (wd_srv w') = Some m"
      by (auto simp: Reload_def Let_def split: sum.splits prod.splits)
    with Apply_keeps [OF a(1)] Apply_readable [OF a(1)] show ?thesis by (auto simp: gate_kept_def)
  qed (use assms in simp)
  then show "sv_Proxy (wd_srv w') = Some m" "gate_kept e m p \<Longrightarrow> content (wd_fs w') p = content (wd_fs w) p"
    "fs_unreadable (wd_fs w') = fs_unreadable (wd_fs w)" by blast+
qed

interpretation gate: cert_hook "world_hook e" "\<lambda>w. sv_Proxy (wd_srv w) = Some m" "gate_kept e m" for e m
proof (unfold_locales, goal_cases)
  case (3 rl w p)
  then show ?case using Reload_frame(2) [of e w "fst (Reload e w)" "snd (Reload e w)" m p]
    by (auto simp: world_hook_def case_prod_unfold Let_def)
next
  case (4 rl w)
  then show ?case using Reload_frame(3) [of e w "fst (Reload e w)" "snd (Reload e w)" m]
    by (auto simp: world_hook_def case_prod_unfold Let_def)
next
  case (5 rl w)
  then show ?case using Reload_frame(1) [of e w "fst (Reload e w)" "snd (Reload e w)" m]
    by (auto simp: world_hook_def case_prod_unfold Let_def)
qed (simp_all add: world_hook_def)

context cert_hook
begin

text \<open>A successful issue ends with the writing of a pair.\<close>

lemma IssueSelfSigned_pair:
  assumes "IssueSelfSigned pk now hk m host extra w = (None, w')" "ok w"
  shows "\<exists>c k w1. ok w1 \<and> writePair hk m host c k w1 = (None, w')"
  using assms ok_set [OF assms(2)]
  by (auto simp: IssueSelfSigned_def split: if_splits prod.splits sum.splits option.splits)

lemma IssueACME_pair:
  assumes "IssueACME pk ac hk m host extra w = (None, w')" "ok w"
  shows "\<exists>c k w1. ok w1 \<and> writePair hk m host c k w1 = (None, w')"
  using assms ok_set [OF assms(2)]
  by (auto simp: IssueACME_def split: if_splits prod.splits sum.splits option.splits)

end

text \<open>The manager as main.go wires it: \<open>HasCert\<close> looks into the certificate directory.\<close>

definition wired :: "CertManager \<Rightarrow> Manager \<Rightarrow> bool" where
  "wired cm m \<longleftrightarrow> (\<forall>f. gc_HasCert (mgr_Gen m f) = Some (HasCert (Some cm) f) \<and> gc_CertDir (mgr_Gen m f) \<noteq> '''')"

text \<open>The configuration, the certificates and the snapshots are different files.\<close>

definition apart_files :: "Env \<Rightarrow> CertManager \<Rightarrow> Manager \<Rightarrow> string \<Rightarrow> bool" where
  "apart_files e cm m host \<longleftrightarrow> cm_Dir cm \<noteq> '''' \<and> distinct (own_paths cm host) \<and>
     gate_kept e m (certPath cm host) \<and> gate_kept e m (keyPath cm host) \<and>
     mgr_OutPath m \<noteq> '''' \<and> mgr_OutPath m \<noteq> pathJoin [mgr_BackupsDir m, ''backends-'' @ en_stamp e @ ''.conf''] \<and>
     \<not> glob_match (Clean (mgr_BackupsDir m)) ''backends-'' ''.conf'' (mgr_OutPath m)"

lemma pair_is_served:
  assumes wp: "writePair (world_hook e) cm host c k w1 = (None, w')" and pm: "sv_Proxy (wd_srv w1) = Some m"
    and "wired cm m" "apart_files e cm m host" "host \<noteq> ''''"
  shows "HasCert (Some cm) (wd_fs w') host \<and>
    (\<exists>f0. uses_tls (mgr_Gen m f0) host \<and>
       content (wd_fs w') (mgr_OutPath m) = Some (Generate (mgr_Gen m f0) (Backends (sv_Resolver (wd_srv w')))))"
proof -
  have ap: "distinct (own_paths cm host)" "gate_kept e m (certPath cm host)" "gate_kept e m (keyPath cm host)" "cm_Dir cm \<noteq> ''''"
    using assms(4) by (auto simp: apart_files_def)
  obtain f where wf: "write_files cm host c k (wd_fs w1) = (None, f)" and rl: "Reload e (w1\<lparr>wd_fs := f\<rparr>) = (None, w')"
    using wp by (auto simp: writePair_def run_hook_def world_hook_def Let_def split: prod.splits option.splits)
  have has: "HasCert (Some cm) f host"
    using write_files_result(1) [OF wf ap(1)] ap(4) assms(5) by (simp add: HasCert_def)
  have "HasCert (Some cm) (wd_fs w') host"
    using gate.writePair_result(1) [OF wp pm ap(1-3)] ap(4) assms(5) by (simp add: HasCert_def world_hook_def)
  moreover have "uses_tls (mgr_Gen m f) host" using assms(3) has by (simp add: wired_def uses_tls_def)
  moreover have "content (wd_fs w') (mgr_OutPath m) = Some (Generate (mgr_Gen m f) (Backends (sv_Resolver (wd_srv w'))))"
    using Reload_result [OF rl] pm assms(4) by (auto simp: apart_files_def Backends_def)
  ultimately show ?thesis by blast
qed

lemma Reload_proxy [simp]: "sv_Proxy (wd_srv (snd (Reload e w))) = sv_Proxy (wd_srv w)"
  by (auto simp: Reload_def Let_def split: sum.splits prod.splits)

lemma mutateServices_proxy [simp]: "sv_Proxy (wd_srv (snd (mutateServices e fn w))) = sv_Proxy (wd_srv w)"
  by (auto simp: mutateServices_def mutateServicesIO_def Let_def split: sum.splits prod.splits option.splits)

lemma adminGuard_frame:
  assumes "adminGuard e r w = (x, w1)"
  shows "sv_Proxy (wd_srv w1) = sv_Proxy (wd_srv w)" "sv_CertMgr (wd_srv w1) = sv_CertMgr (wd_srv w)" "wd_fs w1 = wd_fs w"
    "sv_ServicesPath (wd_srv w1) = sv_ServicesPath (wd_srv w)"
  using assms
  by (auto simp: adminGuard_def adminSessionOK_def session_def auditFail_def Let_def split: option.splits prod.splits if_splits)

lemma adminGuard_refusal:
  "adminGuard e r w = (Some rp, w1) \<Longrightarrow> rp_Location rp = '''' \<or> HasPrefix (rp_Location rp) ''/login?next=''"
  by (auto simp: adminGuard_def adminSessionOK_def HttpError_def SeeOther_def renderHTML_def WriteHeader_def
      split: option.splits prod.splits if_splits)

lemma guarded_answer:
  assumes "guarded e r h w = (rp, w')" "\<not> HasPrefix (rp_Location rp) ''/login?next=''" "rp_Location rp \<noteq> ''''"
  obtains w1 where "adminGuard e r w = (None, w1)" "h w1 = (rp, w')"
  using assms adminGuard_refusal [of e r w] by (auto simp: guarded_def split: prod.splits option.splits)

subsection \<open>An issue on a disk without faults\<close>

text \<open>A library that always has keys and signs.\<close>

definition pki_total :: "pki \<Rightarrow> bool" where
  "pki_total pk \<longleftrightarrow> (\<forall>n. pk_key pk n \<noteq> None) \<and> (\<forall>k. pk_marshal pk k \<noteq> None) \<and> (\<forall>t p k sk. pk_create pk t p k sk \<noteq> None)"

lemma faultless_atomic:
  assumes "faultless f"
  obtains f' where "writeFileAtomic p d f = (None, f')" "faultless f'"
    "\<And>q. q \<noteq> p \<Longrightarrow> q \<noteq> p @ ''.tmp'' \<Longrightarrow> content f' q = content f q"
  using faultless_write(5) [OF assms, of p d] assms by (auto simp: writeFileAtomic_JSON)

lemma ensureCA_succeeds:
  assumes "faultless f" "pki_total pk" "pki_ok pk"
  obtains r f' where "ensureCA pk now m f = (Inr r, f')" "faultless f'"
    "\<And>q. q \<notin> set (ca_paths m) \<Longrightarrow> content f' q = content f q"
proof (cases "load_CA pk m f")
  case None
  obtain k d kp where s: "pk_key pk 0 = Some k" "pk_create pk (ca_template pk now) None k k = Some d" "pk_marshal pk k = Some kp"
    using assms(2) unfolding pki_total_def by (meson option.exhaust)
  obtain f1 where f1: "writeFileAtomic (caCertPath m) (pk_pem pk d) f = (None, f1)" "faultless f1"
      "\<And>q. q \<noteq> caCertPath m \<Longrightarrow> q \<noteq> caCertPath m @ ''.tmp'' \<Longrightarrow> content f1 q = content f q"
    using faultless_atomic [OF assms(1)] by metis
  obtain f2 where f2: "writeFileAtomic (caKeyPath m) kp f1 = (None, f2)" "faultless f2"
      "\<And>q. q \<noteq> caKeyPath m \<Longrightarrow> q \<noteq> caKeyPath m @ ''.tmp'' \<Longrightarrow> content f2 q = content f1 q"
    using faultless_atomic [OF f1(2)] by metis
  have "ensureCA pk now m f = (Inr (d, k), f2)"
    using pki_okD(4) [OF assms(3) s(2)] by (simp add: ensureCA_def None s f1(1) f2(1) faultless_write(2) [OF assms(1)])
  moreover have "q \<notin> set (ca_paths m) \<Longrightarrow> content f2 q = content f q" for q
    using f1(3) [of q] f2(3) [of q] by (simp add: ca_paths_def)
  ultimately show ?thesis using f2(2) that by blast
next
  case (Some r)
  then have "ensureCA pk now m f = (Inr r, f)" by (simp add: ensureCA_def)
  from this assms(1) show ?thesis by (rule that) simp
qed

lemma Apply_succeeds:
  assumes "faultless f" "\<And>c. run c = None"
  shows "fst (Apply run stamp mgr bs f) = None \<and> faultless (snd (Apply run stamp mgr bs f))"
proof -
  have w: "snd (WriteFile p d f) = put p d f" for p d using faultless_write(1) [OF assms(1)] by simp
  have base: "faultless (case ReadFile f (mgr_OutPath m) of Inl e \<Rightarrow> f
      | Inr old \<Rightarrow> if mgr_BackupsDir m \<noteq> '''' \<and> \<not> fs_nodir f (mgr_BackupsDir m)
          then PruneBackups (mgr_BackupsDir m) ''backends'' ''conf'' 10
             (snd (WriteFile (pathJoin [mgr_BackupsDir m, ''backends-'' @ stamp @ ''.conf'']) old f)) else f)" for m
    using assms(1) by (simp add: w split: sum.split)
  have step: "faultless f1 \<Longrightarrow>
      (case WriteFile (p @ ''.tmp'') d f1 of (Some e, f2) \<Rightarrow> (Some (ConfWrite e), f2)
       | (None, f2) \<Rightarrow> (case Rename (p @ ''.tmp'') p f2 of (Some e, f3) \<Rightarrow> (Some (ConfWrite e), f3)
                        | (None, f3) \<Rightarrow> (reload run m, f3))) =
      (None, put p d (Remove (p @ ''.tmp'') (put (p @ ''.tmp'') d f1)))" for f1 p d m
    by (simp add: faultless_write reload_def assms(2))
  show ?thesis
  proof (cases mgr)
    case (Some m)
    show ?thesis
      using base [of m] assms(1)
      by (simp only: Some Apply_def Let_def option.case step [OF base]) (simp add: faultless_write(2))
  qed (use assms(1) in \<open>simp add: Apply_def\<close>)
qed

lemma Reload_succeeds:
  assumes "faultless (wd_fs w)" "\<And>c. en_run e c = None" "LoadServices (en_codec e) (sv_ServicesPath (wd_srv w)) (wd_fs w) = Inr svc"
  shows "fst (Reload e w) = None" "faultless (wd_fs (snd (Reload e w)))"
  using Apply_succeeds [OF assms(1,2)] assms(3)
  by (simp_all add: Reload_def Let_def case_prod_unfold)

text \<open>
  What an issue needs: a disk without faults, a library that signs, a services file that loads
  and is none of the certificate files, a codec that reads back what it wrote, and a reload command
  that succeeds.
\<close>

definition issue_ready :: "Env \<Rightarrow> World \<Rightarrow> CertManager \<Rightarrow> string \<Rightarrow> bool" where
  "issue_ready e w cm host \<longleftrightarrow> faultless (wd_fs w) \<and> pki_total (en_pki e) \<and> pki_ok (en_pki e) \<and> (\<forall>c. en_run e c = None) \<and>
     (\<exists>svc. LoadServices (en_codec e) (sv_ServicesPath (wd_srv w)) (wd_fs w) = Inr svc) \<and>
     (\<forall>svc. dec_services (en_codec e) (enc_services (en_codec e) svc) \<noteq> None) \<and>
     sv_ServicesPath (wd_srv w) \<notin> set (own_paths cm host @ ca_paths cm) \<and>
     (\<forall>m. sv_Proxy (wd_srv w) = Some m \<longrightarrow> gate_kept e m (sv_ServicesPath (wd_srv w)))"

lemma LoadServices_cong:
  "content f' p = content f p \<Longrightarrow> fs_unreadable f' p = fs_unreadable f p \<Longrightarrow> LoadServices cd p f' = LoadServices cd p f"
  unfolding LoadServices_def ReadFile_def by presburger

lemma Reload_paths [simp]: "sv_ServicesPath (wd_srv (snd (Reload e w))) = sv_ServicesPath (wd_srv w)"
    "sv_CertMgr (wd_srv (snd (Reload e w))) = sv_CertMgr (wd_srv w)"
  by (auto simp: Reload_def Let_def split: sum.splits prod.splits)

lemma Reload_services:
  assumes "faultless (wd_fs w)" "\<And>c. en_run e c = None" "LoadServices (en_codec e) (sv_ServicesPath (wd_srv w)) (wd_fs w) = Inr svc"
    and "\<forall>m. sv_Proxy (wd_srv w) = Some m \<longrightarrow> gate_kept e m (sv_ServicesPath (wd_srv w))"
  shows "LoadServices (en_codec e) (sv_ServicesPath (wd_srv w)) (wd_fs (snd (Reload e w))) = Inr svc"
proof -
  have "content (wd_fs (snd (Reload e w))) (sv_ServicesPath (wd_srv w)) = content (wd_fs w) (sv_ServicesPath (wd_srv w))"
  proof (cases "sv_Proxy (wd_srv w)")
    case None
    then show ?thesis by (auto simp: Reload_def Let_def Apply_def split: sum.split)
  next
    case (Some m)
    then show ?thesis using Reload_frame(2) [of e w "fst (Reload e w)" "snd (Reload e w)" m] assms(4) by simp
  qed
  then show ?thesis
    using LoadServices_cong assms(3) faultless_write(3) [OF assms(1)] faultless_write(3) [OF Reload_succeeds(2) [OF assms(1-3)]]
    by metis
qed

lemma issue_ready_www:
  assumes "issue_ready e w cm host"
  shows "issue_ready e (snd (setBackendWWW e h www w)) cm host"
proof -
  let ?p = "sv_ServicesPath (wd_srv w)" and ?s = "wd_srv w"
  obtain svc where svc: "LoadServices (en_codec e) ?p (wd_fs w) = Inr svc" using assms by (auto simp: issue_ready_def)
  have f: "faultless (wd_fs w)" "\<And>c. en_run e c = None" using assms by (auto simp: issue_ready_def)
  let ?f0 = "snapshotAndPrune (en_stamp e) ?p (sv_BackupsDir ?s) ''services'' ''json'' (wd_fs w)"
  have f0: "faultless ?f0" by (rule faultless_snapshot [OF f(1)])
  obtain svc' where m: "setBackendWWW e h www w = Reload e (w\<lparr>wd_fs := put ?p (enc_services (en_codec e) svc') ?f0\<rparr>)"
    using f0 by (simp add: setBackendWWW_def mutateServices_def mutateServicesIO_def Let_def svc SaveServices_def
        writeJSONInPlace_def faultless_write(1))
  let ?w = "w\<lparr>wd_fs := put ?p (enc_services (en_codec e) svc') ?f0\<rparr>"
  obtain svc2 where l: "LoadServices (en_codec e) ?p (wd_fs ?w) = Inr svc2"
  proof -
    obtain x where "dec_services (en_codec e) (enc_services (en_codec e) svc') = Some x"
      using assms unfolding issue_ready_def by (meson option.exhaust)
    then show ?thesis
      by (intro that [of "x\<lparr>svc_Backends := CanonicalizeRules (svc_Backends x)\<rparr>"])
        (simp add: LoadServices_def ReadFile_def faultless_write(3) [OF f(1)])
  qed
  have w: "faultless (wd_fs ?w)" using f0 by simp
  have "LoadServices (en_codec e) ?p (wd_fs (snd (Reload e ?w))) = Inr svc2"
    using Reload_services [OF w f(2)] l assms by (simp add: issue_ready_def)
  then show ?thesis
    using Reload_succeeds(2) [OF w f(2)] l assms by (simp add: issue_ready_def m)
qed

lemma issue_succeeds:
  assumes "issue_ready e w cm host" "host \<noteq> ''''"
  shows "fst (IssueSelfSigned (en_pki e) now (world_hook e) cm host extra w) = None"
proof -
  let ?pk = "en_pki e" and ?p = "sv_ServicesPath (wd_srv w)"
  have r: "faultless (wd_fs w)" "pki_total ?pk" "pki_ok ?pk" "\<And>c. en_run e c = None" "?p \<notin> set (own_paths cm host)" "?p \<notin> set (ca_paths cm)"
    using assms(1) by (auto simp: issue_ready_def)
  obtain svc where svc: "LoadServices (en_codec e) ?p (wd_fs w) = Inr svc" using assms(1) by (auto simp: issue_ready_def)
  obtain ca cak f where ca: "ensureCA ?pk now cm (wd_fs w) = (Inr (ca, cak), f)" "faultless f" "content f ?p = content (wd_fs w) ?p"
    using ensureCA_succeeds [OF r(1-3), of now cm] r(6) by (metis prod.collapse)
  obtain k d kp where s: "pk_key ?pk 1 = Some k" "pk_create ?pk (leaf_template ?pk now host extra) (Some ca) k cak = Some d" "pk_marshal ?pk k = Some kp"
    using r(2) unfolding pki_total_def by (meson option.exhaust)
  obtain f1 where f1: "writeFileAtomic (certPath cm host) (pk_pem ?pk d @ pk_pem ?pk ca) f = (None, f1)" "faultless f1" "content f1 ?p = content f ?p"
    using faultless_atomic [OF ca(2), of "certPath cm host"] r(5) by (auto simp: own_paths_def) metis
  obtain f2 where f2: "writeFileAtomic (keyPath cm host) kp f1 = (None, f2)" "faultless f2" "content f2 ?p = content f1 ?p"
    using faultless_atomic [OF f1(2), of "keyPath cm host"] r(5) by (auto simp: own_paths_def) metis
  have "LoadServices (en_codec e) ?p f2 = Inr svc"
    using LoadServices_cong [of f2 ?p "wd_fs w"] svc f2 f1 ca faultless_write(3) r(1) by metis
  then have "fst (Reload e (w\<lparr>wd_fs := f2\<rparr>)) = None"
    using Reload_succeeds(1) [of "w\<lparr>wd_fs := f2\<rparr>" e svc] f2(2) r(4) by simp
  then show ?thesis
    using assms(2) by (simp add: IssueSelfSigned_def world_hook_def ca(1) s [unfolded One_nat_def] writePair_def write_files_def f1(1) f2(1)
        faultless_write(2) [OF ca(2)] run_hook_def Let_def case_prod_unfold)
qed

lemma issue_answer:
  assumes "fst (adminGuard e r w) = None" "sv_CertMgr (wd_srv w) = Some cm" "issue_ready e w cm (PostFormValue r ''host'')"
    "PostFormValue r ''host'' \<noteq> ''''" "PostFormValue r ''mode'' \<noteq> ''acme''"
  shows "fst (handleTLSIssue e r w) = tlsRedirect ''issued'' True"
proof -
  obtain w1 where g: "adminGuard e r w = (None, w1)" using assms(1) by (metis prod.collapse)
  note fr = adminGuard_frame [OF g]
  have "issue_ready e w1 cm (PostFormValue r ''host'')" using assms(3) fr by (simp add: issue_ready_def)
  from issue_succeeds [OF issue_ready_www [OF this] assms(4)]
  show ?thesis using assms(2,4,5) fr(2) by (simp add: handleTLSIssue_def guarded_def g Let_def case_prod_unfold)
qed

section \<open>Properties\<close>



text \<open>An installation with the certificate manager wired in, and an administrator's request.\<close>

definition tls_manager :: Manager where
  "tls_manager = sample_manager\<lparr>mgr_Gen := (\<lambda>f. sample_gen\<lparr>gc_CertDir := ''/etc/nginx/certs'',
     gc_HasCert := Some (HasCert (Some sample_certs) f)\<rparr>)\<rparr>"

definition tls_world :: World where
  "tls_world = sample_world\<lparr>wd_srv := sample_server\<lparr>sv_CertMgr := Some sample_certs, sv_Proxy := Some tls_manager\<rparr>\<rparr>"

definition tls_req :: Req where
  "tls_req = sample_req\<lparr>rq_Post := (\<lambda>n. if n = ''host'' then [''h''] else [])\<rparr>"

lemma tls_form: "PostFormValue tls_req ''host'' = ''h''" "PostFormValue tls_req ''mode'' = ''''"
  by (simp_all add: PostFormValue_def tls_req_def)

lemma tls_sample:
  shows "fst (adminGuard sample_env tls_req tls_world) = None"
    and "sv_CertMgr (wd_srv tls_world) = Some sample_certs" "sv_Proxy (wd_srv tls_world) = Some tls_manager"
    and "apart_files sample_env sample_certs tls_manager ''h''" "wired sample_certs tls_manager"
    and "issue_ready sample_env tls_world sample_certs ''h''"
proof -
  have "adminAllowed tls_req (wd_srv tls_world)" by code_simp
  then show "fst (adminGuard sample_env tls_req tls_world) = None"
    by (simp add: adminGuard_def adminSessionOK_def session_def Sessions.Get_def tls_req_def sample_req_def tls_world_def
        sample_world_def sample_server_def NewMemoryStore_def expired_def sample_session_def NewUserDirectory_def Replace_def
        Users.Get_def sample_user_def Let_def)
  show "sv_CertMgr (wd_srv tls_world) = Some sample_certs" "sv_Proxy (wd_srv tls_world) = Some tls_manager"
    by (simp_all add: tls_world_def sample_world_def)
  have kept: "gate_kept sample_env tls_manager p = (p \<noteq> ''out.conf'' \<and> p \<noteq> ''out.conf.tmp'' \<and> p \<noteq> ''backends-t.conf'' \<and>
      \<not> glob_match ''.'' ''backends-'' ''.conf'' p)" for p
  proof -
    have "Clean '''' = ''.''" "pathJoin ['''', ''backends-'' @ ''t'' @ ''.conf''] = ''backends-t.conf''" by code_simp+
    then show ?thesis by (simp add: gate_kept_def tls_manager_def sample_manager_def sample_env_def)
  qed
  have k: "gate_kept sample_env tls_manager (certPath sample_certs ''h'')" "gate_kept sample_env tls_manager (keyPath sample_certs ''h'')"
      "gate_kept sample_env tls_manager ''services.json''"
    unfolding kept by code_simp+
  have d: "cm_Dir sample_certs \<noteq> ''''" "distinct (own_paths sample_certs ''h'')" by code_simp+
  have "Clean '''' = ''.''" "pathJoin ['''', ''backends-t.conf''] = ''backends-t.conf''"
      "\<not> glob_match ''.'' ''backends-'' ''.conf'' ''out.conf''" by code_simp+
  then show "apart_files sample_env sample_certs tls_manager ''h''"
    using k(1,2) d by (simp add: apart_files_def tls_manager_def sample_manager_def sample_env_def)
  show "wired sample_certs tls_manager" by (simp add: wired_def tls_manager_def)
  note k(3)
  moreover have "''services.json'' \<notin> set (own_paths sample_certs ''h'' @ ca_paths sample_certs)" by code_simp
  ultimately
  show "issue_ready sample_env tls_world sample_certs ''h''"
    using sample_pki_ok
    by (simp add: issue_ready_def tls_world_def sample_world_def sample_server_def sample_env_def faultless_def pki_total_def
        sample_pki_def LoadServices_def ReadFile_def)
qed



text \<open>
  The form's host is not checked: an administrator who asks for a certificate of the host \<open>ca\<close>
  replaces the certificate of the internal CA by a certificate that is no CA.
\<close>

lemma host_ca_is_the_CA: "certPath cm ''ca'' = caCertPath cm" "keyPath cm ''ca'' = caKeyPath cm"
  by (simp_all add: certPath_def keyPath_def caCertPath_def caKeyPath_def)

end
