(* ===== verification/Routes.thy ===== *)
theory Routes
  imports ProviderAdmin TlsAdmin
begin

text \<open>
  The router of handlers/server.go and the state machine it makes of the world: every request
  the server answers is one step.  The invariant of the reachable worlds and the provenance of a
  completed second factor are proved here over all routes.  The pages without effect (the
  static assets, the other admin pages, \<open>/healthz\<close>) are the route \<open>AdminPageR\<close>: the
  admin gate and nothing else, or no gate at all.
\<close>

datatype route =
    ValidateR | LoginFormR | LoginSubmitR | CodeFormR | CodeSubmitR | CodeVerifyR | TOTPFormR | TOTPSubmitR
  | OIDCStartR | OIDCCallbackR | LogoutR | ListingR | ListingImgR | SetLangR "string \<Rightarrow> bool" | ProfileR | ProfilePasswordR
  | ProfileTOTPR | SetupFormR | SetupSubmitR | AdminReloadR | AdminPageR
  | LinkAddR | LinkDelR | BackendAddR | BackendDelR | BackendEditR "bytes \<Rightarrow> string" upload | BackendToggleR | LinkToggleR
  | UserAddR | UserDelR | UserAuthzR | UserTOTPR | DiscoverAddR | HostScanAddR | UserEmailR
  | UserPasswordR | UserAdminR | AdminIPsR | MonitorAddR | MonitorDelR
  | ProviderAddR | ProviderEditR | ProviderDelR | ProviderToggleR | ProviderTestR | HostingR
  | TLSPageR | TLSIssueR | TLSRenewR | TLSDeleteR | TLSCAR

fun serve :: "route \<Rightarrow> Env \<Rightarrow> Req \<Rightarrow> World \<Rightarrow> Resp \<times> World" where
  "serve ValidateR e r w = handleValidate e r w"
| "serve LoginFormR e r w = handleLoginForm e r w"
| "serve LoginSubmitR e r w = handleLoginSubmit e r w"
| "serve CodeFormR e r w = handleCodeRequestForm e r w"
| "serve CodeSubmitR e r w = handleCodeRequestSubmit e r w"
| "serve CodeVerifyR e r w = handleCodeVerifySubmit e r w"
| "serve TOTPFormR e r w = handleTOTPForm e r w"
| "serve TOTPSubmitR e r w = handleTOTPSubmit e r w"
| "serve OIDCStartR e r w = handleOIDCStart e r w"
| "serve OIDCCallbackR e r w = handleOIDCCallback e r w"
| "serve LogoutR e r w = handleLogout e r w"
| "serve ListingR e r w = handleListing e r w"
| "serve ListingImgR e r w = handleListingImg e r w"
| "serve (SetLangR supported) e r w = handleSetLang supported r w"
| "serve ProfileR e r w = handleProfile e r w"
| "serve ProfilePasswordR e r w = handleProfilePassword e r w"
| "serve ProfileTOTPR e r w = handleProfileTOTP e r w"
| "serve SetupFormR e r w = handleSetupForm e r w"
| "serve SetupSubmitR e r w = handleSetupSubmit e r w"
| "serve AdminReloadR e r w = handleAdminReload e r w"
| "serve AdminPageR e r w = guarded e r (\<lambda>w. (renderHTML (AdminPage (rq_Path r)) 200, w)) w"
| "serve LinkAddR e r w = handleLinkAdd e r w"
| "serve LinkDelR e r w = handleLinkDel e r w"
| "serve BackendAddR e r w = handleBackendAdd e r w"
| "serve BackendDelR e r w = handleBackendDel e r w"
| "serve (BackendEditR detect up) e r w = handleBackendEdit detect up e r w"
| "serve BackendToggleR e r w = handleBackendToggle e r w"
| "serve LinkToggleR e r w = handleLinkToggle e r w"
| "serve UserAddR e r w = handleUserAdd e r w"
| "serve UserDelR e r w = handleUserDel e r w"
| "serve UserAuthzR e r w = handleUserAuthz e r w"
| "serve UserTOTPR e r w = handleUserTOTP e r w"
| "serve DiscoverAddR e r w = handleDiscoverAdd e r w"
| "serve HostScanAddR e r w = handleHostScanAdd e r w"
| "serve UserEmailR e r w = handleUserEmail e r w"
| "serve UserPasswordR e r w = handleUserPassword e r w"
| "serve UserAdminR e r w = handleUserAdmin e r w"
| "serve AdminIPsR e r w = handleAdminIPs e r w"
| "serve MonitorAddR e r w = handleMonitorAdd e r w"
| "serve MonitorDelR e r w = handleMonitorDel e r w"
| "serve ProviderAddR e r w = handleProviderAdd e r w"
| "serve ProviderEditR e r w = handleProviderEdit e r w"
| "serve ProviderDelR e r w = handleProviderDel e r w"
| "serve ProviderToggleR e r w = handleProviderToggle e r w"
| "serve ProviderTestR e r w = handleProviderTest e r w"
| "serve HostingR e r w = handleHostingProxy e r w"
| "serve TLSPageR e r w = handleAdminTLS e r w"
| "serve TLSIssueR e r w = handleTLSIssue e r w"
| "serve TLSRenewR e r w = handleTLSRenew e r w"
| "serve TLSDeleteR e r w = handleTLSDelete e r w"
| "serve TLSCAR e r w = handleTLSCA e r w"

subsection \<open>What a handler keeps\<close>

definition twofa :: "World \<Rightarrow> string \<Rightarrow> bool" where
  "twofa w sid \<longleftrightarrow> (\<exists>x. ms_m (sv_Sessions (wd_srv w)) sid = Some x \<and> s_TwoFADone x)"

definition world_ok :: "World \<Rightarrow> bool" where
  "world_ok w \<longleftrightarrow> store_ok (sv_Sessions (wd_srv w)) \<and> dir_ok (sv_Users (wd_srv w))"

text \<open>A handler that neither opens nor completes a session and does not break the invariant.\<close>

definition keeps :: "World \<Rightarrow> World \<Rightarrow> bool" where
  "keeps w w' \<longleftrightarrow> mem.derived (sv_Sessions (wd_srv w)) (sv_Sessions (wd_srv w')) \<and> (world_ok w \<longrightarrow> world_ok w')"

named_theorems keeps_rules \<open>steps that complete no session\<close>

lemma twofa_mem: "twofa w sid \<longleftrightarrow> mem.done2fa (sv_Sessions (wd_srv w)) sid"
  by (simp add: twofa_def mem.done2fa_def)

lemma keeps_refl [keeps_rules, simp]: "keeps w w"
  by (simp add: keeps_def mem.derived_refl)

lemma keeps_trans: "keeps w w1 \<Longrightarrow> keeps w1 w2 \<Longrightarrow> keeps w w2"
  by (auto simp: keeps_def intro: mem.derived_trans)

lemma keeps_same:
  assumes "sv_Sessions (wd_srv w') = sv_Sessions (wd_srv w)" "sv_Users (wd_srv w') = sv_Users (wd_srv w)"
  shows "keeps w w'"
  using assms by (simp add: keeps_def world_ok_def mem.derived_refl)

lemma keeps_sessions:
  assumes "sv_Users (wd_srv w') = sv_Users (wd_srv w)"
    and "mem.derived (sv_Sessions (wd_srv w)) (sv_Sessions (wd_srv w'))"
    and "store_ok (sv_Sessions (wd_srv w)) \<Longrightarrow> store_ok (sv_Sessions (wd_srv w'))"
  shows "keeps w w'"
  using assms by (simp add: keeps_def world_ok_def)

lemma keeps_users:
  assumes "sv_Sessions (wd_srv w') = sv_Sessions (wd_srv w)"
    and "dir_ok (sv_Users (wd_srv w)) \<Longrightarrow> dir_ok (sv_Users (wd_srv w'))"
  shows "keeps w w'"
  using assms by (simp add: keeps_def world_ok_def mem.derived_refl)

lemma auditFail_srv [simp]: "wd_srv (auditFail r ev d w) = wd_srv w" "wd_fs (auditFail r ev d w) = wd_fs w"
  by (simp_all add: auditFail_def Let_def)

lemma keeps_audit [keeps_rules]: "keeps w (auditFail r ev d w)"
  by (rule keeps_same) simp_all

lemma keeps_audit_after [keeps_rules]: "keeps w w' \<Longrightarrow> keeps w (auditFail r ev d w')"
  by (rule keeps_trans [OF _ keeps_audit])

lemma session_world:
  "snd (session e r w) = w \<or>
   (\<exists>v. snd (session e r w) = w\<lparr>wd_srv := (wd_srv w)\<lparr>sv_Sessions := fst (Sessions.Get (en_now e) (sv_Sessions (wd_srv w)) v)\<rparr>\<rparr>)"
  by (auto simp: session_def Let_def case_prod_unfold split: option.split)

lemma keeps_session: "keeps w (snd (session e r w))"
  using session_world [of e r w]
  by (auto intro!: keeps_sessions simp: store_ok_Get mem.derived_get mem.derived_refl)

lemma session_fst:
  assumes "session e r w = (Some x, w1)"
  shows "\<exists>v x0. rq_Cookie r (ses_CookieName (cfg_Session (sv_Cfg (wd_srv w)))) = Some v \<and>
     ms_m (sv_Sessions (wd_srv w)) v = Some x0 \<and> x = x0\<lparr>s_LastSeen := en_now e\<rparr> \<and>
     ms_m (sv_Sessions (wd_srv w1)) = (ms_m (sv_Sessions (wd_srv w)))(v \<mapsto> x) \<and>
     wd_srv w1 = (wd_srv w)\<lparr>sv_Sessions := sv_Sessions (wd_srv w1)\<rparr> \<and> wd_fs w1 = wd_fs w"
proof -
  obtain v where v: "rq_Cookie r (ses_CookieName (cfg_Session (sv_Cfg (wd_srv w)))) = Some v"
    using assms by (auto simp: session_def Let_def split: option.splits)
  obtain ms where g: "Sessions.Get (en_now e) (sv_Sessions (wd_srv w)) v = (ms, Some x)"
    and w1: "w1 = w\<lparr>wd_srv := (wd_srv w)\<lparr>sv_Sessions := ms\<rparr>\<rparr>"
    using assms v by (auto simp: session_def Let_def split: prod.splits)
  show ?thesis
    using mem.get_entry [OF g] v w1 by auto
qed

lemma session_users [simp]: "sv_Users (wd_srv (snd (session e r w))) = sv_Users (wd_srv w)"
  using session_world [of e r w] by auto

lemma keeps_Reload: "keeps w (snd (Reload e w))"
  by (rule keeps_same) (auto simp: Reload_def Let_def split: sum.splits prod.splits)

lemma keeps_servicesIO: "keeps w (snd (mutateServicesIO e fn w))"
proof -
  have "keeps w (w\<lparr>wd_fs := f\<rparr>)" for f by (rule keeps_same) simp_all
  then show ?thesis
    by (auto simp: mutateServicesIO_def Let_def intro: keeps_trans keeps_Reload split: sum.splits prod.splits option.splits)
qed

lemma keeps_services [keeps_rules]: "keeps w (snd (mutateServices e fn w))"
  by (simp add: mutateServices_def keeps_servicesIO)

lemma keeps_service_op [keeps_rules]: "keeps w (snd (service_op e r fn w))"
  using keeps_services [of w e fn] by (simp add: service_op_def case_prod_unfold Let_def)

definition alias_safe :: "user_edit \<Rightarrow> bool" where
  "alias_safe fn \<longleftrightarrow> (\<forall>us us' al u. fn us = Inr (us', al) \<longrightarrow> usr_Email (al u) = usr_Email u)"

lemma keeps_mutateUsers:
  assumes "alias_safe fn"
  shows "keeps w (snd (mutateUsers e fn w))"
proof (rule keeps_users)
  show "sv_Sessions (wd_srv (snd (mutateUsers e fn w))) = sv_Sessions (wd_srv w)"
    by (auto simp: mutateUsers_def Let_def split: sum.splits prod.splits option.splits)
  assume "dir_ok (sv_Users (wd_srv w))"
  then show "dir_ok (sv_Users (wd_srv (snd (mutateUsers e fn w))))"
    using assms
    by (auto simp: mutateUsers_def Let_def dir_ok_Replace alias_safe_def intro!: alias_ok
        split: sum.splits prod.splits option.splits)
qed

lemma keeps_user_op [keeps_rules]: "alias_safe fn \<Longrightarrow> keeps w (snd (user_op e r fn w))"
  using keeps_mutateUsers [of fn w e] by (simp add: user_op_def case_prod_unfold Let_def)

lemma alias_safe_edit [keeps_rules]: "alias_safe (edit_user k f)"
  by (simp add: alias_safe_def edit_user_def split: option.splits)

lemma alias_safe_if [keeps_rules]: "alias_safe fn \<Longrightarrow> alias_safe (\<lambda>us. if P us then Inl err else fn us)"
  by (simp add: alias_safe_def)

lemma keeps_adminSession: "keeps w (snd (adminSessionOK e r w))"
proof (cases "session e r w")
  case (Pair o1 w1)
  then have "keeps w w1" using keeps_session [of w e r] by simp
  then show ?thesis
    by (auto simp: adminSessionOK_def Pair intro: keeps_rules split: option.splits)
qed

lemma keeps_adminGuard: "keeps w (snd (adminGuard e r w))"
  using keeps_adminSession [of w e r]
  by (auto simp: adminGuard_def split: prod.splits option.splits)

lemma keeps_guarded: "(\<And>w1. keeps w1 (snd (h w1))) \<Longrightarrow> keeps w (snd (guarded e r h w))"
  using keeps_adminGuard [of w e r]
  by (auto simp: guarded_def intro: keeps_trans split: prod.splits option.splits)

subsection \<open>The routes that complete no session\<close>

lemma keeps_session_eq: "session e r w = (x, w1) \<Longrightarrow> keeps w w1"
  using keeps_session [of w e r] by simp

lemma keeps_currentUser: "currentUser e r w = (x, w1) \<Longrightarrow> keeps w w1"
  by (auto simp: currentUser_def dest: keeps_session_eq split: prod.splits option.splits if_splits)

lemma keeps_fs [keeps_rules]: "keeps w (w\<lparr>wd_fs := f\<rparr>)"
  by (rule keeps_same) simp_all

lemma keeps_otp [keeps_rules]: "keeps w (w\<lparr>wd_srv := (wd_srv w)\<lparr>sv_OTP := x\<rparr>\<rparr>)"
  by (rule keeps_same) simp_all

lemma keeps_oidc [keeps_rules]: "keeps w (set_oidc w i p)"
  by (rule keeps_same) (simp_all add: set_oidc_def)

lemma keeps_deliver: "keeps w (deliverCode e r email code w)"
  by (auto simp: deliverCode_def spoolCode_def Let_def intro: keeps_rules)

lemma keeps_mutateUsers_eq: "mutateUsers e fn w = (x, w1) \<Longrightarrow> alias_safe fn \<Longrightarrow> keeps w w1"
  using keeps_mutateUsers [of fn w e] by simp

lemma keeps_services_eq: "mutateServices e fn w = (x, w1) \<Longrightarrow> keeps w w1"
  using keeps_services [of w e fn] by simp

lemma keeps_Validate: "keeps w (snd (handleValidate e r w))"
proof (cases "session e r w")
  case (Pair o1 w1)
  then have "keeps w w1" by (rule keeps_session_eq)
  then show ?thesis
    by (simp add: handleValidate_def Let_def Pair case_prod_unfold keeps_audit split: option.split)
qed

lemma keeps_Listing: "keeps w (snd (handleListing e r w))" "keeps w (snd (handleListingImg e r w))"
  by (auto simp: handleListing_def handleListingImg_def Let_def dest: keeps_session_eq
      split: prod.splits option.splits)

lemma keeps_forms: "keeps w (snd (handleLoginForm e r w))" "keeps w (snd (handleCodeRequestForm e r w))"
    "keeps w (snd (handleTOTPForm e r w))" "keeps w (snd (handleSetLang supported r w))" "keeps w (snd (handleSetupForm e r w))"
  by (auto simp: handleLoginForm_def handleCodeRequestForm_def handleTOTPForm_def handleSetLang_def Let_def
      handleSetupForm_def dest: keeps_session_eq split: prod.splits option.splits)

lemma keeps_CodeSubmit: "keeps w (snd (handleCodeRequestSubmit e r w))"
  by (auto simp: handleCodeRequestSubmit_def Let_def intro: keeps_rules keeps_trans [OF _ keeps_deliver]
      split: option.splits prod.splits)

lemma keeps_OIDCStart: "keeps w (snd (handleOIDCStart e r w))"
  by (auto simp: handleOIDCStart_def Let_def intro: keeps_rules split: option.splits prod.splits sum.splits)

lemma keeps_Logout: "keeps w (snd (handleLogout e r w))"
proof (cases "session e r w")
  case (Pair o1 w1)
  then have "keeps w w1" by (rule keeps_session_eq)
  moreover have "keeps w1 (delete_session w1 sid)" for sid
    by (rule keeps_sessions) (simp_all add: delete_session_def with_sessions_def mem.derived_del store_ok_Delete)
  ultimately show ?thesis
    by (auto simp: handleLogout_def Pair intro: keeps_trans split: option.splits)
qed

lemma keeps_Profile: "keeps w (snd (handleProfile e r w))" "keeps w (snd (handleProfilePassword e r w))"
    "keeps w (snd (handleProfileTOTP e r w))"
proof -
  obtain o1 w1 where cu: "currentUser e r w = (o1, w1)" by fastforce
  then have k: "keeps w w1" by (rule keeps_currentUser)
  have m: "keeps w (snd (mutateUsers e (edit_user x f) w1))" for x f
    by (rule keeps_trans [OF k keeps_mutateUsers]) (rule keeps_rules)
  show "keeps w (snd (handleProfile e r w))"
    using k by (simp add: handleProfile_def cu split: option.split)
  show "keeps w (snd (handleProfilePassword e r w))"
    using k m by (auto simp: handleProfilePassword_def cu intro: keeps_rules
        split: option.splits sum.splits prod.splits) (metis snd_conv)+
  show "keeps w (snd (handleProfileTOTP e r w))"
    using k m by (auto simp: handleProfileTOTP_def cu split: option.splits prod.splits) (metis snd_conv)+
qed

lemma keeps_finalize: "keeps w (snd (finalizeSetup e st w))"
  by (rule keeps_users) (auto simp: finalizeSetup_def Let_def dir_ok_Replace split: prod.splits option.splits)

lemma keeps_Setup: "keeps w (snd (handleSetupSubmit e r w))"
  by (auto simp: handleSetupSubmit_def setupStepCred_def setupStepConfirm_def Let_def
      intro: keeps_rules keeps_finalize split: option.splits sum.splits prod.splits)

lemma keeps_Reload_eq: "Reload e w = (x, w1) \<Longrightarrow> keeps w w1"
  using keeps_Reload [of w e] by simp

lemma keeps_AdminReload: "keeps w (snd (handleAdminReload e r w))"
  using keeps_adminGuard [of w e r]
  by (auto simp: handleAdminReload_def dest: keeps_Reload_eq intro: keeps_trans split: prod.splits option.splits)

lemma keeps_Hosting: "keeps w (snd (handleHostingProxy e r w))"
  using keeps_adminSession [of w e r] by (auto simp: handleHostingProxy_def split: prod.splits option.splits)

lemma alias_safe_handlers [keeps_rules]: "alias_safe (toggle_admin k)" "alias_safe (add_user nu)" "alias_safe (del_user k)"
  by (auto simp: alias_safe_def toggle_admin_def add_user_def del_user_def split: option.splits prod.splits if_splits)

lemma keeps_user_admin:
  "keeps w (snd (handleUserEmail e r w))" "keeps w (snd (handleUserPassword e r w))"
  "keeps w (snd (handleUserAdmin e r w))" "keeps w (snd (handleUserAdd e r w))"
  "keeps w (snd (handleUserDel e r w))" "keeps w (snd (handleUserAuthz e r w))" "keeps w (snd (handleUserTOTP e r w))"
  unfolding handleUserEmail_def handleUserPassword_def handleUserAdmin_def handleUserAdd_def handleUserDel_def
    handleUserAuthz_def handleUserTOTP_def
  by (auto simp: Let_def intro!: keeps_guarded keeps_user_op keeps_rules dest!: keeps_mutateUsers_eq
      split: option.splits sum.splits prod.splits)

lemma keeps_service_admin:
  "keeps w (snd (handleMonitorAdd e r w))" "keeps w (snd (handleMonitorDel e r w))"
  "keeps w (snd (handleDiscoverAdd e r w))" "keeps w (snd (handleHostScanAdd e r w))"
  "keeps w (snd (handleLinkAdd e r w))" "keeps w (snd (handleLinkDel e r w))" "keeps w (snd (handleLinkToggle e r w))"
  "keeps w (snd (handleBackendDel e r w))" "keeps w (snd (handleBackendToggle e r w))"
  "keeps w (snd (handleBackendAdd e r w))" "keeps w (snd (handleAdminIPs e r w))"
  unfolding handleMonitorAdd_def handleMonitorDel_def handleDiscoverAdd_def handleHostScanAdd_def handleLinkAdd_def
    handleLinkDel_def handleLinkToggle_def handleBackendDel_def handleBackendToggle_def handleBackendAdd_def
    handleAdminIPs_def
  by (auto simp: Let_def intro!: keeps_guarded keeps_service_op split: sum.splits)


lemma keeps_provider_secret: "keeps w (snd (setProviderSecret e i secret w))"
  by (auto simp: setProviderSecret_def Let_def intro: keeps_rules split: sum.split prod.split)

lemma keeps_secret_eq: "setProviderSecret e i secret w = (x, w1) \<Longrightarrow> keeps w w1"
  using keeps_provider_secret [of w e i secret] by simp

lemma keeps_maybe_secret:
  "(if secret \<noteq> '''' then setProviderSecret e i secret w else (None, w)) = (x, w1) \<Longrightarrow> keeps w w1"
  by (auto dest: keeps_secret_eq split: if_splits)

lemma keeps_providers:
  "keeps w (snd (handleProviderAdd e r w))" "keeps w (snd (handleProviderEdit e r w))"
  "keeps w (snd (handleProviderDel e r w))" "keeps w (snd (handleProviderToggle e r w))"
  "keeps w (snd (handleProviderTest e r w))"
  unfolding handleProviderAdd_def handleProviderEdit_def handleProviderDel_def handleProviderToggle_def
    handleProviderTest_def
  by (auto simp: Let_def intro!: keeps_guarded keeps_services keeps_provider_secret
      keeps_trans [OF keeps_provider_secret keeps_services] keeps_trans [OF keeps_services keeps_provider_secret]
      simp: case_prod_unfold split: option.split)


lemma keeps_applyGrants: "keeps w (snd (applyPathGrants e i g w))" "keeps w (snd (applyServiceGrants e r i w))"
  by (auto simp: applyPathGrants_def applyServiceGrants_def Let_def alias_safe_def intro!: keeps_mutateUsers)

lemma keeps_applyPathGrants_eq: "applyPathGrants e i g w = (x, w1) \<Longrightarrow> keeps w w1"
  using keeps_applyGrants(1) [of w e i g] by simp

lemma keeps_applyServiceGrants_eq: "applyServiceGrants e r i w = (x, w1) \<Longrightarrow> keeps w w1"
  using keeps_applyGrants(2) [of w e r i] by simp

lemma keeps_servicesIO_eq: "mutateServicesIO e fn w = (x, w1) \<Longrightarrow> keeps w w1"
  using keeps_servicesIO [of w e fn] by simp

lemma keeps_saveListingImage: "saveListingImage detect r up i w = (x, w1) \<Longrightarrow> keeps w w1"
  by (cases up) (auto simp: saveListingImage_def Let_def intro: keeps_rules
      split: if_splits prod.splits option.splits)

lemma keeps_grant_steps:
  assumes "keeps w0 w2" "(case err1 of Some x \<Rightarrow> (Some x, w2) | None \<Rightarrow> applyServiceGrants e r i w2) = (err2, w3)"
    and "(case err2 of Some x \<Rightarrow> (Some x, w3) | None \<Rightarrow> applyPathGrants e i g w3) = (err3, w4)"
  shows "keeps w0 w4"
proof -
  have "keeps w2 w3"
    using assms(2) by (auto dest: keeps_applyServiceGrants_eq split: option.splits)
  moreover have "keeps w3 w4"
    using assms(3) by (auto dest: keeps_applyPathGrants_eq split: option.splits)
  ultimately show ?thesis
    using assms(1) by (blast intro: keeps_trans)
qed

lemma keeps_BackendEdit: "keeps w (snd (handleBackendEdit detect up e r w))"
proof -
  have step: "keeps w0 w4"
    if "keeps w0 w1" "mutateServicesIO e fn w1 = (err1, w2)"
      "(case err1 of Some x \<Rightarrow> (Some x, w2) | None \<Rightarrow> applyServiceGrants e r i w2) = (err2, w3)"
      "(case err2 of Some x \<Rightarrow> (Some x, w3) | None \<Rightarrow> applyPathGrants e i g w3) = (err3, w4)"
    for w0 w1 w2 w3 w4 err1 err2 err3 fn i g
    by (rule keeps_grant_steps [OF keeps_trans [OF that(1) keeps_servicesIO_eq [OF that(2)]] that(3,4)])
  show ?thesis
    unfolding handleBackendEdit_def
    apply (rule keeps_guarded)
    apply (auto simp: Let_def split: sum.split prod.split dest: keeps_saveListingImage)
    apply ((drule keeps_saveListingImage, erule step, assumption+)+)
    done
qed


text \<open>The certificate manager changes the file system and reloads.\<close>

lemma keeps_hook: "keeps w (snd (run_hook (world_hook e) w))"
  using keeps_Reload [of w e] by (simp add: run_hook_def world_hook_def case_prod_unfold Let_def)

lemma keeps_hook_set: "keeps w (hk_set (world_hook e) f w)"
  by (simp add: world_hook_def keeps_fs)

lemma keeps_writePair: "keeps w (snd (writePair (world_hook e) m host c k (hk_set (world_hook e) f w)))"
  using keeps_trans [OF keeps_hook_set keeps_trans [OF keeps_hook_set keeps_hook]]
  by (auto simp: writePair_def intro: keeps_trans [OF keeps_hook_set keeps_hook_set] split: prod.split option.split)

lemma keeps_issue:
  "keeps w (snd (IssueACME pk ac (world_hook e) m host extra w))"
  "keeps w (snd (IssueSelfSigned pk now (world_hook e) m host extra w))"
  "keeps w (snd (cert_Delete (world_hook e) m host w))"
  by (auto simp: IssueACME_def IssueSelfSigned_def cert_Delete_def
      intro: keeps_hook_set keeps_writePair keeps_trans [OF keeps_hook_set keeps_hook] split: prod.split option.split sum.split)

lemma keeps_TLS:
  "keeps w (snd (handleAdminTLS e r w))" "keeps w (snd (handleTLSIssue e r w))" "keeps w (snd (handleTLSRenew e r w))"
  "keeps w (snd (handleTLSDelete e r w))" "keeps w (snd (handleTLSCA e r w))"
proof -
  have www: "keeps w (snd (setBackendWWW e h b w))" for h b w
    by (simp add: setBackendWWW_def keeps_services)
  show "keeps w (snd (handleTLSIssue e r w))"
    unfolding handleTLSIssue_def
    by (rule keeps_guarded)
      (auto simp: Let_def case_prod_unfold intro: keeps_trans [OF www keeps_issue(1)] keeps_trans [OF www keeps_issue(2)] split: option.split)
  show "keeps w (snd (handleAdminTLS e r w))" "keeps w (snd (handleTLSRenew e r w))"
    "keeps w (snd (handleTLSDelete e r w))" "keeps w (snd (handleTLSCA e r w))"
    unfolding handleAdminTLS_def handleTLSRenew_def handleTLSDelete_def handleTLSCA_def
    by (auto simp: Let_def case_prod_unfold intro!: keeps_guarded keeps_issue split: option.split sum.split)
qed

subsection \<open>Where a completed second factor comes from\<close>

text \<open>The four handlers that may complete a session.\<close>

fun completes :: "route \<Rightarrow> bool" where
  "completes LoginSubmitR = True"
| "completes CodeVerifyR = True"
| "completes TOTPSubmitR = True"
| "completes OIDCCallbackR = True"
| "completes _ = False"

lemmas keeps_handlers = keeps_Validate keeps_Listing keeps_forms keeps_CodeSubmit keeps_OIDCStart keeps_Logout
  keeps_Profile keeps_Setup keeps_AdminReload keeps_Hosting keeps_user_admin keeps_service_admin keeps_providers
  keeps_BackendEdit keeps_TLS

lemma keeps_serve: "\<not> completes rt \<Longrightarrow> keeps w (snd (serve rt e r w))"
  by (cases rt) (simp_all add: keeps_handlers keeps_guarded)

lemma twofa_complete: "twofa (complete_session w i) j \<longleftrightarrow>
    twofa w j \<or> j = i \<and> ms_m (sv_Sessions (wd_srv w)) i \<noteq> None"
  by (auto simp: twofa_mem complete_session_def with_sessions_def mem.done2fa_complete)

lemma world_ok_complete: "world_ok w \<Longrightarrow> world_ok (complete_session w i)"
  by (simp add: world_ok_def complete_session_def with_sessions_def store_ok_Complete2FA)

lemma create_session_users: "create_session e w em p = (x, w1) \<Longrightarrow>
    sv_Users (wd_srv w1) = sv_Users (wd_srv w)"
  by (auto simp: create_session_def with_sessions_def split: prod.splits)

lemma world_ok_create: "create_session e w em p = (x, w1) \<Longrightarrow> world_ok w \<Longrightarrow> world_ok w1"
  using store_ok_Create [of "sv_Sessions (wd_srv w)" "en_now e" "en_newid e" em p]
  by (auto simp: world_ok_def create_session_def with_sessions_def split: prod.splits)

lemma create_session_entry:
  assumes "create_session e w em p = (Some x, w1)"
  shows "ms_m (sv_Sessions (wd_srv w1)) (s_ID x) = Some x" "s_Email x = em" "s_Provider x = p" "en_newid e = Some (s_ID x)"
proof -
  obtain i where i: "en_newid e = Some i"
    using assms by (auto simp: create_session_def Create_def split: option.splits prod.splits)
  obtain ms where c: "Create (en_now e) (Some i) (sv_Sessions (wd_srv w)) em p = (ms, Some x)"
    and w1: "w1 = with_sessions w ms"
    using assms i by (auto simp: create_session_def split: prod.splits)
  from MemoryStore_Create [OF c] w1 i
  show "ms_m (sv_Sessions (wd_srv w1)) (s_ID x) = Some x" "s_Email x = em" "s_Provider x = p" "en_newid e = Some (s_ID x)"
    by (auto simp: with_sessions_def)
qed


text \<open>
  The events that open a session for the person \<open>em\<close>, and the events that complete one: the
  request passed the check of the factor in the world \<open>w\<close> it was served in.
\<close>

definition local_ok :: "Env \<Rightarrow> Req \<Rightarrow> World \<Rightarrow> bool" where
  "local_ok e r w \<longleftrightarrow> (\<exists>idn. Local_Authenticate (en_IDKey e) (sv_Users (wd_srv w)) (PostFormValue r ''email'')
     (PostFormValue r ''password'') = Some (Inr idn))"

definition ldap_ok :: "Env \<Rightarrow> Req \<Rightarrow> World \<Rightarrow> bool" where
  "ldap_ok e r w \<longleftrightarrow> (\<exists>lp \<in> set (sv_LDAP (wd_srv w)). \<exists>idn.
     LDAP_Authenticate (en_ldap e) lp (PostFormValue r ''email'') (PostFormValue r ''password'') = Inr idn)"

definition otp_ok :: "Env \<Rightarrow> Req \<Rightarrow> World \<Rightarrow> bool" where
  "otp_ok e r w \<longleftrightarrow> (case sv_OTP (wd_srv w) of None \<Rightarrow> False
     | Some o1 \<Rightarrow> otc_Enabled (cfg_OneTimeCode (sv_Cfg (wd_srv w))) \<and>
         Users.Get (sv_Users (wd_srv w)) (PostFormValue r ''email'') \<noteq> None \<and>
         accepts (en_sha256 e) (en_now e) o1 (PostFormValue r ''email'') (PostFormValue r ''code''))"

definition oidc_ok :: "Env \<Rightarrow> Req \<Rightarrow> World \<Rightarrow> string \<Rightarrow> bool" where
  "oidc_ok e r w em \<longleftrightarrow> (\<exists>p st idn u.
     oidcFor (wd_srv w) (rq_PathValue r ''provider'') = Some p \<and> readOIDCState e r = Some st \<and>
     os_Provider st = rq_PathValue r ''provider'' \<and> rq_Query r ''state'' = os_State st \<and>
     fst (Exchange (en_oidc e) p (rq_Query r ''code'') (os_Nonce st)) = Inr idn \<and> em = idn_Email idn \<and>
     Users.Get (sv_Users (wd_srv w)) em = Some u \<and> usr_Provider u = rq_PathValue r ''provider'')"

definition totp_ok :: "Env \<Rightarrow> Req \<Rightarrow> World \<Rightarrow> string \<Rightarrow> bool" where
  "totp_ok e r w em \<longleftrightarrow> (case Users.Get (sv_Users (wd_srv w)) em of None \<Rightarrow> False
     | Some u \<Rightarrow> VerifyTOTP (en_hmac e) (usr_TOTPSecret u) (PostFormValue r ''code'') (unix (en_now e)))"

definition first_factor :: "route \<Rightarrow> Env \<Rightarrow> Req \<Rightarrow> World \<Rightarrow> string \<Rightarrow> bool" where
  "first_factor rt e r w em \<longleftrightarrow>
     (rt = LoginSubmitR \<and> em = PostFormValue r ''email'' \<and> (local_ok e r w \<or> ldap_ok e r w)) \<or>
     (rt = CodeVerifyR \<and> em = PostFormValue r ''email'' \<and> otp_ok e r w) \<or>
     (rt = OIDCCallbackR \<and> oidc_ok e r w em)"

definition second_factor :: "route \<Rightarrow> Env \<Rightarrow> Req \<Rightarrow> World \<Rightarrow> string \<Rightarrow> bool" where
  "second_factor rt e r w em \<longleftrightarrow>
     (rt = TOTPSubmitR \<and> totp_ok e r w em) \<or>
     (rt = LoginSubmitR \<and> em = PostFormValue r ''email'' \<and> ldap_ok e r w) \<or>
     (rt = OIDCCallbackR \<and> oidc_ok e r w em) \<or>
     (cfg_DisableTOTP (sv_Cfg (wd_srv w)) \<and> first_factor rt e r w em)"

text \<open>
  \<open>opens f1 f2 w w'\<close>: a session of \<open>w'\<close> is one of \<open>w\<close>, completed now only where \<open>f2\<close> holds of
  its person, or a new one for a person of whom \<open>f1\<close> holds.
\<close>

definition opens :: "(string \<Rightarrow> bool) \<Rightarrow> (string \<Rightarrow> bool) \<Rightarrow> World \<Rightarrow> World \<Rightarrow> bool" where
  "opens f1 f2 w w' \<longleftrightarrow> (\<forall>i x'. ms_m (sv_Sessions (wd_srv w')) i = Some x' \<longrightarrow>
     (\<exists>x. ms_m (sv_Sessions (wd_srv w)) i = Some x \<and> s_Email x = s_Email x' \<and>
        (s_TwoFADone x' \<longrightarrow> s_TwoFADone x \<or> f2 (s_Email x'))) \<or>
     (f1 (s_Email x') \<and> (s_TwoFADone x' \<longrightarrow> f2 (s_Email x'))))"

lemma opens_derived: "mem.derived (sv_Sessions (wd_srv w)) (sv_Sessions (wd_srv w')) \<Longrightarrow> opens f1 f2 w w'"
  unfolding opens_def mem.derived_def by blast

lemma opens_keeps: "keeps w w' \<Longrightarrow> opens f1 f2 w w'"
  by (simp add: keeps_def opens_derived)

lemma create_session_map:
  assumes "create_session e w em p = (x, w1)"
  shows "ms_m (sv_Sessions (wd_srv w1)) =
     (case x of None \<Rightarrow> ms_m (sv_Sessions (wd_srv w)) | Some s \<Rightarrow> (ms_m (sv_Sessions (wd_srv w)))(s_ID s \<mapsto> s))"
    and "x = Some s \<Longrightarrow> s_Email s = em \<and> \<not> s_TwoFADone s"
  using assms by (auto simp: create_session_def Create_def with_sessions_def Let_def split: option.splits)

lemma complete_session_map:
  "ms_m (sv_Sessions (wd_srv (complete_session w i))) =
     (case ms_m (sv_Sessions (wd_srv w)) i of None \<Rightarrow> ms_m (sv_Sessions (wd_srv w))
      | Some x \<Rightarrow> (ms_m (sv_Sessions (wd_srv w)))(i \<mapsto> x\<lparr>s_TwoFADone := True\<rparr>))"
  by (simp add: complete_session_def with_sessions_def mem.complete_entry)

lemma opens_create:
  assumes "create_session e w em p = (x, w1)" "f1 em"
  shows "opens f1 f2 w w1"
proof (cases x)
  case None
  then show ?thesis
    using create_session_map(1) [OF assms(1)] by (simp add: opens_def)
next
  case (Some s)
  have "ms_m (sv_Sessions (wd_srv w1)) = (ms_m (sv_Sessions (wd_srv w)))(s_ID s \<mapsto> s)"
    using create_session_map(1) [OF assms(1)] Some by simp
  moreover have "s_Email s = em \<and> \<not> s_TwoFADone s"
    using create_session_map(2) [OF assms(1)] Some by simp
  ultimately show ?thesis
    unfolding opens_def using assms(2) by (simp add: fun_upd_apply)
qed

lemma opens_create_complete:
  assumes "create_session e w em p = (Some s, w1)" "f1 em" "f2 em"
  shows "opens f1 f2 w (complete_session w1 (s_ID s))"
proof -
  have "ms_m (sv_Sessions (wd_srv w1)) = (ms_m (sv_Sessions (wd_srv w)))(s_ID s \<mapsto> s)"
    using create_session_map(1) [OF assms(1)] by simp
  then have "ms_m (sv_Sessions (wd_srv (complete_session w1 (s_ID s)))) =
      (ms_m (sv_Sessions (wd_srv w)))(s_ID s \<mapsto> s\<lparr>s_TwoFADone := True\<rparr>)"
    by (simp add: complete_session_map)
  moreover have "s_Email s = em"
    using create_session_map(2) [OF assms(1)] by simp
  ultimately show ?thesis
    unfolding opens_def using assms(2,3) by (simp add: fun_upd_apply)
qed

lemma opens_trans_keeps: "keeps w w1 \<Longrightarrow> opens f1 f2 w1 w2 \<Longrightarrow> opens f1 f2 w w2"
proof (unfold opens_def [of f1 f2 w w2], intro allI impI)
  fix i x'
  assume k: "keeps w w1" and op: "opens f1 f2 w1 w2" and x': "ms_m (sv_Sessions (wd_srv w2)) i = Some x'"
  let ?goal = "(\<exists>x. ms_m (sv_Sessions (wd_srv w)) i = Some x \<and> s_Email x = s_Email x' \<and>
        (s_TwoFADone x' \<longrightarrow> s_TwoFADone x \<or> f2 (s_Email x'))) \<or>
     (f1 (s_Email x') \<and> (s_TwoFADone x' \<longrightarrow> f2 (s_Email x')))"
  from op x' consider (old) x1 where "ms_m (sv_Sessions (wd_srv w1)) i = Some x1" "s_Email x1 = s_Email x'"
      "s_TwoFADone x' \<longrightarrow> s_TwoFADone x1 \<or> f2 (s_Email x')"
    | (new) "f1 (s_Email x')" "s_TwoFADone x' \<longrightarrow> f2 (s_Email x')"
    unfolding opens_def by blast
  then show ?goal
  proof cases
    case old
    from k old(1) obtain x where "ms_m (sv_Sessions (wd_srv w)) i = Some x" "s_Email x = s_Email x1"
        "s_TwoFADone x1 \<longrightarrow> s_TwoFADone x"
      unfolding keeps_def mem.derived_def by blast
    with old show ?thesis by auto
  next
    case new
    then show ?thesis by simp
  qed
qed


lemma opens_ldap:
  assumes "ldapLogin e lps em pw nxt w = Some (rp, w')"
    and "\<And>lp idn. lp \<in> set lps \<Longrightarrow> LDAP_Authenticate (en_ldap e) lp em pw = Inr idn \<Longrightarrow> f1 em \<and> f2 em"
  shows "opens f1 f2 w w'"
  using assms
proof (induction lps)
  case (Cons lp lps)
  show ?case
  proof (cases "LDAP_Authenticate (en_ldap e) lp em pw")
    case (Inl err)
    with Cons show ?thesis by auto
  next
    case (Inr idn)
    with Cons.prems(2) have f: "f1 em" "f2 em" by auto
    show ?thesis
      using Cons.prems(1) Inr f
      by (auto intro: opens_create opens_create_complete split: prod.splits option.splits)
  qed
qed simp

lemma opens_LoginSubmit:
  "opens (first_factor LoginSubmitR e r w) (second_factor LoginSubmitR e r w) w (snd (handleLoginSubmit e r w))"
proof -
  let ?em = "PostFormValue r ''email''" and ?pw = "PostFormValue r ''password''"
  let ?f1 = "first_factor LoginSubmitR e r w" and ?f2 = "second_factor LoginSubmitR e r w"
  have l: "opens ?f1 ?f2 w w'" if "ldapLogin e (sv_LDAP (wd_srv w)) ?em ?pw nxt w = Some (rp, w')" for nxt rp w'
    by (rule opens_ldap [OF that]) (auto simp: first_factor_def second_factor_def ldap_ok_def)
  have f1: "?f1 ?em" if "local_ok e r w"
    using that by (simp add: first_factor_def)
  have f2: "?f2 ?em" if "local_ok e r w" "cfg_DisableTOTP (sv_Cfg (wd_srv w))"
    using that f1 by (simp add: second_factor_def)
  show ?thesis
  proof (cases "local_ok e r w")
    case True
    note opens_create [where ?f1.0 = ?f1 and em = ?em, OF _ f1 [OF True], intro]
      opens_create_complete [where ?f1.0 = ?f1 and em = ?em and ?f2.0 = ?f2, OF _ f1 [OF True] f2 [OF True], intro]
    show ?thesis
      using True by (auto simp: handleLoginSubmit_def local_ok_def Let_def opens_keeps split: option.split sum.split prod.split)
  next
    case False
    note l [intro]
    show ?thesis
      using False by (auto simp: handleLoginSubmit_def local_ok_def Let_def opens_keeps keeps_audit
          split: option.split sum.split prod.split)
  qed
qed


lemma opens_CodeVerify:
  "opens (first_factor CodeVerifyR e r w) (second_factor CodeVerifyR e r w) w (snd (handleCodeVerifySubmit e r w))"
proof -
  let ?em = "PostFormValue r ''email''"
  let ?f1 = "first_factor CodeVerifyR e r w" and ?f2 = "second_factor CodeVerifyR e r w"
  let ?w = "\<lambda>o'. w\<lparr>wd_srv := (wd_srv w)\<lparr>sv_OTP := o'\<rparr>\<rparr>"
  show ?thesis
  proof (cases "otp_ok e r w")
    case True
    then have f1: "?f1 ?em" by (simp add: first_factor_def)
    have c: "opens ?f1 ?f2 w w2" if "create_session e (?w o') ?em p = (x, w2)" for o' p x w2
      by (rule opens_trans_keeps [OF keeps_otp opens_create [where ?f1.0 = ?f1, OF that f1]])
    have f2: "?f2 ?em" if "cfg_DisableTOTP (sv_Cfg (wd_srv w))"
      using that f1 by (simp add: second_factor_def)
    have cc: "opens ?f1 ?f2 w (complete_session w2 (s_ID s))"
      if "create_session e (?w o') ?em p = (Some s, w2)" "cfg_DisableTOTP (sv_Cfg (wd_srv w))" for o' p s w2
      by (rule opens_trans_keeps [OF keeps_otp opens_create_complete [where ?f1.0 = ?f1 and ?f2.0 = ?f2, OF that(1) f1 f2 [OF that(2)]]])
    have "opens ?f1 ?f2 w (auditFail r ev d (?w o'))" for ev d o'
      by (rule opens_keeps [OF keeps_trans [OF keeps_otp keeps_audit]])
    note [intro] = this c cc
    show ?thesis
      using True by (auto simp: handleCodeVerifySubmit_def Let_def opens_keeps keeps_audit split: option.split prod.split)
  next
    case False
    have "opens ?f1 ?f2 w (auditFail r ev d (?w o'))" for ev d o'
      by (rule opens_keeps [OF keeps_trans [OF keeps_otp keeps_audit]])
    note [intro] = this
    show ?thesis
      using False
      by (auto simp: handleCodeVerifySubmit_def Let_def otp_ok_def otpEnabled_def opens_keeps keeps_audit
          Verify_accepts [symmetric] split: option.split prod.split)
  qed
qed

lemma opens_complete:
  assumes "ms_m (sv_Sessions (wd_srv w)) i = Some x" "f2 (s_Email x)"
  shows "opens f1 f2 w (complete_session w i)"
proof -
  have "ms_m (sv_Sessions (wd_srv (complete_session w i))) =
      (ms_m (sv_Sessions (wd_srv w)))(i \<mapsto> x\<lparr>s_TwoFADone := True\<rparr>)"
    using assms(1) by (simp add: complete_session_map)
  then show ?thesis
    unfolding opens_def using assms by (simp add: fun_upd_apply)
qed

lemma session_sid:
  assumes "world_ok w" "session e r w = (Some x, w1)"
  shows "ms_m (sv_Sessions (wd_srv w1)) (s_ID x) = Some x" "sv_Users (wd_srv w1) = sv_Users (wd_srv w)"
proof -
  obtain v x0 where v: "ms_m (sv_Sessions (wd_srv w)) v = Some x0" "x = x0\<lparr>s_LastSeen := en_now e\<rparr>"
      "ms_m (sv_Sessions (wd_srv w1)) = (ms_m (sv_Sessions (wd_srv w)))(v \<mapsto> x)"
    using session_fst [OF assms(2)] by blast
  from assms(1) v(1) have "s_ID x0 = v" by (simp add: world_ok_def store_ok_def)
  with v show "ms_m (sv_Sessions (wd_srv w1)) (s_ID x) = Some x" by simp
  show "sv_Users (wd_srv w1) = sv_Users (wd_srv w)"
    using session_users [of e r w] assms(2) by simp
qed

lemma opens_TOTP:
  assumes "world_ok w"
  shows "opens (first_factor TOTPSubmitR e r w) (second_factor TOTPSubmitR e r w) w (snd (handleTOTPSubmit e r w))"
proof (cases "session e r w")
  case (Pair o1 w1)
  then have k: "keeps w w1" by (rule keeps_session_eq)
  show ?thesis
  proof (cases o1)
    case None
    with Pair k show ?thesis by (simp add: handleTOTPSubmit_def opens_keeps)
  next
    case (Some x)
    note s = session_sid [OF assms Pair [unfolded Some]]
    have "opens (first_factor TOTPSubmitR e r w) (second_factor TOTPSubmitR e r w) w (complete_session w1 (s_ID x))"
      if "totp_ok e r w (s_Email x)"
      by (rule opens_trans_keeps [OF k opens_complete [OF s(1)]]) (use that in \<open>simp add: second_factor_def\<close>)
    moreover have "opens f1 f2 w (auditFail r ev d w1)" for f1 f2 ev d
      by (rule opens_keeps [OF keeps_trans [OF k keeps_audit]])
    ultimately show ?thesis
      using k s by (simp add: handleTOTPSubmit_def Pair Some Let_def totp_ok_def opens_keeps)
  qed
qed

lemma keeps_oidc_audit: "keeps w (auditFail r ev d (set_oidc w i p))"
  by (rule keeps_trans [OF keeps_oidc keeps_audit])

lemma opens_OIDC:
  "opens (first_factor OIDCCallbackR e r w) (second_factor OIDCCallbackR e r w) w (snd (handleOIDCCallback e r w))"
proof -
  let ?f1 = "first_factor OIDCCallbackR e r w" and ?f2 = "second_factor OIDCCallbackR e r w"
  have c: "opens ?f1 ?f2 w w2" if "create_session e (set_oidc w i p) em pr = (x, w2)" "oidc_ok e r w em" for i p em pr x w2
    by (rule opens_trans_keeps [OF keeps_oidc opens_create [where ?f1.0 = ?f1, OF that(1)]])
       (use that(2) in \<open>simp add: first_factor_def\<close>)
  have cc: "opens ?f1 ?f2 w (complete_session w2 (s_ID s))"
    if "create_session e (set_oidc w i p) em pr = (Some s, w2)" "oidc_ok e r w em" for i p em pr s w2
    by (rule opens_trans_keeps [OF keeps_oidc opens_create_complete [where ?f1.0 = ?f1, OF that(1)]])
       (use that(2) in \<open>simp_all add: first_factor_def second_factor_def\<close>)
  have u: "sv_Users (wd_srv (set_oidc w i p)) = sv_Users (wd_srv w)" for i p
    by (simp add: set_oidc_def)
  have ok: "oidc_ok e r w (idn_Email idn)"
    if "oidcFor (wd_srv w) (rq_PathValue r ''provider'') = Some p" "readOIDCState e r = Some st"
      "os_Provider st = rq_PathValue r ''provider''" "rq_Query r ''state'' = os_State st"
      "Exchange (en_oidc e) p (rq_Query r ''code'') (os_Nonce st) = (Inr idn, p')"
      "Users.Get (sv_Users (wd_srv w)) (idn_Email idn) = Some u" "usr_Provider u = rq_PathValue r ''provider''"
    for p st idn p' u
    using that unfolding oidc_ok_def by fastforce
  show ?thesis
    unfolding handleOIDCCallback_def
    by (simp add: Let_def opens_keeps keeps_audit keeps_oidc_audit u split: option.split sum.split prod.split)
       (meson c cc ok)
qed

text \<open>One request served in a good world: every session it leaves has its factors accounted for.\<close>

lemma serve_opens:
  assumes "world_ok w"
  shows "opens (first_factor rt e r w) (second_factor rt e r w) w (snd (serve rt e r w))"
proof (cases "completes rt")
  case True
  then show ?thesis
    using opens_LoginSubmit opens_CodeVerify opens_TOTP [OF assms] opens_OIDC by (cases rt) auto
next
  case False
  then show ?thesis by (intro opens_keeps keeps_serve)
qed


subsection \<open>Runs of the server\<close>

lemma world_ok_keeps: "keeps w w1 \<Longrightarrow> world_ok w \<Longrightarrow> world_ok w1"
  by (simp add: keeps_def)

lemma world_ok_ldap:
  "ldapLogin e lps em pw nxt w = Some (rp, w') \<Longrightarrow> world_ok w \<Longrightarrow> world_ok w'"
  by (induction lps) (auto intro: world_ok_create world_ok_complete split: sum.splits option.splits prod.splits)

lemma world_ok_completers:
  assumes "world_ok w"
  shows "world_ok (snd (handleLoginSubmit e r w))" "world_ok (snd (handleCodeVerifySubmit e r w))"
    "world_ok (snd (handleTOTPSubmit e r w))" "world_ok (snd (handleOIDCCallback e r w))"
proof -
  have o: "world_ok (w\<lparr>wd_srv := (wd_srv w)\<lparr>sv_OTP := x\<rparr>\<rparr>)" for x
    using assms by (rule world_ok_keeps [OF keeps_otp])
  have oi: "world_ok (set_oidc w i p)" for i p
    using assms by (rule world_ok_keeps [OF keeps_oidc])
  have a: "world_ok w1 \<Longrightarrow> world_ok (auditFail r ev d w1)" for ev d w1
    by (rule world_ok_keeps [OF keeps_audit])
  note rules = a o oi world_ok_create [OF _ assms] world_ok_create [OF _ o] world_ok_create [OF _ oi] world_ok_complete
  show "world_ok (snd (handleLoginSubmit e r w))"
    using assms by (auto simp: handleLoginSubmit_def Let_def intro: rules world_ok_ldap
        split: option.split sum.split prod.split)
  show "world_ok (snd (handleCodeVerifySubmit e r w))"
    using assms by (auto simp: handleCodeVerifySubmit_def Let_def intro: rules split: option.split prod.split)
  show "world_ok (snd (handleTOTPSubmit e r w))"
    using assms by (auto simp: handleTOTPSubmit_def Let_def intro: a world_ok_complete
        dest: keeps_session_eq world_ok_keeps split: option.split prod.split)
  show "world_ok (snd (handleOIDCCallback e r w))"
    unfolding handleOIDCCallback_def
    using assms by (simp add: Let_def a oi split: option.split sum.split prod.split) (meson rules)
qed

lemma world_ok_serve: "world_ok w \<Longrightarrow> world_ok (snd (serve rt e r w))"
proof (cases "completes rt")
  case True
  then show "world_ok w \<Longrightarrow> ?thesis"
    by (cases rt) (simp_all add: world_ok_completers)
next
  case False
  then show "world_ok w \<Longrightarrow> ?thesis"
    by (rule world_ok_keeps [OF keeps_serve])
qed

text \<open>
  A run is the list of requests served since the start, the latest first, each with the world
  it was served in.  The requests of one server are served in some order: Go's handlers run
  concurrently, but each of their accesses to the stores is under the store's own mutex.
\<close>

type_synonym event = "route \<times> Env \<times> Req \<times> World"

inductive run :: "World \<Rightarrow> event list \<Rightarrow> World \<Rightarrow> bool" for w0 where
  run_start: "run w0 [] w0"
| run_serve: "run w0 tr w \<Longrightarrow> run w0 ((rt, e, r, w) # tr) (snd (serve rt e r w))"

inductive_simps run_Nil [simp]: "run w0 [] w"
inductive_cases run_ConsE [elim!]: "run w0 (ev # tr) w"

lemma run_world_ok: "run w0 tr w \<Longrightarrow> world_ok w0 \<Longrightarrow> world_ok w"
  by (induction rule: run.induct) (simp_all add: world_ok_serve)

lemma run_first:
  assumes "run w0 tr w" "world_ok w0" "ms_m (sv_Sessions (wd_srv w0)) = Map.empty"
    and "ms_m (sv_Sessions (wd_srv w)) sid = Some x"
  shows "\<exists>(rt, e, r, w1) \<in> set tr. first_factor rt e r w1 (s_Email x)"
  using assms
proof (induction arbitrary: x rule: run.induct)
  case (run_serve tr w rt e r)
  from serve_opens [OF run_world_ok [OF run_serve.hyps run_serve.prems(1)], of rt e r] run_serve.prems(3)
  consider (old) x1 where "ms_m (sv_Sessions (wd_srv w)) sid = Some x1" "s_Email x1 = s_Email x"
    | (new) "first_factor rt e r w (s_Email x)"
    unfolding opens_def by blast
  then show ?case
  proof cases
    case old
    with run_serve.IH [of x1] run_serve.prems show ?thesis by auto
  next
    case new
    then show ?thesis by auto
  qed
qed simp

lemma run_second:
  assumes "run w0 tr w" "world_ok w0" "ms_m (sv_Sessions (wd_srv w0)) = Map.empty"
    and "ms_m (sv_Sessions (wd_srv w)) sid = Some x" "s_TwoFADone x"
  shows "\<exists>(rt, e, r, w1) \<in> set tr. second_factor rt e r w1 (s_Email x)"
  using assms
proof (induction arbitrary: x rule: run.induct)
  case (run_serve tr w rt e r)
  from serve_opens [OF run_world_ok [OF run_serve.hyps run_serve.prems(1)], of rt e r] run_serve.prems(3,4)
  consider (old) x1 where "ms_m (sv_Sessions (wd_srv w)) sid = Some x1" "s_Email x1 = s_Email x" "s_TwoFADone x1"
    | (new) "second_factor rt e r w (s_Email x)"
    unfolding opens_def by blast
  then show ?case
  proof cases
    case old
    with run_serve.IH [of x1] run_serve.prems show ?thesis by auto
  next
    case new
    then show ?thesis by auto
  qed
qed simp


section \<open>Properties\<close>


text \<open>A run of two requests: a password login with a second factor, and its code.\<close>

definition login_world :: World where
  "login_world = sample_world\<lparr>wd_srv := sample_server\<lparr>sv_Sessions := NewMemoryStore 0 0,
     sv_LDAP := [\<lparr>ld_id = ''ldap'', ld_url = ''ldap://x'', ld_bindDNTemplate = ''uid=%s'', ld_startTLS = False, ld_insecureSkip = False\<rparr>]\<rparr>\<rparr>"

definition login_env :: Env where
  "login_env = sample_env\<lparr>en_ldap := \<lparr>lnet_dial = (\<lambda>_. True), lnet_starttls = (\<lambda>_. True), lnet_bind = (\<lambda>_ _ p. p = ''pw'')\<rparr>\<rparr>"

definition login_req :: Req where
  "login_req = sample_req\<lparr>rq_Post := (\<lambda>k. if k = ''email'' then [''b@x''] else if k = ''password'' then [''pw''] else [])\<rparr>"

lemma login_completes:
  obtains x where "ms_m (sv_Sessions (wd_srv (snd (serve LoginSubmitR login_env login_req login_world)))) ''sid'' = Some x"
    "s_TwoFADone x" "s_Email x = ''b@x''"
proof -
  let ?w = "snd (serve LoginSubmitR login_env login_req login_world)"
  have f: "PostFormValue login_req ''email'' = ''b@x''" "PostFormValue login_req ''password'' = ''pw''" "\<not> rq_badForm login_req"
    by (simp_all add: PostFormValue_def login_req_def sample_req_def)
  have loc: "Local_Authenticate k (sv_Users (wd_srv login_world)) ''b@x'' ''pw'' = Some (Inl ErrInvalidCredentials)" for k
    by (simp add: Local_Authenticate_def login_world_def sample_server_def NewUserDirectory_def Replace_def Users.Get_def sample_user_def)
  have ld: "\<exists>i. LDAP_Authenticate (en_ldap login_env) lp ''b@x'' ''pw'' = Inr i" if "\<not> ld_startTLS lp" for lp
    using that by (simp add: LDAP_Authenticate_def login_env_def TrimSpace_def TrimFunc_def TrimRightFunc_def is_space_def)
  show thesis
  proof -
    have id: "en_newid login_env = Some ''sid''" by (simp add: login_env_def sample_env_def)
    then have "fst (create_session login_env login_world ''b@x'' ''ldap'') \<noteq> None"
      by (simp add: create_session_def Create_def Let_def)
    then obtain s w1 where c: "create_session login_env login_world ''b@x'' ''ldap'' = (Some s, w1)"
      by (metis eq_fst_iff not_None_eq)
    have s: "s_ID s = ''sid''" "s_Email s = ''b@x''"
      using create_session_entry [OF c] id by simp_all
    have l: "sv_LDAP (wd_srv login_world) =
        [\<lparr>ld_id = ''ldap'', ld_url = ''ldap://x'', ld_bindDNTemplate = ''uid=%s'', ld_startTLS = False, ld_insecureSkip = False\<rparr>]"
      by (simp add: login_world_def)
    obtain i where "LDAP_Authenticate (en_ldap login_env)
        \<lparr>ld_id = ''ldap'', ld_url = ''ldap://x'', ld_bindDNTemplate = ''uid=%s'', ld_startTLS = False, ld_insecureSkip = False\<rparr> ''b@x'' ''pw'' = Inr i"
      using ld by fastforce
    then have w: "?w = complete_session w1 ''sid''"
      using f loc s by (simp add: handleLoginSubmit_def Let_def l c)
    have "ms_m (sv_Sessions (wd_srv w1)) ''sid'' = Some s"
      using create_session_map(1) [OF c] s by simp
    then show thesis
      using that s unfolding w by (simp add: complete_session_map)
  qed
qed

lemma login_run:
  "run login_world [(LoginSubmitR, login_env, login_req, login_world)]
     (snd (serve LoginSubmitR login_env login_req login_world))"
  "world_ok login_world" "ms_m (sv_Sessions (wd_srv login_world)) = Map.empty"
  by (intro run_serve run_start)
    (simp_all add: world_ok_def login_world_def sample_server_def dir_ok_New store_ok_def NewMemoryStore_def)


text \<open>
  C8: in every reachable world sessions are filed under their own identifiers and users under
  their own emails.
\<close>

theorem run_invariant:
  assumes "run w0 tr w" "world_ok w0"
  shows "(\<forall>i x. ms_m (sv_Sessions (wd_srv w)) i = Some x \<longrightarrow> s_ID x = i) \<and>
     (\<forall>i u. Users.Get (sv_Users (wd_srv w)) i = Some u \<longrightarrow> usr_Email u = i)"
  using run_world_ok [OF assms] Get_email [of "sv_Users (wd_srv w)"] by (simp add: world_ok_def store_ok_def)

theorem run_invariant_witness:
  "map_option s_ID (ms_m (sv_Sessions (wd_srv (snd (serve LoginSubmitR login_env login_req login_world)))) ''sid'') = Some ''sid''"
proof -
  obtain x where "ms_m (sv_Sessions (wd_srv (snd (serve LoginSubmitR login_env login_req login_world)))) ''sid'' = Some x"
    by (rule login_completes)
  then show ?thesis using run_invariant [OF login_run(1,2)] by simp
qed

text \<open>
  C24: a logout ends the session: no later request with the same cookie value, from any client
  and at any time, is logged in by the world the logout leaves.
\<close>

theorem logout_ends:
  assumes "world_ok w" "fst (session e r w) \<noteq> None"
    and "rq_Cookie r' (ses_CookieName (cfg_Session (sv_Cfg (wd_srv w)))) =
         rq_Cookie r (ses_CookieName (cfg_Session (sv_Cfg (wd_srv w))))"
  shows "fst (session e' r' (snd (serve LogoutR e r w))) = None"
proof -
  obtain x w1 where se: "session e r w = (Some x, w1)"
    using assms(2) by (metis eq_fst_iff not_None_eq)
  obtain v x0 where v: "rq_Cookie r (ses_CookieName (cfg_Session (sv_Cfg (wd_srv w)))) = Some v"
      "ms_m (sv_Sessions (wd_srv w)) v = Some x0" "x = x0\<lparr>s_LastSeen := en_now e\<rparr>"
      "wd_srv w1 = (wd_srv w)\<lparr>sv_Sessions := sv_Sessions (wd_srv w1)\<rparr>"
    using session_fst [OF se] by blast
  have "s_ID x = v" using assms(1) v(2,3) by (simp add: world_ok_def store_ok_def)
  then have lo: "snd (serve LogoutR e r w) = delete_session w1 v"
    by (simp add: handleLogout_def se)
  have "sv_Cfg (wd_srv w1) = sv_Cfg (wd_srv w)"
    using arg_cong [OF v(4), of sv_Cfg] by simp
  then have "fst (session e' r' (delete_session w1 v)) = snd (Sessions.Get (en_now e') (Delete (sv_Sessions (wd_srv w1)) v) v)"
    using v(1) assms(3) by (simp add: session_def delete_session_def with_sessions_def Let_def case_prod_unfold)
  also have "\<dots> = None"
    using mem.get_after_del [of "en_now e'" "sv_Sessions (wd_srv w1)" v] by (metis prod.collapse)
  finally show ?thesis unfolding lo .
qed

theorem logout_ends_witness:
  "fst (session sample_env sample_req (snd (serve LogoutR sample_env sample_req sample_world))) = None"
proof (rule logout_ends)
  show "world_ok sample_world"
    by (simp add: world_ok_def sample_world_def sample_server_def dir_ok_New store_ok_def sample_session_def)
  show "fst (session sample_env sample_req sample_world) \<noteq> None"
    using session_carries [of sample_env sample_req sample_world "sample_session\<lparr>s_LastSeen := en_now sample_env\<rparr>"]
    by (force simp: carries_def sample_req_def sample_world_def sample_server_def expired_def NewMemoryStore_def)
qed simp

end
