(* ===== verification/GoFmt.thy ===== *)
theory GoFmt
  imports Prelude "HOL-Library.Word"
begin

text \<open>
  What the code uses of Go's \<open>fmt\<close> (the verb \<open>%q\<close>) and of \<open>time.Duration\<close>, a count of
  nanoseconds in a 64-bit integer.
\<close>

text \<open>\<open>time.Duration(n) * time.Second\<close>: a large \<open>n\<close> wraps around.\<close>

definition Second :: int where "Second = 10 ^ 9"

definition wrap64 :: "int \<Rightarrow> int" where
  "wrap64 x = sint (word_of_int x :: 64 word)"

text \<open>
  \<open>%q\<close> on the ASCII characters; the bytes of printable non-ASCII characters are kept.
\<close>

definition hex_lower :: "nat \<Rightarrow> char" where
  "hex_lower n = (if n < 10 then char_of (48 + n) else char_of (87 + n))"

definition quote_char :: "char \<Rightarrow> string" where
  "quote_char c =
     (let n = of_char c :: nat in
      if c = CHR 0x22 \<or> c = CHR 0x5C then [CHR 0x5C, c]
      else if 7 \<le> n \<and> n \<le> 13 then [CHR 0x5C, ''abtnvfr'' ! (n - 7)]
      else if n < 32 \<or> n = 127 then [CHR 0x5C, CHR ''x'', hex_lower (n div 16), hex_lower (n mod 16)]
      else [c])"

definition Quote :: "string \<Rightarrow> string" where
  "Quote s = [CHR 0x22] @ concat (map quote_char s) @ [CHR 0x22]"

end
