(* ===== verification/HealthCheck.thy ===== *)
theory HealthCheck
  imports Models GoFmt "HOL-Library.AList"
begin

text \<open>
  The health checker of health/checker.go and its alerts (health/alert.go, notify/notify.go).
  A tick walks over the backends of the moment and probes those that are due; the network is a
  function from the position in the tick, the URL and the timeout to the time of the answer
  and the answer.  The checker's map is an association list, so that \<open>Snapshot\<close> is a
  permutation of its values (Go's map order).  Beside the next state, a tick returns what it
  observed and what it handed to the alerter: the properties compare the two.
\<close>

named_theorems health_simps \<open>steps of the health checker\<close>

subsection \<open>Observed states\<close>

text \<open>The Go type is a string; \<open>NoState\<close> is its zero value.\<close>

datatype HState = NoState | StateUnknown | StateUp | StateDown | StateUnreachable

fun state_text :: "HState \<Rightarrow> string" where
  "state_text NoState = ''''"
| "state_text StateUnknown = ''unknown''"
| "state_text StateUp = ''up''"
| "state_text StateDown = ''down''"
| "state_text StateUnreachable = ''unreachable''"

record Status =
  st_BackendID :: string
  st_Host :: string
  st_URL :: string
  st_State :: HState
  st_LastError :: string
  st_LastCheck :: int

record Checker =
  ck_status :: "(string \<times> Status) list"

definition New_Checker :: Checker where
  "New_Checker = \<lparr>ck_status = []\<rparr>"

subsection \<open>Intervals\<close>

definition seconds_or :: "int \<Rightarrow> int \<Rightarrow> int" where
  "seconds_or n def = (let d = wrap64 (n * Second) in if d \<le> 0 then def * Second else d)"

definition interval :: "Backend \<Rightarrow> int" where
  "interval be = seconds_or (hl_IntervalSeconds (be_Health be)) 30"

definition probe_timeout :: "Backend \<Rightarrow> int" where
  "probe_timeout be = seconds_or (hl_TimeoutSeconds (be_Health be)) 5"

subsection \<open>Probing\<close>

datatype answer = BadRequest string | NoAnswer string | Answered int

type_synonym network = "nat \<Rightarrow> string \<Rightarrow> int \<Rightarrow> int \<times> answer"
type_synonym alert = "Status \<times> HState"

fun judge :: "answer \<Rightarrow> HState \<times> string" where
  "judge (BadRequest err) = (StateUnreachable, err)"
| "judge (NoAnswer err) = (StateUnreachable, err)"
| "judge (Answered code) =
     (if 200 \<le> code \<and> code < 300 then (StateUp, '''') else (StateDown, ''HTTP '' @ Itoa code))"

definition probe :: "network \<Rightarrow> nat \<Rightarrow> Backend \<Rightarrow> HState \<Rightarrow> Checker \<Rightarrow> Checker \<times> Status \<times> alert list" where
  "probe net i be prev c =
     (let (at, ans) = net i (hl_URL (be_Health be)) (probe_timeout be);
          (state, err) = judge ans;
          st = \<lparr>st_BackendID = be_ID be, st_Host = be_Host be, st_URL = hl_URL (be_Health be),
                st_State = state, st_LastError = err, st_LastCheck = at\<rparr>
      in (c\<lparr>ck_status := AList.update (be_ID be) st (ck_status c)\<rparr>, st,
          if prev \<noteq> NoState \<and> prev \<noteq> StateUnknown \<and> prev \<noteq> state then [(st, prev)] else []))"

fun tick_loop :: "network \<Rightarrow> int \<Rightarrow> nat \<Rightarrow> Backend list \<Rightarrow> Checker \<Rightarrow> Checker \<times> Status list \<times> alert list" where
  "tick_loop net now i [] c = (c, [], [])"
| "tick_loop net now i (be # bes) c =
     (if hl_URL (be_Health be) = '''' then tick_loop net now (Suc i) bes c
      else
        let seen = map_of (ck_status c) (be_ID be) in
        if (case seen of None \<Rightarrow> False | Some prev \<Rightarrow> now - st_LastCheck prev < interval be)
        then tick_loop net now (Suc i) bes c
        else
          let (c1, st, al) = probe net i be (case seen of None \<Rightarrow> NoState | Some prev \<Rightarrow> st_State prev) c;
              (c2, log, als) = tick_loop net now (Suc i) bes c1
          in (c2, st # log, al @ als))"

definition tick :: "network \<Rightarrow> int \<Rightarrow> Backend list \<Rightarrow> Checker \<Rightarrow> Checker \<times> Status list \<times> alert list" where
  "tick net now backends c = tick_loop net now 0 backends c"

text \<open>\<open>Start\<close>: a tick at once and one per timer event, until the context is cancelled.\<close>

fun Start :: "(network \<times> int \<times> Backend list) list \<Rightarrow> Checker \<Rightarrow> Checker \<times> Status list \<times> alert list" where
  "Start [] c = (c, [], [])"
| "Start ((net, now, backends) # ts) c =
     (let (c1, log1, al1) = tick net now backends c;
          (c2, log2, al2) = Start ts c1
      in (c2, log1 @ log2, al1 @ al2))"

definition Snapshot :: "Checker \<Rightarrow> Status list" where
  "Snapshot c = map snd (ck_status c)"

subsection \<open>Alerts\<close>

datatype channel = LogChannel | TelegramChannel string string | EmailChannel EmailCfg SMTPSecret

definition NewAlerter :: "AlertingCfg \<Rightarrow> Secrets \<Rightarrow> channel list" where
  "NewAlerter cfg sec =
     [LogChannel] @
     (if tgc_Enabled (alc_Telegram cfg) \<and> tgs_BotToken (sec_Telegram sec) \<noteq> '''' \<and> tgc_ChatID (alc_Telegram cfg) \<noteq> ''''
      then [TelegramChannel (tgs_BotToken (sec_Telegram sec)) (tgc_ChatID (alc_Telegram cfg))] else []) @
     (if emc_Enabled (alc_Email cfg) \<and> emc_SMTPHost (alc_Email cfg) \<noteq> '''' \<and> emc_To (alc_Email cfg) \<noteq> []
      then [EmailChannel (alc_Email cfg) (sec_SMTP sec)] else [])"

definition arrow :: string where "arrow = [CHR 0xE2, CHR 0x86, CHR 0x92]"

definition suffix_text :: "string \<Rightarrow> string" where
  "suffix_text e = (if e = '''' then '''' else '' ('' @ e @ '')'')"

definition message :: "Status \<Rightarrow> HState \<Rightarrow> string" where
  "message cur prev =
     ''[Xal-Tor-Ka] backend '' @ Quote (st_BackendID cur) @ '' ('' @ st_Host cur @ ''): '' @
     state_text prev @ '' '' @ arrow @ '' '' @ state_text (st_State cur) @ suffix_text (st_LastError cur)"

text \<open>What leaves the program: a log record, a Telegram call, a mail.\<close>

record mail =
  ml_addr :: string
  ml_auth :: "(string \<times> string \<times> string) option"
  ml_from :: string
  ml_to :: "string list"
  ml_body :: string

datatype delivery = Logged Status HState | Telegram string string string | Mail mail

definition crlf :: string where "crlf = [CHR 0x0D, CHR 0x0A]"

definition SendTelegram :: "string \<Rightarrow> string \<Rightarrow> string \<Rightarrow> delivery" where
  "SendTelegram token chatID txt = Telegram (''https://api.telegram.org/bot'' @ token @ ''/sendMessage'') chatID txt"

definition SendEmail :: "EmailCfg \<Rightarrow> SMTPSecret \<Rightarrow> string \<Rightarrow> string \<Rightarrow> delivery" where
  "SendEmail cfg sec subject txt =
     (let host = emc_SMTPHost cfg; name = hd (Split host CHR '':'') in
      Mail \<lparr>ml_addr = (if CHR '':'' \<notin> set host then host @ '':587'' else host),
            ml_auth = (if sms_Username sec \<noteq> '''' then Some (sms_Username sec, sms_Password sec, name) else None),
            ml_from = emc_From cfg, ml_to = emc_To cfg,
            ml_body = ''Subject: '' @ subject @ crlf @ ''From: '' @ emc_From cfg @ crlf @
              ''To: '' @ Join (emc_To cfg) '', '' @ crlf @ crlf @ txt @ crlf\<rparr>)"

fun Notify :: "Status \<Rightarrow> HState \<Rightarrow> channel \<Rightarrow> delivery" where
  "Notify cur prev LogChannel = Logged cur prev"
| "Notify cur prev (TelegramChannel token chatID) = SendTelegram token chatID (message cur prev)"
| "Notify cur prev (EmailChannel cfg sec) = SendEmail cfg sec ''Xal-Tor-Ka alert'' (message cur prev)"

definition Notify_all :: "channel list \<Rightarrow> alert list \<Rightarrow> delivery list" where
  "Notify_all chans als = concat (map (\<lambda>(cur, prev). map (Notify cur prev) chans) als)"

text \<open>The notifier of notify/notify.go: the same channels without the log, a subject line first.\<close>

definition notify_New :: "AlertingCfg \<Rightarrow> Secrets \<Rightarrow> channel list" where
  "notify_New a sec =
     (if tgc_Enabled (alc_Telegram a) \<and> tgs_BotToken (sec_Telegram sec) \<noteq> '''' \<and> tgc_ChatID (alc_Telegram a) \<noteq> ''''
      then [TelegramChannel (tgs_BotToken (sec_Telegram sec)) (tgc_ChatID (alc_Telegram a))] else []) @
     (if emc_Enabled (alc_Email a) \<and> emc_SMTPHost (alc_Email a) \<noteq> '''' \<and> emc_To (alc_Email a) \<noteq> []
      then [EmailChannel (alc_Email a) (sec_SMTP sec)] else [])"

fun Send_one :: "string \<Rightarrow> string \<Rightarrow> channel \<Rightarrow> delivery list" where
  "Send_one subject txt LogChannel = []"
| "Send_one subject txt (TelegramChannel token chatID) =
     [SendTelegram token chatID (if subject \<noteq> '''' then subject @ [CHR 0x0A] @ txt else txt)]"
| "Send_one subject txt (EmailChannel cfg sec) = [SendEmail cfg sec subject txt]"

definition Send :: "channel list \<Rightarrow> string \<Rightarrow> string \<Rightarrow> delivery list" where
  "Send m subject txt = concat (map (Send_one subject txt) m)"

subsection \<open>Lemmas: the checker follows its observations\<close>

definition about :: "string \<Rightarrow> Status list \<Rightarrow> Status list" where
  "about b log = filter (\<lambda>s. st_BackendID s = b) log"

definition alerts_about :: "string \<Rightarrow> alert list \<Rightarrow> alert list" where
  "alerts_about b als = filter (\<lambda>(s, _). st_BackendID s = b) als"

definition last_about :: "string \<Rightarrow> Status list \<Rightarrow> Status option" where
  "last_about b log = (if about b log = [] then None else Some (last (about b log)))"

text \<open>The reference for alerts: the places where two successive observations differ.\<close>

definition changes :: "Status list \<Rightarrow> alert list" where
  "changes log = map (\<lambda>(x, y). (y, st_State x)) (filter (\<lambda>(x, y). st_State x \<noteq> st_State y) (zip log (tl log)))"

lemma zip_tl_snoc: "xs \<noteq> [] \<Longrightarrow> zip (xs @ [y]) (tl (xs @ [y])) = zip xs (tl xs) @ [(last xs, y)]"
  by (induction xs rule: induct_list012) auto

lemma changes_snoc:
  "changes (log @ [y]) = changes log @ (if log \<noteq> [] \<and> st_State (last log) \<noteq> st_State y then [(y, st_State (last log))] else [])"
  by (cases "log = []") (simp_all add: changes_def zip_tl_snoc del: tl_append2)

lemma about_simps [health_simps]:
  "about b [] = []" "about b (log @ log') = about b log @ about b log'"
  "about b (st # log) = (if st_BackendID st = b then st # about b log else about b log)"
  "alerts_about b [] = []" "alerts_about b (als @ als') = alerts_about b als @ alerts_about b als'"
  "alerts_about b ((st, prev) # als) = (if st_BackendID st = b then (st, prev) # alerts_about b als else alerts_about b als)"
  by (simp_all add: about_def alerts_about_def)

lemma judge_states: "judge ans = (s, err) \<Longrightarrow> s \<noteq> NoState \<and> s \<noteq> StateUnknown"
  by (cases ans) (auto split: if_splits)

text \<open>The map after a log: the last observation of every backend; observations are judged.\<close>

definition follows :: "Checker \<Rightarrow> Status list \<Rightarrow> bool" where
  "follows c log \<longleftrightarrow> (\<forall>b. map_of (ck_status c) b = last_about b log) \<and>
     (\<forall>s \<in> set log. st_State s \<noteq> NoState \<and> st_State s \<noteq> StateUnknown)"

lemma follows_last:
  assumes "follows c log" "map_of (ck_status c) b = Some s"
  shows "about b log \<noteq> []" "s = last (about b log)" "st_State s \<noteq> NoState" "st_State s \<noteq> StateUnknown"
proof -
  show l: "about b log \<noteq> []" "s = last (about b log)"
    using assms by (simp_all add: follows_def last_about_def split: if_splits)
  then have "s \<in> set log" by (metis about_def filter_is_subset last_in_set subsetD)
  with assms(1) show "st_State s \<noteq> NoState" "st_State s \<noteq> StateUnknown" by (simp_all add: follows_def)
qed

definition prev_state :: "Checker \<Rightarrow> string \<Rightarrow> HState" where
  "prev_state c b = (case map_of (ck_status c) b of None \<Rightarrow> NoState | Some p \<Rightarrow> st_State p)"

lemma follows_probe:
  assumes fo: "follows c log" and pr: "probe net i be (prev_state c (be_ID be)) c = (c', st, al)"
  shows "follows c' (log @ [st])"
    and "changes (about b (log @ [st])) = changes (about b log) @ alerts_about b al"
    and "st_BackendID st = be_ID be" "st_LastCheck st = fst (net i (hl_URL (be_Health be)) (probe_timeout be))"
proof -
  obtain at ans where n: "net i (hl_URL (be_Health be)) (probe_timeout be) = (at, ans)" by fastforce
  obtain state err where j: "judge ans = (state, err)" by fastforce
  have st: "st = \<lparr>st_BackendID = be_ID be, st_Host = be_Host be, st_URL = hl_URL (be_Health be),
      st_State = state, st_LastError = err, st_LastCheck = at\<rparr>"
    and c': "c' = c\<lparr>ck_status := AList.update (be_ID be) st (ck_status c)\<rparr>"
    using pr by (auto simp: probe_def n j Let_def)
  show "follows c' (log @ [st])"
    using fo judge_states [OF j]
    by (auto simp: follows_def c' update_conv' last_about_def health_simps st)
  show "changes (about b (log @ [st])) = changes (about b log) @ alerts_about b al"
  proof (cases "map_of (ck_status c) (be_ID be)")
    case None
    then have "about (be_ID be) log = []"
      using fo by (simp add: follows_def last_about_def split: if_splits)
    moreover have "al = []" using pr None by (auto simp: probe_def n j prev_state_def Let_def)
    ultimately show ?thesis by (auto simp: health_simps changes_snoc st)
  next
    case (Some p)
    note p = follows_last [OF fo Some]
    have "al = (if st_State p \<noteq> state then [(st, st_State p)] else [])"
      using pr Some p(3,4) st by (auto simp: probe_def n j prev_state_def Let_def)
    with p(1,2) show ?thesis by (auto simp: health_simps changes_snoc st)
  qed
  show "st_BackendID st = be_ID be" "st_LastCheck st = fst (net i (hl_URL (be_Health be)) (probe_timeout be))"
    by (simp_all add: st n)
qed

text \<open>The observations of a loop extend a log that the checker follows.\<close>

lemma follows_tick:
  "tick_loop net now i bes c = (c', log, als) \<Longrightarrow> follows c pre \<Longrightarrow>
     follows c' (pre @ log) \<and> changes (about b (pre @ log)) = changes (about b pre) @ alerts_about b als"
proof (induction net now i bes c arbitrary: c' log als pre rule: tick_loop.induct)
  case (1 net now i c)
  then show ?case by (simp add: health_simps)
next
  case (2 net now i be bes c)
  show ?case
  proof (cases "hl_URL (be_Health be) = '''' \<or>
      (case map_of (ck_status c) (be_ID be) of None \<Rightarrow> False | Some prev \<Rightarrow> now - st_LastCheck prev < interval be)")
    case True
    with 2 show ?thesis by (auto simp: Let_def split: if_splits)
  next
    case False
    obtain c1 st al where pr: "probe net i be (prev_state c (be_ID be)) c = (c1, st, al)"
      by (metis prod_cases3)
    obtain c2 log2 als2 where tk: "tick_loop net now (Suc i) bes c1 = (c2, log2, als2)"
      by (metis prod_cases3)
    have res: "c' = c2" "log = st # log2" "als = al @ als2"
      using "2.prems"(1) False pr tk by (auto simp: Let_def prev_state_def)
    note fp = follows_probe [OF "2.prems"(2) pr]
    have "follows c2 ((pre @ [st]) @ log2) \<and>
        changes (about b ((pre @ [st]) @ log2)) = changes (about b (pre @ [st])) @ alerts_about b als2"
      using False pr tk fp(1) by (intro "2.IH"(3)) (auto simp: prev_state_def)
    with fp(2) [of b] show ?thesis by (simp add: res health_simps)
  qed
qed

lemma follows_Start:
  "Start ts c = (c', log, als) \<Longrightarrow> follows c pre \<Longrightarrow>
     follows c' (pre @ log) \<and> changes (about b (pre @ log)) = changes (about b pre) @ alerts_about b als"
proof (induction ts c arbitrary: c' log als pre rule: Start.induct)
  case (1 c)
  then show ?case by (simp add: health_simps)
next
  case (2 net now backends ts c)
  obtain c1 log1 als1 where t: "tick net now backends c = (c1, log1, als1)" by (metis prod_cases3)
  obtain c2 log2 als2 where s: "Start ts c1 = (c2, log2, als2)" by (metis prod_cases3)
  have res: "c' = c2" "log = log1 @ log2" "als = als1 @ als2"
    using "2.prems"(1) by (auto simp: t s)
  have "follows c1 (pre @ log1)" "changes (about b (pre @ log1)) = changes (about b pre) @ alerts_about b als1"
    using follows_tick [of net now 0 backends c c1 log1 als1 pre b] t "2.prems"(2) by (simp_all add: tick_def)
  with "2.IH" [OF t [symmetric] refl refl s, of "pre @ log1"] show ?case by (simp add: res health_simps)
qed

lemma follows_New: "follows New_Checker []"
  by (simp add: follows_def New_Checker_def last_about_def about_def)

text \<open>Two observations of a backend are at least its interval apart.\<close>

definition apart :: "int \<Rightarrow> Status list \<Rightarrow> bool" where
  "apart d log \<longleftrightarrow> successively (\<lambda>x y. st_LastCheck x + d \<le> st_LastCheck y) log"

lemma apart_snoc:
  "apart d (log @ [y]) \<longleftrightarrow> apart d log \<and> (log \<noteq> [] \<longrightarrow> st_LastCheck (last log) + d \<le> st_LastCheck y)"
  by (auto simp: apart_def successively_append_iff)

definition well_timed :: "string \<Rightarrow> int \<Rightarrow> network \<times> int \<times> Backend list \<Rightarrow> bool" where
  "well_timed b d = (\<lambda>(net, now, bes). (\<forall>be \<in> set bes. be_ID be = b \<longrightarrow> d \<le> interval be) \<and>
     (\<forall>j url t. now \<le> fst (net j url t)))"

lemma apart_tick:
  assumes "tick_loop net now i bes c = (c', log, als)" "follows c pre" "apart d (about b pre)"
    and "\<And>be. be \<in> set bes \<Longrightarrow> be_ID be = b \<Longrightarrow> d \<le> interval be"
    and "\<And>j url t. now \<le> fst (net j url t)"
  shows "apart d (about b (pre @ log))"
  using assms
proof (induction net now i bes c arbitrary: c' log als pre rule: tick_loop.induct)
  case (1 net now i c)
  then show ?case by simp
next
  case (2 net now i be bes c)
  show ?case
  proof (cases "hl_URL (be_Health be) = '''' \<or>
      (case map_of (ck_status c) (be_ID be) of None \<Rightarrow> False | Some prev \<Rightarrow> now - st_LastCheck prev < interval be)")
    case True
    with 2 show ?thesis by (auto simp: Let_def split: if_splits)
  next
    case False
    obtain c1 st al where pr: "probe net i be (prev_state c (be_ID be)) c = (c1, st, al)"
      by (metis prod_cases3)
    obtain c2 log2 als2 where tk: "tick_loop net now (Suc i) bes c1 = (c2, log2, als2)"
      by (metis prod_cases3)
    have res: "c' = c2" "log = st # log2" "als = al @ als2"
      using "2.prems"(1) False pr tk by (auto simp: Let_def prev_state_def)
    note fp = follows_probe [OF "2.prems"(2) pr]
    have "st_LastCheck (last (about b pre)) + d \<le> st_LastCheck st" if b: "be_ID be = b" "about b pre \<noteq> []"
    proof -
      from b have "map_of (ck_status c) (be_ID be) = Some (last (about b pre))"
        using "2.prems"(2) by (simp add: follows_def last_about_def)
      with False have "interval be \<le> now - st_LastCheck (last (about b pre))" by simp
      moreover have "d \<le> interval be" using "2.prems"(4) b by simp
      moreover have "now \<le> st_LastCheck st" using "2.prems"(5) by (simp add: fp(4))
      ultimately show ?thesis by simp
    qed
    then have "apart d (about b (pre @ [st]))"
      using "2.prems"(3) by (simp add: health_simps apart_snoc fp(3))
    then have "apart d (about b ((pre @ [st]) @ log2))"
      using "2.prems"(4,5) False
      by (intro "2.IH"(3) [OF _ refl _ pr [unfolded prev_state_def, symmetric] refl refl tk fp(1)]) auto
    then show ?thesis by (simp add: res)
  qed
qed

lemma apart_Start:
  assumes "Start ts c = (c', log, als)" "follows c pre" "apart d (about b pre)"
    and "list_all (well_timed b d) ts"
  shows "apart d (about b (pre @ log))"
  using assms
proof (induction ts c arbitrary: c' log als pre rule: Start.induct)
  case (1 c)
  then show ?case by simp
next
  case (2 net now backends ts c)
  obtain c1 log1 als1 where t: "tick net now backends c = (c1, log1, als1)" by (metis prod_cases3)
  obtain c2 log2 als2 where s: "Start ts c1 = (c2, log2, als2)" by (metis prod_cases3)
  have res: "log = log1 @ log2" using "2.prems"(1) by (auto simp: t s)
  have fo: "follows c1 (pre @ log1)"
    using follows_tick [of net now 0 backends c c1 log1 als1 pre] t "2.prems"(2) by (simp add: tick_def)
  have "apart d (about b (pre @ log1))"
    using apart_tick [OF t [unfolded tick_def] "2.prems"(2,3)] "2.prems"(4) by (auto simp: well_timed_def)
  then have "apart d (about b ((pre @ log1) @ log2))"
    using "2.prems"(4) by (intro "2.IH" [OF t [symmetric] refl refl s fo]) auto
  then show ?case by (simp add: res)
qed

text \<open>What a network of constant answers does, for concrete runs.\<close>

definition sample_net :: "int \<Rightarrow> int \<Rightarrow> network" where
  "sample_net now code = (\<lambda>i url t. (now, Answered code))"

definition sample_target :: Backend where
  "sample_target = zero_Backend\<lparr>be_ID := ''svc'', be_Host := ''svc.x'',
     be_Health := \<lparr>hl_URL = ''http://svc/health'', hl_IntervalSeconds = 30, hl_TimeoutSeconds = 5\<rparr>\<rparr>"

lemma sample_interval [simp]: "interval sample_target = 30 * Second" "be_ID sample_target = ''svc''"
  "hl_URL (be_Health sample_target) = ''http://svc/health''" "be_Host sample_target = ''svc.x''"
  by (simp_all add: interval_def seconds_or_def wrap64_def Second_def sample_target_def signed_take_bit_eq_if_positive)

section \<open>Properties\<close>

text \<open>
  C31: over any run of ticks from a fresh checker, whatever the network answers and however the
  list of backends changes, the alerts about a backend are exactly the places where two
  successive observations of it differ: none for the first observation, none repeated, none
  missed.
\<close>

theorem alerts_are_changes:
  assumes "Start ts New_Checker = (c, log, als)"
  shows "alerts_about b als = changes (about b log) \<and> map_of (ck_status c) b = last_about b log"
  using follows_Start [OF assms follows_New, of b] by (simp add: follows_def health_simps changes_def)

theorem alerts_are_changes_witness:
  "\<exists>c log als. Start [(sample_net 0 200, 0, [sample_target]), (sample_net (5 * Second) 503, 5 * Second, [sample_target]),
       (sample_net (40 * Second) 503, 40 * Second, [sample_target])] New_Checker = (c, log, als) \<and>
     map (\<lambda>(s, p). (st_State s, p)) (alerts_about ''svc'' als) = [(StateDown, StateUp)]"
proof -
  obtain c log als where run: "Start [(sample_net 0 200, 0, [sample_target]),
      (sample_net (5 * Second) 503, 5 * Second, [sample_target]),
      (sample_net (40 * Second) 503, 40 * Second, [sample_target])] New_Checker = (c, log, als)"
    by (metis prod_cases3)
  then have "map st_State (about ''svc'' log) = [StateUp, StateDown]" "length log = 2"
    by (auto simp: tick_def probe_def sample_net_def New_Checker_def Let_def Second_def about_def)
  then show ?thesis
    using alerts_are_changes [OF run] run by (auto simp: changes_def about_def length_Suc_conv split: if_splits)
qed

text \<open>
  A backend is never probed twice within its interval, whatever the timer does, when the
  clock does not run backwards during a tick.
\<close>

theorem probes_apart:
  assumes "Start ts New_Checker = (c, log, als)"
    and "list_all (well_timed b d) ts"
  shows "apart d (about b log)"
  using apart_Start [OF assms(1) follows_New _ assms(2)] by (simp add: apart_def about_def)

theorem probes_apart_witness:
  "\<exists>c log als. Start [(sample_net 0 200, 0, [sample_target]), (sample_net (5 * Second) 503, 5 * Second, [sample_target]),
       (sample_net (40 * Second) 503, 40 * Second, [sample_target])] New_Checker = (c, log, als) \<and>
     length (about ''svc'' log) = 2 \<and> apart (30 * Second) (about ''svc'' log)"
proof -
  let ?ts = "[(sample_net 0 200, 0, [sample_target]), (sample_net (5 * Second) 503, 5 * Second, [sample_target]),
      (sample_net (40 * Second) 503, 40 * Second, [sample_target])]"
  obtain c log als where run: "Start ?ts New_Checker = (c, log, als)" by (metis prod_cases3)
  then have "length (about ''svc'' log) = 2"
    by (auto simp: tick_def probe_def sample_net_def New_Checker_def Let_def Second_def about_def)
  moreover have "list_all (well_timed ''svc'' (30 * Second)) ?ts"
    by (simp add: well_timed_def sample_net_def)
  ultimately show ?thesis using probes_apart [OF run] run by blast
qed

end
