(* ===== verification/Agent.thy ===== *)
theory Agent
  imports GoFmt Files
begin

text \<open>
  The hosting agent of agent/: a privileged daemon that runs a fixed set of vetted scripts for
  the hosting extension.  The host it acts on is an arbitrary function of the history of the
  scripts run so far (\<open>host\<close>), so a step of the agent extends that history; the file system the
  commands are loaded from is the one of Files, with the owner and mode of a file as \<open>fileinfo\<close>.
  A request's parameters are a Go map: a list of pairs with distinct names in the order the
  iteration visits them.
\<close>

subsection \<open>Regular expressions\<close>

text \<open>
  The syntax of a compiled pattern and its matching by derivatives: \<open>matches r s\<close> is
  \<open>MatchString\<close> of the pattern between \<open>^(?:\<close> and \<open>)$\<close>.
\<close>

datatype re = Empty | Eps | Cls "char \<Rightarrow> bool" | Seq re re | Alt re re | Star re

fun nullable :: "re \<Rightarrow> bool" where
  "nullable Empty = False"
| "nullable Eps = True"
| "nullable (Cls P) = False"
| "nullable (Seq r s) = (nullable r \<and> nullable s)"
| "nullable (Alt r s) = (nullable r \<or> nullable s)"
| "nullable (Star r) = True"

fun deriv :: "char \<Rightarrow> re \<Rightarrow> re" where
  "deriv c Empty = Empty"
| "deriv c Eps = Empty"
| "deriv c (Cls P) = (if P c then Eps else Empty)"
| "deriv c (Seq r s) = (if nullable r then Alt (Seq (deriv c r) s) (deriv c s) else Seq (deriv c r) s)"
| "deriv c (Alt r s) = Alt (deriv c r) (deriv c s)"
| "deriv c (Star r) = Seq (deriv c r) (Star r)"

definition matches :: "re \<Rightarrow> string \<Rightarrow> bool" where
  "matches r s = nullable (fold deriv s r)"

text \<open>The repetitions \<open>r{m}\<close>, \<open>r{0,n}\<close>, \<open>r{m,n}\<close> and \<open>r?\<close>.\<close>

definition Opt :: "re \<Rightarrow> re" where "Opt r = Alt r Eps"

fun Power :: "re \<Rightarrow> nat \<Rightarrow> re" where
  "Power r 0 = Eps"
| "Power r (Suc n) = Seq r (Power r n)"

fun UpTo :: "re \<Rightarrow> nat \<Rightarrow> re" where
  "UpTo r 0 = Eps"
| "UpTo r (Suc n) = Opt (Seq r (UpTo r n))"

definition Rep :: "re \<Rightarrow> nat \<Rightarrow> nat \<Rightarrow> re" where
  "Rep r m n = Seq (Power r m) (UpTo r (n - m))"

fun Lit :: "string \<Rightarrow> re" where
  "Lit [] = Eps"
| "Lit (c # s) = Seq (Cls (\<lambda>x. x = c)) (Lit s)"

subsection \<open>Commands and their manifests (agent/command.go)\<close>

record ParamSpec =
  psp_Required :: bool
  psp_Pattern :: string
  psp_Enum :: "string list"
  psp_re :: "re option"

record Manifest =
  mf_Description :: string
  mf_TimeoutSeconds :: int
  mf_Params :: "(string \<times> ParamSpec) list"

record Command =
  cm_Name :: string
  cm_Script :: string
  cm_Manifest :: Manifest

datatype load_error =
    ReadDirFailed
  | ReadManifest file_error
  | BadManifest string
  | BadPattern string string
  | MissingScript string string

text \<open>Compiling the patterns of a manifest, in the order of the map iteration.\<close>

fun compile_params :: "(string \<Rightarrow> re option) \<Rightarrow> string \<Rightarrow> (string \<times> ParamSpec) list
    \<Rightarrow> load_error + (string \<times> ParamSpec) list" where
  "compile_params rx file [] = Inr []"
| "compile_params rx file ((pn, ps) # rest) =
     (if psp_Pattern ps \<noteq> '''' \<and> rx (psp_Pattern ps) = None then Inl (BadPattern file pn)
      else case compile_params rx file rest of
             Inl e \<Rightarrow> Inl e
           | Inr rest' \<Rightarrow>
               Inr ((pn, if psp_Pattern ps \<noteq> '''' then ps\<lparr>psp_re := rx (psp_Pattern ps)\<rparr> else ps) # rest'))"

text \<open>
  \<open>entries\<close> is what \<open>os.ReadDir\<close> returns (names and whether they are directories, \<open>None\<close> on error),
  \<open>dec\<close> the strict JSON decoder of a manifest, \<open>rx\<close> \<open>regexp.Compile\<close>.
\<close>

fun load_entries :: "(bytes \<Rightarrow> Manifest option) \<Rightarrow> (string \<Rightarrow> re option) \<Rightarrow> string \<Rightarrow> fs
    \<Rightarrow> (string \<times> bool) list \<Rightarrow> (string \<rightharpoonup> Command) \<Rightarrow> load_error + (string \<rightharpoonup> Command)" where
  "load_entries dec rx dir f [] cmds = Inr cmds"
| "load_entries dec rx dir f ((file, isdir) # rest) cmds =
     (if isdir \<or> \<not> HasSuffix file ''.json'' then load_entries dec rx dir f rest cmds
      else
        let name = TrimSuffix file ''.json''; script = pathJoin [dir, name @ ''.sh''] in
        case ReadFile f (pathJoin [dir, file]) of
          Inl e \<Rightarrow> Inl (ReadManifest e)
        | Inr raw \<Rightarrow>
            (case dec raw of
               None \<Rightarrow> Inl (BadManifest file)
             | Some m \<Rightarrow>
                 (case compile_params rx file (mf_Params m) of
                    Inl e \<Rightarrow> Inl e
                  | Inr ps \<Rightarrow>
                      if content f script = None then Inl (MissingScript name script)
                      else load_entries dec rx dir f rest
                             (cmds(name \<mapsto> \<lparr>cm_Name = name, cm_Script = script, cm_Manifest = m\<lparr>mf_Params := ps\<rparr>\<rparr>)))))"

definition LoadCommands :: "(bytes \<Rightarrow> Manifest option) \<Rightarrow> (string \<Rightarrow> re option) \<Rightarrow> string
    \<Rightarrow> (string \<times> bool) list option \<Rightarrow> fs \<Rightarrow> load_error + (string \<rightharpoonup> Command)" where
  "LoadCommands dec rx dir entries f =
     (case entries of
        None \<Rightarrow> Inl ReadDirFailed
      | Some es \<Rightarrow> load_entries dec rx dir f es Map.empty)"

subsection \<open>Validation and trust\<close>

datatype agent_error =
    UnknownParameter string
  | MissingParameter string
  | NotInEnum string
  | NoPatternMatch string
  | Untrusted string
  | ExecFailed string

type_synonym params = "(string \<times> string) list"

definition check_param :: "params \<Rightarrow> string \<Rightarrow> ParamSpec \<Rightarrow> agent_error option" where
  "check_param params n spec =
     (case map_of params n of
        None \<Rightarrow> if psp_Required spec then Some (MissingParameter n) else None
      | Some v \<Rightarrow>
          if psp_Enum spec \<noteq> [] \<and> \<not> list_ex (\<lambda>e. v = e) (psp_Enum spec) then Some (NotInEnum n)
          else (case psp_re spec of
                  None \<Rightarrow> None
                | Some r \<Rightarrow> if matches r v then None else Some (NoPatternMatch n)))"

definition validate :: "Command \<Rightarrow> params \<Rightarrow> agent_error option" where
  "validate c params =
     (let specs = mf_Params (cm_Manifest c) in
      case find (\<lambda>(k, _). map_of specs k = None) params of
        Some (k, _) \<Rightarrow> Some (UnknownParameter k)
      | None \<Rightarrow> first_err (map (\<lambda>n. check_param params n (the (map_of specs n))) (sort (map fst specs))))"

record fileinfo =
  fi_regular :: bool
  fi_perm :: nat
  fi_uid :: "nat option"

fun octal :: "nat \<Rightarrow> string" where
  "octal n = (if n < 8 then [digit_char n] else octal (n div 8) @ [digit_char (n mod 8)])"

declare octal.simps [simp del]

text \<open>\<open>perm & 0o022 \<noteq> 0\<close>: the group's or the others' write bit is set.\<close>

definition writable_by_others :: "nat \<Rightarrow> bool" where
  "writable_by_others perm \<longleftrightarrow> odd (perm div 16) \<or> odd (perm div 2)"

definition checkScriptTrust :: "(string \<Rightarrow> fileinfo option) \<Rightarrow> string \<Rightarrow> nat \<Rightarrow> string option" where
  "checkScriptTrust stat path trustedUID =
     (case stat path of
        None \<Rightarrow> Some (''stat '' @ path @ '': no such file or directory'')
      | Some fi \<Rightarrow>
          if \<not> fi_regular fi then Some ''not a regular file''
          else if writable_by_others (fi_perm fi)
          then Some (''group/other-writable script refused ('' @ octal (fi_perm fi) @ '')'')
          else (case fi_uid fi of
                  Some uid \<Rightarrow>
                    if uid \<noteq> trustedUID
                    then Some (''script not owned by trusted uid '' @ dec_str trustedUID @ '' (owner '' @ dec_str uid @ '')'')
                    else None
                | None \<Rightarrow> None))"

subsection \<open>Bounded output (agent/util.go)\<close>

definition maxCapture :: nat where "maxCapture = 256 * 1024"

text \<open>\<open>Write\<close> returns the next buffer and the count it reports.\<close>

definition buf_Write :: "bytes \<Rightarrow> bytes \<Rightarrow> bytes \<times> nat" where
  "buf_Write p b =
     ((if length b < maxCapture
       then (let room = maxCapture - length b in if length p > room then b @ take room p else b @ p)
       else b), length p)"

definition capture :: "bytes list \<Rightarrow> bytes" where
  "capture chunks = fold (\<lambda>p b. fst (buf_Write p b)) chunks []"

subsection \<open>Running a command\<close>

text \<open>
  One entry of the history: the script, the environment it was given and the time limit.  The
  host answers with an exit code (-1 when a signal or the time limit ended the script) and the
  chunks it wrote, or could not start the script.
\<close>

datatype exec = Exec string "string list" int

datatype outcome = Exited int "bytes list" "bytes list" | NotStarted string

type_synonym history = "exec list"
type_synonym host = "history \<Rightarrow> exec \<Rightarrow> outcome"

record Result =
  rs_Code :: int
  rs_Stdout :: bytes
  rs_Stderr :: bytes

definition zero_Result :: Result where
  "zero_Result = \<lparr>rs_Code = 0, rs_Stdout = '''', rs_Stderr = ''''\<rparr>"

definition command_env :: "params \<Rightarrow> string list" where
  "command_env params =
     [''PATH=/usr/local/sbin:/usr/local/bin:/usr/sbin:/usr/bin:/sbin:/bin'', ''XTK_AGENT=1''] @
     map (\<lambda>(k, v). ''XTK_P_'' @ ToUpper k @ ''='' @ v) params"

definition run_command :: "(string \<Rightarrow> fileinfo option) \<Rightarrow> host \<Rightarrow> Command \<Rightarrow> int \<Rightarrow> params \<Rightarrow> nat \<Rightarrow> history
    \<Rightarrow> (Result \<times> agent_error option) \<times> history" where
  "run_command stat host c ttl params trustedUID h =
     (case validate c params of
        Some e \<Rightarrow> ((zero_Result, Some e), h)
      | None \<Rightarrow>
          (case checkScriptTrust stat (cm_Script c) trustedUID of
             Some why \<Rightarrow> ((zero_Result, Some (Untrusted why)), h)
           | None \<Rightarrow>
               let x = Exec (cm_Script c) (command_env params) ttl; h' = h @ [x] in
               case host h x of
                 Exited code out err \<Rightarrow>
                   ((\<lparr>rs_Code = code, rs_Stdout = capture out, rs_Stderr = capture err\<rparr>, None), h')
               | NotStarted why \<Rightarrow> ((zero_Result, Some (ExecFailed why)), h')))"

subsection \<open>The agent (agent/agent.go, agent/protocol.go)\<close>

record Request =
  req_Cmd :: string
  req_Params :: params

record Response =
  res_OK :: bool
  res_Code :: int
  res_Stdout :: bytes
  res_Stderr :: bytes
  res_Error :: string

definition zero_Response :: Response where
  "zero_Response = \<lparr>res_OK = False, res_Code = 0, res_Stdout = '''', res_Stderr = '''', res_Error = ''''\<rparr>"

record Agent =
  ag_TrustedUID :: nat
  ag_AllowUID :: int
  ag_commands :: "string \<rightharpoonup> Command"

definition New_Agent :: "(bytes \<Rightarrow> Manifest option) \<Rightarrow> (string \<Rightarrow> re option) \<Rightarrow> string
    \<Rightarrow> (string \<times> bool) list option \<Rightarrow> fs \<Rightarrow> nat \<Rightarrow> int \<Rightarrow> load_error + Agent" where
  "New_Agent dec rx cmdDir entries f trustedUID allowUID =
     (case LoadCommands dec rx cmdDir entries f of
        Inl e \<Rightarrow> Inl e
      | Inr cmds \<Rightarrow> Inr \<lparr>ag_TrustedUID = trustedUID, ag_AllowUID = allowUID, ag_commands = cmds\<rparr>)"

definition maxRequest :: nat where "maxRequest = 64 * 1024"

definition defaultCmdTTL :: int where "defaultCmdTTL = 60"

fun error_text :: "agent_error \<Rightarrow> string" where
  "error_text (UnknownParameter k) = ''unknown parameter '' @ Quote k"
| "error_text (MissingParameter n) = ''missing required parameter '' @ Quote n"
| "error_text (NotInEnum n) = ''parameter '' @ Quote n @ '' not in allowed set''"
| "error_text (NoPatternMatch n) = ''parameter '' @ Quote n @ '' does not match the allowed pattern''"
| "error_text (Untrusted why) = ''untrusted command script: '' @ why"
| "error_text (ExecFailed why) = why"

text \<open>
  One connection: \<open>creds\<close> are the peer's uid and gid when the kernel gives them, \<open>raw\<close> what it sent,
  \<open>dec\<close> the JSON decoder of a request.
\<close>

definition handle :: "(string \<Rightarrow> fileinfo option) \<Rightarrow> host \<Rightarrow> (bytes \<Rightarrow> Request option) \<Rightarrow> Agent
    \<Rightarrow> (nat \<times> nat) option \<Rightarrow> bytes \<Rightarrow> history \<Rightarrow> Response \<times> history" where
  "handle stat host dec a creds raw h =
     (if ag_AllowUID a \<ge> 0 \<and> (case creds of None \<Rightarrow> True | Some (uid, gid) \<Rightarrow> int uid \<noteq> ag_AllowUID a)
      then (zero_Response\<lparr>res_Error := ''unauthorized''\<rparr>, h)
      else
        case dec (take maxRequest raw) of
          None \<Rightarrow> (zero_Response\<lparr>res_Error := ''malformed request''\<rparr>, h)
        | Some req \<Rightarrow>
            (case ag_commands a (req_Cmd req) of
               None \<Rightarrow> (zero_Response\<lparr>res_Error := ''unknown command''\<rparr>, h)
             | Some cmd \<Rightarrow>
                 let ttl0 = mf_TimeoutSeconds (cm_Manifest cmd); ttl = (if ttl0 \<le> 0 then defaultCmdTTL else ttl0) in
                 case run_command stat host cmd (wrap64 (ttl * Second)) (req_Params req) (ag_TrustedUID a) h of
                   ((res, Some err), h') \<Rightarrow> (zero_Response\<lparr>res_Error := error_text err\<rparr>, h')
                 | ((res, None), h') \<Rightarrow>
                     (\<lparr>res_OK = (rs_Code res = 0), res_Code = rs_Code res, res_Stdout = rs_Stdout res,
                       res_Stderr = rs_Stderr res, res_Error = ''''\<rparr>, h')))"

text \<open>\<open>Serve\<close>: the connections it accepts, one after the other.\<close>

definition Serve :: "(string \<Rightarrow> fileinfo option) \<Rightarrow> host \<Rightarrow> (bytes \<Rightarrow> Request option) \<Rightarrow> Agent
    \<Rightarrow> ((nat \<times> nat) option \<times> bytes) list \<Rightarrow> history \<Rightarrow> history" where
  "Serve stat host dec a conns h = fold (\<lambda>(creds, raw) h. snd (handle stat host dec a creds raw h)) conns h"

subsection \<open>Lemmas: regular expressions\<close>

text \<open>The language of an expression, the meaning \<open>matches\<close> computes.\<close>

inductive star :: "(string \<Rightarrow> bool) \<Rightarrow> string \<Rightarrow> bool" for L where
  star_Nil: "star L []"
| star_step: "L a \<Longrightarrow> star L b \<Longrightarrow> star L (a @ b)"

primrec lang :: "re \<Rightarrow> string \<Rightarrow> bool" where
  "lang Empty = (\<lambda>s. False)"
| "lang Eps = (\<lambda>s. s = [])"
| "lang (Cls P) = (\<lambda>s. \<exists>c. s = [c] \<and> P c)"
| "lang (Seq r t) = (\<lambda>s. \<exists>a b. s = a @ b \<and> lang r a \<and> lang t b)"
| "lang (Alt r t) = (\<lambda>s. lang r s \<or> lang t s)"
| "lang (Star r) = star (lang r)"

lemma nullable_lang: "nullable r \<longleftrightarrow> lang r []"
  by (induction r) (auto intro: star_Nil)

lemma star_Cons: "star L (c # s) \<longleftrightarrow> (\<exists>a b. s = a @ b \<and> L (c # a) \<and> star L b)"
proof
  assume "star L (c # s)"
  then show "\<exists>a b. s = a @ b \<and> L (c # a) \<and> star L b"
  proof (induction "c # s" rule: star.induct)
    case (star_step a b)
    then show ?case by (cases a) auto
  qed
next
  assume "\<exists>a b. s = a @ b \<and> L (c # a) \<and> star L b"
  then obtain a b where "s = a @ b" "L (c # a)" "star L b" by blast
  then show "star L (c # s)" using star_step [of L "c # a" b] by simp
qed

lemma deriv_lang: "lang (deriv c r) s \<longleftrightarrow> lang r (c # s)"
proof (induction r arbitrary: s)
  case (Seq r t)
  then show ?case by (auto simp: nullable_lang Cons_eq_append_conv)
next
  case (Star r)
  then show ?case by (simp add: star_Cons)
qed auto

lemma matches_lang: "matches r s \<longleftrightarrow> lang r s"
proof -
  have "lang (fold deriv s r) [] \<longleftrightarrow> lang r s"
    by (induction s arbitrary: r) (simp_all add: deriv_lang)
  then show ?thesis by (simp add: matches_def nullable_lang)
qed

lemma lang_Seq_Cls: "lang (Seq (Cls P) r) s \<longleftrightarrow> (case s of [] \<Rightarrow> False | c # t \<Rightarrow> P c \<and> lang r t)"
proof (cases s)
  case (Cons c t)
  have "P c \<and> lang r t \<Longrightarrow> lang (Seq (Cls P) r) (c # t)"
    by (simp only: lang.simps) (intro exI [of _ "[c]"] exI [of _ t], simp)
  moreover have "lang (Seq (Cls P) r) (c # t) \<Longrightarrow> P c \<and> lang r t" by auto
  ultimately show ?thesis unfolding Cons list.case by blast
qed simp

lemma lang_Power_Cls: "lang (Power (Cls P) n) s \<longleftrightarrow> length s = n \<and> list_all P s"
  by (induction n arbitrary: s) (auto simp: lang_Seq_Cls simp del: lang.simps(4) split: list.splits)

lemma lang_UpTo_Cls: "lang (UpTo (Cls P) n) s \<longleftrightarrow> length s \<le> n \<and> list_all P s"
  by (induction n arbitrary: s) (auto simp: Opt_def lang_Seq_Cls simp del: lang.simps(4) split: list.splits)

lemma matches_Rep_Cls:
  assumes "m \<le> n"
  shows "matches (Rep (Cls P) m n) s \<longleftrightarrow> m \<le> length s \<and> length s \<le> n \<and> list_all P s"
proof -
  have "matches (Rep (Cls P) m n) s \<longleftrightarrow>
      (\<exists>a b. s = a @ b \<and> (length a = m \<and> list_all P a) \<and> length b \<le> n - m \<and> list_all P b)"
    by (simp only: matches_lang Rep_def lang.simps lang_Power_Cls lang_UpTo_Cls)
  also have "\<dots> \<longleftrightarrow> m \<le> length s \<and> length s \<le> n \<and> list_all P s" (is "?l \<longleftrightarrow> ?r")
  proof
    assume ?r
    then show ?l
      by (intro exI [of _ "take m s"] exI [of _ "drop m s"]) (auto simp: list_all_iff dest: in_set_takeD in_set_dropD)
  qed (use assms in auto)
  finally show ?thesis .
qed

subsection \<open>Lemmas: validation\<close>

text \<open>What a manifest allows: the declarative reading of its parameters.\<close>

definition allowed :: "Manifest \<Rightarrow> params \<Rightarrow> bool" where
  "allowed m params \<longleftrightarrow>
     (\<forall>k \<in> fst ` set params. map_of (mf_Params m) k \<noteq> None) \<and>
     (\<forall>n spec. map_of (mf_Params m) n = Some spec \<longrightarrow>
        (case map_of params n of
           None \<Rightarrow> \<not> psp_Required spec
         | Some v \<Rightarrow> (psp_Enum spec = [] \<or> v \<in> set (psp_Enum spec)) \<and>
             (case psp_re spec of None \<Rightarrow> True | Some r \<Rightarrow> matches r v)))"

lemma check_param_None:
  "check_param params n spec = None \<longleftrightarrow>
     (case map_of params n of
        None \<Rightarrow> \<not> psp_Required spec
      | Some v \<Rightarrow> (psp_Enum spec = [] \<or> v \<in> set (psp_Enum spec)) \<and>
          (case psp_re spec of None \<Rightarrow> True | Some r \<Rightarrow> matches r v))"
  by (auto simp: check_param_def list_ex_iff split: option.splits)

lemma validate_None: "validate c params = None \<longleftrightarrow> allowed (cm_Manifest c) params"
proof -
  let ?specs = "mf_Params (cm_Manifest c)"
  have unknown: "find (\<lambda>(k, _). map_of ?specs k = None) params = None \<longleftrightarrow>
      (\<forall>k \<in> fst ` set params. map_of ?specs k \<noteq> None)"
    by (auto simp: find_None_iff)
  have each: "first_err (map (\<lambda>n. check_param params n (the (map_of ?specs n))) (sort (map fst ?specs))) = None \<longleftrightarrow>
      (\<forall>n spec. map_of ?specs n = Some spec \<longrightarrow> check_param params n spec = None)"
    by (auto simp: first_err_None dom_map_of_conv_image_fst [symmetric] dom_def)
  show ?thesis
    unfolding validate_def Let_def allowed_def check_param_None [symmetric] unknown [symmetric] each [symmetric]
    by (auto split: option.splits)
qed

lemma capture_bound: "length (capture chunks) \<le> maxCapture"
proof -
  have "length (fold (\<lambda>p b. fst (buf_Write p b)) chunks b) \<le> maxCapture" if "length b \<le> maxCapture" for b
    using that by (induction chunks arbitrary: b) (auto simp: buf_Write_def Let_def)
  from this [of "[]"] show ?thesis by (simp add: capture_def)
qed

lemma capture_take: "capture chunks = take maxCapture (concat chunks)"
proof -
  have "fold (\<lambda>p b. fst (buf_Write p b)) chunks (take maxCapture b) = take maxCapture (b @ concat chunks)" for b
  proof (induction chunks arbitrary: b)
    case (Cons p chunks)
    have "fst (buf_Write p (take maxCapture b)) = take maxCapture (b @ p)"
      by (auto simp: buf_Write_def Let_def min_def)
    with Cons [of "b @ p"] show ?case by simp
  qed simp
  from this [of "[]"] show ?thesis by (simp add: capture_def)
qed

text \<open>A script that the agent may run, with what it gives it.\<close>

definition vetted :: "(string \<Rightarrow> fileinfo option) \<Rightarrow> Agent \<Rightarrow> exec \<Rightarrow> bool" where
  "vetted stat a x \<longleftrightarrow>
     (\<exists>name cmd params ttl. x = Exec (cm_Script cmd) (command_env params) ttl \<and>
        ag_commands a name = Some cmd \<and> allowed (cm_Manifest cmd) params \<and>
        (\<exists>fi. stat (cm_Script cmd) = Some fi \<and> fi_regular fi \<and> \<not> writable_by_others (fi_perm fi) \<and>
           (\<forall>uid. fi_uid fi = Some uid \<longrightarrow> uid = ag_TrustedUID a)))"

lemma checkScriptTrust_None:
  "checkScriptTrust stat path uid = None \<longleftrightarrow>
     (\<exists>fi. stat path = Some fi \<and> fi_regular fi \<and> \<not> writable_by_others (fi_perm fi) \<and>
        (\<forall>u. fi_uid fi = Some u \<longrightarrow> u = uid))"
  by (auto simp: checkScriptTrust_def split: option.splits)

lemma vettedI:
  "ag_commands a name = Some cmd \<Longrightarrow> allowed (cm_Manifest cmd) params \<Longrightarrow>
     checkScriptTrust stat (cm_Script cmd) (ag_TrustedUID a) = None \<Longrightarrow>
     vetted stat a (Exec (cm_Script cmd) (command_env params) ttl)"
  unfolding vetted_def checkScriptTrust_None by blast

text \<open>The effect of a run: nothing, or one vetted entry at the end of the history.\<close>

lemma run_command_history:
  assumes "run_command stat host c ttl params uid h = (r, h')"
  shows "h' = h \<and> snd r \<noteq> None \<or>
    h' = h @ [Exec (cm_Script c) (command_env params) ttl] \<and> allowed (cm_Manifest c) params \<and>
      checkScriptTrust stat (cm_Script c) uid = None"
  using assms
  by (auto simp: run_command_def Let_def validate_None split: option.splits outcome.splits)

lemma handle_history:
  assumes "handle stat host dec a creds raw h = (rsp, h')"
  shows "h' = h \<and> \<not> res_OK rsp \<or> (\<exists>x. h' = h @ [x] \<and> vetted stat a x)"
proof (cases "ag_AllowUID a \<ge> 0 \<and> (case creds of None \<Rightarrow> True | Some (uid, gid) \<Rightarrow> int uid \<noteq> ag_AllowUID a) \<or>
    (case dec (take maxRequest raw) of None \<Rightarrow> True | Some req \<Rightarrow> ag_commands a (req_Cmd req) = None)")
  case True
  with assms show ?thesis
    unfolding handle_def by (auto simp: zero_Response_def split: if_splits option.splits)
next
  case False
  then obtain req cmd where req: "dec (take maxRequest raw) = Some req" and cmd: "ag_commands a (req_Cmd req) = Some cmd"
    by (auto split: option.splits)
  define ttl where "ttl = wrap64 ((if mf_TimeoutSeconds (cm_Manifest cmd) \<le> 0 then defaultCmdTTL
      else mf_TimeoutSeconds (cm_Manifest cmd)) * Second)"
  obtain res e h1 where run: "run_command stat host cmd ttl (req_Params req) (ag_TrustedUID a) h = ((res, e), h1)"
    by (metis prod.exhaust)
  have "h' = h1" "e \<noteq> None \<Longrightarrow> \<not> res_OK rsp"
    using assms False req cmd run
    by (cases e; auto simp: handle_def Let_def zero_Response_def ttl_def split: if_splits)+
  with run_command_history [OF run] vettedI [OF cmd] show ?thesis by fastforce
qed

lemma Serve_vetted: "\<forall>x \<in> set h. vetted stat a x \<Longrightarrow> \<forall>x \<in> set (Serve stat host dec a conns h). vetted stat a x"
proof (induction conns arbitrary: h)
  case (Cons conn conns)
  obtain creds raw where c: "conn = (creds, raw)" by fastforce
  obtain rsp h' where s: "handle stat host dec a creds raw h = (rsp, h')" by fastforce
  have "\<forall>x \<in> set h'. vetted stat a x" using handle_history [OF s] Cons.prems by auto
  with Cons.IH show ?case by (simp add: Serve_def c s)
qed (simp add: Serve_def)

section \<open>Properties\<close>

text \<open>
  C29: whatever connects to the agent and whatever it sends, the agent runs nothing but vetted
  commands: a registered script that is a regular file, not writable by group or others and
  owned by the trusted user, with parameters the manifest allows, passed as environment.
\<close>

theorem Serve_runs_vetted:
  "list_all (vetted stat a) (Serve stat host dec a conns [])"
  using Serve_vetted [of "[]"] by (simp add: list_all_iff)

text \<open>The time limit of a command and the check of the peer, as the reply depends on them.\<close>

definition limit :: "Command \<Rightarrow> int" where
  "limit cmd = (let t = mf_TimeoutSeconds (cm_Manifest cmd) in wrap64 ((if t \<le> 0 then defaultCmdTTL else t) * Second))"

definition authorised :: "Agent \<Rightarrow> (nat \<times> nat) option \<Rightarrow> bool" where
  "authorised a creds \<longleftrightarrow> ag_AllowUID a < 0 \<or> (\<exists>uid gid. creds = Some (uid, gid) \<and> int uid = ag_AllowUID a)"

lemma handle_run:
  assumes "authorised a creds" "dec (take maxRequest raw) = Some req" "ag_commands a (req_Cmd req) = Some cmd"
  shows "handle stat host dec a creds raw h =
    (case run_command stat host cmd (limit cmd) (req_Params req) (ag_TrustedUID a) h of
       ((res, Some err), h') \<Rightarrow> (zero_Response\<lparr>res_Error := error_text err\<rparr>, h')
     | ((res, None), h') \<Rightarrow>
         (\<lparr>res_OK = (rs_Code res = 0), res_Code = rs_Code res, res_Stdout = rs_Stdout res,
           res_Stderr = rs_Stderr res, res_Error = ''''\<rparr>, h'))"
  using assms by (auto simp: handle_def limit_def authorised_def Let_def split: option.splits)

lemma handle_not_run:
  assumes "\<not> (authorised a creds \<and> (\<exists>req cmd. dec (take maxRequest raw) = Some req \<and> ag_commands a (req_Cmd req) = Some cmd))"
  shows "\<not> res_OK (fst (handle stat host dec a creds raw h))"
  using assms by (auto simp: handle_def authorised_def zero_Response_def split: option.splits)

lemma run_ok:
  "fst (run_command stat host c ttl params uid h) = (\<lparr>rs_Code = 0, rs_Stdout = so, rs_Stderr = se\<rparr>, None) \<longleftrightarrow>
     allowed (cm_Manifest c) params \<and> checkScriptTrust stat (cm_Script c) uid = None \<and>
     (\<exists>out err. host h (Exec (cm_Script c) (command_env params) ttl) = Exited 0 out err \<and>
        so = capture out \<and> se = capture err)"
  by (auto simp: run_command_def Let_def validate_None [symmetric] split: option.splits outcome.splits)

text \<open>
  C30: the agent answers OK exactly when the peer is authorised, the request decodes to a
  registered command with allowed parameters and a trusted script, and the script exits with
  0; the answer then carries the first 256 KiB of what the script wrote.
\<close>

theorem handle_ok:
  "res_OK (fst (handle stat host dec a creds raw h)) \<and> res_Stdout (fst (handle stat host dec a creds raw h)) = so \<longleftrightarrow>
     authorised a creds \<and>
     (\<exists>req cmd out err. dec (take maxRequest raw) = Some req \<and> ag_commands a (req_Cmd req) = Some cmd \<and>
        allowed (cm_Manifest cmd) (req_Params req) \<and>
        checkScriptTrust stat (cm_Script cmd) (ag_TrustedUID a) = None \<and>
        host h (Exec (cm_Script cmd) (command_env (req_Params req)) (limit cmd)) = Exited 0 out err \<and>
        so = take maxCapture (concat out))"
proof (cases "authorised a creds \<and> (\<exists>req cmd. dec (take maxRequest raw) = Some req \<and> ag_commands a (req_Cmd req) = Some cmd)")
  case False
  then have "\<not> res_OK (fst (handle stat host dec a creds raw h))" by (rule handle_not_run)
  with False show ?thesis by blast
next
  case True
  then obtain req cmd where r: "authorised a creds" "dec (take maxRequest raw) = Some req" "ag_commands a (req_Cmd req) = Some cmd"
    by blast
  obtain res e h' where run: "run_command stat host cmd (limit cmd) (req_Params req) (ag_TrustedUID a) h = ((res, e), h')"
    by (metis prod.exhaust)
  have "res_OK (fst (handle stat host dec a creds raw h)) \<and> res_Stdout (fst (handle stat host dec a creds raw h)) = so \<longleftrightarrow>
      (\<exists>se. (res, e) = (\<lparr>rs_Code = 0, rs_Stdout = so, rs_Stderr = se\<rparr>, None))"
    by (cases e; cases res) (auto simp: handle_run [where dec = dec and raw = raw, OF r] run zero_Response_def)
  also have "\<dots> \<longleftrightarrow> (\<exists>se. fst (run_command stat host cmd (limit cmd) (req_Params req) (ag_TrustedUID a) h) =
      (\<lparr>rs_Code = 0, rs_Stdout = so, rs_Stderr = se\<rparr>, None))"
    by (simp add: run)
  finally show ?thesis using r unfolding run_ok capture_take by auto
qed

end
