(* ===== verification/Remote.thy ===== *)
theory Remote
  imports HealthCheck
begin

text \<open>
  The remote control channel of remote/control.go with the commands main.go gives it: a poll
  of the Telegram bot handles a batch of updates, each from an allowed chat or dropped, and
  moves the offset past them.  The replies are the deliveries of HealthCheck; a command is a
  function from its arguments to its answer.
\<close>

type_synonym handlers = "(string \<times> (string \<Rightarrow> string)) list"

record Controller =
  rc_cfg :: RemoteControlCfg
  rc_botToken :: string
  rc_commands :: handlers

text \<open>\<open>Name\<close> order of \<open>sort.Strings\<close>; the map's keys are distinct.\<close>

definition permitted :: "Controller \<Rightarrow> string \<Rightarrow> bool" where
  "permitted c cmd \<longleftrightarrow> rcc_AllowCommands (rc_cfg c) = [] \<or> cmd \<in> set (rcc_AllowCommands (rc_cfg c))"

definition helpText :: "Controller \<Rightarrow> string" where
  "helpText c = ''commands: '' @ Join (sort (''help'' # filter (permitted c) (map fst (rc_commands c)))) '', ''"

definition rc_run :: "Controller \<Rightarrow> string \<Rightarrow> string \<Rightarrow> string" where
  "rc_run c cmd args =
     (if cmd = ''help'' \<or> cmd = '''' then helpText c
      else if rcc_AllowCommands (rc_cfg c) \<noteq> [] \<and> cmd \<notin> set (rcc_AllowCommands (rc_cfg c))
      then ''command not allowed: '' @ cmd
      else (case map_of (rc_commands c) cmd of
              None \<Rightarrow> ''unknown command: '' @ cmd @ [CHR 0x0A] @ helpText c
            | Some h \<Rightarrow> h args))"

text \<open>The command word and the arguments of a message, \<open>None\<close> for an empty one.\<close>

definition parse_command :: "string \<Rightarrow> (string \<times> string) option" where
  "parse_command txt =
     (case Fields txt of
        [] \<Rightarrow> None
      | f # _ \<Rightarrow> Some (ToLower (TrimPrefix f ''/''), TrimSpace (TrimPrefix txt f)))"

definition dispatch :: "Controller \<Rightarrow> string \<Rightarrow> string option" where
  "dispatch c txt = (case parse_command txt of None \<Rightarrow> None | Some (cmd, args) \<Rightarrow> Some (rc_run c cmd args))"

record tgUpdate =
  tg_UpdateID :: int
  tg_ChatID :: int
  tg_Text :: string

definition allow_set :: "Controller \<Rightarrow> string list" where
  "allow_set c = map TrimSpace (tin_AllowChatIDs (rcc_Telegram (rc_cfg c)))"

text \<open>A reply is listed with the update it answers, as the code logs it.\<close>

type_synonym answer_log = "(int \<times> delivery) list"

fun handle_updates :: "Controller \<Rightarrow> tgUpdate list \<Rightarrow> int \<Rightarrow> int \<times> answer_log" where
  "handle_updates c [] offset = (offset, [])"
| "handle_updates c (up # ups) offset =
     (let chatID = Itoa (tg_ChatID up);
          out = (if chatID \<notin> set (allow_set c) then []
                 else case dispatch c (tg_Text up) of
                        None \<Rightarrow> []
                      | Some reply \<Rightarrow> [(tg_UpdateID up, SendTelegram (rc_botToken c) chatID reply)]);
          (offset', rest) = handle_updates c ups (tg_UpdateID up + 1)
      in (offset', out @ rest))"

text \<open>
  \<open>pollTelegram\<close>: \<open>fetch\<close> is the bot API, from an offset to the updates it returns, \<open>None\<close> when the
  request or the decoding fails or the answer is not \<open>ok\<close>.
\<close>

type_synonym bot_api = "int \<Rightarrow> tgUpdate list option"

definition pollTelegram :: "bot_api \<Rightarrow> Controller \<Rightarrow> int \<Rightarrow> int \<times> answer_log" where
  "pollTelegram fetch c offset =
     (case fetch offset of
        None \<Rightarrow> (offset, [])
      | Some ups \<Rightarrow> handle_updates c ups offset)"

text \<open>
  \<open>telegramLoop\<close>: a poll per timer event, nothing unless the channel is configured.  The handlers
  are closures over the state of the gateway: each poll has those of its moment.
\<close>

definition loop_enabled :: "Controller \<Rightarrow> bool" where
  "loop_enabled c \<longleftrightarrow> tin_Enabled (rcc_Telegram (rc_cfg c)) \<and> rc_botToken c \<noteq> '''' \<and>
     tin_AllowChatIDs (rcc_Telegram (rc_cfg c)) \<noteq> []"

definition poll_interval :: "Controller \<Rightarrow> int" where
  "poll_interval c = seconds_or (tin_PollSeconds (rcc_Telegram (rc_cfg c))) 5"

fun polls :: "Controller \<Rightarrow> (bot_api \<times> handlers) list \<Rightarrow> int \<Rightarrow> int \<times> answer_log" where
  "polls c [] offset = (offset, [])"
| "polls c ((fetch, cmds) # rest) offset =
     (let (o1, out1) = pollTelegram fetch (c\<lparr>rc_commands := cmds\<rparr>) offset;
          (o2, out2) = polls c rest o1
      in (o2, out1 @ out2))"

definition telegramLoop :: "Controller \<Rightarrow> (bot_api \<times> handlers) list \<Rightarrow> answer_log" where
  "telegramLoop c ps = (if loop_enabled c then snd (polls c ps 0) else [])"

definition Start_remote :: "Controller \<Rightarrow> (bot_api \<times> handlers) list \<Rightarrow> answer_log" where
  "Start_remote c ps = (if rcc_Enabled (rc_cfg c) then telegramLoop c ps else [])"

subsection \<open>The commands of main.go\<close>

definition Version :: string where "Version = ''beta0.14''"

definition count_state :: "(HState \<Rightarrow> bool) \<Rightarrow> Status list \<Rightarrow> nat" where
  "count_state P snap = length (filter (\<lambda>s. P (st_State s)) snap)"

definition middot :: string where "middot = [CHR 0xC2, CHR 0xB7]"

definition remoteStatus :: "string \<Rightarrow> Status list \<Rightarrow> Backend list \<Rightarrow> string" where
  "remoteStatus version snap backends =
     ''Xal-Tor-Ka '' @ version @ [CHR 0x0A] @ ''backends: '' @ dec_str (length backends) @ '' configured '' @ middot @ '' '' @
     dec_str (count_state (\<lambda>st. st = StateUp) snap) @ '' up '' @ middot @ '' '' @
     dec_str (count_state (\<lambda>st. st = StateDown \<or> st = StateUnreachable) snap) @ '' down''"

definition remoteBackends :: "Status list \<Rightarrow> string" where
  "remoteBackends snap =
     (if snap = [] then ''no monitored backends''
      else TrimRight (concat (map (\<lambda>s. st_BackendID s @ '' ('' @ st_Host s @ ''): '' @ state_text (st_State s) @ [CHR 0x0A]) snap)) CHR 0x0A)"

definition gateway_commands :: "string \<Rightarrow> Status list \<Rightarrow> Backend list \<Rightarrow> handlers" where
  "gateway_commands version snap backends =
     [(''ping'', \<lambda>_. ''pong''), (''version'', \<lambda>_. ''Xal-Tor-Ka '' @ version),
      (''status'', \<lambda>_. remoteStatus version snap backends), (''backends'', \<lambda>_. remoteBackends snap)]"

subsection \<open>Lemmas\<close>

text \<open>
  An answer that the configuration of the channel allows, to an update that one of the polls
  fetched: its chat is in the allow list, and the answer is that of its command.
\<close>

definition answers_update :: "Controller \<Rightarrow> handlers \<Rightarrow> tgUpdate \<Rightarrow> int \<times> delivery \<Rightarrow> bool" where
  "answers_update c cmds up x \<longleftrightarrow>
     fst x = tg_UpdateID up \<and> Itoa (tg_ChatID up) \<in> set (allow_set c) \<and>
     (\<exists>cmd args. parse_command (tg_Text up) = Some (cmd, args) \<and>
        snd x = SendTelegram (rc_botToken c) (Itoa (tg_ChatID up)) (rc_run (c\<lparr>rc_commands := cmds\<rparr>) cmd args))"

definition allowed_answer :: "Controller \<Rightarrow> (bot_api \<times> handlers) list \<Rightarrow> int \<times> delivery \<Rightarrow> bool" where
  "allowed_answer c ps x \<longleftrightarrow>
     (\<exists>(fetch, cmds) \<in> set ps. \<exists>off ups. fetch off = Some ups \<and> (\<exists>up \<in> set ups. answers_update c cmds up x))"

lemma handle_updates_answers:
  "handle_updates (c\<lparr>rc_commands := cmds\<rparr>) ups off = (off', out) \<Longrightarrow>
     \<forall>x \<in> set out. \<exists>up \<in> set ups. answers_update c cmds up x"
proof (induction ups arbitrary: off out)
  case (Cons up ups)
  obtain rest where r: "handle_updates (c\<lparr>rc_commands := cmds\<rparr>) ups (tg_UpdateID up + 1) = (off', rest)"
    using Cons.prems by (auto simp: Let_def split: prod.splits)
  have "allow_set (c\<lparr>rc_commands := cmds\<rparr>) = allow_set c" by (simp add: allow_set_def)
  moreover have "answers_update c cmds up
      (tg_UpdateID up, SendTelegram (rc_botToken c) (Itoa (tg_ChatID up)) (rc_run (c\<lparr>rc_commands := cmds\<rparr>) cmd args))"
    if "Itoa (tg_ChatID up) \<in> set (allow_set c)" "parse_command (tg_Text up) = Some (cmd, args)" for cmd args
    unfolding answers_update_def fst_conv snd_conv using that by blast
  ultimately show ?case
    using Cons.prems Cons.IH [OF r] r
    by (auto simp: dispatch_def Let_def split: if_splits option.splits)
qed simp

text \<open>
  The update identifiers of a log lie between the offsets before and after, when the bot API
  returns increasing identifiers from the offset on.
\<close>

definition api_ok :: "bot_api \<Rightarrow> bool" where
  "api_ok fetch \<longleftrightarrow> (\<forall>off ups. fetch off = Some ups \<longrightarrow>
     sorted_wrt (<) (map tg_UpdateID ups) \<and> (\<forall>u \<in> set ups. off \<le> tg_UpdateID u))"

lemma handle_updates_ids:
  "handle_updates c ups off = (off', out) \<Longrightarrow> sorted_wrt (<) (map tg_UpdateID ups) \<Longrightarrow>
     \<forall>u \<in> set ups. off \<le> tg_UpdateID u \<Longrightarrow>
     off \<le> off' \<and> distinct (map fst out) \<and> (\<forall>i \<in> fst ` set out. off \<le> i \<and> i < off')"
proof (induction ups arbitrary: off out)
  case (Cons up ups)
  obtain rest where r: "handle_updates c ups (tg_UpdateID up + 1) = (off', rest)"
    using Cons.prems(1) by (auto simp: Let_def split: prod.splits)
  have ih: "tg_UpdateID up + 1 \<le> off'" "distinct (map fst rest)"
      "\<forall>i \<in> fst ` set rest. tg_UpdateID up + 1 \<le> i \<and> i < off'"
    using Cons.IH [OF r] Cons.prems(2) by (auto simp: add1_zle_eq)
  from Cons.prems r have "out = rest \<or> (\<exists>d. out = (tg_UpdateID up, d) # rest)"
    by (auto simp: Let_def split: if_splits option.splits)
  moreover have "off \<le> tg_UpdateID up" using Cons.prems(3) by simp
  ultimately show ?case using ih by fastforce
qed simp

lemma polls_ids:
  "polls c ps off = (off', out) \<Longrightarrow> list_all (\<lambda>(fetch, _). api_ok fetch) ps \<Longrightarrow>
     off \<le> off' \<and> distinct (map fst out) \<and> (\<forall>i \<in> fst ` set out. off \<le> i \<and> i < off')"
proof (induction c ps off arbitrary: off' out rule: polls.induct)
  case (2 c fetch cmds rest off)
  obtain o1 out1 where p: "pollTelegram fetch (c\<lparr>rc_commands := cmds\<rparr>) off = (o1, out1)" by fastforce
  obtain o2 out2 where q: "polls c rest o1 = (o2, out2)" by fastforce
  have res: "off' = o2" "out = out1 @ out2" using "2.prems"(1) by (auto simp: p q)
  have a: "off \<le> o1" "distinct (map fst out1)" "\<forall>i \<in> fst ` set out1. off \<le> i \<and> i < o1"
    using p "2.prems"(2) handle_updates_ids [of "c\<lparr>rc_commands := cmds\<rparr>" _ off o1 out1]
    by (auto simp: pollTelegram_def api_ok_def split: option.splits)
  have b: "o1 \<le> o2" "distinct (map fst out2)" "\<forall>i \<in> fst ` set out2. o1 \<le> i \<and> i < o2"
    using "2.IH" [OF p [symmetric] refl q] "2.prems"(2) by auto
  show ?case
    unfolding res using a b by (fastforce simp: disjoint_iff)
qed simp

lemma polls_allowed: "polls c ps off = (off', out) \<Longrightarrow> list_all (allowed_answer c ps) out"
proof (induction c ps off arbitrary: off' out rule: polls.induct)
  case (2 c fetch cmds rest off)
  obtain o1 out1 where p: "pollTelegram fetch (c\<lparr>rc_commands := cmds\<rparr>) off = (o1, out1)" by fastforce
  obtain o2 out2 where q: "polls c rest o1 = (o2, out2)" by fastforce
  have "list_all (allowed_answer c ((fetch, cmds) # rest)) out1"
  proof (cases "fetch off")
    case None
    with p show ?thesis by (simp add: pollTelegram_def)
  next
    case (Some ups)
    with p have "handle_updates (c\<lparr>rc_commands := cmds\<rparr>) ups off = (o1, out1)" by (simp add: pollTelegram_def)
    from handle_updates_answers [OF this] Some show ?thesis
      unfolding list_all_iff allowed_answer_def by fastforce
  qed
  moreover have "list_all (allowed_answer c ((fetch, cmds) # rest)) out2"
    using "2.IH" [OF p [symmetric] refl q] unfolding list_all_iff allowed_answer_def by fastforce
  moreover have "out = out1 @ out2" using "2.prems" by (auto simp: p q)
  ultimately show ?case by simp
qed simp

section \<open>Properties\<close>

text \<open>
  The channel answers allowed chats only, with the answer of the command in the message:
  nothing else the bot API returns has an effect, and a disabled channel has none at all.
\<close>

theorem remote_answers_allowed:
  "list_all (allowed_answer c ps) (Start_remote c ps) \<and>
     (Start_remote c ps = [] \<or> rcc_Enabled (rc_cfg c) \<and> loop_enabled c)"
proof -
  obtain o' out where "polls c ps 0 = (o', out)" by fastforce
  with polls_allowed [OF this] show ?thesis by (simp add: Start_remote_def telegramLoop_def)
qed

text \<open>
  C32: no update is answered twice, over any run of polls, when the bot API returns increasing
  identifiers from the offset on (getUpdates).
\<close>

theorem remote_at_most_once:
  assumes "list_all (\<lambda>(fetch, _). api_ok fetch) ps"
  shows "distinct (map fst (Start_remote c ps))"
proof -
  obtain o' out where "polls c ps 0 = (o', out)" by fastforce
  with polls_ids [OF this assms] show ?thesis by (simp add: Start_remote_def telegramLoop_def)
qed

text \<open>A bot with two pending updates, polled twice.\<close>

definition sample_api :: bot_api where
  "sample_api off = Some (filter (\<lambda>u. off \<le> tg_UpdateID u)
     [\<lparr>tg_UpdateID = 7, tg_ChatID = 42, tg_Text = ''/ping''\<rparr>, \<lparr>tg_UpdateID = 9, tg_ChatID = 5, tg_Text = ''/ping''\<rparr>])"

definition sample_controller :: Controller where
  "sample_controller = \<lparr>rc_cfg = \<lparr>rcc_Enabled = True, rcc_AllowCommands = [],
       rcc_Telegram = \<lparr>tin_Enabled = True, tin_AllowChatIDs = [''42''], tin_PollSeconds = 5\<rparr>,
       rcc_Email = \<lparr>ein_Enabled = False, ein_IMAPHost = '''', ein_IMAPPort = 0, ein_User = '''', ein_Folder = '''',
         ein_RequireDKIM = False, ein_AllowFrom = [], ein_PollSeconds = 0\<rparr>\<rparr>,
     rc_botToken = ''t'', rc_commands = []\<rparr>"

theorem remote_at_most_once_witness:
  "map fst (Start_remote sample_controller [(sample_api, gateway_commands Version [] []), (sample_api, [])]) = [7] \<and>
     distinct (map fst (Start_remote sample_controller [(sample_api, gateway_commands Version [] []), (sample_api, [])]))"
proof
  show "map fst (Start_remote sample_controller [(sample_api, gateway_commands Version [] []), (sample_api, [])]) = [7]"
    by code_simp
  have "api_ok sample_api" by (auto simp: api_ok_def sample_api_def)
  then show "distinct (map fst (Start_remote sample_controller [(sample_api, gateway_commands Version [] []), (sample_api, [])]))"
    using remote_at_most_once [of "[(sample_api, gateway_commands Version [] []), (sample_api, [])]"] by simp
qed

text \<open>
  The arguments of a command keep the command word when the message begins with white space:
  the code strips the word only from the front of the message.
\<close>

lemma leading_space_arguments: "parse_command '' /ping x'' = Some (''ping'', ''/ping x'')" "parse_command ''/ping x'' = Some (''ping'', ''x'')"
  by code_simp+

end
