(* ===== verification/HostAgent.thy ===== *)
theory HostAgent
  imports Agent GoUrl Encoding Certs "HOL-Library.AList" "HOL-Library.Product_Lexorder"
begin

text \<open>
  The lower half of the hosting extension, ext/hosting/main.go: its data, the client of the
  agent's socket, and the functions that parse the agent's answers and read the gateway's files.
  The extension holds no power of its own: its state is the table of Adminer sessions, and what
  it does to the host is what the agent of theory Agent runs for it, the history.
\<close>

subsection \<open>Data\<close>

record phpCfg =
  pc_UploadMaxFilesize :: string
  pc_PostMaxSize :: string
  pc_MemoryLimit :: string
  pc_MaxFileUploads :: string
  pc_MaxExecutionTime :: string
  pc_IniRawB64 :: string
  pc_FpmRawB64 :: string

record vhost =
  vh_Vhost :: string
  vh_Domain :: string
  vh_Template :: string
  vh_PhpVersion :: string
  vh_Db :: string
  vh_AutoUpdate :: bool
  vh_Running :: int
  vh_Upstream :: string
  vh_PhpExt :: string
  vh_PhpCfg :: phpCfg
  vh_Published :: string
  vh_SSL :: string
  vh_PubHost :: string
  vh_PubRule :: string
  vh_PubWWW :: bool

record site =
  si_Name :: string
  si_Domain :: string
  si_UID :: int
  si_Running :: int
  si_Template :: string
  si_PhpVersion :: string
  si_Db :: string
  si_AutoUpdate :: bool
  si_Legacy :: bool
  si_Vhosts :: "vhost list"
  si_Published :: string
  si_SSL :: string
  si_PubHost :: string

record hostingUser =
  hu_User :: string
  hu_UID :: int
  hu_Site :: string
  hu_Home :: string
  hu_Orphan :: bool
  hu_Scp :: string
  hu_Keys :: int

record sshdStatus =
  sd_Installed :: bool
  sd_Running :: bool
  sd_Port :: int

record dbStatus =
  db_Engine :: string
  db_Installed :: bool
  db_Running :: bool
  db_Host :: string
  db_Port :: int
  db_Localhost :: string
  db_Version :: string

record osUpdate =
  ou_Name :: string
  ou_Current :: string
  ou_Candidate :: string
  ou_Security :: bool
  ou_Held :: bool

record osUpdatesResult =
  or_Total :: int
  or_Security :: int
  or_Held :: int
  or_RebootRequired :: bool
  or_Packages :: "osUpdate list"
  or_Note :: string

record fail2banStatus =
  fb_Enabled :: bool
  fb_Jail :: string
  fb_CurrentlyBanned :: int
  fb_TotalBanned :: int
  fb_CurrentlyFailed :: int
  fb_Banned :: "string list"
  fb_Note :: string

record diagEvent =
  de_Ts :: string
  de_Level :: string
  de_Source :: string
  de_Site :: string
  de_Msg :: string
  de_Rank :: int

text \<open>The tab of a database engine: agent name, URL segment, label, Adminer's driver parameter.\<close>

record dbTab =
  dt_Engine :: string
  dt_Seg :: string
  dt_Label :: string
  dt_Driver :: string

definition dbTabs :: "string \<Rightarrow> dbTab" where
  "dbTabs seg =
     (if seg = ''mysql'' then \<lparr>dt_Engine = ''mysql'', dt_Seg = ''mysql'', dt_Label = ''MySQL'', dt_Driver = ''server''\<rparr>
      else if seg = ''pgsql'' then \<lparr>dt_Engine = ''pg'', dt_Seg = ''pgsql'', dt_Label = ''PgSQL'', dt_Driver = ''pgsql''\<rparr>
      else \<lparr>dt_Engine = '''', dt_Seg = '''', dt_Label = '''', dt_Driver = ''''\<rparr>)"

record adminerSession =
  as_engine :: string
  as_alias :: string
  as_last :: int

subsection \<open>State and environment\<close>

text \<open>
  \<open>hw_adminer\<close> is the map of the server, in the order an iteration visits it; \<open>hw_hist\<close> is what the
  agent has run.  \<open>hw_calls\<close> lists the commands the extension has asked for: one connection each, so
  what a connection does depends on it, and the properties speak of it.
\<close>

type_synonym calls = "(string \<times> params) list"

record HWorld =
  hw_adminer :: "(string \<times> adminerSession) list"
  hw_hist :: history
  hw_calls :: calls

text \<open>
  A decoder gives the error of \<open>json.Unmarshal\<close> and the value it leaves, which a type mismatch
  fills in part.  Of services.json the extension reads a few fields only.
\<close>

type_synonym 'a decoder = "bytes \<Rightarrow> string option \<times> 'a"

record svcRoute =
  sr_Upstream :: string
  sr_Rule :: string

record svcBackend =
  sb_Disabled :: bool
  sb_Host :: string
  sb_WWW :: bool
  sb_Routes :: "svcRoute list"

record hcodec =
  hc_sites :: "site list decoder"
  hc_users :: "hostingUser list decoder"
  hc_sshd :: "sshdStatus decoder"
  hc_db :: "dbStatus decoder"
  hc_names :: "string list decoder"
  hc_updates :: "osUpdatesResult decoder"
  hc_f2b :: "fail2banStatus decoder"
  hc_applied :: "(int \<times> bool) decoder"
  hc_plan :: "(string list \<times> string list) decoder"
  hc_held :: "bool decoder"
  hc_diag :: "diagEvent list decoder"
  hc_services :: "bytes \<Rightarrow> svcBackend list option"

text \<open>
  The agent at the other end of the socket with its host, the connection (dialling, sending and
  reading can fail; a failed read comes after the command ran), the JSON codecs, the mounted
  files, the clock and the random tokens.
\<close>

record HEnv =
  he_agent :: Agent
  he_stat :: "string \<Rightarrow> fileinfo option"
  he_host :: host
  he_creds :: "(nat \<times> nat) option"
  he_enc :: "Request \<Rightarrow> bytes"
  he_dec :: "bytes \<Rightarrow> Request option"
  he_dial :: "calls \<Rightarrow> string option"
  he_send :: "calls \<Rightarrow> string option"
  he_recv :: "calls \<Rightarrow> Response \<Rightarrow> string + Response"
  he_codec :: hcodec
  he_fs :: fs
  he_pki :: pki
  he_now :: int
  he_servicesPath :: string
  he_certsPath :: string
  he_rand :: "nat \<Rightarrow> string"

text \<open>\<open>randToken\<close>: ten random hex digits after the prefix; draws are numbered.\<close>

definition randToken :: "HEnv \<Rightarrow> nat \<Rightarrow> string \<Rightarrow> string" where
  "randToken e i pre = pre @ he_rand e i"

subsection \<open>Calling the agent\<close>

definition callAgent :: "HEnv \<Rightarrow> string \<Rightarrow> params \<Rightarrow> HWorld \<Rightarrow> (string + Response) \<times> HWorld" where
  "callAgent e cmd params w =
     (let w1 = w\<lparr>hw_calls := hw_calls w @ [(cmd, params)]\<rparr> in
      case he_dial e (hw_calls w1) of
        Some err \<Rightarrow> (Inl (''dial agent: '' @ err), w1)
      | None \<Rightarrow>
          (case he_send e (hw_calls w1) of
             Some err \<Rightarrow> (Inl (''send '' @ cmd @ '': '' @ err), w1)
           | None \<Rightarrow>
               (let (rsp, h') = Agent.handle (he_stat e) (he_host e) (he_dec e) (he_agent e) (he_creds e)
                      (he_enc e \<lparr>req_Cmd = cmd, req_Params = params\<rparr>) (hw_hist w);
                    w2 = w1\<lparr>hw_hist := h'\<rparr>
                in case he_recv e (hw_calls w1) rsp of
                     Inl err \<Rightarrow> (Inl (''read '' @ cmd @ '': '' @ err), w2)
                   | Inr r \<Rightarrow> (Inr r, w2))))"

text \<open>\<open>err \<noteq> nil || !resp.OK\<close>, and the standard output of an answer.\<close>

definition failed :: "string + Response \<Rightarrow> bool" where
  "failed r = (case r of Inl _ \<Rightarrow> True | Inr rsp \<Rightarrow> \<not> res_OK rsp)"

definition stdout :: "string + Response \<Rightarrow> bytes" where
  "stdout r = (case r of Inl _ \<Rightarrow> '''' | Inr rsp \<Rightarrow> res_Stdout rsp)"

definition firstLine :: "string \<Rightarrow> string" where
  "firstLine s = (case IndexByte s CHR 0x0A of Some i \<Rightarrow> take i s | None \<Rightarrow> s)"

definition agentMsg :: "string + Response \<Rightarrow> string" where
  "agentMsg r =
     (case r of
        Inl err \<Rightarrow> err
      | Inr rsp \<Rightarrow>
          if res_Error rsp \<noteq> '''' then res_Error rsp
          else let s = TrimSpace (res_Stderr rsp) in
               if s \<noteq> '''' then firstLine s else firstLine (TrimSpace (res_Stdout rsp)))"

definition callJSON :: "HEnv \<Rightarrow> string \<Rightarrow> params \<Rightarrow> 'a decoder \<Rightarrow> 'a \<Rightarrow> HWorld \<Rightarrow> (string option \<times> 'a) \<times> HWorld" where
  "callJSON e cmd params dec zero w =
     (case callAgent e cmd params w of
        (Inl err, w1) \<Rightarrow> ((Some err, zero), w1)
      | (Inr rsp, w1) \<Rightarrow>
          if \<not> res_OK rsp then ((Some (cmd @ '': '' @ agentMsg (Inr rsp)), zero), w1)
          else (dec (res_Stdout rsp), w1))"

subsection \<open>Text\<close>

text \<open>\<open>strings.Cut\<close> at a byte: before, after, and whether it was found.\<close>

definition Cut :: "string \<Rightarrow> char \<Rightarrow> string \<times> string \<times> bool" where
  "Cut s sep = (case IndexByte s sep of Some i \<Rightarrow> (take i s, drop (Suc i) s, True) | None \<Rightarrow> (s, '''', False))"

definition kv_token :: "string \<Rightarrow> (string \<rightharpoonup> string) \<Rightarrow> (string \<rightharpoonup> string)" where
  "kv_token tok m = (case IndexByte tok CHR ''='' of Some i \<Rightarrow> m(take i tok \<mapsto> drop (Suc i) tok) | None \<Rightarrow> m)"

definition kvFields :: "string \<Rightarrow> string \<rightharpoonup> string" where
  "kvFields s = fold kv_token (Fields s) Map.empty"

text \<open>A missing key reads as the empty string.\<close>

definition kv :: "(string \<rightharpoonup> string) \<Rightarrow> string \<Rightarrow> string" where
  "kv m k = (case m k of Some v \<Rightarrow> v | None \<Rightarrow> '''')"

definition slug_char :: "char \<Rightarrow> bool" where
  "slug_char c \<longleftrightarrow> (CHR ''a'' \<le> c \<and> c \<le> CHR ''z'') \<or> (CHR ''0'' \<le> c \<and> c \<le> CHR ''9'')"

text \<open>The builder and the flag of the loop (ASCII letters; other bytes count as separators).\<close>

fun slug_loop :: "string \<Rightarrow> bool \<Rightarrow> string \<Rightarrow> string" where
  "slug_loop b dash [] = b"
| "slug_loop b dash (c # s) =
     (if slug_char c then slug_loop (b @ [c]) False s
      else if \<not> dash \<and> b \<noteq> [] then slug_loop (b @ ''-'') True s
      else slug_loop b dash s)"

definition TrimDash :: "string \<Rightarrow> string" where
  "TrimDash s = TrimFunc (\<lambda>c. c = CHR ''-'') s"

definition slugify :: "string \<Rightarrow> string" where
  "slugify domain =
     (let s = TrimPrefix (ToLower (TrimSpace domain)) ''www.'';
          slug0 = TrimDash (slug_loop [] False s);
          slug1 = (if length slug0 > 30 then TrimDash (take 30 slug0) else slug0)
      in if slug1 \<noteq> '''' \<and> (hd slug1 < CHR ''a'' \<or> hd slug1 > CHR ''z'')
         then (let t = ''s'' @ slug1 in if length t > 31 then take 31 t else t)
         else slug1)"

definition vhostLabel :: "string \<Rightarrow> string \<Rightarrow> string" where
  "vhostLabel name vh = (if vh = '''' then name else name @ ''/'' @ vh)"

definition sshSection :: "string \<Rightarrow> string \<Rightarrow> string \<Rightarrow> string" where
  "sshSection s start fin =
     (case Index s start of
        None \<Rightarrow> ''''
      | Some i \<Rightarrow>
          let rest = drop (i + length start) s;
              rest' = (if fin \<noteq> '''' then (case Index rest fin of Some j \<Rightarrow> take j rest | None \<Rightarrow> rest) else rest)
          in TrimSpace rest')"

fun normalizeNL :: "string \<Rightarrow> string" where
  "normalizeNL (c # d # s) = (if c = CHR 0x0D \<and> d = CHR 0x0A then CHR 0x0A # normalizeNL s else c # normalizeNL (d # s))"
| "normalizeNL s = s"

text \<open>\<open>base64.StdEncoding\<close>: groups of four with padding; decoding skips line breaks.\<close>

definition std64_Encode :: "bytes \<Rightarrow> string" where
  "std64_Encode b = base64_EncodeToString b @ replicate ((3 - length b mod 3) mod 3) CHR ''=''"

definition std64_Decode :: "string \<Rightarrow> bytes option" where
  "std64_Decode s =
     (let t = strip_newlines s; core = TrimRight t CHR ''='' in
      if length t mod 4 \<noteq> 0 \<or> length t - length core > 2 then None else base64_DecodeString core)"

definition decodeB64 :: "string \<Rightarrow> string" where
  "decodeB64 s = (if s = '''' then '''' else case std64_Decode s of None \<Rightarrow> '''' | Some b \<Rightarrow> b)"

text \<open>\<open>fmt.Sprintf\<close> with one \<open>%s\<close>.\<close>

definition Sprintf1 :: "string \<Rightarrow> string \<Rightarrow> string" where
  "Sprintf1 fmt x = (case Index fmt ''%s'' of Some i \<Rightarrow> take i fmt @ x @ drop (i + 2) fmt | None \<Rightarrow> fmt)"

subsection \<open>The gateway's files\<close>

record bkInfo =
  bi_State :: string
  bi_Host :: string
  bi_Rule :: string
  bi_WWW :: bool

definition zero_bkInfo :: bkInfo where
  "zero_bkInfo = \<lparr>bi_State = '''', bi_Host = '''', bi_Rule = '''', bi_WWW = False\<rparr>"

definition index_backend :: "svcBackend \<Rightarrow> (string \<rightharpoonup> bkInfo) \<times> (string \<rightharpoonup> bkInfo) \<Rightarrow> (string \<rightharpoonup> bkInfo) \<times> (string \<rightharpoonup> bkInfo)" where
  "index_backend b = (\<lambda>(byUp, byName).
     let st = (if sb_Disabled b then ''down'' else ''up'');
         rule = (case sb_Routes b of [] \<Rightarrow> '''' | rt # _ \<Rightarrow> sr_Rule rt);
         byUp' = fold (\<lambda>rt m. if sr_Upstream rt \<noteq> ''''
             then m(sr_Upstream rt \<mapsto> \<lparr>bi_State = st, bi_Host = sb_Host b, bi_Rule = sr_Rule rt, bi_WWW = sb_WWW b\<rparr>) else m)
           (sb_Routes b) byUp;
         byName' = (if sb_Host b \<noteq> ''''
             then byName(sb_Host b \<mapsto> \<lparr>bi_State = st, bi_Host = sb_Host b, bi_Rule = rule, bi_WWW = sb_WWW b\<rparr>) else byName)
     in (byUp', byName'))"

definition backendStates :: "HEnv \<Rightarrow> (string \<rightharpoonup> bkInfo) \<times> (string \<rightharpoonup> bkInfo)" where
  "backendStates e =
     (if he_servicesPath e = '''' then (Map.empty, Map.empty)
      else case ReadFile (he_fs e) (he_servicesPath e) of
        Inl _ \<Rightarrow> (Map.empty, Map.empty)
      | Inr data \<Rightarrow>
          (case hc_services (he_codec e) data of
             None \<Rightarrow> (Map.empty, Map.empty)
           | Some bs \<Rightarrow> fold index_backend bs (Map.empty, Map.empty)))"

definition certState :: "HEnv \<Rightarrow> string \<Rightarrow> string" where
  "certState e host =
     (if host = '''' \<or> he_certsPath e = '''' then ''none''
      else case ReadFile (he_fs e) (pathJoin [he_certsPath e, host @ ''.crt'']) of
        Inl _ \<Rightarrow> ''none''
      | Inr data \<Rightarrow>
          (case pk_block (he_pki e) data of
             None \<Rightarrow> ''none''
           | Some der \<Rightarrow>
               (case pk_parse (he_pki e) der of
                  None \<Rightarrow> ''none''
                | Some c \<Rightarrow> if he_now e < ct_NotAfter c then ''up'' else ''down'')))"

subsection \<open>The list of sites\<close>

text \<open>
  \<open>httpdocs\<close> first, the others by name.  (The names of a site's vhosts are distinct, as they are
  directories; with two of the name \<open>httpdocs\<close> the order is unspecified in Go.)
\<close>

definition sort_vhosts :: "vhost list \<Rightarrow> vhost list" where
  "sort_vhosts vs =
     filter (\<lambda>v. vh_Vhost v = ''httpdocs'') vs @ sort_key vh_Vhost (filter (\<lambda>v. vh_Vhost v \<noteq> ''httpdocs'') vs)"

definition vhost_state :: "HEnv \<Rightarrow> (string \<rightharpoonup> bkInfo) \<Rightarrow> (string \<rightharpoonup> bkInfo) \<Rightarrow> string \<Rightarrow> vhost \<Rightarrow> vhost" where
  "vhost_state e byUp byName siteDomain v =
     (let servedHost = (if vh_Domain v = '''' \<and> vh_Vhost v = ''httpdocs'' then siteDomain else vh_Domain v);
          info = (case byUp (vh_Upstream v) of
                    Some i \<Rightarrow> i
                  | None \<Rightarrow> if servedHost \<noteq> ''''
                           then (case byName servedHost of Some i \<Rightarrow> i | None \<Rightarrow> zero_bkInfo) else zero_bkInfo);
          certHost = (if servedHost = '''' then bi_Host info else servedHost)
      in v\<lparr>vh_Published := (if bi_State info = '''' then ''none'' else bi_State info),
           vh_PubRule := bi_Rule info, vh_PubWWW := bi_WWW info,
           vh_PubHost := (if bi_Host info = '''' then servedHost else bi_Host info),
           vh_SSL := certState e certHost\<rparr>)"

definition site_state :: "HEnv \<Rightarrow> (string \<rightharpoonup> bkInfo) \<Rightarrow> (string \<rightharpoonup> bkInfo) \<Rightarrow> site \<Rightarrow> site" where
  "site_state e byUp byName si =
     (let vs = map (vhost_state e byUp byName (si_Domain si)) (sort_vhosts (si_Vhosts si))
      in fold (\<lambda>v si'. if vh_Vhost v = ''httpdocs''
                 then si'\<lparr>si_Published := vh_Published v, si_SSL := vh_SSL v, si_PubHost := vh_PubHost v\<rparr> else si')
           vs (si\<lparr>si_Vhosts := vs, si_Published := ''none'', si_SSL := ''none''\<rparr>))"

definition listSites :: "HEnv \<Rightarrow> HWorld \<Rightarrow> (string + site list) \<times> HWorld" where
  "listSites e w =
     (case callJSON e ''site_list'' [] (hc_sites (he_codec e)) [] w of
        ((Some err, _), w1) \<Rightarrow> (Inl err, w1)
      | ((None, sites), w1) \<Rightarrow>
          (let (byUp, byName) = backendStates e
           in (Inr (map (site_state e byUp byName) (sort_key si_Name sites)), w1)))"

subsection \<open>Lemmas: calls\<close>

text \<open>What one call leaves: the sessions, one more connection, and at most one vetted command.\<close>

definition hsafe :: "HEnv \<Rightarrow> history \<Rightarrow> bool" where
  "hsafe e h \<longleftrightarrow> (\<forall>x \<in> set h. vetted (he_stat e) (he_agent e) x)"

lemma callAgent_cases:
  assumes "callAgent e cmd params w = (r, w')"
  shows "hw_calls w' = hw_calls w @ [(cmd, params)] \<and> hw_adminer w' = hw_adminer w \<and>
    (hw_hist w' = hw_hist w \<or> (\<exists>x. hw_hist w' = hw_hist w @ [x] \<and> vetted (he_stat e) (he_agent e) x))"
proof -
  obtain rsp h' where h: "Agent.handle (he_stat e) (he_host e) (he_dec e) (he_agent e) (he_creds e)
      (he_enc e \<lparr>req_Cmd = cmd, req_Params = params\<rparr>) (hw_hist w) = (rsp, h')"
    by fastforce
  from handle_history [OF h] assms h show ?thesis
    by (auto simp: callAgent_def Let_def split: option.splits sum.splits)
qed

lemma callAgent_calls [simp]: "hw_calls (snd (callAgent e cmd params w)) = hw_calls w @ [(cmd, params)]"
  using callAgent_cases [of e cmd params w] by (metis surjective_pairing)

lemma callAgent_adminer [simp]: "hw_adminer (snd (callAgent e cmd params w)) = hw_adminer w"
  using callAgent_cases [of e cmd params w] by (metis surjective_pairing)

lemma callAgent_safe: "hsafe e (hw_hist w) \<Longrightarrow> hsafe e (hw_hist (snd (callAgent e cmd params w)))"
  using callAgent_cases [of e cmd params w "fst (callAgent e cmd params w)" "snd (callAgent e cmd params w)"]
  by (auto simp: hsafe_def)

lemma snd_callJSON [simp]: "snd (callJSON e cmd params dec z w) = snd (callAgent e cmd params w)"
  by (simp add: callJSON_def split: prod.splits sum.splits)

lemma snd_listSites [simp]: "snd (listSites e w) = snd (callAgent e ''site_list'' [] w)"
proof -
  obtain r v w1 where c: "callJSON e ''site_list'' [] (hc_sites (he_codec e)) [] w = ((r, v), w1)"
    by (metis prod.exhaust)
  then have "w1 = snd (callAgent e ''site_list'' [] w)" by (metis snd_callJSON snd_conv)
  with c show ?thesis by (cases r) (simp_all add: listSites_def Let_def split: prod.splits)
qed

text \<open>Text of a connection that works: the agent reads what was sent, the extension what it answered.\<close>

definition wire_ok :: "HEnv \<Rightarrow> bool" where
  "wire_ok e \<longleftrightarrow> (\<forall>cs rsp r. he_recv e cs rsp = Inr r \<longrightarrow> r = rsp)"

definition sent_ok :: "HEnv \<Rightarrow> string \<Rightarrow> params \<Rightarrow> bool" where
  "sent_ok e cmd params \<longleftrightarrow>
     he_dec e (take maxRequest (he_enc e \<lparr>req_Cmd = cmd, req_Params = params\<rparr>)) = Some \<lparr>req_Cmd = cmd, req_Params = params\<rparr>"

text \<open>An answer that is not a failure: the agent has run the command's script with these parameters.\<close>

lemma callAgent_ok:
  assumes c: "callAgent e cmd params w = (r, w')" and ok: "\<not> failed r" and w: "wire_ok e" and s: "sent_ok e cmd params"
  shows "\<exists>c ttl out err. ag_commands (he_agent e) cmd = Some c \<and> allowed (cm_Manifest c) params \<and>
    hw_hist w' = hw_hist w @ [Exec (cm_Script c) (command_env params) ttl] \<and>
    he_host e (hw_hist w) (Exec (cm_Script c) (command_env params) ttl) = Exited 0 out err \<and> stdout r = capture out"
proof -
  let ?raw = "he_enc e \<lparr>req_Cmd = cmd, req_Params = params\<rparr>"
  obtain rsp h' where h: "Agent.handle (he_stat e) (he_host e) (he_dec e) (he_agent e) (he_creds e) ?raw (hw_hist w) = (rsp, h')"
    by fastforce
  from c ok w h have r: "r = Inr rsp" and h': "hw_hist w' = h'" and res: "res_OK rsp"
    by (auto simp: callAgent_def Let_def failed_def wire_ok_def split: option.splits sum.splits)
  from h res s show ?thesis
    unfolding sent_ok_def Agent.handle_def
    by (auto simp: r h' Let_def zero_Response_def run_command_def validate_None stdout_def
          split: if_splits option.splits outcome.splits prod.splits)
qed

subsection \<open>Lemmas: slugs\<close>

text \<open>Of a slug: letters, digits and dashes, no dash first or after a dash.\<close>

definition dash_free_ends :: "string \<Rightarrow> bool" where
  "dash_free_ends s \<longleftrightarrow> s = [] \<or> (hd s \<noteq> CHR ''-'' \<and> last s \<noteq> CHR ''-'')"

fun single_dashes :: "string \<Rightarrow> bool" where
  "single_dashes (c # d # s) = (\<not> (c = CHR ''-'' \<and> d = CHR ''-'') \<and> single_dashes (d # s))"
| "single_dashes s = True"

abbreviation slug_chars :: "string \<Rightarrow> bool" where
  "slug_chars s \<equiv> list_all (\<lambda>c. slug_char c \<or> c = CHR ''-'') s"

lemma slug_char_dash [simp]: "\<not> slug_char CHR ''-''"
  by (simp add: slug_char_def of_char_le)

lemma single_dashes_append:
  "single_dashes (a @ [c]) \<longleftrightarrow> single_dashes a \<and> \<not> (a \<noteq> [] \<and> last a = CHR ''-'' \<and> c = CHR ''-'')"
  by (induction a rule: single_dashes.induct) auto

lemma single_dashes_drop: "single_dashes s \<Longrightarrow> single_dashes (drop n s)"
proof (induction n arbitrary: s)
  case (Suc n)
  then show ?case by (cases s rule: single_dashes.cases) (auto split: nat.splits)
qed simp

lemma single_dashes_prefix: "single_dashes (a @ b) \<Longrightarrow> single_dashes a"
  by (induction a rule: single_dashes.induct) (auto simp: neq_Nil_conv)

lemma slug_loop_shape:
  assumes "slug_chars b" "single_dashes b" "b = [] \<or> hd b \<noteq> CHR ''-''"
    "b \<noteq> [] \<Longrightarrow> dash = (last b = CHR ''-'')" "b = [] \<Longrightarrow> \<not> dash"
  shows "slug_chars (slug_loop b dash s) \<and> single_dashes (slug_loop b dash s) \<and>
    (slug_loop b dash s = [] \<or> hd (slug_loop b dash s) \<noteq> CHR ''-'')"
  using assms
proof (induction b dash s rule: slug_loop.induct)
  case (2 b dash c s)
  have hd: "b \<noteq> [] \<Longrightarrow> hd (b @ [x]) = hd b" for x by simp
  consider "slug_char c" | "\<not> slug_char c" "\<not> dash" "b \<noteq> []" | "\<not> slug_char c" "dash \<or> b = []" by blast
  then show ?case
  proof cases
    case 1
    then have "c \<noteq> CHR ''-''" by auto
    with 1 2(1) [OF 1] "2.prems" show ?thesis by (cases "b = []") (auto simp: single_dashes_append)
  next
    case 2
    with "2.IH"(2) "2.prems" show ?thesis by (auto simp: single_dashes_append hd_append)
  next
    case 3
    with "2.IH"(3) "2.prems" show ?thesis by auto
  qed
qed auto

lemma TrimFunc_infix: "\<exists>a b. s = a @ TrimFunc P s @ b"
proof -
  obtain b where "dropWhile P s = TrimFunc P s @ b"
    unfolding TrimFunc_def using TrimRightFunc_append by blast
  then have "s = takeWhile P s @ TrimFunc P s @ b" by (metis takeWhile_dropWhile_id)
  then show ?thesis by blast
qed

lemma TrimFunc_ends: "TrimFunc P s = [] \<or> (\<not> P (hd (TrimFunc P s)) \<and> \<not> P (last (TrimFunc P s)))"
proof (cases "TrimFunc P s = []")
  case False
  obtain b where b: "dropWhile P s = TrimFunc P s @ b"
    unfolding TrimFunc_def using TrimRightFunc_append by blast
  with False have "hd (dropWhile P s) = hd (TrimFunc P s)" "dropWhile P s \<noteq> []" by auto
  moreover have "\<not> P (last (TrimFunc P s))"
    using False unfolding TrimFunc_def by (rule TrimRightFunc_last)
  ultimately show ?thesis by (metis hd_dropWhile)
qed simp

lemma TrimDash_shape:
  assumes "slug_chars s" "single_dashes s"
  shows "slug_chars (TrimDash s) \<and> single_dashes (TrimDash s) \<and> dash_free_ends (TrimDash s)"
proof -
  obtain a b where s: "s = a @ TrimDash s @ b" unfolding TrimDash_def using TrimFunc_infix by blast
  have "slug_chars (TrimDash s)" using assms(1) s by (metis list_all_append)
  moreover have "single_dashes (TrimDash s)"
    using assms(2) s single_dashes_drop [of s "length a"] single_dashes_prefix
    by (metis append_eq_conv_conj)
  moreover have "dash_free_ends (TrimDash s)"
    unfolding dash_free_ends_def TrimDash_def using TrimFunc_ends by blast
  ultimately show ?thesis by blast
qed

lemma length_TrimDash: "length (TrimDash s) \<le> length s"
  unfolding TrimDash_def TrimFunc_def
  by (meson dual_order.trans length_TrimRightFunc length_dropWhile_le)

lemma slug_char_range: "slug_char c \<Longrightarrow> c < CHR ''a'' \<or> CHR ''z'' < c \<Longrightarrow> is_digit c"
  by (auto simp: slug_char_def is_digit_def)

text \<open>The pattern of a site's name, \<open>[a-z][a-z0-9-]{1,30}\<close>.\<close>

definition site_name_re :: re where
  "site_name_re = Seq (Cls (\<lambda>c. CHR ''a'' \<le> c \<and> c \<le> CHR ''z'')) (Rep (Cls (\<lambda>c. slug_char c \<or> c = CHR ''-'')) 1 30)"

lemma site_name_matches:
  "matches site_name_re s \<longleftrightarrow>
     slug_chars s \<and> 2 \<le> length s \<and> length s \<le> 31 \<and> CHR ''a'' \<le> hd s \<and> hd s \<le> CHR ''z''"
  by (cases s) (auto simp: site_name_re_def matches_lang lang_Seq_Cls matches_Rep_Cls [unfolded matches_lang] slug_char_def simp del: lang.simps)

text \<open>The two stages after the loop: cut to thirty characters, and a letter first.\<close>

definition slug_cut :: "string \<Rightarrow> string" where
  "slug_cut s = (if length s > 30 then TrimDash (take 30 s) else s)"

definition slug_letter :: "string \<Rightarrow> string" where
  "slug_letter s = (if s \<noteq> '''' \<and> (hd s < CHR ''a'' \<or> hd s > CHR ''z'') then ''s'' @ s else s)"

lemma slug_cut_shape:
  assumes "slug_chars s" "single_dashes s" "dash_free_ends s"
  shows "slug_chars (slug_cut s) \<and> single_dashes (slug_cut s) \<and> dash_free_ends (slug_cut s) \<and> length (slug_cut s) \<le> 30"
proof (cases "length s > 30")
  case True
  have "slug_chars (take 30 s)" "single_dashes (take 30 s)"
    using assms single_dashes_prefix [of "take 30 s" "drop 30 s"] append_take_drop_id [of 30 s]
    by (auto simp del: append_take_drop_id simp: list_all_iff dest: in_set_takeD)
  with True TrimDash_shape length_TrimDash [of "take 30 s"] show ?thesis by (simp add: slug_cut_def)
qed (use assms in \<open>auto simp: slug_cut_def\<close>)

lemma slugify_stages:
  "slugify domain = slug_letter (slug_cut (TrimDash (slug_loop [] False (TrimPrefix (ToLower (TrimSpace domain)) ''www.''))))"
proof -
  define s where "s = TrimDash (slug_loop [] False (TrimPrefix (ToLower (TrimSpace domain)) ''www.''))"
  have "length (slug_cut s) \<le> 30" unfolding s_def
    using slug_cut_shape TrimDash_shape slug_loop_shape [of "[]" False] by simp
  then show ?thesis
    unfolding slugify_def Let_def s_def [symmetric] slug_cut_def [symmetric]
    by (simp add: slug_letter_def)
qed

text \<open>A slug: at most 31 letters, digits and single dashes, a letter first and no dash last.\<close>

definition is_slug :: "string \<Rightarrow> bool" where
  "is_slug s \<longleftrightarrow> slug_chars s \<and> single_dashes s \<and> dash_free_ends s \<and> length s \<le> 31 \<and>
     (s \<noteq> [] \<longrightarrow> CHR ''a'' \<le> hd s \<and> hd s \<le> CHR ''z'' \<and> (length s = 31 \<longrightarrow> hd s = CHR ''s''))"

lemma slugify_is_slug: "is_slug (slugify domain)"
proof -
  define s where "s = slug_cut (TrimDash (slug_loop [] False (TrimPrefix (ToLower (TrimSpace domain)) ''www.'')))"
  have s: "slug_chars s" "single_dashes s" "dash_free_ends s" "length s \<le> 30"
    unfolding s_def using slug_cut_shape TrimDash_shape slug_loop_shape [of "[]" False] by simp_all
  show ?thesis
  proof (cases "s \<noteq> [] \<and> (hd s < CHR ''a'' \<or> hd s > CHR ''z'')")
    case True
    with s have "single_dashes (CHR ''s'' # s)" by (cases s) auto
    with True s show ?thesis
      by (simp add: slugify_stages s_def [symmetric] slug_letter_def is_slug_def dash_free_ends_def slug_char_def of_char_le)
  next
    case False
    with s show ?thesis
      by (auto simp: slugify_stages s_def [symmetric] slug_letter_def is_slug_def not_less)
  qed
qed

lemma slugify_name: "length (slugify domain) \<ge> 2 \<Longrightarrow> matches site_name_re (slugify domain)"
  using slugify_is_slug [of domain] by (cases "slugify domain") (auto simp: is_slug_def site_name_matches)

lemma slug_loop_id:
  assumes "single_dashes (b @ s)" "slug_chars s" "b @ s = [] \<or> hd (b @ s) \<noteq> CHR ''-''"
    "dash = (b \<noteq> [] \<and> last b = CHR ''-'')"
  shows "slug_loop b dash s = b @ s"
  using assms
proof (induction b dash s rule: slug_loop.induct)
  case (2 b dash c s)
  show ?case
  proof (cases "slug_char c")
    case True
    then have "c \<noteq> CHR ''-''" by auto
    with True 2 show ?thesis by auto
  next
    case False
    with 2 have c: "c = CHR ''-''" by simp
    with 2 have "b \<noteq> []" by (cases b) auto
    moreover have "\<not> dash"
      using 2 c single_dashes_prefix [of "b @ [c]" s] by (auto simp: single_dashes_append)
    ultimately show ?thesis using False c 2 by auto
  qed
qed simp

lemma slug_char_plain: "slug_char c \<or> c = CHR ''-'' \<Longrightarrow> \<not> is_space c \<and> lower_char c = c \<and> c \<noteq> CHR ''.''"
  by (auto simp: slug_char_def is_space_def lower_char_def of_char_le)

text \<open>Slugs that leave room for a letter in front stay as they are.\<close>

lemma slugify_id:
  assumes "is_slug s" "length s \<le> 30"
  shows "slugify s = s"
proof -
  have plain: "\<not> is_space c \<and> lower_char c = c \<and> c \<noteq> CHR ''.''" if "c \<in> set s" for c
    using that assms(1) slug_char_plain by (auto simp: is_slug_def list_all_iff)
  have "TrimSpace s = s"
    unfolding TrimSpace_def by (rule TrimFunc_id) (use plain in \<open>cases s; auto\<close>)
  moreover have "ToLower s = s" using plain by (simp add: ToLower_def map_idI)
  moreover have "\<not> prefix ''www.'' s" using plain [of "CHR ''.''"] by (auto simp: prefix_def)
  moreover have "slug_loop [] False s = s"
    using assms(1) slug_loop_id [of "[]" s False] by (auto simp: is_slug_def dash_free_ends_def)
  moreover have "TrimDash s = s"
    unfolding TrimDash_def by (rule TrimFunc_id) (use assms in \<open>auto simp: is_slug_def dash_free_ends_def\<close>)
  ultimately show ?thesis
    using assms by (auto simp: slugify_stages slug_cut_def slug_letter_def TrimPrefix_def is_slug_def)
qed

subsection \<open>Lemmas: base 64\<close>

lemma length_encode_quanta64: "length (encode_quanta64 vs) = 4 * (length vs div 3) + (case length vs mod 3 of 0 \<Rightarrow> 0 | Suc n \<Rightarrow> n + 2)"
  by (induction vs rule: encode_quanta64.induct) (auto split: nat.splits)

lemma std64_length: "length (std64_Encode bs) mod 4 = 0"
proof -
  have "length bs mod 3 = 0 \<or> length bs mod 3 = 1 \<or> length bs mod 3 = 2" by linarith
  then show ?thesis
    by (auto simp: std64_Encode_def base64_EncodeToString_def length_encode_quanta64)
qed

lemma base64_last: "base64_EncodeToString bs = [] \<or> last (base64_EncodeToString bs) \<noteq> CHR ''=''"
proof (cases "base64_EncodeToString bs = []")
  case False
  then have "last (base64_EncodeToString bs) \<in> set alpha64"
    using encode_quanta64_less [of _ "bytes_nats bs"] alpha64_distinct(2)
    by (auto simp: base64_EncodeToString_def last_map intro!: nth_mem)
  moreover have "CHR ''='' \<notin> set alpha64" by (simp add: alpha64_def)
  ultimately show ?thesis by metis
qed simp

theorem std64_roundtrip: "std64_Decode (std64_Encode bs) = Some bs"
proof -
  let ?pad = "replicate ((3 - length bs mod 3) mod 3) CHR ''=''" and ?b = "base64_EncodeToString bs"
  have t: "strip_newlines (?b @ ?pad) = ?b @ ?pad"
    using base64_encoded_chars [of _ bs] by (auto simp: strip_newlines_def filter_id_conv)
  have core: "TrimRight (?b @ ?pad) CHR ''='' = ?b"
  proof -
    have "dropWhile (\<lambda>x. x = CHR ''='') (rev (?b @ ?pad)) = dropWhile (\<lambda>x. x = CHR ''='') (rev ?b)"
      unfolding rev_append rev_replicate by (rule dropWhile_append2) simp
    then show ?thesis
      using base64_last [of bs] TrimRightFunc_id [of ?b "\<lambda>x. x = CHR ''=''"]
      by (simp add: TrimRightFunc_def)
  qed
  have "(3 - length bs mod 3) mod 3 \<le> 2" by simp
  then show ?thesis
    using std64_length [of bs]
    by (simp add: std64_Decode_def std64_Encode_def Let_def t core base64_roundtrip)
qed

subsection \<open>Lemmas: lines and fields\<close>

lemma normalizeNL_hd: "normalizeNL (d # s) \<noteq> [] \<and> (d \<noteq> CHR 0x0D \<longrightarrow> hd (normalizeNL (d # s)) = d)"
  by (cases s) auto

text \<open>No carriage return before a line feed is left, when none was doubled, and the rest is kept.\<close>

lemma normalizeNL_id: "CHR 0x0D \<notin> set s \<Longrightarrow> normalizeNL s = s"
  by (induction s rule: normalizeNL.induct) auto

text \<open>The line a script prints and what the extension reads from it.\<close>

definition kv_line :: "(string \<times> string) list \<Rightarrow> string" where
  "kv_line kvs = Join (map (\<lambda>(k, v). k @ ''='' @ v) kvs) '' ''"

definition plain_kv :: "string \<times> string \<Rightarrow> bool" where
  "plain_kv p \<longleftrightarrow> CHR ''='' \<notin> set (fst p) \<and> list_all (\<lambda>c. \<not> is_space c) (fst p @ snd p)"

lemma kv_token_pair: "plain_kv (k, v) \<Longrightarrow> kv_token (k @ CHR ''='' # v) m = m(k \<mapsto> v)"
  by (simp add: kv_token_def plain_kv_def IndexByte_append)

lemma kvFields_line:
  assumes "list_all plain_kv kvs" "distinct (map fst kvs)"
  shows "kvFields (kv_line kvs) = map_of kvs"
proof -
  have "list_all (\<lambda>t. t \<noteq> [] \<and> list_all (\<lambda>c. \<not> is_space c) t) (map (\<lambda>(k, v). k @ ''='' @ v) kvs)"
    using assms(1)
  proof (induction kvs)
    case (Cons p kvs)
    have "\<not> is_space CHR ''=''" by (simp add: is_space_def)
    with Cons show ?case by (cases p) (simp add: plain_kv_def)
  qed simp
  then have "Fields (kv_line kvs) = map (\<lambda>(k, v). k @ ''='' @ v) kvs"
    unfolding kv_line_def by (rule Fields_Join)
  moreover have "fold kv_token (map (\<lambda>(k, v). k @ ''='' @ v) kvs) m = m ++ map_of kvs" for m
    using assms
  proof (induction kvs arbitrary: m)
    case (Cons p kvs)
    obtain k v where p: "p = (k, v)" by fastforce
    with Cons.prems have k: "k \<notin> dom (map_of kvs)" "plain_kv (k, v)" and ps: "list_all plain_kv kvs" "distinct (map fst kvs)"
      by (auto simp: dom_map_of_conv_image_fst)
    have "fold kv_token (map (\<lambda>(k, v). k @ ''='' @ v) (p # kvs)) m = m(k \<mapsto> v) ++ map_of kvs"
      using Cons.IH [OF ps] by (simp add: p kv_token_pair [OF k(2)] fun_upd_def)
    also have "\<dots> = m ++ map_of (p # kvs)"
      unfolding map_add_upd_left [OF k(1)] by (rule ext) (simp add: p map_add_def)
    finally show ?case .
  qed simp
  ultimately show ?thesis by (simp add: kvFields_def)
qed

subsection \<open>Lemmas: the list of sites\<close>

lemma mset_sort_vhosts: "mset (sort_vhosts vs) = mset vs"
  by (simp add: sort_vhosts_def)

lemma sort_vhosts_order:
  "\<exists>hs vs'. sort_vhosts vs = hs @ vs' \<and> (\<forall>v \<in> set hs. vh_Vhost v = ''httpdocs'') \<and>
     (\<forall>v \<in> set vs'. vh_Vhost v \<noteq> ''httpdocs'') \<and> sorted (map vh_Vhost vs')"
proof -
  let ?hs = "filter (\<lambda>v. vh_Vhost v = ''httpdocs'') vs" and ?vs = "sort_key vh_Vhost (filter (\<lambda>v. vh_Vhost v \<noteq> ''httpdocs'') vs)"
  have "sort_vhosts vs = ?hs @ ?vs" by (rule sort_vhosts_def)
  moreover have "\<forall>v \<in> set ?hs. vh_Vhost v = ''httpdocs''" "\<forall>v \<in> set ?vs. vh_Vhost v \<noteq> ''httpdocs''" by auto
  moreover have "sorted (map vh_Vhost ?vs)" by (rule sorted_sort_key)
  ultimately show ?thesis by blast
qed

section \<open>Properties\<close>

text \<open>
  The name derived from a domain is well formed: at most 31 lower-case letters, digits and
  single inner dashes, a letter first; and it is a name the agent's manifests accept
  exactly when it has two characters or more.
\<close>

theorem slugify_valid:
  "is_slug (slugify domain) \<and> (matches site_name_re (slugify domain) \<longleftrightarrow> 2 \<le> length (slugify domain))"
  using slugify_is_slug slugify_name [of domain] by (auto simp: site_name_matches)

text \<open>
  A free frame of PHP settings comes back from its base 64 form as it was sent.
\<close>

theorem decodeB64_roundtrip: "decodeB64 (std64_Encode bs) = bs"
proof -
  have "std64_Decode [] = Some []" by code_simp
  with std64_roundtrip [of bs] show ?thesis by (cases "std64_Encode bs = []") (auto simp: decodeB64_def)
qed

end
