(* ===== verification/Hosting.thy ===== *)
theory Hosting
  imports HostAgent
begin

text \<open>
  The handlers of the hosting extension, ext/hosting/main.go, and its Adminer sessions.  A handler
  takes the environment, the request and the state and gives the response and the next state;
  handlers run one after the other (the code holds its lock around each access to the table of
  sessions).  A page is a constructor over the data its template receives.
\<close>

subsection \<open>Requests and responses\<close>

text \<open>
  The values of the URL query and of a form, urlencoded or multipart, per name, as the parsers
  leave them; \<open>hq_badForm\<close> says that \<open>ParseForm\<close> reports an error.
\<close>

record hrequest =
  hq_Method :: string
  hq_Path :: string
  hq_Query :: "string \<Rightarrow> string list"
  hq_Post :: "string \<Rightarrow> string list"
  hq_Multipart :: "string \<Rightarrow> string list"
  hq_badForm :: bool

definition first_value :: "string list \<Rightarrow> string" where
  "first_value vs = (case vs of [] \<Rightarrow> '''' | v # _ \<Rightarrow> v)"

definition Query_Get :: "hrequest \<Rightarrow> string \<Rightarrow> string" where
  "Query_Get r k = first_value (hq_Query r k)"

definition Form_values :: "hrequest \<Rightarrow> string \<Rightarrow> string list" where
  "Form_values r k = hq_Post r k @ hq_Query r k @ hq_Multipart r k"

definition FormValue :: "hrequest \<Rightarrow> string \<Rightarrow> string" where
  "FormValue r k = first_value (Form_values r k)"

definition PostFormValue :: "hrequest \<Rightarrow> string \<Rightarrow> string" where
  "PostFormValue r k = first_value (hq_Post r k @ hq_Multipart r k)"

record dbInfo =
  di_Name :: string
  di_Vhost :: string
  di_DbHost :: string
  di_DbPort :: string
  di_DbName :: string
  di_User :: string
  di_Password :: string
  di_LocalPort :: string
  di_Error :: string
  di_Has :: bool

record editData =
  ed_Name :: string
  ed_Vhost :: string
  ed_Content :: string
  ed_Error :: string

record phpModuleChoice =
  mc_Name :: string
  mc_Checked :: bool

record phpCfgView =
  cv_UploadMaxFilesize :: string
  cv_PostMaxSize :: string
  cv_MemoryLimit :: string
  cv_MaxFileUploads :: string
  cv_MaxExecutionTime :: string
  cv_IniRaw :: string
  cv_FpmRaw :: string

record phpextData =
  pd_Name :: string
  pd_Vhost :: string
  pd_Label :: string
  pd_Error :: string
  pd_CfgError :: string
  pd_Modules :: "phpModuleChoice list"
  pd_Cfg :: phpCfgView

text \<open>The last two strings of a page are its notice and its error, where it has both.\<close>

datatype hpage =
    IndexPage "site list" string string
  | UsersPage "hostingUser list" sshdStatus string string
  | SystemPage osUpdatesResult fail2banStatus string string
  | PreviewPage "string list" "(string \<times> bool) list" "string list" string
  | DbPage dbTab string dbStatus "string list" string string
  | AdminerPage dbTab string string string string
  | SshKeyPage string string string string
  | DbInfoPage dbInfo
  | KeysPage string string string string
  | EditPage string editData
  | PhpExtPage phpextData
  | LogPage "diagEvent list" int int int string string

datatype hresponse =
    HRedirect string
  | HRender string hpage
  | HGone string
  | HFile string bytes
  | HProxy string string
  | HAbort
  | HText string
  | HMoved string
  | HNotFound
  | HNotAllowed

type_synonym hhandler = "HEnv \<Rightarrow> hrequest \<Rightarrow> HWorld \<Rightarrow> hresponse \<times> HWorld"

definition redirectMsg :: "string \<Rightarrow> string \<Rightarrow> string \<Rightarrow> hresponse" where
  "redirectMsg path ok errMsg =
     (let q = (if errMsg \<noteq> '''' then ''err='' @ QueryEscape errMsg
               else if ok \<noteq> '''' then ''ok='' @ QueryEscape ok else '''');
          sep = (if Contains path ''?'' then ''&'' else ''?'')
      in HRedirect (path @ sep @ q))"

definition notices :: "hrequest \<Rightarrow> string \<times> string" where
  "notices r = (Query_Get r ''ok'', Query_Get r ''err'')"

text \<open>The block most handlers end with: one call, and a notice of its failure or its success.\<close>

definition act :: "HEnv \<Rightarrow> string \<Rightarrow> params \<Rightarrow> string \<Rightarrow> string \<Rightarrow> string \<Rightarrow> HWorld \<Rightarrow> hresponse \<times> HWorld" where
  "act e cmd params path what ok w =
     (let (r, w1) = callAgent e cmd params w in
      (if failed r then redirectMsg path '''' (what @ agentMsg r) else redirectMsg path ok '''', w1))"

text \<open>\<open>err != nil && data.Error == ""\<close>.\<close>

definition or_error :: "string \<Rightarrow> string option \<Rightarrow> string" where
  "or_error msg err = (case err of Some e \<Rightarrow> if msg = '''' then e else msg | None \<Rightarrow> msg)"

subsection \<open>Hosts, users and system\<close>

definition handleIndex :: hhandler where
  "handleIndex e r w =
     (let (ok, errMsg) = notices r in
      case listSites e w of
        (Inl err, w1) \<Rightarrow> (HRender ''Hosting'' (IndexPage [] ok (or_error errMsg (Some err))), w1)
      | (Inr sites, w1) \<Rightarrow> (HRender ''Hosting'' (IndexPage sites ok errMsg), w1))"

definition zero_sshdStatus :: sshdStatus where
  "zero_sshdStatus = \<lparr>sd_Installed = False, sd_Running = False, sd_Port = 0\<rparr>"

text \<open>(The order of users of one site is unspecified in Go; the agent lists a site once.)\<close>

definition handleUsers :: hhandler where
  "handleUsers e r w =
     (let ((err, users), w1) = callJSON e ''hosting_users'' [] (hc_users (he_codec e)) [] w;
          ((_, sshd), w2) = callJSON e ''sshd_status'' [] (hc_sshd (he_codec e)) zero_sshdStatus w1;
          (ok, errMsg) = notices r
      in (HRender ''Users'' (UsersPage (sort_key hu_Site users) sshd ok (or_error errMsg err)), w2))"

definition zero_osUpdatesResult :: osUpdatesResult where
  "zero_osUpdatesResult =
     \<lparr>or_Total = 0, or_Security = 0, or_Held = 0, or_RebootRequired = False, or_Packages = [], or_Note = ''''\<rparr>"

definition zero_fail2banStatus :: fail2banStatus where
  "zero_fail2banStatus =
     \<lparr>fb_Enabled = False, fb_Jail = '''', fb_CurrentlyBanned = 0, fb_TotalBanned = 0,
      fb_CurrentlyFailed = 0, fb_Banned = [], fb_Note = ''''\<rparr>"

definition handleSystem :: hhandler where
  "handleSystem e r w =
     (let ((err, res), w1) = callJSON e ''os_updates_check'' [] (hc_updates (he_codec e)) zero_osUpdatesResult w;
          ((_, f2b), w2) = callJSON e ''fail2ban_status'' [] (hc_f2b (he_codec e)) zero_fail2banStatus w1;
          (ok, errMsg) = notices r
      in (HRender ''System'' (SystemPage res f2b ok (or_error errMsg err)), w2))"

definition system_path :: string where "system_path = ''/admin/hosting/system''"

definition handleSystemUnban :: hhandler where
  "handleSystemUnban e r w =
     (let ip = TrimSpace (PostFormValue r ''ip'')
      in act e ''fail2ban_unban'' [(''ip'', ip)] system_path ''unban: '' (''Unbanned '' @ ip @ ''.'') w)"

definition handleSystemApply :: hhandler where
  "handleSystemApply e r w =
     (if hq_badForm r then (redirectMsg system_path '''' ''bad form'', w)
      else
        let pkgs = hq_Post r ''pkg'' in
        if pkgs = [] then (redirectMsg system_path '''' ''no packages selected'', w)
        else
          (case callJSON e ''os_updates_apply'' [(''packages'', Join pkgs '' '')] (hc_applied (he_codec e)) (0, False) w of
             ((Some err, _), w1) \<Rightarrow> (redirectMsg system_path '''' (''apply: '' @ err), w1)
           | ((None, (applied, reboot)), w1) \<Rightarrow>
               (redirectMsg system_path
                  (''Applied '' @ Itoa applied @ '' package'' @ (if applied = 1 then '''' else ''s'') @ ''.'' @
                   (if reboot then '' A reboot is now required to finish (not done automatically).'' else '''')) '''', w1)))"

definition handleSystemPreview :: hhandler where
  "handleSystemPreview e r w =
     (if hq_badForm r then (redirectMsg system_path '''' ''bad form'', w)
      else
        let selected = hq_Post r ''pkg'' in
        if selected = [] then (redirectMsg system_path '''' ''no packages selected'', w)
        else
          (let ((err, (upgrade, remove)), w1) =
                 callJSON e ''os_updates_preview'' [(''packages'', Join selected '' '')] (hc_plan (he_codec e)) ([], []) w
           in (HRender ''Confirm updates''
                 (PreviewPage selected (map (\<lambda>u. (u, u \<notin> set selected)) upgrade) remove
                    (case err of Some m \<Rightarrow> m | None \<Rightarrow> '''')), w1)))"

definition handleSystemHold :: hhandler where
  "handleSystemHold e r w =
     (let pkg = PostFormValue r ''pkg''; action = PostFormValue r ''action'' in
      if pkg = '''' \<or> (action \<noteq> ''hold'' \<and> action \<noteq> ''unhold'')
      then (redirectMsg system_path '''' ''bad hold request'', w)
      else
        (case callJSON e ''os_updates_hold'' [(''action'', action), (''packages'', pkg)] (hc_held (he_codec e)) False w of
           ((Some err, _), w1) \<Rightarrow> (redirectMsg system_path '''' (action @ '': '' @ err), w1)
         | ((None, _), w1) \<Rightarrow>
             (redirectMsg system_path
                (pkg @ '' '' @ (if action = ''unhold'' then ''released'' else ''held (no update)'') @ ''.'') '''', w1)))"

subsection \<open>Databases and Adminer\<close>

definition zero_dbStatus :: dbStatus where
  "zero_dbStatus =
     \<lparr>db_Engine = '''', db_Installed = False, db_Running = False, db_Host = '''', db_Port = 0,
      db_Localhost = '''', db_Version = ''''\<rparr>"

definition dbView :: "HEnv \<Rightarrow> hrequest \<Rightarrow> dbTab \<Rightarrow> string \<Rightarrow> HWorld \<Rightarrow> hresponse \<times> HWorld" where
  "dbView e r t created w =
     (let (ok, errMsg) = notices r;
          ((err, st), w1) = callJSON e ''db_instance_status'' [(''engine'', dt_Engine t)] (hc_db (he_codec e)) zero_dbStatus w;
          (dbs, w2) = (if db_Running st
             then (let ((_, ds), w') = callJSON e ''db_list'' [(''engine'', dt_Engine t)] (hc_names (he_codec e)) [] w1 in (ds, w'))
             else ([], w1))
      in (HRender (dt_Label t) (DbPage t created st dbs ok (or_error errMsg err)), w2))"

definition db_path :: "dbTab \<Rightarrow> string" where
  "db_path t = ''/admin/hosting/'' @ dt_Seg t"

definition handleDB :: "string \<Rightarrow> hhandler" where
  "handleDB seg e r w = dbView e r (dbTabs seg) '''' w"

definition handleDBInstall :: "string \<Rightarrow> hhandler" where
  "handleDBInstall seg e r w =
     (let t = dbTabs seg
      in act e ''db_instance_up'' [(''engine'', dt_Engine t)] (db_path t) ''install: ''
           (dt_Label t @ '' shared instance installed.'') w)"

definition handleDBCreate :: "string \<Rightarrow> hhandler" where
  "handleDBCreate seg e r w =
     (let t = dbTabs seg;
          (rsp, w1) = callAgent e ''db_create'' [(''engine'', dt_Engine t), (''name'', FormValue r ''name'')] w
      in if failed rsp then (redirectMsg (db_path t) '''' (''create db: '' @ agentMsg rsp), w1)
         else dbView e r t (TrimSpace (stdout rsp)) w1)"

definition handleAdminerOpen :: "string \<Rightarrow> hhandler" where
  "handleAdminerOpen seg e r w =
     (let t = dbTabs seg;
          token = randToken e 0 '''';
          (rsp, w1) = callAgent e ''adminer_up'' [(''engine'', dt_Engine t), (''token'', token)] w
      in if failed rsp then (redirectMsg (db_path t) '''' (''adminer: '' @ agentMsg rsp), w1)
         else
           (let c = kvFields (stdout rsp);
                w2 = w1\<lparr>hw_adminer := AList.update token
                       \<lparr>as_engine = dt_Engine t, as_alias = kv c ''alias'', as_last = he_now e\<rparr> (hw_adminer w1)\<rparr>
            in (HRender (dt_Label t) (AdminerPage t token (kv c ''server'') (kv c ''user'') (kv c ''password'')), w2)))"

text \<open>The UTF-8 bytes of the dash.\<close>

definition dash :: string where "dash = [CHR 0xE2, CHR 0x80, CHR 0x94]"

text \<open>
  The reverse proxy: the address it forwards to, and the path it asks there.  An alias that is no
  host makes \<open>url.Parse\<close> give nil, on which the proxy panics and the connection is dropped.
\<close>

definition handleAdminerProxy :: "string \<Rightarrow> hhandler" where
  "handleAdminerProxy seg e r w =
     (let rest = TrimPrefix (hq_Path r) (''/admin/hosting/'' @ seg @ ''/adminer/'');
          (token, sub, _) = Cut rest CHR ''/''
      in case map_of (hw_adminer w) token of
           None \<Rightarrow> (HGone (''Adminer session expired '' @ dash @ '' reopen it from the '' @ dt_Label (dbTabs seg) @ '' tab.''), w)
         | Some sess \<Rightarrow>
             (let target = ''http://'' @ as_alias sess @ '':8080''
              in if url_Parse target = None then HAbort else HProxy target (''/'' @ sub),
              w\<lparr>hw_adminer := AList.update token (sess\<lparr>as_last := he_now e\<rparr>) (hw_adminer w)\<rparr>))"

text \<open>One tick of the reaper: sessions idle for more than five minutes go, then their containers.\<close>

definition is_stale :: "int \<Rightarrow> adminerSession \<Rightarrow> bool" where
  "is_stale t sess \<longleftrightarrow> t - as_last sess > 5 * 60 * Second"

fun adminer_downs :: "HEnv \<Rightarrow> string list \<Rightarrow> HWorld \<Rightarrow> HWorld" where
  "adminer_downs e [] w = w"
| "adminer_downs e (tok # toks) w = adminer_downs e toks (snd (callAgent e ''adminer_down'' [(''token'', tok)] w))"

definition reapAdminer :: "HEnv \<Rightarrow> HWorld \<Rightarrow> HWorld" where
  "reapAdminer e w =
     (let stale = map fst (filter (\<lambda>(tok, sess). is_stale (he_now e) sess) (hw_adminer w))
      in adminer_downs e stale (w\<lparr>hw_adminer := filter (\<lambda>(tok, sess). \<not> is_stale (he_now e) sess) (hw_adminer w)\<rparr>))"

text \<open>What \<open>main\<close> does before it listens: the orphans of a previous run, and no session.\<close>

definition start_hosting :: "HEnv \<Rightarrow> history \<Rightarrow> HWorld" where
  "start_hosting e h = snd (callAgent e ''adminer_gc'' [] \<lparr>hw_adminer = [], hw_hist = h, hw_calls = []\<rparr>)"

subsection \<open>Sites\<close>

definition hosts_path :: string where "hosts_path = ''/admin/hosting''"

definition users_path :: string where "users_path = ''/admin/hosting/users''"

text \<open>\<open>action(cmd, okMsg)\<close>: a command on one site.\<close>

definition site_action :: "string \<Rightarrow> string \<Rightarrow> hhandler" where
  "site_action cmd okMsg e r w =
     (let name = FormValue r ''name''
      in act e cmd [(''name'', name)] hosts_path (cmd @ '': '') (Sprintf1 okMsg name) w)"

text \<open>\<open>template[:php_version[:db]]\<close>, with its default.\<close>

definition parse_stack :: "string \<Rightarrow> string \<times> string \<times> string" where
  "parse_stack s =
     (let parts = Split s CHR '':''
      in (if parts ! 0 = '''' then ''php-fpm'' else parts ! 0,
          if length parts > 1 then parts ! 1 else '''',
          if length parts > 2 then parts ! 2 else ''''))"

definition stack_params :: "params \<Rightarrow> string \<Rightarrow> string \<Rightarrow> string \<Rightarrow> params" where
  "stack_params ps tmpl domain pv =
     ps @ [(''template'', tmpl)] @ (if domain \<noteq> '''' then [(''domain'', domain)] else []) @
     (if pv \<noteq> '''' then [(''php_version'', pv)] else [])"

definition db_env :: "(string \<rightharpoonup> string) \<Rightarrow> string" where
  "db_env c =
     ''DB_HOST='' @ kv c ''host'' @ [CHR 0x0A] @ ''DB_PORT='' @ kv c ''port'' @ [CHR 0x0A] @ ''DB_NAME='' @ kv c ''db'' @
     [CHR 0x0A] @ ''DB_USER='' @ kv c ''user'' @ [CHR 0x0A] @ ''DB_PASSWORD='' @ kv c ''password''"

text \<open>The optional database of a new site: \<open>Some\<close> error message, or none (a failed \<open>site_env_set\<close> is only logged).\<close>

definition attach_db :: "HEnv \<Rightarrow> string \<Rightarrow> string \<Rightarrow> HWorld \<Rightarrow> string option \<times> HWorld" where
  "attach_db e name db w =
     (let dbname = randToken e 0 ''h''; dbuser = randToken e 1 ''u'';
          (rsp, w1) = callAgent e ''db_create'' [(''engine'', db), (''name'', dbname), (''user'', dbuser)] w
      in if failed rsp
         then (Some (agentMsg rsp), snd (callAgent e ''site_up'' [(''name'', name)] w1))
         else (None, snd (callAgent e ''site_env_set'' [(''name'', name), (''content'', db_env (kvFields (stdout rsp)))] w1)))"

text \<open>What follows a created site: start it, and where the browser goes.\<close>

definition start_created :: "HEnv \<Rightarrow> string \<Rightarrow> string \<Rightarrow> string \<Rightarrow> HWorld \<Rightarrow> hresponse \<times> HWorld" where
  "start_created e name tmpl db w =
     (let (rsp, w1) = callAgent e ''site_up'' [(''name'', name)] w in
      if failed rsp then (redirectMsg hosts_path '''' (''site created but start failed: '' @ agentMsg rsp), w1)
      else if tmpl = ''custom'' then (HRedirect (''/admin/hosting/edit?name='' @ QueryEscape name), w1)
      else (redirectMsg hosts_path (''Site '' @ name @ '' created and started.'' @
              (if db \<noteq> '''' then '' Shared '' @ db @ '' database attached.'' else '''')) '''', w1))"

definition site_of :: "hrequest \<Rightarrow> string" where
  "site_of r = (let name = FormValue r ''name'' in
     if name = '''' then slugify (ToLower (TrimSpace (FormValue r ''domain''))) else name)"

definition handleCreate :: hhandler where
  "handleCreate e r w =
     (let domain = ToLower (TrimSpace (FormValue r ''domain'')); name = site_of r in
      if name = '''' then (redirectMsg hosts_path '''' ''create: a domain is required'', w)
      else
        let (tmpl, pv, db) = parse_stack (FormValue r ''stack'');
            (rsp, w1) = callAgent e ''site_create'' (stack_params [(''name'', name)] tmpl domain pv) w
        in if failed rsp then (redirectMsg hosts_path '''' (''create: '' @ agentMsg rsp), w1)
           else if db = '''' then start_created e name tmpl db w1
           else (case attach_db e name db w1 of
                   (Some msg, w2) \<Rightarrow> (redirectMsg hosts_path '''' (''site created and started, but DB failed: '' @ msg), w2)
                 | (None, w2) \<Rightarrow> start_created e name tmpl db w2))"

definition handleAutoUpdate :: hhandler where
  "handleAutoUpdate e r w =
     (let name = FormValue r ''name''; enabled = FormValue r ''enabled''
      in act e ''site_autoupdate'' [(''name'', name), (''enabled'', enabled)] hosts_path ''auto-update: ''
           (''Auto-update for '' @ name @ '' set to '' @ enabled @ ''.'') w)"

definition handleVhostAutoUpdate :: hhandler where
  "handleVhostAutoUpdate e r w =
     (let name = FormValue r ''name''; vh = FormValue r ''vhost''; enabled = FormValue r ''enabled''
      in act e ''vhost_autoupdate'' [(''name'', name), (''vhost'', vh), (''enabled'', enabled)] hosts_path ''auto-update: ''
           (''Auto-update for '' @ vhostLabel name vh @ '' set to '' @ enabled @ ''.'') w)"

definition vhostAction :: "string \<Rightarrow> string \<Rightarrow> hhandler" where
  "vhostAction cmd okMsg e r w =
     (let name = FormValue r ''name''; vh = FormValue r ''vhost''
      in act e cmd [(''name'', name), (''vhost'', vh)] hosts_path (cmd @ '': '') (Sprintf1 okMsg (vhostLabel name vh)) w)"

definition handleVhostCreate :: hhandler where
  "handleVhostCreate e r w =
     (let name = FormValue r ''name''; vh = FormValue r ''vhost'';
          domain = ToLower (TrimSpace (FormValue r ''domain''));
          (tmpl, pv, _) = parse_stack (FormValue r ''stack'');
          (rsp, w1) = callAgent e ''vhost_create'' (stack_params [(''name'', name), (''vhost'', vh)] tmpl domain pv) w
      in if failed rsp then (redirectMsg hosts_path '''' (''add vhost: '' @ agentMsg rsp), w1)
         else
           let (rsp2, w2) = callAgent e ''vhost_up'' [(''name'', name), (''vhost'', vh)] w1 in
           if failed rsp2 then (redirectMsg hosts_path '''' (''vhost created but start failed: '' @ agentMsg rsp2), w2)
           else if tmpl = ''custom''
           then (HRedirect (''/admin/hosting/edit?name='' @ QueryEscape name @ ''&vhost='' @ QueryEscape vh), w2)
           else (redirectMsg hosts_path (''Vhost '' @ vhostLabel name vh @ '' added and started.'') '''', w2))"

definition handleMigrate :: hhandler where
  "handleMigrate e r w =
     (let name = FormValue r ''name''
      in act e ''vhost_migrate'' [(''name'', name)] hosts_path ''migrate: ''
           (''Site '' @ name @ '' migrated to the multi-vhost layout.'') w)"

subsection \<open>Users and keys\<close>

definition handleUserDelete :: hhandler where
  "handleUserDelete e r w =
     (let name = FormValue r ''name''
      in act e ''hosting_user_delete'' [(''name'', name)] users_path ''delete user: ''
           (''Orphan user for '' @ name @ '' deleted.'') w)"

definition handleSshdInstall :: hhandler where
  "handleSshdInstall e r w = act e ''sshd_up'' [] users_path ''install gateway: '' ''SCP gateway installed and running.'' w"

definition handleUserPasswd :: hhandler where
  "handleUserPasswd e r w =
     (let name = FormValue r ''name''
      in act e ''hosting_user_passwd'' [(''name'', name), (''password'', FormValue r ''password'')] users_path
           ''set password: '' (''SCP password set for site-'' @ name @ ''.'') w)"

definition handleUserLock :: hhandler where
  "handleUserLock e r w =
     (let name = FormValue r ''name''; locked = FormValue r ''locked''
      in act e ''hosting_user_lock'' [(''name'', name), (''locked'', locked)] users_path ''lock: ''
           (''SCP for site-'' @ name @ '' '' @ (if locked = ''true'' then ''disabled'' else ''enabled'') @ ''.'') w)"

definition keys_path :: "string \<Rightarrow> string" where
  "keys_path name = ''/admin/hosting/users/keys?name='' @ QueryEscape name"

definition handleUserSshKey :: hhandler where
  "handleUserSshKey e r w =
     (let name = FormValue r ''name''; p = FormValue r ''passphrase''; c = FormValue r ''comment'';
          params = [(''name'', name)] @ (if p \<noteq> '''' then [(''passphrase'', p)] else []) @
                   (if c \<noteq> '''' then [(''comment'', c)] else []);
          (rsp, w1) = callAgent e ''hosting_user_sshkey'' params w
      in if failed rsp then (redirectMsg (keys_path name) '''' (''ssh key: '' @ agentMsg rsp), w1)
         else
           let out = stdout rsp in
           (HRender ''New SSH key''
              (SshKeyPage name (sshSection out ''===XTK-PRIV==='' ''===XTK-PUB==='')
                 (sshSection out ''===XTK-PUB==='' ''===XTK-PPK==='') (sshSection out ''===XTK-PPK==='' '''')), w1))"

definition filename_char :: "char \<Rightarrow> bool" where
  "filename_char c \<longleftrightarrow> is_alpha c \<or> is_digit c \<or> c = CHR ''.'' \<or> c = CHR ''_'' \<or> c = CHR ''-''"

definition handleKeyDownload :: hhandler where
  "handleKeyDownload e r w =
     (let fn0 = filter filename_char (FormValue r ''filename'');
          fn = (if fn0 = '''' then ''keyfile.txt'' else fn0);
          content = map (\<lambda>c. if c = CHR 0x0D then CHR 0x0A else c) (normalizeNL (FormValue r ''content''))
      in (HFile fn content, w))"

definition handleUserKeys :: hhandler where
  "handleUserKeys e r w =
     (let name = Query_Get r ''name'';
          (rsp, w1) = callAgent e ''hosting_user_authkeys_get'' [(''name'', name)] w;
          (ok, errMsg) = notices r
      in (HRender ''SSH keys''
            (if failed rsp then KeysPage name '''' ok (if errMsg = '''' then ''read keys: '' @ agentMsg rsp else errMsg)
             else KeysPage name (stdout rsp) ok errMsg), w1))"

definition handleUserAuthKeysSet :: hhandler where
  "handleUserAuthKeysSet e r w =
     (let name = FormValue r ''name''
      in act e ''hosting_user_authkeys_set'' [(''name'', name), (''content'', FormValue r ''content'')] (keys_path name)
           ''save keys: '' ''Authorized keys updated.'' w)"

subsection \<open>Database details and the editors\<close>

definition env_line :: "string \<Rightarrow> (string \<rightharpoonup> string) \<Rightarrow> (string \<rightharpoonup> string)" where
  "env_line line m = (let (k, v, ok) = Cut (TrimSpace line) CHR ''='' in if ok then m(k \<mapsto> v) else m)"

definition env_lines :: "string \<Rightarrow> string \<rightharpoonup> string" where
  "env_lines s = fold env_line (Split s CHR 0x0A) Map.empty"

text \<open>The command on a site or, when a vhost is named, on the vhost.\<close>

definition on_vhost :: "string \<Rightarrow> string \<Rightarrow> string \<Rightarrow> string \<Rightarrow> params \<Rightarrow> string \<times> params" where
  "on_vhost siteCmd vhostCmd name vh extra =
     (if vh \<noteq> '''' then (vhostCmd, [(''name'', name), (''vhost'', vh)] @ extra) else (siteCmd, [(''name'', name)] @ extra))"

definition handleDbInfo :: hhandler where
  "handleDbInfo e r w =
     (let name = Query_Get r ''name''; vh = Query_Get r ''vhost'';
          (cmd, params) = on_vhost ''site_db_info'' ''vhost_db_info'' name vh [];
          (rsp, w1) = callAgent e cmd params w;
          env = (if failed rsp then Map.empty else env_lines (stdout rsp))
      in (HRender ''Database'' (DbInfoPage
            \<lparr>di_Name = name, di_Vhost = vh, di_DbHost = kv env ''DB_HOST'', di_DbPort = kv env ''DB_PORT'',
             di_DbName = kv env ''DB_NAME'', di_User = kv env ''DB_USER'', di_Password = kv env ''DB_PASSWORD'',
             di_LocalPort = (if Contains (kv env ''DB_HOST'') ''pg'' then ''5432'' else ''3306''),
             di_Error = (case rsp of Inl err \<Rightarrow> err | Inr _ \<Rightarrow> ''''), di_Has = (kv env ''DB_HOST'' \<noteq> '''')\<rparr>), w1))"

text \<open>The editors of the compose file and of nginx.conf: reading and saving.\<close>

definition edit_page :: "string \<Rightarrow> string \<Rightarrow> string \<Rightarrow> string \<Rightarrow> string \<Rightarrow> hresponse" where
  "edit_page title name vh body err =
     HRender title (EditPage title \<lparr>ed_Name = name, ed_Vhost = vh, ed_Content = body, ed_Error = err\<rparr>)"

definition handleEdit :: hhandler where
  "handleEdit e r w =
     (let name = Query_Get r ''name''; vh = Query_Get r ''vhost'';
          (cmd, params) = on_vhost ''site_compose_get'' ''vhost_compose_get'' name vh [];
          (rsp, w1) = callAgent e cmd params w
      in if failed rsp then (redirectMsg hosts_path '''' (''compose: '' @ agentMsg rsp), w1)
         else (edit_page ''Compose'' name vh (stdout rsp) '''', w1))"

definition handleEditSave :: hhandler where
  "handleEditSave e r w =
     (let name = FormValue r ''name''; vh = FormValue r ''vhost''; content = FormValue r ''content'';
          (cmd, params) = on_vhost ''site_compose_set'' ''vhost_compose_set'' name vh [(''content'', content)];
          (rsp, w1) = callAgent e cmd params w
      in if failed rsp then (edit_page ''Compose'' name vh content (agentMsg rsp), w1)
         else (redirectMsg hosts_path (''Compose for '' @ vhostLabel name vh @ '' updated and applied.'') '''', w1))"

definition handleNginxEdit :: hhandler where
  "handleNginxEdit e r w =
     (let name = Query_Get r ''name''; vh = Query_Get r ''vhost'';
          (cmd, params) = on_vhost ''site_nginx_get'' ''vhost_nginx_get'' name vh [];
          (rsp, w1) = callAgent e cmd params w
      in if failed rsp then (redirectMsg hosts_path '''' (''nginx: '' @ agentMsg rsp), w1)
         else (edit_page ''Nginx'' name vh (stdout rsp) '''', w1))"

definition handleNginxSave :: hhandler where
  "handleNginxSave e r w =
     (let name = FormValue r ''name''; vh = FormValue r ''vhost''; content = FormValue r ''content'';
          (cmd, params) = on_vhost ''site_nginx_set'' ''vhost_nginx_set'' name vh [(''content'', content)];
          (rsp, w1) = callAgent e cmd params w
      in if failed rsp then (edit_page ''Nginx'' name vh content (agentMsg rsp), w1)
         else (redirectMsg hosts_path (''nginx.conf for '' @ vhostLabel name vh @ '' updated.'') '''', w1))"

subsection \<open>PHP modules and settings\<close>

text \<open>The names of the table of modules; the descriptions are text.\<close>

definition phpModules :: "string list" where
  "phpModules = [''redis'', ''igbinary'', ''imagick'', ''soap'', ''ldap'', ''gmp'', ''exif'', ''sockets'', ''xsl'',
     ''mongodb'', ''apcu'', ''memcached'', ''amqp'']"

definition vhosts_of :: "string \<Rightarrow> string \<Rightarrow> site list \<Rightarrow> vhost list" where
  "vhosts_of name vh sites =
     concat (map (\<lambda>si. filter (\<lambda>v. vh_Vhost v = vh) (si_Vhosts si)) (filter (\<lambda>si. si_Name si = name) sites))"

definition currentPhpExt :: "HEnv \<Rightarrow> string \<Rightarrow> string \<Rightarrow> HWorld \<Rightarrow> string list \<times> HWorld" where
  "currentPhpExt e name vh w =
     (case callJSON e ''site_list'' [] (hc_sites (he_codec e)) [] w of
        ((Some _, _), w1) \<Rightarrow> ([], w1)
      | ((None, sites), w1) \<Rightarrow>
          (filter (\<lambda>m. m \<noteq> '''')
             (concat (map (\<lambda>v. map TrimSpace (Split (vh_PhpExt v) CHR '','')) (vhosts_of name vh sites))), w1))"

definition phpExtChoices :: "string list \<Rightarrow> phpModuleChoice list" where
  "phpExtChoices current = map (\<lambda>m. \<lparr>mc_Name = m, mc_Checked = (m \<in> set current)\<rparr>) phpModules"

definition zero_phpCfgView :: phpCfgView where
  "zero_phpCfgView =
     \<lparr>cv_UploadMaxFilesize = '''', cv_PostMaxSize = '''', cv_MemoryLimit = '''', cv_MaxFileUploads = '''',
      cv_MaxExecutionTime = '''', cv_IniRaw = '''', cv_FpmRaw = ''''\<rparr>"

definition phpCfg_view :: "phpCfg \<Rightarrow> phpCfgView" where
  "phpCfg_view c =
     \<lparr>cv_UploadMaxFilesize = pc_UploadMaxFilesize c, cv_PostMaxSize = pc_PostMaxSize c,
      cv_MemoryLimit = pc_MemoryLimit c, cv_MaxFileUploads = pc_MaxFileUploads c,
      cv_MaxExecutionTime = pc_MaxExecutionTime c, cv_IniRaw = decodeB64 (pc_IniRawB64 c), cv_FpmRaw = decodeB64 (pc_FpmRawB64 c)\<rparr>"

definition currentPhpCfg :: "HEnv \<Rightarrow> string \<Rightarrow> string \<Rightarrow> HWorld \<Rightarrow> phpCfgView \<times> HWorld" where
  "currentPhpCfg e name vh w =
     (case callJSON e ''site_list'' [] (hc_sites (he_codec e)) [] w of
        ((Some _, _), w1) \<Rightarrow> (zero_phpCfgView, w1)
      | ((None, sites), w1) \<Rightarrow>
          ((case vhosts_of name vh sites of [] \<Rightarrow> zero_phpCfgView | v # _ \<Rightarrow> phpCfg_view (vh_PhpCfg v)), w1))"

definition php_page :: "string \<Rightarrow> string \<Rightarrow> phpModuleChoice list \<Rightarrow> phpCfgView \<Rightarrow> string \<Rightarrow> string \<Rightarrow> hresponse" where
  "php_page name vh mods cfg err cfgErr =
     HRender ''Moduli PHP'' (PhpExtPage
       \<lparr>pd_Name = name, pd_Vhost = vh, pd_Label = vhostLabel name vh, pd_Error = err, pd_CfgError = cfgErr,
        pd_Modules = mods, pd_Cfg = cfg\<rparr>)"

definition main_vhost :: "string \<Rightarrow> string" where
  "main_vhost vh = (if vh = '''' then ''httpdocs'' else vh)"

definition handlePhpExt :: hhandler where
  "handlePhpExt e r w =
     (let name = Query_Get r ''name''; vh = main_vhost (Query_Get r ''vhost'');
          (ext, w1) = currentPhpExt e name vh w;
          (cfg, w2) = currentPhpCfg e name vh w1
      in (php_page name vh (phpExtChoices ext) cfg '''' '''', w2))"

definition php_limit_names :: "string list" where
  "php_limit_names = [''upload_max_filesize'', ''post_max_size'', ''memory_limit'', ''max_file_uploads'', ''max_execution_time'']"

definition php_args :: "hrequest \<Rightarrow> params" where
  "php_args r =
     [(''name'', FormValue r ''name''), (''vhost'', main_vhost (FormValue r ''vhost''))] @
     map (\<lambda>k. (k, TrimSpace (FormValue r k))) php_limit_names @
     [(''ini_raw_b64'', std64_Encode (normalizeNL (FormValue r ''ini_raw''))),
      (''fpm_raw_b64'', std64_Encode (normalizeNL (FormValue r ''fpm_raw'')))]"

definition handlePhpConfigSave :: hhandler where
  "handlePhpConfigSave e r w =
     (let name = FormValue r ''name''; vh = main_vhost (FormValue r ''vhost''); lim = (\<lambda>k. TrimSpace (FormValue r k));
          (rsp, w1) = callAgent e ''vhost_php_config'' (php_args r) w
      in if failed rsp
         then (let (ext, w2) = currentPhpExt e name vh w1
               in (php_page name vh (phpExtChoices ext)
                     \<lparr>cv_UploadMaxFilesize = lim ''upload_max_filesize'', cv_PostMaxSize = lim ''post_max_size'',
                      cv_MemoryLimit = lim ''memory_limit'', cv_MaxFileUploads = lim ''max_file_uploads'',
                      cv_MaxExecutionTime = lim ''max_execution_time'', cv_IniRaw = FormValue r ''ini_raw'',
                      cv_FpmRaw = FormValue r ''fpm_raw''\<rparr> '''' (agentMsg rsp), w2))
         else (redirectMsg hosts_path (''Impostazioni PHP per '' @ vhostLabel name vh @ '' aggiornate e applicate.'') '''', w1))"

definition handlePhpExtSave :: hhandler where
  "handlePhpExtSave e r w =
     (let name = FormValue r ''name''; vh = main_vhost (FormValue r ''vhost''); mods = Form_values r ''mod'';
          (rsp, w1) = callAgent e ''vhost_php_ext''
            [(''name'', name), (''vhost'', vh), (''modules'', Join mods '','')] w
      in if failed rsp then (php_page name vh (phpExtChoices mods) zero_phpCfgView (agentMsg rsp) '''', w1)
         else (redirectMsg hosts_path (''Moduli PHP per '' @ vhostLabel name vh @ '' aggiornati e applicati.'') '''', w1))"

subsection \<open>The log\<close>

definition diagRank :: "string \<Rightarrow> int" where
  "diagRank level = (if level = ''CRITICAL'' then 3 else if level = ''ALERT'' then 2 else 1)"

definition count_level :: "int \<Rightarrow> diagEvent list \<Rightarrow> int" where
  "count_level k evs = int (length (filter (\<lambda>ev. diagRank (de_Level ev) = k) evs))"

definition handleDiag :: hhandler where
  "handleDiag e r w =
     (let ((err, ev), w1) = callJSON e ''diagnostica'' [(''limit'', ''200'')] (hc_diag (he_codec e)) [] w;
          (ok, errMsg) = notices r
      in (HRender ''Log'' (LogPage (map (\<lambda>x. x\<lparr>de_Rank := diagRank (de_Level x)\<rparr>) ev)
            (count_level 1 ev) (count_level 2 ev) (count_level 3 ev) ok (or_error errMsg err)), w1))"

subsection \<open>The routes\<close>

text \<open>\<open>main\<close>'s mux; the paths of a database tab are registered for each of the two segments.\<close>

definition db_routes :: "string \<Rightarrow> (string \<times> string \<times> hhandler) list" where
  "db_routes seg =
     (let p = ''/admin/hosting/'' @ seg in
      [(''GET'', p, handleDB seg),
       (''POST'', p @ ''/install'', handleDBInstall seg),
       (''POST'', p @ ''/dbcreate'', handleDBCreate seg),
       (''POST'', p @ ''/adminer/open'', handleAdminerOpen seg),
       (''GET'', p @ ''/adminer/'', handleAdminerProxy seg),
       (''POST'', p @ ''/adminer/'', handleAdminerProxy seg)])"

definition hmux :: "(string \<times> string \<times> hhandler) list" where
  "hmux =
     [(''GET'', ''/admin/hosting'', handleIndex),
      (''GET'', ''/admin/hosting/'', handleIndex),
      (''POST'', ''/admin/hosting/create'', handleCreate),
      (''POST'', ''/admin/hosting/up'', site_action ''site_up'' ''Site %s started.''),
      (''POST'', ''/admin/hosting/down'', site_action ''site_down'' ''Site %s stopped.''),
      (''POST'', ''/admin/hosting/destroy'', site_action ''site_destroy'' ''Site %s destroyed.''),
      (''POST'', ''/admin/hosting/autoupdate'', handleAutoUpdate),
      (''GET'', ''/admin/hosting/dbinfo'', handleDbInfo),
      (''GET'', ''/admin/hosting/edit'', handleEdit),
      (''POST'', ''/admin/hosting/edit'', handleEditSave),
      (''GET'', ''/admin/hosting/nginx'', handleNginxEdit),
      (''POST'', ''/admin/hosting/nginx'', handleNginxSave),
      (''GET'', ''/admin/hosting/phpext'', handlePhpExt),
      (''POST'', ''/admin/hosting/phpext'', handlePhpExtSave),
      (''POST'', ''/admin/hosting/phpconfig'', handlePhpConfigSave),
      (''POST'', ''/admin/hosting/migrate'', handleMigrate),
      (''POST'', ''/admin/hosting/vhost/create'', handleVhostCreate),
      (''POST'', ''/admin/hosting/vhost/up'', vhostAction ''vhost_up'' ''Vhost %s started.''),
      (''POST'', ''/admin/hosting/vhost/down'', vhostAction ''vhost_down'' ''Vhost %s stopped.''),
      (''POST'', ''/admin/hosting/vhost/destroy'', vhostAction ''vhost_destroy'' ''Vhost %s destroyed.''),
      (''POST'', ''/admin/hosting/vhost/autoupdate'', handleVhostAutoUpdate),
      (''GET'', ''/admin/hosting/system'', handleSystem),
      (''GET'', ''/admin/hosting/log'', handleDiag),
      (''POST'', ''/admin/hosting/system/preview'', handleSystemPreview),
      (''POST'', ''/admin/hosting/system/apply'', handleSystemApply),
      (''POST'', ''/admin/hosting/system/hold'', handleSystemHold),
      (''POST'', ''/admin/hosting/system/unban'', handleSystemUnban),
      (''GET'', ''/admin/hosting/users'', handleUsers),
      (''POST'', ''/admin/hosting/users/delete'', handleUserDelete),
      (''POST'', ''/admin/hosting/users/sshd-install'', handleSshdInstall),
      (''POST'', ''/admin/hosting/users/passwd'', handleUserPasswd),
      (''POST'', ''/admin/hosting/users/lock'', handleUserLock),
      (''POST'', ''/admin/hosting/users/sshkey'', handleUserSshKey),
      (''GET'', ''/admin/hosting/users/keys'', handleUserKeys),
      (''POST'', ''/admin/hosting/users/keys'', handleUserAuthKeysSet),
      (''POST'', ''/admin/hosting/users/keydownload'', handleKeyDownload)] @
     db_routes ''mysql'' @ db_routes ''pgsql'' @
     [(''GET'', ''/healthz'', \<lambda>e r w. (HText ''ok'', w))]"

text \<open>
  \<open>http.ServeMux\<close> on literal patterns: a pattern that ends in a slash stands for the paths below
  it, \<open>GET\<close> also serves \<open>HEAD\<close>, and the longest match wins.  (Paths are taken without escapes.)
\<close>

definition pattern_match :: "string \<Rightarrow> string \<Rightarrow> bool" where
  "pattern_match p path \<longleftrightarrow> (if HasSuffix p ''/'' then HasPrefix path p else path = p)"

definition method_match :: "string \<Rightarrow> string \<Rightarrow> bool" where
  "method_match pm m \<longleftrightarrow> pm = m \<or> pm = ''GET'' \<and> m = ''HEAD''"

fun longest :: "(string \<times> string \<times> 'h) list \<Rightarrow> (string \<times> 'h) option" where
  "longest [] = None"
| "longest ((_, p, h) # rest) =
     (case longest rest of
        None \<Rightarrow> Some (p, h)
      | Some (q, g) \<Rightarrow> if length q \<le> length p then Some (p, h) else Some (q, g))"

definition mux_find :: "string \<Rightarrow> string \<Rightarrow> (string \<times> hhandler) option" where
  "mux_find m path = longest (filter (\<lambda>(pm, p, _). method_match pm m \<and> pattern_match p path) hmux)"

definition cleanPath :: "string \<Rightarrow> string" where
  "cleanPath p =
     (let q = (if HasPrefix p ''/'' then p else CHR ''/'' # p); np = Clean q
      in if HasSuffix q ''/'' \<and> np \<noteq> ''/'' then np @ ''/'' else np)"

definition hserve :: hhandler where
  "hserve e r w =
     (let m = hq_Method r; path = cleanPath (hq_Path r); found = mux_find m path;
          exact = (\<lambda>f p. case f of Some (q, _) \<Rightarrow> q = p | None \<Rightarrow> False)
      in if \<not> exact found path \<and> \<not> HasSuffix path ''/'' \<and> exact (mux_find m (path @ ''/'')) (path @ ''/'')
         then (HMoved (path @ ''/''), w)
         else if path \<noteq> hq_Path r then (HMoved path, w)
         else case found of
           Some (_, h) \<Rightarrow> h e r w
         | None \<Rightarrow> if list_ex (\<lambda>(_, p, _). pattern_match p path) hmux then (HNotAllowed, w) else (HNotFound, w))"

end
