(* ===== verification/HostRuns.thy ===== *)
theory HostRuns
  imports Hosting
begin

text \<open>
  What the handlers of the hosting extension can do: a handler's effect is a sequence of calls of
  the agent, each of a known shape, and of updates of the table of Adminer sessions.  The runs of
  the extension, its requests and the ticks of its reaper, are an inductive relation.
\<close>

subsection \<open>The shape of the calls\<close>

text \<open>A command with the parameters the extension always sends and those it may add.\<close>

type_synonym call_shape = "string \<times> string list \<times> string list"

definition fits :: "call_shape list \<Rightarrow> string \<Rightarrow> params \<Rightarrow> bool" where
  "fits L cmd ps \<longleftrightarrow>
     list_ex (\<lambda>(c, req, opt). c = cmd \<and> distinct (map fst ps) \<and> list_all (\<lambda>k. k \<in> set (map fst ps)) req \<and>
        list_all (\<lambda>k. k \<in> set req \<or> k \<in> set opt) (map fst ps)) L"

text \<open>The calls of the pages: they only read.\<close>

definition reading_calls :: "call_shape list" where
  "reading_calls =
     [(''site_list'', [], []), (''hosting_users'', [], []), (''sshd_status'', [], []), (''os_updates_check'', [], []),
      (''fail2ban_status'', [], []), (''db_instance_status'', [''engine''], []), (''db_list'', [''engine''], []),
      (''site_db_info'', [''name''], []), (''vhost_db_info'', [''name'', ''vhost''], []),
      (''site_compose_get'', [''name''], []), (''vhost_compose_get'', [''name'', ''vhost''], []),
      (''site_nginx_get'', [''name''], []), (''vhost_nginx_get'', [''name'', ''vhost''], []),
      (''hosting_user_authkeys_get'', [''name''], []), (''diagnostica'', [''limit''], [])]"

definition changing_calls :: "call_shape list" where
  "changing_calls =
     [(''fail2ban_unban'', [''ip''], []), (''os_updates_apply'', [''packages''], []), (''os_updates_preview'', [''packages''], []),
      (''os_updates_hold'', [''action'', ''packages''], []), (''db_instance_up'', [''engine''], []),
      (''db_create'', [''engine'', ''name''], [''user'']), (''adminer_up'', [''engine'', ''token''], []),
      (''adminer_down'', [''token''], []), (''adminer_gc'', [], []),
      (''site_up'', [''name''], []), (''site_down'', [''name''], []), (''site_destroy'', [''name''], []),
      (''site_create'', [''name'', ''template''], [''domain'', ''php_version'']),
      (''site_env_set'', [''name'', ''content''], []), (''site_autoupdate'', [''name'', ''enabled''], []),
      (''vhost_autoupdate'', [''name'', ''vhost'', ''enabled''], []),
      (''vhost_up'', [''name'', ''vhost''], []), (''vhost_down'', [''name'', ''vhost''], []), (''vhost_destroy'', [''name'', ''vhost''], []),
      (''vhost_create'', [''name'', ''vhost'', ''template''], [''domain'', ''php_version'']), (''vhost_migrate'', [''name''], []),
      (''hosting_user_delete'', [''name''], []), (''sshd_up'', [], []), (''hosting_user_passwd'', [''name'', ''password''], []),
      (''hosting_user_lock'', [''name'', ''locked''], []), (''hosting_user_sshkey'', [''name''], [''passphrase'', ''comment'']),
      (''hosting_user_authkeys_set'', [''name'', ''content''], []),
      (''site_compose_set'', [''name'', ''content''], []), (''vhost_compose_set'', [''name'', ''vhost'', ''content''], []),
      (''site_nginx_set'', [''name'', ''content''], []), (''vhost_nginx_set'', [''name'', ''vhost'', ''content''], []),
      (''vhost_php_config'', [''name'', ''vhost''] @ php_limit_names @ [''ini_raw_b64'', ''fpm_raw_b64''], []),
      (''vhost_php_ext'', [''name'', ''vhost'', ''modules''], [])]"

definition all_calls :: "call_shape list" where
  "all_calls = reading_calls @ changing_calls"

lemma fits_Nil [simp]: "\<not> fits [] cmd ps"
  by (simp add: fits_def)

lemma fits_Cons [simp]:
  "fits ((c, req, opt) # L) cmd ps \<longleftrightarrow>
     (c = cmd \<and> distinct (map fst ps) \<and> list_all (\<lambda>k. k \<in> set (map fst ps)) req \<and>
        list_all (\<lambda>k. k \<in> set req \<or> k \<in> set opt) (map fst ps)) \<or> fits L cmd ps"
  by (simp add: fits_def)

lemma fits_append: "fits (K @ L) cmd ps \<longleftrightarrow> fits K cmd ps \<or> fits L cmd ps"
  by (auto simp: fits_def)

subsection \<open>The effect of a handler\<close>

text \<open>
  A change of the table of sessions: every session in it was there, with the same engine, or its
  container has been asked for.
\<close>

definition asked_up :: "calls \<Rightarrow> string \<Rightarrow> adminerSession \<Rightarrow> bool" where
  "asked_up cs tok s \<longleftrightarrow> (''adminer_up'', [(''engine'', as_engine s), (''token'', tok)]) \<in> set cs"

definition sessions_step :: "calls \<Rightarrow> (string \<times> adminerSession) list \<Rightarrow> (string \<times> adminerSession) list \<Rightarrow> bool" where
  "sessions_step cs a a' \<longleftrightarrow>
     (distinct (map fst a) \<longrightarrow> distinct (map fst a')) \<and>
     (\<forall>(tok, s) \<in> set a'. asked_up cs tok s \<or> (\<exists>s'. (tok, s') \<in> set a \<and> as_engine s' = as_engine s))"

inductive hsteps :: "HEnv \<Rightarrow> call_shape list \<Rightarrow> HWorld \<Rightarrow> HWorld \<Rightarrow> bool" for e L w where
  hsteps_refl: "hsteps e L w w"
| hsteps_call: "hsteps e L w w1 \<Longrightarrow> fits L cmd ps \<Longrightarrow> callAgent e cmd ps w1 = (r, w2) \<Longrightarrow> hsteps e L w w2"
| hsteps_sessions: "hsteps e L w w1 \<Longrightarrow> sessions_step (hw_calls w1) (hw_adminer w1) a \<Longrightarrow> hsteps e L w (w1\<lparr>hw_adminer := a\<rparr>)"

lemma hsteps_snd [intro]: "fits L cmd ps \<Longrightarrow> hsteps e L w w1 \<Longrightarrow> hsteps e L w (snd (callAgent e cmd ps w1))"
  by (rule hsteps_call [OF _ _ prod.collapse [symmetric]])

lemma hsteps_trans: "hsteps e L w1 w2 \<Longrightarrow> hsteps e L w w1 \<Longrightarrow> hsteps e L w w2"
  by (induction rule: hsteps.induct) (auto intro: hsteps.intros)

lemma hsteps_mono: "hsteps e K w w' \<Longrightarrow> (\<And>cmd ps. fits K cmd ps \<Longrightarrow> fits L cmd ps) \<Longrightarrow> hsteps e L w w'"
  by (induction rule: hsteps.induct) (auto intro: hsteps.intros)

text \<open>The calls a run adds have the shapes of its list, and what the agent ran stays vetted.\<close>

lemma hsteps_calls:
  "hsteps e L w w' \<Longrightarrow> \<exists>cs. hw_calls w' = hw_calls w @ cs \<and> list_all (\<lambda>(cmd, ps). fits L cmd ps) cs"
proof (induction rule: hsteps.induct)
  case (hsteps_call w1 cmd ps r w2)
  then obtain cs where cs: "hw_calls w1 = hw_calls w @ cs" "list_all (\<lambda>(cmd, ps). fits L cmd ps) cs" by blast
  have "hw_calls w2 = hw_calls w @ (cs @ [(cmd, ps)])" using callAgent_cases [OF hsteps_call.hyps(3)] cs(1) by simp
  moreover have "list_all (\<lambda>(cmd, ps). fits L cmd ps) (cs @ [(cmd, ps)])" using cs(2) hsteps_call.hyps(2) by simp
  ultimately show ?case by blast
qed auto

lemma hsteps_safe: "hsteps e L w w' \<Longrightarrow> hsafe e (hw_hist w) \<Longrightarrow> hsafe e (hw_hist w')"
proof (induction rule: hsteps.induct)
  case (hsteps_call w1 cmd ps r w2)
  then show ?case using callAgent_safe [of e w1 cmd ps] by simp
qed auto

lemma sessions_step_update:
  assumes "asked_up cs tok s \<or> (\<exists>s'. map_of a tok = Some s' \<and> as_engine s' = as_engine s)"
  shows "sessions_step cs a (AList.update tok s a)"
proof -
  have "(t, x) \<in> set (AList.update tok s a) \<Longrightarrow> (t = tok \<and> x = s) \<or> (t, x) \<in> set a" for t x
    by (induction a) (auto split: if_splits)
  with assms show ?thesis
    unfolding sessions_step_def by (auto simp: distinct_update dest: map_of_SomeD)
qed

lemma sessions_step_filter: "sessions_step cs a (filter P a)"
  by (auto simp: sessions_step_def distinct_map_filter)

text \<open>
  The proofs about handlers read the state after a call as a second component; the collection
  carries the rules they share.
\<close>

named_theorems effect

lemmas [effect] = Let_def case_prod_beta hsteps_refl hsteps_snd hsteps_sessions sessions_step_update asked_up_def

lemma hsteps_act [effect]: "fits L cmd ps \<Longrightarrow> hsteps e L w w1 \<Longrightarrow> hsteps e L w (snd (act e cmd ps path what ok w1))"
  by (simp add: act_def effect)

subsection \<open>The pages only read\<close>

lemma fits_reading [simp]:
  "fits reading_calls ''site_list'' []"
  "fits reading_calls ''hosting_users'' []"
  "fits reading_calls ''sshd_status'' []"
  "fits reading_calls ''os_updates_check'' []"
  "fits reading_calls ''fail2ban_status'' []"
  "fits reading_calls ''db_instance_status'' [(''engine'', x)]"
  "fits reading_calls ''db_list'' [(''engine'', x)]"
  "fits reading_calls ''hosting_user_authkeys_get'' [(''name'', x)]"
  "fits reading_calls ''diagnostica'' [(''limit'', x)]"
  by (simp_all add: reading_calls_def)

lemma fits_reading_vhost [simp]:
  "on_vhost ''site_db_info'' ''vhost_db_info'' name vh [] = p \<Longrightarrow> fits reading_calls (fst p) (snd p)"
  "on_vhost ''site_compose_get'' ''vhost_compose_get'' name vh [] = p \<Longrightarrow> fits reading_calls (fst p) (snd p)"
  "on_vhost ''site_nginx_get'' ''vhost_nginx_get'' name vh [] = p \<Longrightarrow> fits reading_calls (fst p) (snd p)"
  by (cases "vh = []"; hypsubst; simp add: on_vhost_def reading_calls_def)+

lemma handleIndex_reads: "hsteps e reading_calls w (snd (handleIndex e r w))"
  by (simp add: handleIndex_def effect split: option.split sum.split)

lemma handleUsers_reads: "hsteps e reading_calls w (snd (handleUsers e r w))"
  by (simp add: handleUsers_def effect split: option.split sum.split)

lemma handleSystem_reads: "hsteps e reading_calls w (snd (handleSystem e r w))"
  by (simp add: handleSystem_def effect split: option.split sum.split)

lemma dbView_reads: "hsteps e reading_calls w w1 \<Longrightarrow> hsteps e reading_calls w (snd (dbView e r t c w1))"
  by (simp add: dbView_def effect split: option.split sum.split)

lemma handleDB_reads: "hsteps e reading_calls w (snd (handleDB seg e r w))"
  unfolding handleDB_def by (rule dbView_reads [OF hsteps_refl])

lemma handleDbInfo_reads: "hsteps e reading_calls w (snd (handleDbInfo e r w))"
  by (simp add: handleDbInfo_def effect split: option.split sum.split)

lemma handleUserKeys_reads: "hsteps e reading_calls w (snd (handleUserKeys e r w))"
  by (simp add: handleUserKeys_def effect split: option.split sum.split)

lemma handleEdit_reads: "hsteps e reading_calls w (snd (handleEdit e r w))"
  by (simp add: handleEdit_def effect split: option.split sum.split)

lemma handleNginxEdit_reads: "hsteps e reading_calls w (snd (handleNginxEdit e r w))"
  by (simp add: handleNginxEdit_def effect split: option.split sum.split)

lemma snd_currentPhpExt [simp]: "snd (currentPhpExt e name vh w) = snd (callAgent e ''site_list'' [] w)"
  unfolding snd_callJSON [symmetric, where dec = "hc_sites (he_codec e)" and z = "[]"]
  by (simp add: currentPhpExt_def case_prod_beta split: option.split)

lemma snd_currentPhpCfg [simp]: "snd (currentPhpCfg e name vh w) = snd (callAgent e ''site_list'' [] w)"
  unfolding snd_callJSON [symmetric, where dec = "hc_sites (he_codec e)" and z = "[]"]
  by (simp add: currentPhpCfg_def case_prod_beta split: option.split)

lemma handlePhpExt_reads: "hsteps e reading_calls w (snd (handlePhpExt e r w))"
  by (simp add: handlePhpExt_def effect split: option.split sum.split)

lemma handleDiag_reads: "hsteps e reading_calls w (snd (handleDiag e r w))"
  by (simp add: handleDiag_def effect split: option.split sum.split)

lemma handleAdminerProxy_reads: "hsteps e reading_calls w (snd (handleAdminerProxy seg e r w))"
  by (simp add: handleAdminerProxy_def effect split: option.split sum.split)

lemmas pages_read =
  handleIndex_reads handleUsers_reads handleSystem_reads handleDB_reads handleDbInfo_reads handleUserKeys_reads
  handleEdit_reads handleNginxEdit_reads handlePhpExt_reads handleDiag_reads handleAdminerProxy_reads

subsection \<open>The other handlers\<close>

lemma fits_all_reading [simp]: "fits reading_calls cmd ps \<Longrightarrow> fits all_calls cmd ps"
  by (simp add: all_calls_def fits_append)

lemma fits_changing [simp]:
  "fits changing_calls ''fail2ban_unban'' [(''ip'', x)]"
  "fits changing_calls ''os_updates_apply'' [(''packages'', x)]"
  "fits changing_calls ''os_updates_preview'' [(''packages'', x)]"
  "fits changing_calls ''os_updates_hold'' [(''action'', x), (''packages'', y)]"
  "fits changing_calls ''db_instance_up'' [(''engine'', x)]"
  "fits changing_calls ''db_create'' [(''engine'', x), (''name'', y)]"
  "fits changing_calls ''db_create'' [(''engine'', x), (''name'', y), (''user'', z)]"
  "fits changing_calls ''adminer_up'' [(''engine'', x), (''token'', y)]"
  "fits changing_calls ''adminer_down'' [(''token'', x)]"
  "fits changing_calls ''adminer_gc'' []"
  "fits changing_calls ''site_up'' [(''name'', x)]"
  "fits changing_calls ''site_down'' [(''name'', x)]"
  "fits changing_calls ''site_destroy'' [(''name'', x)]"
  "fits changing_calls ''site_env_set'' [(''name'', x), (''content'', y)]"
  "fits changing_calls ''site_autoupdate'' [(''name'', x), (''enabled'', y)]"
  "fits changing_calls ''vhost_autoupdate'' [(''name'', x), (''vhost'', y), (''enabled'', z)]"
  "fits changing_calls ''vhost_up'' [(''name'', x), (''vhost'', y)]"
  "fits changing_calls ''vhost_down'' [(''name'', x), (''vhost'', y)]"
  "fits changing_calls ''vhost_destroy'' [(''name'', x), (''vhost'', y)]"
  "fits changing_calls ''vhost_migrate'' [(''name'', x)]"
  by (simp_all add: changing_calls_def)

lemma fits_changing_users [simp]:
  "fits changing_calls ''hosting_user_delete'' [(''name'', x)]"
  "fits changing_calls ''sshd_up'' []"
  "fits changing_calls ''hosting_user_passwd'' [(''name'', x), (''password'', y)]"
  "fits changing_calls ''hosting_user_lock'' [(''name'', x), (''locked'', y)]"
  "fits changing_calls ''hosting_user_authkeys_set'' [(''name'', x), (''content'', y)]"
  "fits changing_calls ''site_compose_set'' [(''name'', x), (''content'', y)]"
  "fits changing_calls ''vhost_compose_set'' [(''name'', x), (''vhost'', y), (''content'', z)]"
  "fits changing_calls ''site_nginx_set'' [(''name'', x), (''content'', y)]"
  "fits changing_calls ''vhost_nginx_set'' [(''name'', x), (''vhost'', y), (''content'', z)]"
  "fits changing_calls ''vhost_php_ext'' [(''name'', x), (''vhost'', y), (''modules'', z)]"
  by (simp_all add: changing_calls_def)

lemma fits_php_args [simp]: "fits changing_calls ''vhost_php_config'' (php_args r)"
  by (simp add: changing_calls_def php_args_def php_limit_names_def)

lemma fits_stack_params [simp]:
  "fits changing_calls ''site_create'' (stack_params [(''name'', x)] t d p)"
  "fits changing_calls ''vhost_create'' (stack_params [(''name'', x), (''vhost'', y)] t d p)"
  by (simp_all add: changing_calls_def stack_params_def)

lemma fits_all_changing [simp]: "fits changing_calls cmd ps \<Longrightarrow> fits all_calls cmd ps"
  by (simp add: all_calls_def fits_append)

lemma pages_all: "hsteps e reading_calls w w' \<Longrightarrow> hsteps e all_calls w w'"
  by (erule hsteps_mono) simp

lemma dbView_all: "hsteps e all_calls w w1 \<Longrightarrow> hsteps e all_calls w (snd (dbView e r t c w1))"
  using hsteps_trans [OF pages_all [OF dbView_reads [OF hsteps_refl]]] .

lemma system_handlers_steps:
  "hsteps e all_calls w (snd (handleSystemUnban e r w))"
  "hsteps e all_calls w (snd (handleSystemApply e r w))"
  "hsteps e all_calls w (snd (handleSystemPreview e r w))"
  "hsteps e all_calls w (snd (handleSystemHold e r w))"
  by (simp_all add: handleSystemUnban_def handleSystemApply_def handleSystemPreview_def handleSystemHold_def effect
      split: option.split)

lemma db_handlers_steps:
  "hsteps e all_calls w (snd (handleDBInstall seg e r w))"
  "hsteps e all_calls w (snd (handleDBCreate seg e r w))"
  "hsteps e all_calls w (snd (handleAdminerOpen seg e r w))"
  by (simp_all add: handleDBInstall_def handleDBCreate_def handleAdminerOpen_def effect dbView_all)

lemma site_actions_steps:
  "fits all_calls cmd [(''name'', FormValue r ''name'')] \<Longrightarrow> hsteps e all_calls w (snd (site_action cmd ok e r w))"
  "fits all_calls cmd [(''name'', FormValue r ''name''), (''vhost'', FormValue r ''vhost'')] \<Longrightarrow>
     hsteps e all_calls w (snd (vhostAction cmd ok e r w))"
  by (simp_all add: site_action_def vhostAction_def effect)

lemma start_created_steps: "hsteps e all_calls w w1 \<Longrightarrow> hsteps e all_calls w (snd (start_created e name tmpl db w1))"
  by (simp add: start_created_def effect)

lemma attach_db_steps: "hsteps e all_calls w w1 \<Longrightarrow> hsteps e all_calls w (snd (attach_db e name db w1))"
  by (simp add: attach_db_def effect)

lemma site_handlers_steps:
  "hsteps e all_calls w (snd (handleCreate e r w))"
  "hsteps e all_calls w (snd (handleVhostCreate e r w))"
  "hsteps e all_calls w (snd (handleAutoUpdate e r w))"
  "hsteps e all_calls w (snd (handleVhostAutoUpdate e r w))"
  "hsteps e all_calls w (snd (handleMigrate e r w))"
  by (simp_all add: handleCreate_def handleVhostCreate_def handleAutoUpdate_def handleVhostAutoUpdate_def
      handleMigrate_def effect start_created_steps attach_db_steps split: option.split)

lemma on_vhost_all [simp]:
  "fits all_calls (fst (on_vhost ''site_compose_set'' ''vhost_compose_set'' name vh [(''content'', x)]))
     (snd (on_vhost ''site_compose_set'' ''vhost_compose_set'' name vh [(''content'', x)]))"
  "fits all_calls (fst (on_vhost ''site_nginx_set'' ''vhost_nginx_set'' name vh [(''content'', x)]))
     (snd (on_vhost ''site_nginx_set'' ''vhost_nginx_set'' name vh [(''content'', x)]))"
  by (simp_all add: on_vhost_def)

lemma user_handlers_steps:
  "hsteps e all_calls w (snd (handleUserDelete e r w))"
  "hsteps e all_calls w (snd (handleSshdInstall e r w))"
  "hsteps e all_calls w (snd (handleUserPasswd e r w))"
  "hsteps e all_calls w (snd (handleUserLock e r w))"
  "hsteps e all_calls w (snd (handleUserAuthKeysSet e r w))"
  "hsteps e all_calls w (snd (handleKeyDownload e r w))"
  by (simp_all add: handleUserDelete_def handleSshdInstall_def handleUserPasswd_def handleUserLock_def
      handleUserAuthKeysSet_def handleKeyDownload_def effect)

lemma fits_sshkey [simp]:
  "fits changing_calls ''hosting_user_sshkey'' ([(''name'', x)] @ (if p \<noteq> '''' then [(''passphrase'', p)] else []) @
     (if c \<noteq> '''' then [(''comment'', c)] else []))"
  by (simp add: changing_calls_def)

lemma handleUserSshKey_steps: "hsteps e all_calls w (snd (handleUserSshKey e r w))"
  unfolding handleUserSshKey_def Let_def case_prod_beta
  by (simp only: if_distrib [of snd] snd_conv if_cancel) (rule hsteps_snd [OF fits_all_changing [OF fits_sshkey] hsteps_refl])

lemma edit_handlers_steps:
  "hsteps e all_calls w (snd (handleEditSave e r w))"
  "hsteps e all_calls w (snd (handleNginxSave e r w))"
  "hsteps e all_calls w (snd (handlePhpConfigSave e r w))"
  "hsteps e all_calls w (snd (handlePhpExtSave e r w))"
  by (simp_all add: handleEditSave_def handleNginxSave_def handlePhpConfigSave_def handlePhpExtSave_def effect)

subsection \<open>The extension's runs\<close>

lemma hmux_steps: "list_all (\<lambda>(m, p, h). hsteps e all_calls w (snd (h e r w))) hmux"
  by (simp add: hmux_def db_routes_def system_handlers_steps db_handlers_steps site_actions_steps site_handlers_steps
      user_handlers_steps handleUserSshKey_steps edit_handlers_steps pages_read [THEN pages_all] hsteps_refl)

lemma hmux_pages: "list_all (\<lambda>(m, p, h). m = ''GET'' \<longrightarrow> hsteps e reading_calls w (snd (h e r w))) hmux"
  by (simp add: hmux_def db_routes_def pages_read hsteps_refl)

lemma hmux_methods: "list_all (\<lambda>(m, p, h). m = ''GET'' \<or> m = ''POST'') hmux"
  by (simp add: hmux_def db_routes_def)

lemma longest_in: "longest xs = Some (p, h) \<Longrightarrow> \<exists>m. (m, p, h) \<in> set xs"
proof (induction xs rule: longest.induct)
  case (2 m q g rest)
  then show ?case by (cases "longest rest") (auto split: if_splits)
qed simp

lemma mux_find_in:
  assumes "mux_find m path = Some (p, h)"
  shows "\<exists>pm. (pm, p, h) \<in> set hmux \<and> method_match pm m \<and> pattern_match p path"
  using longest_in [OF assms [unfolded mux_find_def]] by auto

text \<open>A request does nothing, or what the handler of a matching route does.\<close>

lemma hserve_cases:
  obtains "snd (hserve e r w) = w"
  | pm p h where "(pm, p, h) \<in> set hmux" "method_match pm (hq_Method r)" "pattern_match p (hq_Path r)"
      "hserve e r w = h e r w"
proof (cases "snd (hserve e r w) = w")
  case False
  then obtain p h where f: "mux_find (hq_Method r) (cleanPath (hq_Path r)) = Some (p, h)"
    and path: "cleanPath (hq_Path r) = hq_Path r" and "hserve e r w = h e r w"
    unfolding hserve_def Let_def by (auto split: if_splits option.splits prod.splits)
  with mux_find_in [OF f] that(2) show ?thesis by auto
qed (use that in blast)

lemma hserve_steps: "hsteps e all_calls w (snd (hserve e r w))"
proof (cases rule: hserve_cases [of e r w])
  case (2 pm p h)
  then show ?thesis using hmux_steps [of e w r] by (auto simp: list_all_iff)
qed (simp add: hsteps_refl)

lemma hserve_page_steps:
  assumes "hq_Method r = ''GET'' \<or> hq_Method r = ''HEAD''"
  shows "hsteps e reading_calls w (snd (hserve e r w))"
proof (cases rule: hserve_cases [of e r w])
  case (2 pm p h)
  moreover have "pm = ''GET''"
    using hmux_methods 2(1,2) assms by (auto simp: method_match_def list_all_iff)
  ultimately show ?thesis using hmux_pages [of e w r] by (auto simp: list_all_iff)
qed (simp add: hsteps_refl)

lemma adminer_downs_calls:
  "hw_calls (adminer_downs e toks w) = hw_calls w @ map (\<lambda>tok. (''adminer_down'', [(''token'', tok)])) toks"
  "hw_adminer (adminer_downs e toks w) = hw_adminer w"
  by (induction toks arbitrary: w) simp_all

lemma adminer_downs_steps: "hsteps e all_calls w w1 \<Longrightarrow> hsteps e all_calls w (adminer_downs e toks w1)"
  by (induction toks arbitrary: w1) (simp_all add: hsteps_snd)

lemma reapAdminer_steps: "hsteps e all_calls w (reapAdminer e w)"
  unfolding reapAdminer_def Let_def by (intro adminer_downs_steps hsteps_sessions hsteps_refl sessions_step_filter)

text \<open>
  A run of the extension over one agent: the start, requests and ticks of the reaper, each with a
  clock, connections and files of its own.
\<close>

definition same_agent :: "HEnv \<Rightarrow> HEnv \<Rightarrow> bool" where
  "same_agent e0 e \<longleftrightarrow> he_stat e = he_stat e0 \<and> he_agent e = he_agent e0"

inductive host_run :: "HEnv \<Rightarrow> history \<Rightarrow> HWorld \<Rightarrow> bool" for e0 h0 where
  hr_start: "same_agent e0 e \<Longrightarrow> host_run e0 h0 (start_hosting e h0)"
| hr_request: "host_run e0 h0 w \<Longrightarrow> same_agent e0 e \<Longrightarrow> host_run e0 h0 (snd (hserve e r w))"
| hr_tick: "host_run e0 h0 w \<Longrightarrow> same_agent e0 e \<Longrightarrow> host_run e0 h0 (reapAdminer e w)"

definition call_ok :: "string \<times> params \<Rightarrow> bool" where
  "call_ok = (\<lambda>(cmd, ps). fits all_calls cmd ps)"

lemma hsafe_same: "same_agent e0 e \<Longrightarrow> hsafe e h \<longleftrightarrow> hsafe e0 h"
  by (simp add: same_agent_def hsafe_def)

lemma step_keeps_vetted:
  assumes "hsteps e all_calls w w'" "same_agent e0 e" "hsafe e0 (hw_hist w)" "list_all call_ok (hw_calls w)"
  shows "hsafe e0 (hw_hist w') \<and> list_all call_ok (hw_calls w')"
proof -
  from hsteps_calls [OF assms(1)] assms(4) have "list_all call_ok (hw_calls w')"
    unfolding call_ok_def by (metis list_all_append)
  moreover have "hsafe e0 (hw_hist w')"
    using hsteps_safe [OF assms(1)] assms(2,3) hsafe_same by blast
  ultimately show ?thesis by blast
qed

lemma host_run_vetted:
  assumes "host_run e0 h0 w" "hsafe e0 h0"
  shows "hsafe e0 (hw_hist w) \<and> list_all call_ok (hw_calls w)"
  using assms
proof (induction rule: host_run.induct)
  case (hr_start e)
  have "hsteps e all_calls \<lparr>hw_adminer = [], hw_hist = h0, hw_calls = []\<rparr> (start_hosting e h0)"
    unfolding start_hosting_def by (simp add: effect)
  from step_keeps_vetted [OF this hr_start(1)] hr_start(2) show ?case by simp
next
  case (hr_request w e r)
  then show ?case using step_keeps_vetted [OF hserve_steps] by blast
next
  case (hr_tick w e)
  then show ?case using step_keeps_vetted [OF reapAdminer_steps] by blast
qed

subsection \<open>Sessions\<close>

text \<open>The tokens of the table are distinct and each container in it has been asked for.\<close>

definition sessions_ok :: "HWorld \<Rightarrow> bool" where
  "sessions_ok w \<longleftrightarrow> distinct (map fst (hw_adminer w)) \<and> (\<forall>(tok, s) \<in> set (hw_adminer w). asked_up (hw_calls w) tok s)"

lemma hsteps_sessions_ok: "hsteps e L w w' \<Longrightarrow> sessions_ok w \<Longrightarrow> sessions_ok w'"
proof (induction rule: hsteps.induct)
  case (hsteps_call w1 cmd ps r w2)
  with callAgent_cases [OF hsteps_call.hyps(3)] show ?case
    by (auto simp: sessions_ok_def asked_up_def)
next
  case (hsteps_sessions w1 a)
  then have w1: "distinct (map fst (hw_adminer w1))" "\<And>tok s. (tok, s) \<in> set (hw_adminer w1) \<Longrightarrow> asked_up (hw_calls w1) tok s"
    by (auto simp: sessions_ok_def)
  have "asked_up (hw_calls w1) tok s" if "(tok, s) \<in> set a" for tok s
  proof -
    from hsteps_sessions.hyps(2) that
    have "asked_up (hw_calls w1) tok s \<or> (\<exists>s'. (tok, s') \<in> set (hw_adminer w1) \<and> as_engine s' = as_engine s)"
      unfolding sessions_step_def by blast
    then show ?thesis
    proof
      assume "\<exists>s'. (tok, s') \<in> set (hw_adminer w1) \<and> as_engine s' = as_engine s"
      then obtain s' where "asked_up (hw_calls w1) tok s'" "as_engine s' = as_engine s" using w1(2) by blast
      then show ?thesis by (simp add: asked_up_def)
    qed
  qed
  with w1(1) hsteps_sessions.hyps(2) show ?case by (auto simp: sessions_ok_def sessions_step_def)
qed

lemma host_run_sessions: "host_run e0 h0 w \<Longrightarrow> sessions_ok w"
proof (induction rule: host_run.induct)
  case (hr_start e)
  have "hsteps e all_calls \<lparr>hw_adminer = [], hw_hist = h0, hw_calls = []\<rparr> (start_hosting e h0)"
    unfolding start_hosting_def by (simp add: effect)
  then show ?case by (rule hsteps_sessions_ok) (simp add: sessions_ok_def)
next
  case (hr_request w e r)
  then show ?case using hsteps_sessions_ok [OF hserve_steps] by blast
next
  case (hr_tick w e)
  then show ?case using hsteps_sessions_ok [OF reapAdminer_steps] by blast
qed

lemma reap_effect:
  "hw_adminer (reapAdminer e w) = filter (\<lambda>(tok, s). \<not> is_stale (he_now e) s) (hw_adminer w)"
  "hw_calls (reapAdminer e w) = hw_calls w @
     map (\<lambda>(tok, s). (''adminer_down'', [(''token'', tok)])) (filter (\<lambda>(tok, s). is_stale (he_now e) s) (hw_adminer w))"
  by (simp_all add: reapAdminer_def Let_def adminer_downs_calls case_prod_beta)

lemma reaped_session:
  assumes d: "distinct (map fst a)" and m: "map_of a tok = Some s"
  shows "if P s
    then map_of (filter (\<lambda>(tok, s). \<not> P s) a) tok = None \<and>
      count_list (map (\<lambda>(tok, s). (''adminer_down'', [(''token'', tok)])) (filter (\<lambda>(tok, s). P s) a))
        (''adminer_down'', [(''token'', tok)]) = 1
    else map_of (filter (\<lambda>(tok, s). \<not> P s) a) tok = Some s"
  using assms
proof (induction a)
  case (Cons x a)
  obtain t y where x: "x = (t, y)" by fastforce
  show ?case
  proof (cases "t = tok")
    case True
    with Cons.prems x have "tok \<notin> fst ` set a" and s: "y = s" by auto
    then have "map_of (filter (\<lambda>(tok, s). \<not> P s) a) tok = None"
      and "count_list (map (\<lambda>(tok, s). (''adminer_down'', [(''token'', tok)])) (filter (\<lambda>(tok, s). P s) a))
        (''adminer_down'', [(''token'', tok)]) = 0"
      by (auto simp: map_of_eq_None_iff count_list_0_iff rev_image_eqI)
    with True x s show ?thesis by simp
  next
    case False
    with Cons x show ?thesis by auto
  qed
qed simp

lemma reap_sessions:
  assumes "host_run e0 h0 w"
  shows "(\<forall>(tok, s) \<in> set (hw_adminer (reapAdminer e w)). he_now e - as_last s \<le> 300 * Second) \<and>
    (\<forall>tok s. map_of (hw_adminer w) tok = Some s \<longrightarrow>
       (if he_now e - as_last s > 300 * Second
        then map_of (hw_adminer (reapAdminer e w)) tok = None \<and>
             count_list (drop (length (hw_calls w)) (hw_calls (reapAdminer e w))) (''adminer_down'', [(''token'', tok)]) = 1
        else map_of (hw_adminer (reapAdminer e w)) tok = Some s))"
proof (intro conjI allI impI)
  have d: "distinct (map fst (hw_adminer w))" using host_run_sessions [OF assms] by (simp add: sessions_ok_def)
  show "\<forall>(tok, s) \<in> set (hw_adminer (reapAdminer e w)). he_now e - as_last s \<le> 300 * Second"
    by (auto simp: reap_effect is_stale_def)
  fix tok s
  assume m: "map_of (hw_adminer w) tok = Some s"
  have st: "is_stale (he_now e) s \<longleftrightarrow> 300 * Second < he_now e - as_last s" for s
    by (simp add: is_stale_def)
  show "if he_now e - as_last s > 300 * Second
        then map_of (hw_adminer (reapAdminer e w)) tok = None \<and>
             count_list (drop (length (hw_calls w)) (hw_calls (reapAdminer e w))) (''adminer_down'', [(''token'', tok)]) = 1
        else map_of (hw_adminer (reapAdminer e w)) tok = Some s"
    using reaped_session [OF d m, of "is_stale (he_now e)"]
    by (simp add: reap_effect st [symmetric] split: if_splits)
qed

end
