(* ===== verification/Commands.thy ===== *)
theory Commands
  imports HostAgent
begin

text \<open>
  The manifests the repository ships for the agent, src/agent/commands/*.json: for each command
  its time limit and its parameters, with the patterns as the expressions \<open>regexp.Compile\<close> makes of
  them.  (The description, which the agent does not use, is left out.)
\<close>

subsection \<open>The patterns\<close>

definition ident_char :: "char \<Rightarrow> bool" where
  "ident_char c \<longleftrightarrow> slug_char c \<or> c = CHR ''_''"

definition hex_lower_char :: "char \<Rightarrow> bool" where
  "hex_lower_char c \<longleftrightarrow> is_digit c \<or> (CHR ''a'' \<le> c \<and> c \<le> CHR ''f'')"

definition ip_char :: "char \<Rightarrow> bool" where
  "ip_char c \<longleftrightarrow> is_hex c \<or> c = CHR '':'' \<or> c = CHR ''.''"

definition Plus :: "re \<Rightarrow> re" where "Plus r = Seq r (Star r)"

definition list_re :: "re \<Rightarrow> re" where "list_re r = Seq r (Star (Seq (Lit '' '') r))"

definition token_re :: re where "token_re = Rep (Cls hex_lower_char) 8 40"

definition ident_re :: re where
  "ident_re = Seq (Cls (\<lambda>c. CHR ''a'' \<le> c \<and> c \<le> CHR ''z'')) (Rep (Cls ident_char) 1 30)"

definition digits_re :: "nat \<Rightarrow> re" where "digits_re n = Rep (Cls is_digit) 1 n"

definition ip_re :: re where "ip_re = Plus (Cls ip_char)"

definition net_re :: re where "net_re = Seq ip_re (Opt (Seq (Lit ''/'') (digits_re 3)))"

definition logpath_re :: re where
  "logpath_re = Seq (Lit ''/'') (Plus (Cls (\<lambda>c. is_alpha c \<or> is_digit c \<or> c \<in> {CHR ''_'', CHR ''.'', CHR ''/'', CHR ''-''})))"

definition package_re :: re where
  "package_re = Seq (Cls slug_char) (Plus (Cls (\<lambda>c. slug_char c \<or> c \<in> {CHR ''+'', CHR ''.'', CHR ''-''})))"

definition domain_re :: re where
  "domain_re = Seq (Cls slug_char) (Opt (Seq (Star (Cls (\<lambda>c. slug_char c \<or> c = CHR ''.'' \<or> c = CHR ''-''))) (Cls slug_char)))"

definition size_re :: re where
  "size_re = Seq (digits_re 6) (Opt (Cls (\<lambda>c. c \<in> {CHR ''K'', CHR ''M'', CHR ''G''})))"

definition b64_char :: "char \<Rightarrow> bool" where
  "b64_char c \<longleftrightarrow> is_alpha c \<or> is_digit c \<or> c = CHR ''+'' \<or> c = CHR ''/'' \<or> c = CHR ''=''"

definition b64_re :: re where "b64_re = Star (Cls b64_char)"

definition modules_re :: re where
  "modules_re = Rep (Cls (\<lambda>c. is_alpha c \<or> is_digit c \<or> c = CHR ''_'' \<or> c = CHR '','')) 0 200"

definition shipped_rx :: "string \<Rightarrow> re option" where
  "shipped_rx = map_of
     [(''[a-z][a-z0-9-]{1,30}'', site_name_re),
      (''[a-f0-9]{8,40}'', token_re),
      (''[a-z][a-z0-9_]{1,30}'', ident_re),
      (''[0-9]{1,3}'', digits_re 3),
      (''[0-9]{1,4}'', digits_re 4),
      (''[0-9]{1,5}'', digits_re 5),
      (''[0-9]{1,6}'', digits_re 6),
      (''[0-9]{1,7}'', digits_re 7),
      (''[0-9A-Fa-f:.]+'', ip_re),
      (''[0-9A-Fa-f:.]+(/[0-9]{1,3})?( [0-9A-Fa-f:.]+(/[0-9]{1,3})?)*'', list_re net_re),
      (''/[A-Za-z0-9_./-]+'', logpath_re),
      (''[a-z0-9][a-z0-9+.-]+( [a-z0-9][a-z0-9+.-]+)*'', list_re package_re),
      (''[a-z0-9]([a-z0-9.-]*[a-z0-9])?'', domain_re),
      (''[0-9]{1,6}[KMG]?'', size_re),
      (''(-1|[0-9]{1,6}[KMG]?)'', Alt (Lit ''-1'') size_re),
      (''[A-Za-z0-9+/=]*'', b64_re),
      (''[A-Za-z0-9_,]{0,200}'', modules_re)]"

subsection \<open>The manifests\<close>

text \<open>A parameter as the loader leaves it, and a manifest.\<close>

definition spec :: "bool \<Rightarrow> string \<Rightarrow> string list \<Rightarrow> ParamSpec" where
  "spec req pat en =
     \<lparr>psp_Required = req, psp_Pattern = pat, psp_Enum = en,
      psp_re = (if pat = '''' then None else shipped_rx pat)\<rparr>"

definition shipped :: "int \<Rightarrow> (string \<times> ParamSpec) list \<Rightarrow> Manifest" where
  "shipped ttl ps = \<lparr>mf_Description = '''', mf_TimeoutSeconds = ttl, mf_Params = ps\<rparr>"

definition adminer_down_manifest :: Manifest where
  "adminer_down_manifest = shipped 30 [(''token'', spec True ''[a-f0-9]{8,40}'' [])]"

definition adminer_gc_manifest :: Manifest where
  "adminer_gc_manifest = shipped 60 []"

definition adminer_up_manifest :: Manifest where
  "adminer_up_manifest = shipped 120 [(''engine'', spec True '''' [''pg'', ''mysql'']),
     (''token'', spec True ''[a-f0-9]{8,40}'' [])]"

definition db_create_manifest :: Manifest where
  "db_create_manifest = shipped 180 [(''engine'', spec True '''' [''pg'', ''mysql'']),
     (''name'', spec True ''[a-z][a-z0-9_]{1,30}'' []),
     (''user'', spec False ''[a-z][a-z0-9_]{1,30}'' [])]"

definition db_instance_status_manifest :: Manifest where
  "db_instance_status_manifest = shipped 30 [(''engine'', spec True '''' [''pg'', ''mysql''])]"

definition db_instance_up_manifest :: Manifest where
  "db_instance_up_manifest = shipped 120 [(''engine'', spec True '''' [''pg'', ''mysql''])]"

definition db_list_manifest :: Manifest where
  "db_list_manifest = shipped 30 [(''engine'', spec True '''' [''pg'', ''mysql''])]"

definition diagnostica_manifest :: Manifest where
  "diagnostica_manifest = shipped 30 [(''limit'', spec False ''[0-9]{1,4}'' [])]"

definition fail2ban_setup_manifest :: Manifest where
  "fail2ban_setup_manifest = shipped 180 [(''ignoreip'', spec True ''[0-9A-Fa-f:.]+(/[0-9]{1,3})?( [0-9A-Fa-f:.]+(/[0-9]{1,3})?)*'' []),
     (''logpath'', spec False ''/[A-Za-z0-9_./-]+'' []),
     (''maxretry'', spec False ''[0-9]{1,3}'' []),
     (''findtime'', spec False ''[0-9]{1,6}'' []),
     (''bantime'', spec False ''[0-9]{1,7}'' [])]"

definition fail2ban_status_manifest :: Manifest where
  "fail2ban_status_manifest = shipped 20 []"

definition fail2ban_unban_manifest :: Manifest where
  "fail2ban_unban_manifest = shipped 20 [(''ip'', spec True ''[0-9A-Fa-f:.]+'' [])]"

definition hosting_user_authkeys_get_manifest :: Manifest where
  "hosting_user_authkeys_get_manifest = shipped 20 [(''name'', spec True ''[a-z][a-z0-9-]{1,30}'' [])]"

definition hosting_user_authkeys_set_manifest :: Manifest where
  "hosting_user_authkeys_set_manifest = shipped 20 [(''name'', spec True ''[a-z][a-z0-9-]{1,30}'' []),
     (''content'', spec False '''' [])]"

definition hosting_user_delete_manifest :: Manifest where
  "hosting_user_delete_manifest = shipped 20 [(''name'', spec True ''[a-z][a-z0-9-]{1,30}'' [])]"

definition hosting_user_lock_manifest :: Manifest where
  "hosting_user_lock_manifest = shipped 20 [(''name'', spec True ''[a-z][a-z0-9-]{1,30}'' []),
     (''locked'', spec True '''' [''true'', ''false''])]"

definition hosting_user_passwd_manifest :: Manifest where
  "hosting_user_passwd_manifest = shipped 30 [(''name'', spec True ''[a-z][a-z0-9-]{1,30}'' []),
     (''password'', spec True '''' [])]"

definition hosting_user_sshkey_manifest :: Manifest where
  "hosting_user_sshkey_manifest = shipped 30 [(''name'', spec True ''[a-z][a-z0-9-]{1,30}'' []),
     (''passphrase'', spec False '''' []),
     (''comment'', spec False '''' [])]"

definition hosting_users_manifest :: Manifest where
  "hosting_users_manifest = shipped 30 []"

definition logtail_manifest :: Manifest where
  "logtail_manifest = shipped 10 [(''log'', spec True '''' [''nginx-access'', ''nginx-error'', ''syslog'']),
     (''lines'', spec False ''[0-9]{1,4}'' [])]"

definition os_updates_apply_manifest :: Manifest where
  "os_updates_apply_manifest = shipped 600 [(''packages'', spec True ''[a-z0-9][a-z0-9+.-]+( [a-z0-9][a-z0-9+.-]+)*'' [])]"

definition os_updates_check_manifest :: Manifest where
  "os_updates_check_manifest = shipped 120 []"

definition os_updates_hold_manifest :: Manifest where
  "os_updates_hold_manifest = shipped 60 [(''action'', spec True '''' [''hold'', ''unhold'']),
     (''packages'', spec True ''[a-z0-9][a-z0-9+.-]+( [a-z0-9][a-z0-9+.-]+)*'' [])]"

definition os_updates_preview_manifest :: Manifest where
  "os_updates_preview_manifest = shipped 120 [(''packages'', spec True ''[a-z0-9][a-z0-9+.-]+( [a-z0-9][a-z0-9+.-]+)*'' [])]"

definition site_autoupdate_manifest :: Manifest where
  "site_autoupdate_manifest = shipped 20 [(''name'', spec True ''[a-z][a-z0-9-]{1,30}'' []),
     (''enabled'', spec True '''' [''true'', ''false''])]"

definition site_compose_get_manifest :: Manifest where
  "site_compose_get_manifest = shipped 30 [(''name'', spec True ''[a-z][a-z0-9-]{1,30}'' [])]"

definition site_compose_set_manifest :: Manifest where
  "site_compose_set_manifest = shipped 180 [(''name'', spec True ''[a-z][a-z0-9-]{1,30}'' []),
     (''content'', spec True '''' [])]"

definition site_create_manifest :: Manifest where
  "site_create_manifest = shipped 60 [(''name'', spec True ''[a-z][a-z0-9-]{1,30}'' []),
     (''domain'', spec False ''[a-z0-9]([a-z0-9.-]*[a-z0-9])?'' []),
     (''template'', spec False '''' [''php-fpm'', ''static'', ''custom'']),
     (''php_version'', spec False '''' [''8.3'', ''8.2'', ''8.1'', ''7.4''])]"

definition site_db_info_manifest :: Manifest where
  "site_db_info_manifest = shipped 20 [(''name'', spec True ''[a-z][a-z0-9-]{1,30}'' [])]"

definition site_destroy_manifest :: Manifest where
  "site_destroy_manifest = shipped 60 [(''name'', spec True ''[a-z][a-z0-9-]{1,30}'' [])]"

definition site_down_manifest :: Manifest where
  "site_down_manifest = shipped 120 [(''name'', spec True ''[a-z][a-z0-9-]{1,30}'' [])]"

definition site_env_set_manifest :: Manifest where
  "site_env_set_manifest = shipped 30 [(''name'', spec True ''[a-z][a-z0-9-]{1,30}'' []),
     (''content'', spec True '''' [])]"

definition site_list_manifest :: Manifest where
  "site_list_manifest = shipped 60 []"

definition site_nginx_get_manifest :: Manifest where
  "site_nginx_get_manifest = shipped 20 [(''name'', spec True ''[a-z][a-z0-9-]{1,30}'' [])]"

definition site_nginx_set_manifest :: Manifest where
  "site_nginx_set_manifest = shipped 60 [(''name'', spec True ''[a-z][a-z0-9-]{1,30}'' []),
     (''content'', spec True '''' [])]"

definition site_status_manifest :: Manifest where
  "site_status_manifest = shipped 120 [(''name'', spec True ''[a-z][a-z0-9-]{1,30}'' [])]"

definition site_up_manifest :: Manifest where
  "site_up_manifest = shipped 120 [(''name'', spec True ''[a-z][a-z0-9-]{1,30}'' [])]"

definition sshd_status_manifest :: Manifest where
  "sshd_status_manifest = shipped 30 []"

definition sshd_up_manifest :: Manifest where
  "sshd_up_manifest = shipped 180 []"

definition sysinfo_manifest :: Manifest where
  "sysinfo_manifest = shipped 15 []"

definition vhost_autoupdate_manifest :: Manifest where
  "vhost_autoupdate_manifest = shipped 15 [(''name'', spec True ''[a-z][a-z0-9-]{1,30}'' []),
     (''vhost'', spec True ''[a-z][a-z0-9-]{1,30}'' []),
     (''enabled'', spec True '''' [''true'', ''false''])]"

definition vhost_compose_get_manifest :: Manifest where
  "vhost_compose_get_manifest = shipped 15 [(''name'', spec True ''[a-z][a-z0-9-]{1,30}'' []),
     (''vhost'', spec True ''[a-z][a-z0-9-]{1,30}'' [])]"

definition vhost_compose_set_manifest :: Manifest where
  "vhost_compose_set_manifest = shipped 180 [(''name'', spec True ''[a-z][a-z0-9-]{1,30}'' []),
     (''vhost'', spec True ''[a-z][a-z0-9-]{1,30}'' []),
     (''content'', spec True '''' [])]"

definition vhost_create_manifest :: Manifest where
  "vhost_create_manifest = shipped 60 [(''name'', spec True ''[a-z][a-z0-9-]{1,30}'' []),
     (''vhost'', spec True ''[a-z][a-z0-9-]{1,30}'' []),
     (''domain'', spec False ''[a-z0-9]([a-z0-9.-]*[a-z0-9])?'' []),
     (''template'', spec False '''' [''php-fpm'', ''static'', ''custom'']),
     (''php_version'', spec False '''' [''8.3'', ''8.2'', ''8.1'', ''7.4''])]"

definition vhost_db_info_manifest :: Manifest where
  "vhost_db_info_manifest = shipped 15 [(''name'', spec True ''[a-z][a-z0-9-]{1,30}'' []),
     (''vhost'', spec True ''[a-z][a-z0-9-]{1,30}'' [])]"

definition vhost_destroy_manifest :: Manifest where
  "vhost_destroy_manifest = shipped 120 [(''name'', spec True ''[a-z][a-z0-9-]{1,30}'' []),
     (''vhost'', spec True ''[a-z][a-z0-9-]{1,30}'' [])]"

definition vhost_down_manifest :: Manifest where
  "vhost_down_manifest = shipped 120 [(''name'', spec True ''[a-z][a-z0-9-]{1,30}'' []),
     (''vhost'', spec True ''[a-z][a-z0-9-]{1,30}'' [])]"

definition vhost_env_set_manifest :: Manifest where
  "vhost_env_set_manifest = shipped 15 [(''name'', spec True ''[a-z][a-z0-9-]{1,30}'' []),
     (''vhost'', spec True ''[a-z][a-z0-9-]{1,30}'' []),
     (''content'', spec True '''' [])]"

definition vhost_migrate_manifest :: Manifest where
  "vhost_migrate_manifest = shipped 180 [(''name'', spec True ''[a-z][a-z0-9-]{1,30}'' [])]"

definition vhost_nginx_get_manifest :: Manifest where
  "vhost_nginx_get_manifest = shipped 15 [(''name'', spec True ''[a-z][a-z0-9-]{1,30}'' []),
     (''vhost'', spec True ''[a-z][a-z0-9-]{1,30}'' [])]"

definition vhost_nginx_set_manifest :: Manifest where
  "vhost_nginx_set_manifest = shipped 60 [(''name'', spec True ''[a-z][a-z0-9-]{1,30}'' []),
     (''vhost'', spec True ''[a-z][a-z0-9-]{1,30}'' []),
     (''content'', spec True '''' [])]"

definition vhost_php_config_manifest :: Manifest where
  "vhost_php_config_manifest = shipped 240 [(''name'', spec True ''[a-z][a-z0-9-]{1,30}'' []),
     (''vhost'', spec True ''[a-z][a-z0-9-]{1,30}'' []),
     (''upload_max_filesize'', spec False ''[0-9]{1,6}[KMG]?'' []),
     (''post_max_size'', spec False ''[0-9]{1,6}[KMG]?'' []),
     (''memory_limit'', spec False ''(-1|[0-9]{1,6}[KMG]?)'' []),
     (''max_file_uploads'', spec False ''[0-9]{1,5}'' []),
     (''max_execution_time'', spec False ''[0-9]{1,5}'' []),
     (''ini_raw_b64'', spec False ''[A-Za-z0-9+/=]*'' []),
     (''fpm_raw_b64'', spec False ''[A-Za-z0-9+/=]*'' [])]"

definition vhost_php_ext_manifest :: Manifest where
  "vhost_php_ext_manifest = shipped 240 [(''name'', spec True ''[a-z][a-z0-9-]{1,30}'' []),
     (''vhost'', spec True ''[a-z][a-z0-9-]{1,30}'' []),
     (''modules'', spec False ''[A-Za-z0-9_,]{0,200}'' [])]"

definition vhost_status_manifest :: Manifest where
  "vhost_status_manifest = shipped 30 [(''name'', spec True ''[a-z][a-z0-9-]{1,30}'' []),
     (''vhost'', spec True ''[a-z][a-z0-9-]{1,30}'' [])]"

definition vhost_up_manifest :: Manifest where
  "vhost_up_manifest = shipped 120 [(''name'', spec True ''[a-z][a-z0-9-]{1,30}'' []),
     (''vhost'', spec True ''[a-z][a-z0-9-]{1,30}'' [])]"

definition manifests :: "(string \<times> Manifest) list" where
  "manifests =
     [(''adminer_down'', adminer_down_manifest),
      (''adminer_gc'', adminer_gc_manifest),
      (''adminer_up'', adminer_up_manifest),
      (''db_create'', db_create_manifest),
      (''db_instance_status'', db_instance_status_manifest),
      (''db_instance_up'', db_instance_up_manifest),
      (''db_list'', db_list_manifest),
      (''diagnostica'', diagnostica_manifest),
      (''fail2ban_setup'', fail2ban_setup_manifest),
      (''fail2ban_status'', fail2ban_status_manifest),
      (''fail2ban_unban'', fail2ban_unban_manifest),
      (''hosting_user_authkeys_get'', hosting_user_authkeys_get_manifest),
      (''hosting_user_authkeys_set'', hosting_user_authkeys_set_manifest),
      (''hosting_user_delete'', hosting_user_delete_manifest),
      (''hosting_user_lock'', hosting_user_lock_manifest),
      (''hosting_user_passwd'', hosting_user_passwd_manifest),
      (''hosting_user_sshkey'', hosting_user_sshkey_manifest),
      (''hosting_users'', hosting_users_manifest),
      (''logtail'', logtail_manifest),
      (''os_updates_apply'', os_updates_apply_manifest),
      (''os_updates_check'', os_updates_check_manifest),
      (''os_updates_hold'', os_updates_hold_manifest),
      (''os_updates_preview'', os_updates_preview_manifest),
      (''site_autoupdate'', site_autoupdate_manifest),
      (''site_compose_get'', site_compose_get_manifest),
      (''site_compose_set'', site_compose_set_manifest),
      (''site_create'', site_create_manifest),
      (''site_db_info'', site_db_info_manifest),
      (''site_destroy'', site_destroy_manifest),
      (''site_down'', site_down_manifest),
      (''site_env_set'', site_env_set_manifest),
      (''site_list'', site_list_manifest),
      (''site_nginx_get'', site_nginx_get_manifest),
      (''site_nginx_set'', site_nginx_set_manifest),
      (''site_status'', site_status_manifest),
      (''site_up'', site_up_manifest),
      (''sshd_status'', sshd_status_manifest),
      (''sshd_up'', sshd_up_manifest),
      (''sysinfo'', sysinfo_manifest),
      (''vhost_autoupdate'', vhost_autoupdate_manifest),
      (''vhost_compose_get'', vhost_compose_get_manifest),
      (''vhost_compose_set'', vhost_compose_set_manifest),
      (''vhost_create'', vhost_create_manifest),
      (''vhost_db_info'', vhost_db_info_manifest),
      (''vhost_destroy'', vhost_destroy_manifest),
      (''vhost_down'', vhost_down_manifest),
      (''vhost_env_set'', vhost_env_set_manifest),
      (''vhost_migrate'', vhost_migrate_manifest),
      (''vhost_nginx_get'', vhost_nginx_get_manifest),
      (''vhost_nginx_set'', vhost_nginx_set_manifest),
      (''vhost_php_config'', vhost_php_config_manifest),
      (''vhost_php_ext'', vhost_php_ext_manifest),
      (''vhost_status'', vhost_status_manifest),
      (''vhost_up'', vhost_up_manifest)]"

text \<open>An agent that has loaded them from its directory.\<close>

definition shipped_commands :: "string \<Rightarrow> string \<rightharpoonup> Command" where
  "shipped_commands dir name =
     map_option (\<lambda>m. \<lparr>cm_Name = name, cm_Script = pathJoin [dir, name @ ''.sh''], cm_Manifest = m\<rparr>) (map_of manifests name)"

subsection \<open>Lookups\<close>

lemma manifest_of [simp]:
  "map_of manifests ''adminer_down'' = Some adminer_down_manifest"
  "map_of manifests ''adminer_gc'' = Some adminer_gc_manifest"
  "map_of manifests ''adminer_up'' = Some adminer_up_manifest"
  "map_of manifests ''db_create'' = Some db_create_manifest"
  "map_of manifests ''db_instance_status'' = Some db_instance_status_manifest"
  "map_of manifests ''db_instance_up'' = Some db_instance_up_manifest"
  "map_of manifests ''db_list'' = Some db_list_manifest"
  "map_of manifests ''diagnostica'' = Some diagnostica_manifest"
  "map_of manifests ''fail2ban_setup'' = Some fail2ban_setup_manifest"
  "map_of manifests ''fail2ban_status'' = Some fail2ban_status_manifest"
  "map_of manifests ''fail2ban_unban'' = Some fail2ban_unban_manifest"
  "map_of manifests ''hosting_user_authkeys_get'' = Some hosting_user_authkeys_get_manifest"
  "map_of manifests ''hosting_user_authkeys_set'' = Some hosting_user_authkeys_set_manifest"
  "map_of manifests ''hosting_user_delete'' = Some hosting_user_delete_manifest"
  "map_of manifests ''hosting_user_lock'' = Some hosting_user_lock_manifest"
  "map_of manifests ''hosting_user_passwd'' = Some hosting_user_passwd_manifest"
  "map_of manifests ''hosting_user_sshkey'' = Some hosting_user_sshkey_manifest"
  "map_of manifests ''hosting_users'' = Some hosting_users_manifest"
  "map_of manifests ''logtail'' = Some logtail_manifest"
  "map_of manifests ''os_updates_apply'' = Some os_updates_apply_manifest"
  "map_of manifests ''os_updates_check'' = Some os_updates_check_manifest"
  "map_of manifests ''os_updates_hold'' = Some os_updates_hold_manifest"
  "map_of manifests ''os_updates_preview'' = Some os_updates_preview_manifest"
  "map_of manifests ''site_autoupdate'' = Some site_autoupdate_manifest"
  "map_of manifests ''site_compose_get'' = Some site_compose_get_manifest"
  "map_of manifests ''site_compose_set'' = Some site_compose_set_manifest"
  "map_of manifests ''site_create'' = Some site_create_manifest"
  "map_of manifests ''site_db_info'' = Some site_db_info_manifest"
  "map_of manifests ''site_destroy'' = Some site_destroy_manifest"
  "map_of manifests ''site_down'' = Some site_down_manifest"
  "map_of manifests ''site_env_set'' = Some site_env_set_manifest"
  "map_of manifests ''site_list'' = Some site_list_manifest"
  "map_of manifests ''site_nginx_get'' = Some site_nginx_get_manifest"
  "map_of manifests ''site_nginx_set'' = Some site_nginx_set_manifest"
  "map_of manifests ''site_status'' = Some site_status_manifest"
  "map_of manifests ''site_up'' = Some site_up_manifest"
  "map_of manifests ''sshd_status'' = Some sshd_status_manifest"
  "map_of manifests ''sshd_up'' = Some sshd_up_manifest"
  "map_of manifests ''sysinfo'' = Some sysinfo_manifest"
  "map_of manifests ''vhost_autoupdate'' = Some vhost_autoupdate_manifest"
  "map_of manifests ''vhost_compose_get'' = Some vhost_compose_get_manifest"
  "map_of manifests ''vhost_compose_set'' = Some vhost_compose_set_manifest"
  "map_of manifests ''vhost_create'' = Some vhost_create_manifest"
  "map_of manifests ''vhost_db_info'' = Some vhost_db_info_manifest"
  "map_of manifests ''vhost_destroy'' = Some vhost_destroy_manifest"
  "map_of manifests ''vhost_down'' = Some vhost_down_manifest"
  "map_of manifests ''vhost_env_set'' = Some vhost_env_set_manifest"
  "map_of manifests ''vhost_migrate'' = Some vhost_migrate_manifest"
  "map_of manifests ''vhost_nginx_get'' = Some vhost_nginx_get_manifest"
  "map_of manifests ''vhost_nginx_set'' = Some vhost_nginx_set_manifest"
  "map_of manifests ''vhost_php_config'' = Some vhost_php_config_manifest"
  "map_of manifests ''vhost_php_ext'' = Some vhost_php_ext_manifest"
  "map_of manifests ''vhost_status'' = Some vhost_status_manifest"
  "map_of manifests ''vhost_up'' = Some vhost_up_manifest"
  by (simp_all add: manifests_def)

lemmas manifest_defs =
  adminer_down_manifest_def adminer_gc_manifest_def adminer_up_manifest_def db_create_manifest_def
  db_instance_status_manifest_def db_instance_up_manifest_def db_list_manifest_def diagnostica_manifest_def
  fail2ban_setup_manifest_def fail2ban_status_manifest_def fail2ban_unban_manifest_def hosting_user_authkeys_get_manifest_def
  hosting_user_authkeys_set_manifest_def hosting_user_delete_manifest_def hosting_user_lock_manifest_def hosting_user_passwd_manifest_def
  hosting_user_sshkey_manifest_def hosting_users_manifest_def logtail_manifest_def os_updates_apply_manifest_def
  os_updates_check_manifest_def os_updates_hold_manifest_def os_updates_preview_manifest_def site_autoupdate_manifest_def
  site_compose_get_manifest_def site_compose_set_manifest_def site_create_manifest_def site_db_info_manifest_def
  site_destroy_manifest_def site_down_manifest_def site_env_set_manifest_def site_list_manifest_def
  site_nginx_get_manifest_def site_nginx_set_manifest_def site_status_manifest_def site_up_manifest_def
  sshd_status_manifest_def sshd_up_manifest_def sysinfo_manifest_def vhost_autoupdate_manifest_def
  vhost_compose_get_manifest_def vhost_compose_set_manifest_def vhost_create_manifest_def vhost_db_info_manifest_def
  vhost_destroy_manifest_def vhost_down_manifest_def vhost_env_set_manifest_def vhost_migrate_manifest_def
  vhost_nginx_get_manifest_def vhost_nginx_set_manifest_def vhost_php_config_manifest_def vhost_php_ext_manifest_def
  vhost_status_manifest_def vhost_up_manifest_def

end
