(* ===== verification/HostContract.thy ===== *)
theory HostContract
  imports HostRuns Commands
begin

text \<open>
  The hosting extension and the agent together: what the extension sends against what the shipped
  manifests accept, and what its success messages mean for the host.
\<close>

subsection \<open>Parameters\<close>

definition declares :: "Manifest \<Rightarrow> string list \<Rightarrow> string list \<Rightarrow> bool" where
  "declares m req opt \<longleftrightarrow>
     list_all (\<lambda>k. list_ex (\<lambda>(n, s). n = k) (mf_Params m)) (req @ opt) \<and>
     list_all (\<lambda>(n, s). psp_Required s \<longrightarrow> list_ex (\<lambda>k. k = n) req) (mf_Params m)"

definition shape_declared :: "call_shape \<Rightarrow> bool" where
  "shape_declared = (\<lambda>(c, req, opt). case map_of manifests c of None \<Rightarrow> False | Some m \<Rightarrow> declares m req opt)"

lemma all_calls_declared: "list_all shape_declared all_calls"
  by (simp add: all_calls_def reading_calls_def changing_calls_def shape_declared_def declares_def shipped_def spec_def
      php_limit_names_def manifest_defs)

lemma declares_known: "declares m req opt \<Longrightarrow> k \<in> set req \<or> k \<in> set opt \<Longrightarrow> map_of (mf_Params m) k \<noteq> None"
proof -
  assume "declares m req opt" "k \<in> set req \<or> k \<in> set opt"
  then have "\<exists>x \<in> set (mf_Params m). fst x = k"
    unfolding declares_def list_all_iff list_ex_iff case_prod_beta by auto
  then show ?thesis by (auto simp: map_of_eq_None_iff)
qed

lemma declares_required: "declares m req opt \<Longrightarrow> (n, s) \<in> set (mf_Params m) \<Longrightarrow> psp_Required s \<Longrightarrow> n \<in> set req"
  unfolding declares_def list_all_iff list_ex_iff by (metis (no_types, lifting) case_prodD)

lemma first_err_in: "first_err es = Some x \<Longrightarrow> Some x \<in> set es"
  by (induction es) (auto simp: first_err.simps split: option.splits)

lemma validate_declared:
  assumes d: "declares (cm_Manifest c) req opt"
    and r: "list_all (\<lambda>k. k \<in> set (map fst ps)) req" and o: "list_all (\<lambda>k. k \<in> set req \<or> k \<in> set opt) (map fst ps)"
  shows "validate c ps \<noteq> Some (UnknownParameter k) \<and> validate c ps \<noteq> Some (MissingParameter k)"
proof -
  let ?specs = "mf_Params (cm_Manifest c)"
  have "map_of ?specs n \<noteq> None" if "(n, v) \<in> set ps" for n v
    using declares_known [OF d, of n] o that by (force simp: list_all_iff)
  then have f: "find (\<lambda>(k, _). map_of ?specs k = None) ps = None"
    by (auto simp: find_None_iff)
  have chk: "check_param ps n (the (map_of ?specs n)) \<noteq> Some (UnknownParameter k) \<and>
      check_param ps n (the (map_of ?specs n)) \<noteq> Some (MissingParameter k)" if n: "n \<in> fst ` set ?specs" for n
  proof -
    obtain s where s: "map_of ?specs n = Some s" using n by (metis domD dom_map_of_conv_image_fst)
    have "psp_Required s \<Longrightarrow> map_of ps n \<noteq> None"
      using declares_required [OF d map_of_SomeD [OF s]] r by (auto simp: list_all_iff map_of_eq_None_iff)
    then show ?thesis by (auto simp: s check_param_def split: option.splits)
  qed
  let ?es = "map (\<lambda>n. check_param ps n (the (map_of ?specs n))) (sort (map fst ?specs))"
  have v: "validate c ps = first_err ?es" by (simp add: validate_def f Let_def)
  have "Some x \<notin> set ?es" if "x = UnknownParameter k \<or> x = MissingParameter k" for x
    using chk that by fastforce
  with first_err_in [of ?es] show ?thesis unfolding v by blast
qed

text \<open>Whatever the extension asks for is a shipped command with its parameters.\<close>

lemma call_ok_declared:
  assumes "call_ok (cmd, ps)"
  shows "\<exists>c. shipped_commands dir cmd = Some c \<and>
    (\<forall>k. validate c ps \<noteq> Some (UnknownParameter k) \<and> validate c ps \<noteq> Some (MissingParameter k))"
proof -
  from assms obtain req opt where m: "(cmd, req, opt) \<in> set all_calls"
    and ps: "list_all (\<lambda>k. k \<in> set (map fst ps)) req" "list_all (\<lambda>k. k \<in> set req \<or> k \<in> set opt) (map fst ps)"
    by (auto simp: call_ok_def fits_def list_ex_iff)
  from m all_calls_declared have "shape_declared (cmd, req, opt)" by (simp add: list_all_iff)
  then obtain m where m: "map_of manifests cmd = Some m" "declares m req opt"
    by (auto simp: shape_declared_def split: option.splits)
  then obtain c where "shipped_commands dir cmd = Some c" "cm_Manifest c = m" by (auto simp: shipped_commands_def)
  with m(2) validate_declared [OF _ ps, of c] show ?thesis by blast
qed

subsection \<open>The PHP settings\<close>

lemma lang_Star_Cls: "lang (Star (Cls P)) s \<longleftrightarrow> list_all P s"
proof
  show "lang (Star (Cls P)) s \<Longrightarrow> list_all P s" unfolding lang.simps by (induction rule: star.induct) auto
  show "list_all P s \<Longrightarrow> lang (Star (Cls P)) s"
  proof (induction s)
    case (Cons c s)
    then have "star (lang (Cls P)) ([c] @ s)" by (intro star_step) auto
    then show ?case by simp
  qed (simp add: star_Nil)
qed

lemma alpha64_b64: "list_all b64_char alpha64"
  by code_simp

lemma b64_matches: "matches b64_re (std64_Encode bs)"
proof -
  have "list_all b64_char (base64_EncodeToString bs)"
    using alpha64_b64 encode_quanta64_less [of _ "bytes_nats bs"]
    by (auto simp: base64_EncodeToString_def list_all_length alpha64_distinct in_set_conv_nth)
  then show ?thesis
    unfolding matches_lang b64_re_def lang_Star_Cls std64_Encode_def by (auto simp: b64_char_def list_all_iff)
qed

text \<open>What the manifest demands of the five limits.\<close>

definition limit_ok :: "string \<Rightarrow> string \<Rightarrow> bool" where
  "limit_ok k v \<longleftrightarrow>
     (if k = ''memory_limit'' then v = ''-1'' \<or> matches size_re v
      else if k \<in> {''upload_max_filesize'', ''post_max_size''} then matches size_re v
      else matches (digits_re 5) v)"

definition php_config_command :: "string \<Rightarrow> Command" where
  "php_config_command dir =
     \<lparr>cm_Name = ''vhost_php_config'', cm_Script = pathJoin [dir, ''vhost_php_config.sh''], cm_Manifest = vhost_php_config_manifest\<rparr>"

lemma Lit_lang: "lang (Lit t) s \<longleftrightarrow> s = t"
  by (induction t arbitrary: s) (auto simp: lang_Seq_Cls simp del: lang.simps(4) split: list.splits)

lemma memory_matches: "matches (Alt (Lit ''-1'') size_re) v \<longleftrightarrow> v = ''-1'' \<or> matches size_re v"
  by (simp only: matches_lang lang.simps Lit_lang)

lemma allowed_list:
  assumes "distinct (map fst (mf_Params m))"
  shows "allowed m ps \<longleftrightarrow> list_all (\<lambda>(k, _). map_of (mf_Params m) k \<noteq> None) ps \<and>
    list_all (\<lambda>(n, s). case map_of ps n of
        None \<Rightarrow> \<not> psp_Required s
      | Some v \<Rightarrow> (psp_Enum s = [] \<or> v \<in> set (psp_Enum s)) \<and> (case psp_re s of None \<Rightarrow> True | Some r \<Rightarrow> matches r v)) (mf_Params m)"
  unfolding allowed_def list_all_iff using map_of_eq_Some_iff [OF assms] by fastforce

lemma php_config_allowed:
  "allowed vhost_php_config_manifest (php_args r) \<longleftrightarrow>
     matches site_name_re (FormValue r ''name'') \<and> matches site_name_re (main_vhost (FormValue r ''vhost'')) \<and>
     (\<forall>k \<in> set php_limit_names. limit_ok k (TrimSpace (FormValue r k)))"
proof -
  have d: "distinct (map fst (mf_Params vhost_php_config_manifest))"
    by (simp add: vhost_php_config_manifest_def shipped_def)
  show ?thesis
    unfolding allowed_list [OF d]
    by (simp add: vhost_php_config_manifest_def shipped_def spec_def shipped_rx_def php_args_def php_limit_names_def
        limit_ok_def b64_matches memory_matches del: Lit.simps)
qed

subsection \<open>Generated names\<close>

definition hex_tokens :: "HEnv \<Rightarrow> bool" where
  "hex_tokens e \<longleftrightarrow> (\<forall>i. length (he_rand e i) = 10 \<and> list_all hex_lower_char (he_rand e i))"

lemma hex_ident: "hex_lower_char c \<Longrightarrow> ident_char c"
  by (auto simp: hex_lower_char_def ident_char_def slug_char_def is_digit_def of_char_le)

lemma ident_matches:
  "hex_tokens e \<Longrightarrow> CHR ''a'' \<le> c \<and> c \<le> CHR ''z'' \<Longrightarrow> matches ident_re (randToken e i [c])"
  using hex_ident
  by (auto simp: hex_tokens_def randToken_def ident_re_def matches_lang lang_Seq_Cls
      matches_Rep_Cls [unfolded matches_lang] list_all_iff simp del: lang.simps)

lemma token_matches: "hex_tokens e \<Longrightarrow> matches token_re (randToken e i [])"
  by (simp add: hex_tokens_def randToken_def token_re_def matches_Rep_Cls)

lemma attach_db_allowed:
  assumes "hex_tokens e"
  shows "allowed db_create_manifest [(''engine'', db), (''name'', randToken e i ''h''), (''user'', randToken e j ''u'')] \<longleftrightarrow>
    db = ''pg'' \<or> db = ''mysql''"
proof -
  have d: "distinct (map fst (mf_Params db_create_manifest))" by (simp add: db_create_manifest_def shipped_def)
  have "matches ident_re (randToken e i ''h'')" "matches ident_re (randToken e j ''u'')"
    by (rule ident_matches [OF assms]; simp add: of_char_le)+
  then show ?thesis
    unfolding allowed_list [OF d] by (simp add: db_create_manifest_def shipped_def spec_def shipped_rx_def)
qed

lemma adminer_up_allowed:
  assumes "hex_tokens e" "seg = ''mysql'' \<or> seg = ''pgsql''"
  shows "allowed adminer_up_manifest [(''engine'', dt_Engine (dbTabs seg)), (''token'', randToken e i '''')]"
proof -
  have d: "distinct (map fst (mf_Params adminer_up_manifest))" by (simp add: adminer_up_manifest_def shipped_def)
  have "matches token_re (randToken e i [])" by (rule token_matches [OF assms(1)])
  with assms(2) show ?thesis
    unfolding allowed_list [OF d] by (auto simp: adminer_up_manifest_def shipped_def spec_def shipped_rx_def dbTabs_def)
qed

lemma site_of_name: "FormValue r ''name'' = '''' \<Longrightarrow> matches site_name_re (site_of r) \<longleftrightarrow> 2 \<le> length (site_of r)"
  unfolding site_of_def Let_def using slugify_name by (auto simp: site_name_matches)

subsection \<open>Creating a site\<close>

text \<open>The agent has run a command's script, which ended well.\<close>

definition ran :: "HEnv \<Rightarrow> history \<Rightarrow> string \<Rightarrow> params \<Rightarrow> history \<Rightarrow> bool" where
  "ran e h cmd ps h' \<longleftrightarrow>
     (\<exists>c ttl out err. ag_commands (he_agent e) cmd = Some c \<and> allowed (cm_Manifest c) ps \<and>
        h' = h @ [Exec (cm_Script c) (command_env ps) ttl] \<and>
        he_host e h (Exec (cm_Script c) (command_env ps) ttl) = Exited 0 out err)"

definition calls_sent :: "HEnv \<Rightarrow> HWorld \<Rightarrow> HWorld \<Rightarrow> bool" where
  "calls_sent e w w' \<longleftrightarrow> (\<forall>(cmd, ps) \<in> set (drop (length (hw_calls w)) (hw_calls w')). sent_ok e cmd ps)"

lemma ran_call:
  assumes "callAgent e cmd ps w = (r, w')" "\<not> failed r" "wire_ok e" "sent_ok e cmd ps"
  shows "ran e (hw_hist w) cmd ps (hw_hist w')"
  using callAgent_ok [OF assms] unfolding ran_def by blast

lemma redirectMsg_neq: "ok \<noteq> '''' \<Longrightarrow> msg \<noteq> '''' \<Longrightarrow> redirectMsg p '''' msg \<noteq> redirectMsg p ok ''''"
  by (simp add: redirectMsg_def Let_def)

text \<open>The calls of the three phases, and the state each leaves.\<close>

lemma start_created_ok:
  assumes "start_created e name tmpl db w = (redirectMsg hosts_path ok '''', w')" "ok \<noteq> ''''" "wire_ok e"
    "sent_ok e ''site_up'' [(''name'', name)]"
  shows "ran e (hw_hist w) ''site_up'' [(''name'', name)] (hw_hist w')"
proof -
  obtain r w1 where c: "callAgent e ''site_up'' [(''name'', name)] w = (r, w1)" by fastforce
  with assms(1) have "w1 = w'" by (auto simp: start_created_def split: if_splits)
  moreover have "\<not> failed r"
    using assms(1,2) c by (auto simp: start_created_def redirectMsg_neq split: if_splits)
  ultimately show ?thesis using ran_call [OF c] assms(3,4) by blast
qed

lemma start_created_calls: "hw_calls (snd (start_created e name tmpl db w)) = hw_calls w @ [(''site_up'', [(''name'', name)])]"
  by (simp add: start_created_def effect)

lemma attach_db_calls:
  "fst (attach_db e name db w) = None \<Longrightarrow>
     \<exists>env. hw_calls (snd (attach_db e name db w)) = hw_calls w @
       [(''db_create'', [(''engine'', db), (''name'', randToken e 0 ''h''), (''user'', randToken e 1 ''u'')]),
        (''site_env_set'', [(''name'', name), (''content'', env)])]"
  by (auto simp: attach_db_def effect split: if_splits)

lemma attach_db_ok:
  assumes a: "attach_db e name db w = (None, w')" and "wire_ok e"
    "sent_ok e ''db_create'' [(''engine'', db), (''name'', randToken e 0 ''h''), (''user'', randToken e 1 ''u'')]"
  shows "\<exists>h xs. ran e (hw_hist w) ''db_create'' [(''engine'', db), (''name'', randToken e 0 ''h''), (''user'', randToken e 1 ''u'')] h \<and>
    hw_hist w' = h @ xs \<and> length xs \<le> 1"
proof -
  obtain r w1 where c: "callAgent e ''db_create'' [(''engine'', db), (''name'', randToken e 0 ''h''), (''user'', randToken e 1 ''u'')] w = (r, w1)"
    by fastforce
  with a have r: "\<not> failed r" by (auto simp: attach_db_def Let_def split: if_splits)
  with a c have "w' = snd (callAgent e ''site_env_set'' [(''name'', name), (''content'', db_env (kvFields (stdout r)))] w1)"
    by (auto simp: attach_db_def Let_def)
  then have "hw_hist w' = hw_hist w1 \<or> (\<exists>x. hw_hist w' = hw_hist w1 @ [x])"
    using callAgent_cases [of e "''site_env_set''" "[(''name'', name), (''content'', db_env (kvFields (stdout r)))]" w1]
    by (metis surjective_pairing)
  then have "\<exists>xs. hw_hist w' = hw_hist w1 @ xs \<and> length xs \<le> 1"
    by (metis append_Nil2 le_numeral_extra(4) length_Cons list.size(3) One_nat_def zero_le_one)
  with ran_call [OF c r assms(2,3)] show ?thesis by blast
qed

lemma calls_sentD:
  "calls_sent e w w' \<Longrightarrow> hw_calls w' = hw_calls w @ cs \<Longrightarrow> (cmd, ps) \<in> set cs \<Longrightarrow> sent_ok e cmd ps"
  unfolding calls_sent_def by auto

definition create_params :: "hrequest \<Rightarrow> params" where
  "create_params r = (let (tmpl, pv, db) = parse_stack (FormValue r ''stack'') in
     stack_params [(''name'', site_of r)] tmpl (ToLower (TrimSpace (FormValue r ''domain''))) pv)"

definition stack_db :: "hrequest \<Rightarrow> string" where
  "stack_db r = snd (snd (parse_stack (FormValue r ''stack'')))"

lemma create_runs:
  assumes h: "handleCreate e r w = (redirectMsg hosts_path ok '''', w')" and ok: "ok \<noteq> ''''"
    and wire: "wire_ok e" and sent: "calls_sent e w w'"
  shows "\<exists>h1 h2. ran e (hw_hist w) ''site_create'' (create_params r) h1 \<and>
    (if stack_db r = '''' then h2 = h1
     else \<exists>h xs. ran e h1 ''db_create''
            [(''engine'', stack_db r), (''name'', randToken e 0 ''h''), (''user'', randToken e 1 ''u'')] h \<and>
          h2 = h @ xs \<and> length xs \<le> 1) \<and>
    ran e h2 ''site_up'' [(''name'', site_of r)] (hw_hist w')"
proof -
  obtain tmpl pv db where st: "parse_stack (FormValue r ''stack'') = (tmpl, pv, db)" by (metis prod.exhaust)
  obtain rsp w1 where c: "callAgent e ''site_create'' (create_params r) w = (rsp, w1)" by fastforce
  have cs1: "hw_calls w1 = hw_calls w @ [(''site_create'', create_params r)]"
    using callAgent_cases [OF c] by blast
  have n: "site_of r \<noteq> ''''" and rsp: "\<not> failed rsp"
    using h ok c by (auto simp: handleCreate_def Let_def st create_params_def redirectMsg_neq split: if_splits)
  show ?thesis
  proof (cases "db = ''''")
    case True
    with h n rsp c have s: "start_created e (site_of r) tmpl db w1 = (redirectMsg hosts_path ok '''', w')"
      by (simp add: handleCreate_def Let_def st create_params_def)
    have cs: "hw_calls w' = hw_calls w @ [(''site_create'', create_params r), (''site_up'', [(''name'', site_of r)])]"
      using start_created_calls [of e "site_of r" tmpl db w1] cs1 by (simp add: s)
    have "ran e (hw_hist w) ''site_create'' (create_params r) (hw_hist w1)"
      by (rule ran_call [OF c rsp wire]) (rule calls_sentD [OF sent cs], simp)
    moreover have "ran e (hw_hist w1) ''site_up'' [(''name'', site_of r)] (hw_hist w')"
      by (rule start_created_ok [OF s ok wire]) (rule calls_sentD [OF sent cs], simp)
    ultimately show ?thesis using True by (auto simp: stack_db_def st)
  next
    case False
    obtain m w2 where a: "attach_db e (site_of r) db w1 = (m, w2)" by fastforce
    with False h n rsp c ok have m: "m = None" and s: "start_created e (site_of r) tmpl db w2 = (redirectMsg hosts_path ok '''', w')"
      by (auto simp: handleCreate_def Let_def st create_params_def redirectMsg_neq split: option.splits)
    obtain env where cs2: "hw_calls w2 = hw_calls w1 @
       [(''db_create'', [(''engine'', db), (''name'', randToken e 0 ''h''), (''user'', randToken e 1 ''u'')]),
        (''site_env_set'', [(''name'', site_of r), (''content'', env)])]"
      using attach_db_calls [of e "site_of r" db w1] a m by auto
    have cs: "hw_calls w' = hw_calls w @ [(''site_create'', create_params r),
       (''db_create'', [(''engine'', db), (''name'', randToken e 0 ''h''), (''user'', randToken e 1 ''u'')]),
       (''site_env_set'', [(''name'', site_of r), (''content'', env)]), (''site_up'', [(''name'', site_of r)])]"
      using start_created_calls [of e "site_of r" tmpl db w2] cs1 cs2 by (simp add: s)
    have "ran e (hw_hist w) ''site_create'' (create_params r) (hw_hist w1)"
      by (rule ran_call [OF c rsp wire]) (rule calls_sentD [OF sent cs], simp)
    moreover have "ran e (hw_hist w2) ''site_up'' [(''name'', site_of r)] (hw_hist w')"
      by (rule start_created_ok [OF s ok wire]) (rule calls_sentD [OF sent cs], simp)
    moreover have "\<exists>h xs. ran e (hw_hist w1) ''db_create'' [(''engine'', db), (''name'', randToken e 0 ''h''), (''user'', randToken e 1 ''u'')] h \<and>
        hw_hist w2 = h @ xs \<and> length xs \<le> 1"
      by (rule attach_db_ok [OF a [unfolded m] wire]) (rule calls_sentD [OF sent cs], simp)
    ultimately show ?thesis using False by (auto simp: stack_db_def st)
  qed
qed

subsection \<open>A sample extension\<close>

fun line_pairs :: "string list \<Rightarrow> params" where
  "line_pairs (k # v # rest) = (k, v) # line_pairs rest"
| "line_pairs _ = []"

definition sample_codec :: hcodec where
  "sample_codec =
     \<lparr>hc_sites = \<lambda>_. (None, []), hc_users = \<lambda>_. (None, []), hc_sshd = \<lambda>_. (None, zero_sshdStatus),
      hc_db = \<lambda>_. (None, zero_dbStatus), hc_names = \<lambda>_. (None, []), hc_updates = \<lambda>_. (None, zero_osUpdatesResult),
      hc_f2b = \<lambda>_. (None, zero_fail2banStatus), hc_applied = \<lambda>_. (None, (0, False)), hc_plan = \<lambda>_. (None, ([], [])),
      hc_held = \<lambda>_. (None, False), hc_diag = \<lambda>_. (None, []), hc_services = \<lambda>_. None\<rparr>"

text \<open>Requests as lines, an agent with the commands of a new site, and scripts that all succeed.\<close>

definition sample_henv :: HEnv where
  "sample_henv =
     \<lparr>he_agent = \<lparr>ag_TrustedUID = 0, ag_AllowUID = -1, ag_commands =
        [''site_create'' \<mapsto> \<lparr>cm_Name = ''site_create'', cm_Script = ''/c/site_create.sh'', cm_Manifest = site_create_manifest\<rparr>,
         ''site_up'' \<mapsto> \<lparr>cm_Name = ''site_up'', cm_Script = ''/c/site_up.sh'', cm_Manifest = site_up_manifest\<rparr>,
         ''adminer_up'' \<mapsto> \<lparr>cm_Name = ''adminer_up'', cm_Script = ''/c/adminer_up.sh'', cm_Manifest = adminer_up_manifest\<rparr>]\<rparr>,
      he_stat = \<lambda>p. Some \<lparr>fi_regular = True, fi_perm = 493, fi_uid = Some 0\<rparr>,
      he_host = \<lambda>h x. Exited 0 [] [], he_creds = None,
      he_enc = \<lambda>q. Join (req_Cmd q # concat (map (\<lambda>(k, v). [k, v]) (req_Params q))) [CHR 0x0A],
      he_dec = \<lambda>raw. (case Split raw CHR 0x0A of [] \<Rightarrow> None | c # ps \<Rightarrow> Some \<lparr>req_Cmd = c, req_Params = line_pairs ps\<rparr>),
      he_dial = \<lambda>_. None, he_send = \<lambda>_. None, he_recv = \<lambda>_ rsp. Inr rsp,
      he_codec = sample_codec, he_fs = plain_fs [], he_pki = sample_pki, he_now = 0,
      he_servicesPath = '''', he_certsPath = '''', he_rand = \<lambda>_. ''0123456789''\<rparr>"

definition sample_hworld :: HWorld where
  "sample_hworld = \<lparr>hw_adminer = [], hw_hist = [], hw_calls = []\<rparr>"

definition sample_create :: hrequest where
  "sample_create =
     \<lparr>hq_Method = ''POST'', hq_Path = ''/admin/hosting/create'', hq_Query = \<lambda>_. [],
      hq_Post = (\<lambda>k. if k = ''domain'' then [''a.it''] else []), hq_Multipart = \<lambda>_. [], hq_badForm = False\<rparr>"

lemma sample_create_params:
  "create_params sample_create = [(''name'', ''a-it''), (''template'', ''php-fpm''), (''domain'', ''a.it'')]"
  "site_of sample_create = ''a-it''" "stack_db sample_create = ''''"
  by code_simp+

lemma sample_sent:
  "sent_ok sample_henv ''site_up'' [(''name'', ''a-it'')]"
  "sent_ok sample_henv ''site_create'' [(''name'', ''a-it''), (''template'', ''php-fpm''), (''domain'', ''a.it'')]"
  by (simp_all add: sent_ok_def sample_henv_def maxRequest_def)

lemma sample_allowed:
  "allowed site_up_manifest [(''name'', ''a-it'')]"
  "allowed site_create_manifest [(''name'', ''a-it''), (''template'', ''php-fpm''), (''domain'', ''a.it'')]"
proof -
  have m: "matches site_name_re ''a-it''" "matches domain_re ''a.it''" by code_simp+
  have d: "distinct (map fst (mf_Params site_up_manifest))" "distinct (map fst (mf_Params site_create_manifest))"
    by (simp_all add: site_up_manifest_def site_create_manifest_def shipped_def)
  show "allowed site_up_manifest [(''name'', ''a-it'')]"
    unfolding allowed_list [OF d(1)] by (simp add: site_up_manifest_def shipped_def spec_def shipped_rx_def m)
  show "allowed site_create_manifest [(''name'', ''a-it''), (''template'', ''php-fpm''), (''domain'', ''a.it'')]"
    unfolding allowed_list [OF d(2)] by (simp add: site_create_manifest_def shipped_def spec_def shipped_rx_def m)
qed

lemma sample_call:
  assumes "sent_ok sample_henv cmd ps" "ag_commands (he_agent sample_henv) cmd = Some c" "allowed (cm_Manifest c) ps"
  shows "callAgent sample_henv cmd ps w =
    (Inr \<lparr>res_OK = True, res_Code = 0, res_Stdout = '''', res_Stderr = '''', res_Error = ''''\<rparr>,
     w\<lparr>hw_hist := hw_hist w @ [Exec (cm_Script c) (command_env ps) (limit c)], hw_calls := hw_calls w @ [(cmd, ps)]\<rparr>)"
proof -
  have conn: "he_dial sample_henv cs = None" "he_send sample_henv cs = None" "he_recv sample_henv cs rsp = Inr rsp" for cs rsp
    by (simp_all add: sample_henv_def)
  have auth: "authorised (he_agent sample_henv) (he_creds sample_henv)" by (simp add: sample_henv_def authorised_def)
  have trust: "checkScriptTrust (he_stat sample_henv) p (ag_TrustedUID (he_agent sample_henv)) = None" for p
    by (simp add: checkScriptTrust_def sample_henv_def writable_by_others_def)
  have host: "he_host sample_henv h x = Exited 0 [] []" for h x by (simp add: sample_henv_def)
  have "validate c ps = None" using assms(3) by (simp add: validate_None)
  then have run: "run_command (he_stat sample_henv) (he_host sample_henv) c (limit c) ps (ag_TrustedUID (he_agent sample_henv)) h =
      ((\<lparr>rs_Code = 0, rs_Stdout = '''', rs_Stderr = ''''\<rparr>, None), h @ [Exec (cm_Script c) (command_env ps) (limit c)])" for h
    by (simp add: run_command_def trust host capture_def Let_def)
  have "Agent.handle (he_stat sample_henv) (he_host sample_henv) (he_dec sample_henv) (he_agent sample_henv) (he_creds sample_henv)
      (he_enc sample_henv \<lparr>req_Cmd = cmd, req_Params = ps\<rparr>) (hw_hist w) =
    (\<lparr>res_OK = True, res_Code = 0, res_Stdout = '''', res_Stderr = '''', res_Error = ''''\<rparr>,
     hw_hist w @ [Exec (cm_Script c) (command_env ps) (limit c)])"
    using handle_run [where dec = "he_dec sample_henv" and raw = "he_enc sample_henv \<lparr>req_Cmd = cmd, req_Params = ps\<rparr>",
        OF auth assms(1) [unfolded sent_ok_def], of c "he_stat sample_henv" "he_host sample_henv" "hw_hist w"] assms(2)
    by (simp add: run)
  then show ?thesis by (simp add: callAgent_def conn Let_def)
qed

definition sample_created :: HWorld where
  "sample_created =
     \<lparr>hw_adminer = [],
      hw_hist = [Exec ''/c/site_create.sh'' (command_env (create_params sample_create))
                   (limit \<lparr>cm_Name = ''site_create'', cm_Script = ''/c/site_create.sh'', cm_Manifest = site_create_manifest\<rparr>),
                 Exec ''/c/site_up.sh'' (command_env [(''name'', ''a-it'')])
                   (limit \<lparr>cm_Name = ''site_up'', cm_Script = ''/c/site_up.sh'', cm_Manifest = site_up_manifest\<rparr>)],
      hw_calls = [(''site_create'', create_params sample_create), (''site_up'', [(''name'', ''a-it'')])]\<rparr>"

lemma sample_commands:
  "ag_commands (he_agent sample_henv) ''site_create'' =
     Some \<lparr>cm_Name = ''site_create'', cm_Script = ''/c/site_create.sh'', cm_Manifest = site_create_manifest\<rparr>"
  "ag_commands (he_agent sample_henv) ''site_up'' =
     Some \<lparr>cm_Name = ''site_up'', cm_Script = ''/c/site_up.sh'', cm_Manifest = site_up_manifest\<rparr>"
  "ag_commands (he_agent sample_henv) ''adminer_up'' =
     Some \<lparr>cm_Name = ''adminer_up'', cm_Script = ''/c/adminer_up.sh'', cm_Manifest = adminer_up_manifest\<rparr>"
  by (simp_all add: sample_henv_def)

lemma sample_handleCreate:
  "handleCreate sample_henv sample_create sample_hworld =
     (redirectMsg hosts_path ''Site a-it created and started.'' '''', sample_created)"
proof -
  have st: "parse_stack (FormValue sample_create ''stack'') = (''php-fpm'', '''', '''')"
    and dom: "ToLower (TrimSpace (FormValue sample_create ''domain'')) = ''a.it''" by code_simp+
  have ps: "stack_params [(''name'', ''a-it'')] ''php-fpm'' ''a.it'' '''' =
      [(''name'', ''a-it''), (''template'', ''php-fpm''), (''domain'', ''a.it'')]"
    by (simp add: stack_params_def)
  note calls = sample_call [OF sample_sent(2) sample_commands(1)] sample_call [OF sample_sent(1) sample_commands(2)]
  show ?thesis
    unfolding handleCreate_def Let_def st dom sample_create_params start_created_def prod.case ps
    using sample_allowed
    by (simp add: calls failed_def sample_created_def sample_hworld_def sample_create_params)
qed

lemma blank_limit: "k \<in> set php_limit_names \<Longrightarrow> \<not> limit_ok k ''''"
proof -
  have "\<not> matches size_re ''''" "\<not> matches (digits_re 5) ''''" by code_simp+
  then show ?thesis by (simp add: limit_ok_def)
qed

section \<open>Properties\<close>



text \<open>
  A GET or HEAD request changes nothing on the host but the idle time of a session: every
  command it asks the agent for is one that reads.
\<close>

theorem pages_only_read:
  assumes "hq_Method r = ''GET'' \<or> hq_Method r = ''HEAD''"
  shows "\<exists>cs. hw_calls (snd (hserve e r w)) = hw_calls w @ cs \<and> list_all (\<lambda>(cmd, ps). fits reading_calls cmd ps) cs"
  by (rule hsteps_calls [OF hserve_page_steps [OF assms]])


text \<open>
  C36: the extension and the agent speak of the same commands: throughout a run every call is of a
  shipped command and neither names a parameter its manifest does not declare nor leaves out
  one it requires.
\<close>

theorem extension_speaks_manifests:
  assumes "host_run e0 [] w"
  shows "list_all (\<lambda>(cmd, ps). \<exists>c. shipped_commands dir cmd = Some c \<and>
    (\<forall>k. validate c ps \<noteq> Some (UnknownParameter k) \<and> validate c ps \<noteq> Some (MissingParameter k))) (hw_calls w)"
proof -
  have "list_all call_ok (hw_calls w)" using host_run_vetted [OF assms] by (simp add: hsafe_def)
  then show ?thesis using call_ok_declared by (auto simp: list_all_iff)
qed

text \<open>
  C35: the message that a site was created and started is true: the agent has run, in this order,
  the script that creates the site, the one that creates its database when the form asks for
  one, and the one that starts the site, each with the parameters of the form and with
  success, and nothing else but at most one script that stores the database's address.
\<close>

theorem create_success:
  assumes "handleCreate e r w = (redirectMsg hosts_path ok '''', w')" "ok \<noteq> ''''" "wire_ok e" "calls_sent e w w'"
  shows "\<exists>h1 h2. ran e (hw_hist w) ''site_create'' (create_params r) h1 \<and>
    (if stack_db r = '''' then h2 = h1
     else \<exists>h xs. ran e h1 ''db_create''
            [(''engine'', stack_db r), (''name'', randToken e 0 ''h''), (''user'', randToken e 1 ''u'')] h \<and>
          h2 = h @ xs \<and> length xs \<le> 1) \<and>
    ran e h2 ''site_up'' [(''name'', site_of r)] (hw_hist w')"
  by (rule create_runs [OF assms])

lemma sample_wire: "wire_ok sample_henv"
  by (simp add: wire_ok_def sample_henv_def)

lemma sample_calls_sent: "calls_sent sample_henv sample_hworld sample_created"
  using sample_sent by (simp add: calls_sent_def sample_hworld_def sample_created_def sample_create_params)

theorem create_success_witness:
  "\<exists>h. ran sample_henv [] ''site_create'' [(''name'', ''a-it''), (''template'', ''php-fpm''), (''domain'', ''a.it'')] h \<and>
     ran sample_henv h ''site_up'' [(''name'', ''a-it'')] (hw_hist sample_created)"
  using create_success [OF sample_handleCreate _ sample_wire sample_calls_sent]
  by (simp add: sample_create_params sample_hworld_def)

theorem extension_speaks_manifests_witness:
  "list_all (\<lambda>(cmd, ps). \<exists>c. shipped_commands ''/c'' cmd = Some c \<and>
    (\<forall>k. validate c ps \<noteq> Some (UnknownParameter k) \<and> validate c ps \<noteq> Some (MissingParameter k)))
    (hw_calls (snd (hserve sample_henv sample_create (start_hosting sample_henv []))))"
proof (rule extension_speaks_manifests [of sample_henv])
  have "same_agent sample_henv sample_henv" by (simp add: same_agent_def)
  then show "host_run sample_henv [] (snd (hserve sample_henv sample_create (start_hosting sample_henv [])))"
    by (intro hr_request hr_start)
qed

text \<open>
  The agent accepts the PHP settings of a form exactly when the site and the vhost have
  well-formed names and each of the five limits is a well-formed value; the free frames, in
  base 64, are always accepted.
\<close>

theorem php_settings_accepted:
  "validate (php_config_command dir) (php_args r) = None \<longleftrightarrow>
     matches site_name_re (FormValue r ''name'') \<and> matches site_name_re (main_vhost (FormValue r ''vhost'')) \<and>
     list_all (\<lambda>k. limit_ok k (TrimSpace (FormValue r k))) php_limit_names"
  unfolding validate_None list_all_iff using php_config_allowed [of r] by (simp add: php_config_command_def)

text \<open>
  A form with a blank limit, which the page offers as the way to keep the default, is refused:
  the agent does not run the command and the page is shown again with the agent's message.
\<close>

theorem php_blank_limit_refused:
  assumes "list_ex (\<lambda>k. TrimSpace (FormValue r k) = '''') php_limit_names"
    "ag_commands (he_agent e) ''vhost_php_config'' = Some (php_config_command dir)"
    "wire_ok e" "sent_ok e ''vhost_php_config'' (php_args r)"
  shows "\<exists>page. fst (handlePhpConfigSave e r w) = HRender ''Moduli PHP'' page"
proof -
  obtain rsp w1 where c: "callAgent e ''vhost_php_config'' (php_args r) w = (rsp, w1)" by fastforce
  have "failed rsp"
  proof (rule ccontr)
    assume "\<not> failed rsp"
    with callAgent_ok [OF c _ assms(3,4)] assms(2) have "allowed vhost_php_config_manifest (php_args r)"
      by (auto simp: php_config_command_def)
    with assms(1) blank_limit show False by (auto simp: php_config_allowed list_ex_iff)
  qed
  with c show ?thesis by (simp add: handlePhpConfigSave_def Let_def php_page_def case_prod_beta)
qed

definition sample_blank :: hrequest where
  "sample_blank = sample_create\<lparr>hq_Path := ''/admin/hosting/phpconfig'', hq_Post := (\<lambda>k. if k = ''name'' then [''abc''] else [])\<rparr>"

definition sample_php :: HEnv where
  "sample_php = sample_henv\<lparr>he_agent := (he_agent sample_henv)\<lparr>ag_commands := shipped_commands ''/c''\<rparr>,
     he_enc := (\<lambda>_. ''q''), he_dec := (\<lambda>_. Some \<lparr>req_Cmd = ''vhost_php_config'', req_Params = php_args sample_blank\<rparr>)\<rparr>"

theorem php_blank_limit_refused_witness:
  "\<exists>page. fst (handlePhpConfigSave sample_php sample_blank sample_hworld) = HRender ''Moduli PHP'' page"
proof (rule php_blank_limit_refused [of _ _ "''/c''"])
  show "list_ex (\<lambda>k. TrimSpace (FormValue sample_blank k) = '''') php_limit_names"
    by code_simp
  show "ag_commands (he_agent sample_php) ''vhost_php_config'' = Some (php_config_command ''/c'')"
    by (simp add: sample_php_def shipped_commands_def php_config_command_def)
  show "wire_ok sample_php" using sample_wire by (simp add: wire_ok_def sample_php_def)
  show "sent_ok sample_php ''vhost_php_config'' (php_args sample_blank)"
    by (simp add: sent_ok_def sample_php_def)
qed

subsection \<open>Witnesses of runs\<close>

lemma sample_same: "same_agent sample_henv (sample_henv\<lparr>he_now := t\<rparr>)"
  by (simp add: same_agent_def)


definition sample_page :: hrequest where
  "sample_page = sample_create\<lparr>hq_Method := ''GET'', hq_Path := ''/admin/hosting/users''\<rparr>"

theorem pages_only_read_witness:
  "\<exists>cs. hw_calls (snd (hserve sample_henv sample_page sample_hworld)) = hw_calls sample_hworld @ cs \<and>
     list_all (\<lambda>(cmd, ps). fits reading_calls cmd ps) cs"
  by (rule pages_only_read) (simp add: sample_page_def)

text \<open>Adminer opened at time 0 and a tick at 400 seconds.\<close>

definition sample_open :: hrequest where
  "sample_open = sample_create\<lparr>hq_Path := ''/admin/hosting/mysql/adminer/open''\<rparr>"

lemma sample_open_route: "hserve e sample_open w = handleAdminerOpen ''mysql'' e sample_open w"
proof -
  have p: "cleanPath (hq_Path sample_open) = hq_Path sample_open" by code_simp
  have f: "mux_find (hq_Method sample_open) (hq_Path sample_open) = Some (hq_Path sample_open, handleAdminerOpen ''mysql'')"
    by (simp add: mux_find_def hmux_def db_routes_def sample_open_def sample_create_def method_match_def pattern_match_def)
  show ?thesis unfolding hserve_def Let_def p f by simp
qed

lemma sample_open_session:
  "map_of (hw_adminer (snd (hserve sample_henv sample_open w))) ''0123456789'' =
     Some \<lparr>as_engine = ''mysql'', as_alias = '''', as_last = 0\<rparr>"
proof -
  have tok: "randToken sample_henv 0 '''' = ''0123456789''" by (simp add: randToken_def sample_henv_def)
  have sent: "sent_ok sample_henv ''adminer_up'' [(''engine'', ''mysql''), (''token'', ''0123456789'')]"
    by (simp add: sent_ok_def sample_henv_def maxRequest_def)
  have hex: "hex_tokens sample_henv" by (simp add: hex_tokens_def sample_henv_def) code_simp
  have "allowed adminer_up_manifest [(''engine'', ''mysql''), (''token'', ''0123456789'')]"
    using adminer_up_allowed [OF hex, of "''mysql''" 0] by (simp add: tok dbTabs_def)
  with sample_call [OF sent sample_commands(3)] show ?thesis
    by (simp add: sample_open_route handleAdminerOpen_def Let_def tok dbTabs_def failed_def stdout_def kvFields_def
        Fields_def kv_def) (simp add: sample_henv_def update_Some_unfold)
qed


end
