(* ===== verification/Boot.thy ===== *)
theory Boot
  imports Routes Remote
begin

text \<open>
  main.go: the start of the gate, which builds the server of theory Server from the configuration
  files and the process environment, and the commands of the binary.  The values that a command
  gets from its flags are the fields of a record; what it prints is the string it returns.
\<close>

subsection \<open>Paths and environment\<close>

definition getenv :: "env \<Rightarrow> string \<Rightarrow> string \<Rightarrow> string" where
  "getenv env k def = (case env k of Some v \<Rightarrow> if v \<noteq> '''' then v else def | None \<Rightarrow> def)"

definition splitCSV :: "string \<Rightarrow> string list" where
  "splitCSV s = filter (\<lambda>p. p \<noteq> '''') (map TrimSpace (Split s CHR '',''))"

definition resolvePath :: "string \<Rightarrow> string \<Rightarrow> string \<Rightarrow> string" where
  "resolvePath dir p def = (let q = (if p = '''' then def else p) in if IsAbs q then q else pathJoin [dir, q])"

subsection \<open>The start\<close>

text \<open>What the deployment profile and its two overrides select: the reload command, the local upstream.\<close>

definition def_reload :: "env \<Rightarrow> string" where
  "def_reload env = (if getenv env ''DEPLOY_MODE'' ''docker'' = ''host'' then ''nginx -s reload'' else '''')"

definition deploy_knobs :: "env \<Rightarrow> string \<times> string" where
  "deploy_knobs env =
     (getenv env ''NGINX_RELOAD_CMD'' (def_reload env),
      getenv env ''UPSTREAM_LOCALHOST''
        (if getenv env ''DEPLOY_MODE'' ''docker'' = ''host'' then ''127.0.0.1'' else ''host.docker.internal''))"

definition boot_certs :: "env \<Rightarrow> string \<Rightarrow> Config \<Rightarrow> CertManager" where
  "boot_certs env dir c =
     \<lparr>cm_Dir = pathJoin [dir, ''certs''], cm_NginxDir = getenv env ''NGINX_CERT_DIR'' ''/etc/nginx/certs'',
      cm_Email = acme_Email (tls_ACME (cfg_TLS c)), cm_DirectoryURL = getenv env ''ACME_DIRECTORY_URL'' ''''\<rparr>"

text \<open>\<open>login\<close> is the URL the generated locations send a visitor to; the closure \<open>HasCert\<close> reads the disk.\<close>

definition boot_manager :: "env \<Rightarrow> string \<Rightarrow> Config \<Rightarrow> string \<Rightarrow> Manager" where
  "boot_manager env dir c login =
     (let cm = boot_certs env dir c in
      \<lparr>mgr_OutPath = pathJoin [dir, ''nginx'', ''conf.d'', ''backends.conf''],
       mgr_BackupsDir = pathJoin [dir, ''backups''],
       mgr_ReloadCmd = getenv env ''NGINX_RELOAD_CMD'' (def_reload env),
       mgr_Gen = (\<lambda>f. \<lparr>gc_Upstream = getenv env ''PROXY_UPSTREAM'' ''xaltorka:8080'', gc_GateLoginURL = login,
                       gc_Resolver = getenv env ''PROXY_RESOLVER'' ''127.0.0.11'', gc_CertDir = cm_NginxDir cm,
                       gc_HasCert = Some (HasCert (Some cm) f)\<rparr>)\<rparr>)"

definition boot_login :: "Config \<Rightarrow> string" where
  "boot_login c = TrimRight (srv_ExternalURL (cfg_Server c)) CHR ''/''"

text \<open>\<open>disk\<close> and \<open>disk_ok\<close> are the saved sessions and whether their file can be written.\<close>

definition boot_store :: "string \<Rightarrow> Config \<Rightarrow> (string \<Rightarrow> (string \<rightharpoonup> Session) option) \<Rightarrow> bool \<Rightarrow> MemoryStore" where
  "boot_store dir c disk disk_ok =
     (let ses = cfg_Session c; ttl = ses_TTLMinutes ses * 60 * Second; idle = ses_IdleTimeoutMinutes ses * 60 * Second in
      if ses_Store ses = ''memory'' then NewMemoryStore ttl idle
      else let p = resolvePath dir (ses_SQLitePath ses) ''data/sessions.json''
           in NewPersistentStore ttl idle p (disk p) disk_ok)"

definition boot_otp :: "Config \<Rightarrow> OTPStore option" where
  "boot_otp c =
     (let o1 = cfg_OneTimeCode c in
      if otc_Enabled o1
      then Some (NewOTPStore ((if otc_TTLMinutes o1 \<le> 0 then 10 else otc_TTLMinutes o1) * 60 * Second)
                   ((if otc_CooldownSeconds o1 \<le> 0 then 30 else otc_CooldownSeconds o1) * Second) (otc_CodeLength o1))
      else None)"

text \<open>The server before its first reload; \<open>audit_ok\<close> says that the audit log could be opened.\<close>

definition boot_server :: "env \<Rightarrow> string \<Rightarrow> bool \<Rightarrow> (string \<Rightarrow> (string \<rightharpoonup> Session) option) \<Rightarrow> bool \<Rightarrow> Bundle \<Rightarrow> Server" where
  "boot_server env dir audit_ok disk disk_ok b =
     (let c = bd_Config b; up = getenv env ''HOSTING_UPSTREAM'' '''' in
      \<lparr>sv_Cfg = c, sv_Users = NewUserDirectory (bd_Users b), sv_Sessions = boot_store dir c disk disk_ok,
       sv_Resolver = NewResolver c, sv_LDAP = BuildLDAP (cfg_Providers c),
       sv_OIDC = BuildOIDC (cfg_Providers c) (bd_Secrets b) (srv_ExternalURL (cfg_Server c)),
       sv_Proxy = Some (boot_manager env dir c (boot_login c)), sv_Audit = audit_ok, sv_OTP = boot_otp c,
       sv_UsersPath = resolvePath dir (cfg_UsersFile c) ''users.json'', sv_BackupsDir = pathJoin [dir, ''backups''],
       sv_SetupPath = pathJoin [dir, ''data'', ''setup.json''],
       sv_ServicesPath = resolvePath dir (cfg_ServicesFile c) ''services.json'',
       sv_SecretsPath = resolvePath dir (cfg_SecretsFile c) ''secrets.json'',
       sv_OTPQueuePath = (if otc_Enabled (cfg_OneTimeCode c) then pathJoin [dir, ''data'', ''otp-queue.jsonl''] else ''''),
       sv_DockerProxyURL = getenv env ''DOCKER_PROXY'' '''',
       sv_DockerExclude = splitCSV (getenv env ''DISCOVER_EXCLUDE'' ''xaltorka,docker-socket-proxy''),
       sv_HostingUpstream = up, sv_hostingProxy = (up \<noteq> '''' \<and> url_Parse up \<noteq> None),
       sv_UpstreamLocalhost = snd (deploy_knobs env), sv_BaseBackends = cfg_Backends c,
       sv_BaseProviders = cfg_Providers c, sv_links = [], sv_adminIPs = [], sv_monitors = [], sv_providers = None,
       sv_CertMgr = Some (boot_certs env dir c)\<rparr>)"

text \<open>
  The start as far as the first request: load, build, reload (a failure is only logged), probe the
  directory of the NGINX configuration (a failure is only reported).  It gives the error that ends
  the process, or the world the requests meet and the messages sent.
\<close>

definition boot_notifier :: "Bundle \<Rightarrow> channel list" where
  "boot_notifier b = notify_New (mon_Alerting (cfg_Monitoring (bd_Config b))) (bd_Secrets b)"

definition unwritable_alert :: "string \<Rightarrow> apply_error \<Rightarrow> Bundle \<Rightarrow> delivery list" where
  "unwritable_alert dir err b =
     (let confDir = pathJoin [dir, ''nginx'', ''conf.d''] in
      Send (boot_notifier b) (''Xal-Tor-Ka '' @ Version @ '' '' @ [CHR 0xE2, CHR 0x80, CHR 0x94] @ '' NGINX config NOT writable'')
        (''The gateway cannot regenerate '' @ pathJoin [confDir, ''backends.conf''] @ ''.'' @ [CHR 0x0A] @
         ''Publish and TLS changes will NOT reach NGINX (the admin UI will still look fine).'' @ [CHR 0x0A, CHR 0x0A] @
         ''Error: '' @ err_text (ApplyErr err) @ [CHR 0x0A] @
         ''Fix: chown 1000:1000 '' @ confDir @ ''  then restart the gateway.''))"

definition boot_messages :: "string \<Rightarrow> apply_error option \<Rightarrow> Bundle \<Rightarrow> delivery list" where
  "boot_messages dir err b =
     (case err of Some x \<Rightarrow> unwritable_alert dir x b | None \<Rightarrow> []) @
     (if rcc_Enabled (cfg_RemoteControl (bd_Config b))
      then Send (boot_notifier b) ''Xal-Tor-Ka'' (''gateway started '' @ middot @ '' '' @ Version) else [])"

definition boot :: "env \<Rightarrow> Env \<Rightarrow> string \<Rightarrow> bool \<Rightarrow> (string \<Rightarrow> (string \<rightharpoonup> Session) option) \<Rightarrow> bool \<Rightarrow> fs
    \<Rightarrow> file_error + World \<times> delivery list" where
  "boot env e dir audit_ok disk disk_ok f =
     (case Load (en_codec e) env dir f of
        Inl err \<Rightarrow> Inl err
      | Inr b \<Rightarrow>
          (let w0 = \<lparr>wd_srv = boot_server env dir audit_ok disk disk_ok b, wd_fs = f, wd_log = []\<rparr>;
               (_, w1) = Reload e w0;
               (err, f2) = CheckWritable (sv_Proxy (wd_srv w1)) (wd_fs w1)
           in Inr (w1\<lparr>wd_fs := f2\<rparr>, boot_messages dir err b)))"

end
