(* ===== verification/Flags.thy ===== *)
theory Flags
  imports Prelude
begin

text \<open>
  What main.go uses of Go's package \<open>flag\<close>: \<open>FlagSet.Parse\<close> of the arguments of a command.
\<close>

datatype flag_kind = BoolFlag | TextFlag

datatype flag_error =
    Help
  | BadSyntax string
  | NotDefined string
  | BadBool string
  | NeedsArgument string

text \<open>What the first argument is: the end of the flags, the terminator \<open>--\<close>, or \<open>-name[=value]\<close>.\<close>

datatype flag_token = Operand | Terminator | Malformed | Named string "string option"

definition flag_token :: "string \<Rightarrow> flag_token" where
  "flag_token s =
     (if length s < 2 \<or> hd s \<noteq> CHR ''-'' then Operand
      else if s = ''--'' then Terminator
      else
        let name = (if s ! 1 = CHR ''-'' then drop 2 s else drop 1 s) in
        if name = [] \<or> hd name = CHR ''-'' \<or> hd name = CHR ''='' then Malformed
        else (case IndexByte name CHR ''='' of
                None \<Rightarrow> Named name None
              | Some i \<Rightarrow> Named (take i name) (Some (drop (Suc i) name))))"

definition ParseBool :: "string \<Rightarrow> bool option" where
  "ParseBool s =
     (if s \<in> {''1'', ''t'', ''T'', ''TRUE'', ''true'', ''True''} then Some True
      else if s \<in> {''0'', ''f'', ''F'', ''FALSE'', ''false'', ''False''} then Some False
      else None)"

definition bool_text :: "bool \<Rightarrow> string" where
  "bool_text b = (if b then ''true'' else ''false'')"

text \<open>
  The values set, the last one first, and the operands.  The flags end at the first operand:
  what follows it is not looked at.
\<close>

fun parseFlags :: "(string \<times> flag_kind) list \<Rightarrow> (string \<times> string) list \<Rightarrow> string list
    \<Rightarrow> flag_error + ((string \<times> string) list \<times> string list)" where
  "parseFlags formal acc [] = Inr (acc, [])"
| "parseFlags formal acc (s # args) =
     (case flag_token s of
        Operand \<Rightarrow> Inr (acc, s # args)
      | Terminator \<Rightarrow> Inr (acc, args)
      | Malformed \<Rightarrow> Inl (BadSyntax s)
      | Named name value \<Rightarrow>
     (case map_of formal name of
        None \<Rightarrow> Inl (if name = ''help'' \<or> name = ''h'' then Help else NotDefined name)
      | Some BoolFlag \<Rightarrow>
          (case value of
             None \<Rightarrow> parseFlags formal ((name, bool_text True) # acc) args
           | Some v \<Rightarrow>
               (case ParseBool v of
                  None \<Rightarrow> Inl (BadBool name)
                | Some b \<Rightarrow> parseFlags formal ((name, bool_text b) # acc) args))
      | Some TextFlag \<Rightarrow>
          (case value of
             Some v \<Rightarrow> parseFlags formal ((name, v) # acc) args
           | None \<Rightarrow>
               (case args of
                  [] \<Rightarrow> Inl (NeedsArgument name)
                | v # args1 \<Rightarrow> parseFlags formal ((name, v) # acc) args1))))"

definition flag_text :: "(string \<times> string) list \<Rightarrow> string \<Rightarrow> string \<Rightarrow> string" where
  "flag_text vals name def = (case map_of vals name of Some v \<Rightarrow> v | None \<Rightarrow> def)"

definition flag_bool :: "(string \<times> string) list \<Rightarrow> string \<Rightarrow> bool" where
  "flag_bool vals name \<longleftrightarrow> map_of vals name = Some (bool_text True)"

definition flag_set :: "(string \<times> string) list \<Rightarrow> string \<Rightarrow> bool" where
  "flag_set vals name \<longleftrightarrow> map_of vals name \<noteq> None"

subsection \<open>Writing a flag and reading it back\<close>

definition plain_name :: "string \<Rightarrow> bool" where
  "plain_name n \<longleftrightarrow> n \<noteq> [] \<and> hd n \<noteq> CHR ''-'' \<and> CHR ''='' \<notin> set n"

lemma IndexByte_fresh: "c \<notin> set s \<Longrightarrow> IndexByte s c = None"
  by (induction s) (auto simp: IndexByte_def)

lemma plain_hd: "plain_name n \<Longrightarrow> hd n \<noteq> CHR ''=''"
  by (cases n) (auto simp: plain_name_def)

lemma flag_token_plain [simp]:
  assumes "plain_name n"
  shows "flag_token (CHR ''-'' # CHR ''-'' # n) = Named n None"
    and "flag_token (CHR ''-'' # CHR ''-'' # n @ CHR ''='' # v) = Named n (Some v)"
  using assms plain_hd [OF assms]
  by (auto simp: flag_token_def plain_name_def IndexByte_fresh Let_def hd_append IndexByte_append split: list.splits)

text \<open>Settings as they are written on a command line: a boolean flag, or a text with its value.\<close>

definition render_flag :: "string \<times> string option \<Rightarrow> string" where
  "render_flag f = (case f of (n, None) \<Rightarrow> CHR ''-'' # CHR ''-'' # n | (n, Some v) \<Rightarrow> CHR ''-'' # CHR ''-'' # n @ CHR ''='' # v)"

definition flag_value :: "string \<times> string option \<Rightarrow> string \<times> string" where
  "flag_value f = (fst f, case snd f of None \<Rightarrow> bool_text True | Some v \<Rightarrow> v)"

definition fits_flag :: "(string \<times> flag_kind) list \<Rightarrow> string \<times> string option \<Rightarrow> bool" where
  "fits_flag formal f \<longleftrightarrow> plain_name (fst f) \<and>
     map_of formal (fst f) = Some (case snd f of None \<Rightarrow> BoolFlag | Some _ \<Rightarrow> TextFlag)"

definition operands :: "string list \<Rightarrow> bool" where
  "operands args \<longleftrightarrow> (case args of [] \<Rightarrow> True | s # _ \<Rightarrow> flag_token s = Operand)"

lemma parseFlags_operands: "operands args \<Longrightarrow> parseFlags formal acc args = Inr (acc, args)"
  by (cases args) (simp_all add: operands_def)

lemma parseFlags_render:
  assumes "list_all (fits_flag formal) fl" "operands args"
  shows "parseFlags formal acc (map render_flag fl @ args) = Inr (rev (map flag_value fl) @ acc, args)"
  using assms(1)
proof (induction fl arbitrary: acc)
  case Nil
  then show ?case by (simp add: parseFlags_operands [OF assms(2)])
next
  case (Cons f fl)
  obtain n v where f: "f = (n, v)" by (cases f)
  from Cons.prems f have r: "fits_flag formal (n, v)" "list_all (fits_flag formal) fl" by simp_all
  then have n: "plain_name n" "map_of formal n = Some (case v of None \<Rightarrow> BoolFlag | Some _ \<Rightarrow> TextFlag)"
    by (simp_all add: fits_flag_def)
  show ?case
    using Cons.IH [OF r(2)] by (cases v) (simp_all add: f n render_flag_def flag_value_def)
qed

text \<open>A flag behind an operand is not read.\<close>

lemma parseFlags_behind:
  assumes "operands (s # args)"
  shows "parseFlags formal acc (s # args) = Inr (acc, s # args)"
  by (rule parseFlags_operands [OF assms])

end
