(* ===== verification/Cli.thy ===== *)
theory Cli
  imports Boot Flags
begin

text \<open>
  The commands of main.go besides the start of the gate.  A command gives its error or what it
  prints, and the file system it leaves.  A command \<open>run...\<close> parses its arguments; its work on the
  values of the flags is a definition \<open>cli_...\<close> of its own.
\<close>

datatype cli_error =
    FlagError flag_error
  | Usage string
  | CliLoadConfig file_error
  | CliFile file_error
  | CliHash pw_error
  | CliPanic
  | CliRandom
  | SaveSetupFailed file_error
  | IDPresent string
  | CliCert cert_error
  | CliAcme string cert_error
  | UnknownSubcommand string

datatype cli_output =
    Lines "string list"
  | CertLines "Info list"

type_synonym cli_result = "(cli_error + cli_output) \<times> fs"

text \<open>Every command parses its flags first; an error of the parser ends the process.\<close>

definition with_flags :: "(string \<times> flag_kind) list \<Rightarrow> string list
    \<Rightarrow> ((string \<times> string) list \<Rightarrow> string list \<Rightarrow> fs \<Rightarrow> cli_result) \<Rightarrow> fs \<Rightarrow> cli_result" where
  "with_flags formal args body f =
     (case parseFlags formal [] args of
        Inl err \<Rightarrow> (Inl (FlagError err), f)
      | Inr (vals, rest) \<Rightarrow> body vals rest f)"

definition flag_dir :: "(string \<times> string) list \<Rightarrow> string" where
  "flag_dir vals = flag_text vals ''config'' ''.''"

subsection \<open>Users\<close>

record userFlags =
  uf_email :: string
  uf_password :: string
  uf_provider :: string
  uf_provSet :: bool
  uf_admin :: bool
  uf_noAdmin :: bool

text \<open>The index the loop leaves: the last match.\<close>

fun last_index :: "('a \<Rightarrow> bool) \<Rightarrow> 'a list \<Rightarrow> nat option" where
  "last_index P [] = None"
| "last_index P (x # xs) =
     (case last_index P xs of Some i \<Rightarrow> Some (Suc i) | None \<Rightarrow> if P x then Some 0 else None)"

text \<open>The edits of the record found or appended; \<open>hash\<close> is the new password's, when one is given.\<close>

definition cli_edit :: "userFlags \<Rightarrow> string option \<Rightarrow> User \<Rightarrow> User" where
  "cli_edit fl hash u =
     (let u1 = (if uf_provSet fl then u\<lparr>usr_Provider := uf_provider fl\<rparr> else u);
          u2 = (case hash of Some h \<Rightarrow> u1\<lparr>usr_PasswordHash := h\<rparr> | None \<Rightarrow> u1);
          u3 = (if uf_admin fl then u2\<lparr>usr_Admin := True\<rparr> else u2)
      in if uf_noAdmin fl then u3\<lparr>usr_Admin := False\<rparr> else u3)"

definition cli_hash :: "Env \<Rightarrow> string \<Rightarrow> cli_error + string option" where
  "cli_hash e pw =
     (if pw = '''' then Inr None
      else case HashPassword (en_IDKey e) (en_salt e) pw of
        None \<Rightarrow> Inl CliPanic
      | Some (Inl err) \<Rightarrow> Inl (CliHash err)
      | Some (Inr h) \<Rightarrow> Inr (Some h))"

definition cli_find :: "userFlags \<Rightarrow> Users \<Rightarrow> cli_error + (Users \<times> nat)" where
  "cli_find fl users =
     (case last_index (\<lambda>u. usr_Email u = uf_email fl) users of
        Some i \<Rightarrow> Inr (users, i)
      | None \<Rightarrow>
          if uf_provider fl = ''local'' \<and> uf_password fl = ''''
          then Inl (Usage ''new local user: --password is required (for OIDC use --provider <id>)'')
          else Inr (users @ [zero_User\<lparr>usr_Email := uf_email fl, usr_Provider := uf_provider fl\<rparr>], length users))"

text \<open>The list with the record edited, and the record.\<close>

definition cli_update :: "Env \<Rightarrow> userFlags \<Rightarrow> Users \<Rightarrow> cli_error + (Users \<times> User)" where
  "cli_update e fl users =
     (case cli_find fl users of
        Inl err \<Rightarrow> Inl err
      | Inr (users1, i) \<Rightarrow>
     (case cli_hash e (uf_password fl) of
        Inl err \<Rightarrow> Inl err
      | Inr hash \<Rightarrow> let u = cli_edit fl hash (users1 ! i) in Inr (users1[i := u], u)))"

definition cli_user :: "env \<Rightarrow> Env \<Rightarrow> string \<Rightarrow> userFlags \<Rightarrow> fs \<Rightarrow> cli_result" where
  "cli_user env e dir fl f =
     (if uf_email fl = '''' then (Inl (Usage ''user requires --email''), f)
      else case LoadConfigOnly (en_codec e) env dir f of
        (_, Some err) \<Rightarrow> (Inl (CliLoadConfig err), f)
      | (c, None) \<Rightarrow>
     (let usersPath = resolvePath dir (cfg_UsersFile c) ''users.json'' in
      case LoadUsers (en_codec e) usersPath f of
        Inl err \<Rightarrow> (Inl (CliFile err), f)
      | Inr users \<Rightarrow>
     (case cli_update e fl users of
        Inl err \<Rightarrow> (Inl err, f)
      | Inr (users1, u) \<Rightarrow>
          (case SaveUsers (en_codec e) (en_stamp e) usersPath (pathJoin [dir, ''backups'']) users1 f of
             (Some err, f1) \<Rightarrow> (Inl (CliFile err), f1)
           | (None, f1) \<Rightarrow>
               (Inr (Lines [''User '' @ Quote (usr_Email u) @ '' updated (provider='' @ usr_Provider u @ '', admin='' @
                  bool_text (usr_Admin u) @ ''). Restart the service to apply.'']), f1)))))"

definition user_flags :: "(string \<times> flag_kind) list" where
  "user_flags = [(''config'', TextFlag), (''email'', TextFlag), (''password'', TextFlag), (''provider'', TextFlag),
     (''admin'', BoolFlag), (''no-admin'', BoolFlag)]"

definition userFlags_of :: "(string \<times> string) list \<Rightarrow> userFlags" where
  "userFlags_of vals =
     \<lparr>uf_email = flag_text vals ''email'' '''', uf_password = flag_text vals ''password'' '''',
      uf_provider = flag_text vals ''provider'' ''local'', uf_provSet = flag_set vals ''provider'',
      uf_admin = flag_bool vals ''admin'', uf_noAdmin = flag_bool vals ''no-admin''\<rparr>"

definition runUser :: "env \<Rightarrow> Env \<Rightarrow> string list \<Rightarrow> fs \<Rightarrow> cli_result" where
  "runUser env e args = with_flags user_flags args (\<lambda>vals _. cli_user env e (flag_dir vals) (userFlags_of vals))"

subsection \<open>Services\<close>

definition serviceIDExists :: "Services \<Rightarrow> string \<Rightarrow> bool" where
  "serviceIDExists svc sid \<longleftrightarrow>
     list_ex (\<lambda>b. be_ID b = sid) (svc_Backends svc) \<or> list_ex (\<lambda>l. ln_ID l = sid) (svc_Links svc)"

definition servicePaths :: "env \<Rightarrow> Env \<Rightarrow> string \<Rightarrow> fs \<Rightarrow> cli_error + (string \<times> string)" where
  "servicePaths env e dir f =
     (case LoadConfigOnly (en_codec e) env dir f of
        (_, Some err) \<Rightarrow> Inl (CliLoadConfig err)
      | (c, None) \<Rightarrow> Inr (resolvePath dir (cfg_ServicesFile c) ''services.json'', pathJoin [dir, ''backups'']))"

text \<open>Both commands load services.json, refuse an id that is in it, append and save.\<close>

definition cli_services :: "env \<Rightarrow> Env \<Rightarrow> string \<Rightarrow> string \<Rightarrow> (Services \<Rightarrow> Services) \<Rightarrow> string \<Rightarrow> fs \<Rightarrow> cli_result" where
  "cli_services env e dir sid add msg f =
     (case servicePaths env e dir f of
        Inl err \<Rightarrow> (Inl err, f)
      | Inr (servicesPath, backupsDir) \<Rightarrow>
     (case LoadServices (en_codec e) servicesPath f of
        Inl err \<Rightarrow> (Inl (CliFile err), f)
      | Inr svc \<Rightarrow>
          if serviceIDExists svc sid then (Inl (IDPresent sid), f)
          else (case SaveServices (en_codec e) (en_stamp e) servicesPath backupsDir (add svc) f of
                 (Some err, f1) \<Rightarrow> (Inl (CliFile err), f1)
               | (None, f1) \<Rightarrow> (Inr (Lines [msg]), f1))))"

definition cli_link :: "env \<Rightarrow> Env \<Rightarrow> string \<Rightarrow> Link \<Rightarrow> fs \<Rightarrow> cli_result" where
  "cli_link env e dir l f =
     (if ln_ID l = '''' \<or> ln_Name l = '''' \<or> ln_URL l = '''' then (Inl (Usage ''add-link requires --id, --name and --url''), f)
      else cli_services env e dir (ln_ID l)
             (\<lambda>svc. svc\<lparr>svc_Links := svc_Links svc @ [l]\<rparr>)
             (''Link '' @ [CHR 0x27] @ ln_ID l @ [CHR 0x27] @
              '' added. Apply with: curl -X POST http://localhost/admin/reload (or restart).'') f)"

definition runAddLink :: "env \<Rightarrow> Env \<Rightarrow> string list \<Rightarrow> fs \<Rightarrow> cli_result" where
  "runAddLink env e args =
     with_flags [(''config'', TextFlag), (''id'', TextFlag), (''name'', TextFlag), (''url'', TextFlag),
         (''desc'', TextFlag), (''public'', BoolFlag)] args
       (\<lambda>vals _. cli_link env e (flag_dir vals)
          \<lparr>ln_ID = flag_text vals ''id'' '''', ln_Name = flag_text vals ''name'' '''',
           ln_URL = flag_text vals ''url'' '''', ln_Description = flag_text vals ''desc'' '''',
           ln_Public = flag_bool vals ''public'', ln_Disabled = False\<rparr>)"

record backendFlags =
  bf_id :: string
  bf_name :: string
  bf_host :: string
  bf_upstream :: string
  bf_rule :: string
  bf_url :: string
  bf_path :: string

definition cli_backend :: "backendFlags \<Rightarrow> Backend" where
  "cli_backend fl = zero_Backend\<lparr>be_ID := bf_id fl, be_Name := bf_name fl, be_Host := bf_host fl, be_URL := bf_url fl,
     be_Routes := [zero_Route\<lparr>rt_Path := bf_path fl, rt_Rule := bf_rule fl, rt_Upstream := bf_upstream fl\<rparr>]\<rparr>"

definition cli_add_backend :: "env \<Rightarrow> Env \<Rightarrow> string \<Rightarrow> backendFlags \<Rightarrow> fs \<Rightarrow> cli_result" where
  "cli_add_backend env e dir fl f =
     (if bf_id fl = '''' \<or> bf_host fl = '''' \<or> bf_upstream fl = ''''
      then (Inl (Usage ''add-backend requires --id, --host and --upstream''), f)
      else cli_services env e dir (bf_id fl) (\<lambda>svc. svc\<lparr>svc_Backends := svc_Backends svc @ [cli_backend fl]\<rparr>)
             (''Backend '' @ [CHR 0x27] @ bf_id fl @ [CHR 0x27] @ '' ('' @ bf_host fl @ bf_path fl @ '' '' @ arrow @ '' '' @
              bf_upstream fl @ '') added. Apply by restarting the service.'') f)"

definition runAddBackend :: "env \<Rightarrow> Env \<Rightarrow> string list \<Rightarrow> fs \<Rightarrow> cli_result" where
  "runAddBackend env e args =
     with_flags [(''config'', TextFlag), (''id'', TextFlag), (''name'', TextFlag), (''host'', TextFlag),
         (''upstream'', TextFlag), (''rule'', TextFlag), (''url'', TextFlag), (''path'', TextFlag)] args
       (\<lambda>vals _. cli_add_backend env e (flag_dir vals)
          \<lparr>bf_id = flag_text vals ''id'' '''', bf_name = flag_text vals ''name'' '''', bf_host = flag_text vals ''host'' '''',
           bf_upstream = flag_text vals ''upstream'' '''', bf_rule = flag_text vals ''rule'' RuleAuthorized,
           bf_url = flag_text vals ''url'' '''', bf_path = flag_text vals ''path'' ''/''\<rparr>)"

subsection \<open>Setup, snapshots and hashes\<close>

text \<open>
  \<open>tok\<close> is the random token, \<open>stdin\<close> the line read when no address is given.  Printed: the address
  and the URL, without the line between them that prints the duration.
\<close>

definition cli_setup :: "env \<Rightarrow> Env \<Rightarrow> string \<Rightarrow> string \<Rightarrow> int \<Rightarrow> string option \<Rightarrow> string \<Rightarrow> fs \<Rightarrow> cli_result" where
  "cli_setup env e dir email ttl tok stdin f =
     (case LoadConfigOnly (en_codec e) env dir f of
        (_, Some err) \<Rightarrow> (Inl (CliLoadConfig err), f)
      | (c, None) \<Rightarrow>
     (let em0 = TrimSpace email; em = (if em0 = '''' then TrimSpace stdin else em0) in
      if em = '''' then (Inl (Usage ''missing email''), f)
      else case tok of
        None \<Rightarrow> (Inl CliRandom, f)
      | Some t \<Rightarrow>
          (case SaveSetup (en_codec e) (pathJoin [dir, ''data'', ''setup.json''])
                  \<lparr>st_Token = t, st_Email = em, st_ExpiresAt = en_now e + ttl, st_PasswordHash = '''', st_TOTPSecret = ''''\<rparr> f of
             (Some err, f1) \<Rightarrow> (Inl (SaveSetupFailed err), f1)
           | (None, f1) \<Rightarrow>
               (let b0 = TrimRight (srv_ExternalURL (cfg_Server c)) CHR ''/'';
                    base = (if b0 = '''' then ''http://localhost'' @ srv_Listen (cfg_Server c) else b0)
                in (Inr (Lines [''Setup profile created for: '' @ em, ''  '' @ base @ ''/setup?token='' @ t]), f1)))))"

definition cli_backups :: "string \<Rightarrow> fs \<Rightarrow> cli_result" where
  "cli_backups dir f =
     (let names = ListBackups (pathJoin [dir, ''backups'']) f
      in (Inr (Lines (if names = [] then [''(no snapshots)''] else names)), f))"

definition cli_restore :: "env \<Rightarrow> Env \<Rightarrow> string \<Rightarrow> string \<Rightarrow> fs \<Rightarrow> cli_result" where
  "cli_restore env e dir snap f =
     (if snap = '''' then (Inl (Usage ''specify --snapshot=<name> (list with: xaltorka backups)''), f)
      else case RestoreSnapshot (en_codec e) env dir snap f of
        (Inl err, f1) \<Rightarrow> (Inl (CliFile err), f1)
      | (Inr target, f1) \<Rightarrow>
          (Inr (Lines [''Restored '' @ snap @ '' '' @ arrow @ '' '' @ target @
             ''. Apply by restarting the service (or reload for users/services).'']), f1))"

definition runBackups :: "string list \<Rightarrow> fs \<Rightarrow> cli_result" where
  "runBackups args = with_flags [(''config'', TextFlag)] args (\<lambda>vals _. cli_backups (flag_dir vals))"

definition runRestore :: "env \<Rightarrow> Env \<Rightarrow> string list \<Rightarrow> fs \<Rightarrow> cli_result" where
  "runRestore env e args =
     with_flags [(''config'', TextFlag), (''snapshot'', TextFlag)] args
       (\<lambda>vals _. cli_restore env e (flag_dir vals) (flag_text vals ''snapshot'' ''''))"

definition runHashPW :: "Env \<Rightarrow> string list \<Rightarrow> string \<Rightarrow> cli_error + string" where
  "runHashPW e args stdin =
     (let pw = (case args of a # _ \<Rightarrow> a | [] \<Rightarrow> TrimRightFunc (\<lambda>c. c = CHR 0x0D \<or> c = CHR 0x0A) stdin) in
      if args = [] \<and> stdin = '''' then Inl (Usage ''read password from stdin'')
      else if pw = '''' then Inl (Usage ''empty password'')
      else case cli_hash e pw of
        Inl err \<Rightarrow> Inl err
      | Inr None \<Rightarrow> Inl (Usage ''empty password'')
      | Inr (Some h) \<Rightarrow> Inr h)"

subsection \<open>Certificates\<close>

text \<open>
  \<open>runCert\<close> makes a manager of its own, whose generated locations have no login URL, and whose
  reload writes the configuration of the backends on the disk.
\<close>

definition cert_served :: "Env \<Rightarrow> string \<Rightarrow> Config \<Rightarrow> fs \<Rightarrow> Backend list" where
  "cert_served e dir c f =
     cfg_Backends c @
     (case LoadServices (en_codec e) (resolvePath dir (cfg_ServicesFile c) ''services.json'') f of
        Inr svc \<Rightarrow> filter (\<lambda>b. \<not> be_Disabled b) (svc_Backends svc)
      | Inl _ \<Rightarrow> [])"

definition cert_cli_hook :: "env \<Rightarrow> Env \<Rightarrow> string \<Rightarrow> Config \<Rightarrow> fs hook" where
  "cert_cli_hook env e dir c =
     \<lparr>hk_fs = (\<lambda>f. f), hk_set = (\<lambda>f _. f),
      hk_reload = Some (\<lambda>f.
        let (err, f') = Apply (en_run e) (en_stamp e) (Some (boot_manager env dir c '''')) (cert_served e dir c f) f
        in (map_option (\<lambda>x. err_text (ApplyErr x)) err, f'))\<rparr>"

text \<open>The hosts of \<open>list\<close>, each where it occurs first.\<close>

definition cert_hosts :: "Env \<Rightarrow> string \<Rightarrow> Config \<Rightarrow> fs \<Rightarrow> string list" where
  "cert_hosts e dir c f = rev (remdups (rev (filter (\<lambda>h. h \<noteq> '''') (map be_Host (cert_served e dir c f)))))"

definition cli_issue :: "env \<Rightarrow> Env \<Rightarrow> string \<Rightarrow> bool \<Rightarrow> string \<Rightarrow> Config \<Rightarrow> fs \<Rightarrow> cli_result" where
  "cli_issue env e dir selfSigned host c f =
     (let cm = boot_certs env dir c; hk = cert_cli_hook env e dir c in
      if selfSigned
      then (case IssueSelfSigned (en_pki e) (en_now e) hk cm host [] f of
              (Some err, f1) \<Rightarrow> (Inl (CliCert err), f1)
            | (None, f1) \<Rightarrow> (Inr (Lines [''self-signed certificate issued for '' @ host]), f1))
      else (case IssueACME (en_pki e) (en_acme e) hk cm host [] f of
              (Some err, f1) \<Rightarrow> (Inl (CliAcme host err), f1)
            | (None, f1) \<Rightarrow> (Inr (Lines [''certificate issued for '' @ host]), f1)))"

definition cert_flags :: "(string \<times> flag_kind) list" where
  "cert_flags = [(''config'', TextFlag), (''self-signed'', BoolFlag)]"

definition cli_cert :: "env \<Rightarrow> Env \<Rightarrow> string \<Rightarrow> bool \<Rightarrow> string list \<Rightarrow> fs \<Rightarrow> cli_result" where
  "cli_cert env e dir selfSigned rest f =
     (case rest of
        [] \<Rightarrow> (Inl (Usage ''usage: cert <issue|renew|list> [host] [--self-signed]''), f)
      | sub # hosts \<Rightarrow>
     (case Load (en_codec e) env dir f of
        Inl err \<Rightarrow> (Inl (CliLoadConfig err), f)
      | Inr b \<Rightarrow>
          if sub = ''issue'' \<or> sub = ''renew''
          then (case hosts of
                  [] \<Rightarrow> (Inl (Usage ''cert issue/renew requires a <host>''), f)
                | host # _ \<Rightarrow> cli_issue env e dir selfSigned host (bd_Config b) f)
          else if sub = ''list''
          then (Inr (CertLines (cert_List (en_pki e) (en_now e) (boot_certs env dir (bd_Config b))
                  (cert_hosts e dir (bd_Config b) f) f)), f)
          else (Inl (UnknownSubcommand sub), f)))"

definition runCert :: "env \<Rightarrow> Env \<Rightarrow> string list \<Rightarrow> fs \<Rightarrow> cli_result" where
  "runCert env e args =
     with_flags cert_flags args (\<lambda>vals rest. cli_cert env e (flag_dir vals) (flag_bool vals ''self-signed'') rest)"

subsection \<open>The commands of the binary\<close>

text \<open>
  main.  \<open>None\<close> is the start of the gate.  \<open>ParseDuration\<close>, \<open>tok\<close> and \<open>stdin\<close> are what the setup
  command takes from Go's time package, the random source and the terminal.
\<close>

record terminal =
  tm_ParseDuration :: "string \<Rightarrow> int option"
  tm_token :: "string option"
  tm_stdin :: string

definition runSetup :: "env \<Rightarrow> Env \<Rightarrow> terminal \<Rightarrow> string list \<Rightarrow> fs \<Rightarrow> cli_result" where
  "runSetup env e tm args =
     with_flags [(''email'', TextFlag), (''config'', TextFlag), (''ttl'', TextFlag)] args
       (\<lambda>vals _ f.
          if \<not> flag_set vals ''ttl''
          then cli_setup env e (flag_dir vals) (flag_text vals ''email'' '''') (30 * 60 * Second) (tm_token tm) (tm_stdin tm) f
          else (case tm_ParseDuration tm (flag_text vals ''ttl'' '''') of
                  None \<Rightarrow> (Inl (FlagError (BadBool ''ttl'')), f)
                | Some d \<Rightarrow> cli_setup env e (flag_dir vals) (flag_text vals ''email'' '''') d (tm_token tm) (tm_stdin tm) f))"

definition main_command :: "env \<Rightarrow> Env \<Rightarrow> terminal \<Rightarrow> string list \<Rightarrow> fs \<Rightarrow> cli_result option" where
  "main_command env e tm args f =
     (case args of
        [] \<Rightarrow> None
      | cmd # rest \<Rightarrow>
          if cmd \<in> {''version'', ''-v'', ''--version''} then Some (Inr (Lines [''xaltorka '' @ Version]), f)
          else if cmd = ''hashpw''
          then Some (case runHashPW e rest (tm_stdin tm) of Inl err \<Rightarrow> Inl err | Inr h \<Rightarrow> Inr (Lines [h]), f)
          else if cmd = ''setup'' then Some (runSetup env e tm rest f)
          else if cmd = ''add-link'' then Some (runAddLink env e rest f)
          else if cmd = ''add-backend'' then Some (runAddBackend env e rest f)
          else if cmd = ''user'' then Some (runUser env e rest f)
          else if cmd = ''backups'' then Some (runBackups rest f)
          else if cmd = ''restore'' then Some (runRestore env e rest f)
          else if cmd = ''cert'' then Some (runCert env e rest f)
          else None)"

text \<open>The exit status: the flag package ends the process with 2, a request for help with 0.\<close>

definition exit_code :: "cli_result \<Rightarrow> nat" where
  "exit_code r =
     (case fst r of Inl (FlagError Help) \<Rightarrow> 0 | Inl (FlagError _) \<Rightarrow> 2 | Inl _ \<Rightarrow> 1 | Inr _ \<Rightarrow> 0)"

end
