(* ===== verification/Recovery.thy ===== *)
theory Recovery
  imports Cli
begin

text \<open>
  What the commands of main.go do to the next start of the gate: an administrator made or given a
  password by the command line can log in, and what the commands leave unchecked.
\<close>

subsection \<open>The last match and the directory\<close>

lemma last_index_Some:
  "last_index P xs = Some i \<Longrightarrow> i < length xs \<and> P (xs ! i)"
  by (induction xs arbitrary: i) (auto split: option.splits if_splits simp: nth_Cons')

lemma last_index_None: "last_index P xs = None \<longleftrightarrow> (\<forall>x \<in> set xs. \<not> P x)"
  by (induction xs) (auto split: option.splits)

lemma last_index_update:
  "last_index P xs = Some i \<Longrightarrow> P u \<Longrightarrow> last_index P (xs[i := u]) = Some i"
  by (induction xs arbitrary: i) (auto split: option.splits if_splits nat.splits)

lemma last_index_snoc: "P x \<Longrightarrow> last_index P (xs @ [x]) = Some (length xs)"
  by (induction xs) auto

lemma map_of_build_last:
  "map_of (build_map key us m) k =
   (case last_index (\<lambda>u. key u = k) us of Some i \<Rightarrow> Some (us ! i) | None \<Rightarrow> map_of m k)"
  by (induction key us m rule: build_map.induct) (auto simp: update_conv' split: option.splits)

text \<open>The gate and the command line agree on which of two records with one address counts.\<close>

lemma Get_last:
  "Users.Get (NewUserDirectory us) em =
   (case last_index (\<lambda>u. usr_Email u = em) us of Some i \<Rightarrow> Some (us ! i) | None \<Rightarrow> None)"
  by (simp add: Users.Get_def NewUserDirectory_def Replace_def map_of_build_last split: option.split)

subsection \<open>The edited record\<close>

lemma cli_find_result:
  assumes "cli_find fl users = Inr (users1, i)"
  shows "last_index (\<lambda>u. usr_Email u = uf_email fl) users1 = Some i"
    and "usr_Provider (users1 ! i) = uf_provider fl \<or> users1 = users \<and> i < length users"
  using assms last_index_Some [of "\<lambda>u. usr_Email u = uf_email fl" users i]
  by (auto simp: cli_find_def last_index_snoc nth_append split: option.splits if_splits)

lemma cli_edit_email [simp]: "usr_Email (cli_edit fl hash u) = usr_Email u"
  by (simp add: cli_edit_def Let_def split: option.splits)

lemma cli_edit_fields [simp]:
  "usr_PasswordHash (cli_edit fl (Some h) u) = h"
  "usr_Admin (cli_edit fl hash u) \<longleftrightarrow> \<not> uf_noAdmin fl \<and> (uf_admin fl \<or> usr_Admin u)"
  "usr_Provider (cli_edit fl hash u) = (if uf_provSet fl then uf_provider fl else usr_Provider u)"
  by (simp_all add: cli_edit_def Let_def split: option.splits)

lemma cli_update_lookup:
  assumes "cli_update e fl users = Inr (users1, u)"
  shows "Users.Get (NewUserDirectory users1) (uf_email fl) = Some u" "usr_Email u = uf_email fl"
proof -
  from assms obtain us i h where c: "cli_find fl users = Inr (us, i)" "cli_hash e (uf_password fl) = Inr h"
      "u = cli_edit fl h (us ! i)" "users1 = us[i := u]"
    by (auto simp: cli_update_def Let_def split: sum.splits)
  note l = cli_find_result(1) [OF c(1)]
  from last_index_Some [OF l] show e: "usr_Email u = uf_email fl" by (simp add: c(3))
  from last_index_update [OF l, of u] e last_index_Some [OF l]
  show "Users.Get (NewUserDirectory users1) (uf_email fl) = Some u" by (simp add: Get_last c(4))
qed

subsection \<open>The command and the next start\<close>

definition admin_args :: "string \<Rightarrow> string \<Rightarrow> string \<Rightarrow> string list" where
  "admin_args dir em pw =
     map render_flag [(''config'', Some dir), (''email'', Some em), (''password'', Some pw), (''admin'', None)]"

definition admin_values :: "string \<Rightarrow> string \<Rightarrow> userFlags" where
  "admin_values em pw = \<lparr>uf_email = em, uf_password = pw, uf_provider = ''local'', uf_provSet = False,
     uf_admin = True, uf_noAdmin = False\<rparr>"

lemma runUser_admin: "runUser env e (admin_args dir em pw) = cli_user env e dir (admin_values em pw)"
proof -
  have "parseFlags user_flags [] (admin_args dir em pw @ []) =
      Inr ([(''admin'', ''true''), (''password'', pw), (''email'', em), (''config'', dir)], [])"
    unfolding admin_args_def
    by (subst parseFlags_render) (simp_all add: fits_flag_def user_flags_def plain_name_def operands_def flag_value_def bool_text_def)
  then show ?thesis
    by (simp add: runUser_def with_flags_def fun_eq_iff flag_dir_def userFlags_of_def flag_text_def flag_set_def
        flag_bool_def bool_text_def admin_values_def)
qed

definition users_path :: "string \<Rightarrow> Config \<Rightarrow> string" where
  "users_path dir c = resolvePath dir (cfg_UsersFile c) ''users.json''"

lemma cli_user_saves:
  assumes "cli_user env e dir fl f = (Inr out, f1)"
  obtains c us users1 u where "LoadConfigOnly (en_codec e) env dir f = (c, None)"
    "LoadUsers (en_codec e) (users_path dir c) f = Inr us" "cli_update e fl us = Inr (users1, u)"
    "SaveUsers (en_codec e) (en_stamp e) (users_path dir c) (pathJoin [dir, ''backups'']) users1 f = (None, f1)"
  using assms
  by (auto simp: cli_user_def users_path_def Let_def split: if_splits prod.splits option.splits sum.splits)

lemma cli_user_ok:
  assumes "LoadConfigOnly (en_codec e) env dir f = (c, None)"
    "LoadUsers (en_codec e) (users_path dir c) f = Inr us" "cli_update e fl us = Inr (users1, u)"
    "SaveUsers (en_codec e) (en_stamp e) (users_path dir c) (pathJoin [dir, ''backups'']) users1 f = (None, f1)"
    "uf_email fl \<noteq> ''''"
  shows "\<exists>out. cli_user env e dir fl f = (Inr out, f1)"
  using assms by (simp add: cli_user_def users_path_def Let_def)

lemma resolvePath_resolve: "resolvePath dir p def = resolve dir (if p = '''' then def else p)"
  by (simp add: resolvePath_def resolve_def Let_def)

lemma Load_users:
  assumes "Load cd env dir f = Inr b" "LoadConfigOnly cd env dir f = (c, None)"
    and "content f (users_path dir c) = Some raw" "dec_users cd True (expandEnv raw env) = Some us"
  shows "bd_Users b = us" "bd_Config b = c"
  using assms
  by (auto simp: Load_def decodeFile_def ReadFile_def users_path_def resolvePath_resolve Let_def
      split: if_splits option.splits sum.splits)

lemma boot_world:
  assumes "boot env e dir audit_ok disk disk_ok f = Inr (w, msgs)"
  obtains b where "Load (en_codec e) env dir f = Inr b"
    "\<exists>f'. w = snd (Reload e \<lparr>wd_srv = boot_server env dir audit_ok disk disk_ok b, wd_fs = f, wd_log = []\<rparr>)\<lparr>wd_fs := f'\<rparr>"
  using assms by (auto simp: boot_def Let_def split: sum.splits prod.splits)

lemma Reload_users: "sv_Users (wd_srv (snd (Reload e w))) = sv_Users (wd_srv w)"
  by (auto simp: Reload_def Let_def split: sum.splits prod.splits)

lemma Reload_server:
  "sv_Sessions (wd_srv (snd (Reload e w))) = sv_Sessions (wd_srv w)" "sv_Cfg (wd_srv (snd (Reload e w))) = sv_Cfg (wd_srv w)"
  by (auto simp: Reload_def Let_def split: sum.splits prod.splits)

lemma boot_fields:
  assumes "boot env e dir audit_ok disk disk_ok f = Inr (w, msgs)" "Load (en_codec e) env dir f = Inr b"
  shows "sv_Sessions (wd_srv w) = boot_store dir (bd_Config b) disk disk_ok" "sv_Cfg (wd_srv w) = bd_Config b"
    and "sv_Users (wd_srv w) = NewUserDirectory (bd_Users b)"
proof -
  obtain b' f' where b: "Load (en_codec e) env dir f = Inr b'"
    "w = snd (Reload e \<lparr>wd_srv = boot_server env dir audit_ok disk disk_ok b', wd_fs = f, wd_log = []\<rparr>)\<lparr>wd_fs := f'\<rparr>"
    using boot_world [OF assms(1)] by blast
  have s: "sv_Users (boot_server env dir audit_ok disk disk_ok b) = NewUserDirectory (bd_Users b)"
    "sv_Sessions (boot_server env dir audit_ok disk disk_ok b) = boot_store dir (bd_Config b) disk disk_ok"
    "sv_Cfg (boot_server env dir audit_ok disk disk_ok b) = bd_Config b"
    by (simp_all add: boot_server_def Let_def)
  show "sv_Sessions (wd_srv w) = boot_store dir (bd_Config b) disk disk_ok" "sv_Cfg (wd_srv w) = bd_Config b"
    "sv_Users (wd_srv w) = NewUserDirectory (bd_Users b)"
    using b assms(2) s by (simp_all add: Reload_users Reload_server)
qed

lemma boot_store_empty: "(\<And>p. disk p = None) \<Longrightarrow> ms_m (boot_store dir c disk disk_ok) = Map.empty"
  by (simp add: boot_store_def NewMemoryStore_def NewPersistentStore_def load_def Let_def)

lemma boot_world_ok:
  assumes "boot env e dir audit_ok disk disk_ok f = Inr (w, msgs)" "\<And>p. disk p = None"
  shows "world_ok w" "ms_m (sv_Sessions (wd_srv w)) = Map.empty"
proof -
  obtain b where "Load (en_codec e) env dir f = Inr b" using boot_world [OF assms(1)] by blast
  note s = boot_fields [OF assms(1) this]
  show e: "ms_m (sv_Sessions (wd_srv w)) = Map.empty" unfolding s(1) by (rule boot_store_empty [OF assms(2)])
  then show "world_ok w" by (simp add: world_ok_def store_ok_def s(3) dir_ok_New)
qed

text \<open>A file that the saving of \<open>path\<close> leaves alone.\<close>

definition spared :: "string \<Rightarrow> string \<Rightarrow> string \<Rightarrow> string \<Rightarrow> bool" where
  "spared stamp path dir q \<longleftrightarrow> q \<noteq> path \<and> q \<noteq> path @ ''.tmp'' \<and> file_place ''users'' stamp q dir"

lemma SaveUsers_spares:
  assumes "SaveUsers cd stamp path dir us f = (r, f')" "spared stamp path dir q"
  shows "content f' q = content f q"
  using writeJSONAtomic_atomic(2) [OF assms(1) [unfolded SaveUsers_def], of q] assms(2)
    snapshot_outside [where src = path and f = f and p = q]
  by (simp add: spared_def file_place_def)

lemma LoadConfigOnly_cong:
  assumes "content f' (pathJoin [dir, ''config.json'']) = content f (pathJoin [dir, ''config.json''])"
    and "fs_unreadable f' = fs_unreadable f"
  shows "LoadConfigOnly cd env dir f' = LoadConfigOnly cd env dir f"
  by (simp add: LoadConfigOnly_def ReadFile_content [OF assms])

lemma Local_Authenticate_new:
  assumes "HashPassword IDKey (Some salt) pw = Some (Inr h)"
    and "\<And>p k. IDKey p salt argonTime argonMemory argonThreads argonKeyLen = Some k \<Longrightarrow> length k = argonKeyLen"
    and "Users.Get d em = Some u" "usr_Provider u = ''local''" "usr_PasswordHash u = h"
  shows "Local_Authenticate IDKey d em pw = Some (Inr \<lparr>idn_Email = em, idn_Provider = ''local''\<rparr>)"
proof -
  have "h \<noteq> ''''" using stored_parts [OF assms(1)] by auto
  moreover have "VerifyPassword IDKey h pw = Some (Inr ())"
    using Verify_stored [OF assms(1,2), where pw' = pw] stored_parts [OF assms(1)] by (auto split: option.splits)
  ultimately show ?thesis using assms(3-5) by (simp add: Local_Authenticate_def)
qed

text \<open>
  The file system is as the command needs it: the configuration is outside the backups, and the
  directory as it is saved is read back (the text has no reference to the environment).
\<close>

definition recovery_place :: "Env \<Rightarrow> string \<Rightarrow> Config \<Rightarrow> bool" where
  "recovery_place e dir c \<longleftrightarrow>
     file_place ''users'' (en_stamp e) (users_path dir c) (pathJoin [dir, ''backups'']) \<and>
     spared (en_stamp e) (users_path dir c) (pathJoin [dir, ''backups'']) (pathJoin [dir, ''config.json''])"

definition reads_back :: "codec \<Rightarrow> env \<Rightarrow> Users \<Rightarrow> bool" where
  "reads_back cd env us \<longleftrightarrow> dec_users cd True (expandEnv (enc_users cd us) env) = Some us"

lemma saved_directory:
  assumes "cli_user env e dir fl f = (Inr out, f1)" "LoadConfigOnly (en_codec e) env dir f = (c, None)"
    and "recovery_place e dir c" "Load (en_codec e) env dir f1 = Inr b"
    and "LoadUsers (en_codec e) (users_path dir c) f = Inr us"
    and "\<And>us1 u. cli_update e fl us = Inr (us1, u) \<Longrightarrow> reads_back (en_codec e) env us1"
  obtains u where "cli_update e fl us = Inr (bd_Users b, u)" "bd_Config b = c"
proof -
  from assms(1) obtain users1 u where s: "cli_update e fl us = Inr (users1, u)"
    "SaveUsers (en_codec e) (en_stamp e) (users_path dir c) (pathJoin [dir, ''backups'']) users1 f = (None, f1)"
    by (rule cli_user_saves) (use assms(2,5) in auto)
  have p: "content f1 (users_path dir c) = Some (enc_users (en_codec e) users1)"
    using SaveUsers_content [OF s(2)] assms(3) by (simp add: recovery_place_def)
  have "LoadConfigOnly (en_codec e) env dir f1 = (c, None)"
    using LoadConfigOnly_cong [OF SaveUsers_spares [OF s(2)] SaveUsers_readable [OF s(2)]] assms(2,3)
    by (simp add: recovery_place_def)
  from Load_users [OF assms(4) this p] assms(6) [OF s(1)]
  have "bd_Users b = users1" "bd_Config b = c" by (simp_all add: reads_back_def)
  with s(1) that show ?thesis by blast
qed

lemma admin_update:
  assumes "cli_update e (admin_values em pw) us = Inr (us1, u)" "pw \<noteq> ''''"
    and "\<And>x. x \<in> set us \<Longrightarrow> usr_Email x = em \<Longrightarrow> usr_Provider x = ''local''"
  shows "usr_Admin u" "usr_Provider u = ''local''"
    and "HashPassword (en_IDKey e) (en_salt e) pw = Some (Inr (usr_PasswordHash u))"
proof -
  from assms(1) obtain us0 i h where c: "cli_find (admin_values em pw) us = Inr (us0, i)"
      "cli_hash e pw = Inr h" "u = cli_edit (admin_values em pw) h (us0 ! i)"
    by (auto simp: cli_update_def Let_def admin_values_def split: sum.splits)
  from c(2) assms(2) obtain k where k: "h = Some k" "HashPassword (en_IDKey e) (en_salt e) pw = Some (Inr k)"
    by (auto simp: cli_hash_def split: option.splits sum.splits)
  show "usr_Admin u" by (simp add: c(3) admin_values_def)
  show "HashPassword (en_IDKey e) (en_salt e) pw = Some (Inr (usr_PasswordHash u))" by (simp add: c(3) k)
  have e: "usr_Email (us0 ! i) = em"
    using last_index_Some [OF cli_find_result(1) [OF c(1)]] by (simp add: admin_values_def)
  have "usr_Provider (us0 ! i) = ''local'' \<or> us0 = us \<and> i < length us"
    using cli_find_result(2) [OF c(1)] by (simp add: admin_values_def)
  then have "usr_Provider (us0 ! i) = ''local''" using assms(3) [OF _ e] nth_mem by blast
  then show "usr_Provider u = ''local''" by (simp add: c(3) admin_values_def)
qed

lemma HashPassword_None: "HashPassword IDKey None pw = Some (Inl RandError)"
  by (simp add: HashPassword_def)

lemma recovered_admin:
  assumes "runUser env e (admin_args dir em pw) f = (Inr out, f1)"
    and "LoadConfigOnly (en_codec e) env dir f = (c, None)" "LoadUsers (en_codec e) (users_path dir c) f = Inr us"
    and "\<forall>x \<in> set us. usr_Email x = em \<longrightarrow> usr_Provider x = ''local''"
    and "pw \<noteq> ''''" "recovery_place e dir c"
    and "\<forall>us1 u. cli_update e (admin_values em pw) us = Inr (us1, u) \<longrightarrow> reads_back (en_codec e) env us1"
    and "\<forall>p s k. en_IDKey e p s argonTime argonMemory argonThreads argonKeyLen = Some k \<longrightarrow> length k = argonKeyLen"
    and "boot env e dir audit_ok disk disk_ok f1 = Inr (w, msgs)"
  shows "Local_Authenticate (en_IDKey e) (sv_Users (wd_srv w)) em pw = Some (Inr \<lparr>idn_Email = em, idn_Provider = ''local''\<rparr>)"
    and "\<exists>u. Users.Get (sv_Users (wd_srv w)) em = Some u \<and> usr_Admin u"
proof -
  note run = assms(1) [unfolded runUser_admin]
  obtain b where b: "Load (en_codec e) env dir f1 = Inr b" using boot_world [OF assms(9)] by blast
  obtain u where u: "cli_update e (admin_values em pw) us = Inr (bd_Users b, u)"
    by (rule saved_directory [OF run assms(2,6) b assms(3) assms(7) [rule_format]])
  note up = admin_update [OF u assms(5) assms(4) [rule_format]]
  have g: "Users.Get (sv_Users (wd_srv w)) em = Some u"
    unfolding boot_fields(3) [OF assms(9) b] using cli_update_lookup(1) [OF u] by (simp only: admin_values_def userFlags.simps)
  have "en_salt e \<noteq> None"
    using up(3) HashPassword_None [of "en_IDKey e" pw] by (metis option.inject sum.distinct(1))
  then obtain salt where s: "en_salt e = Some salt" by blast
  show "Local_Authenticate (en_IDKey e) (sv_Users (wd_srv w)) em pw = Some (Inr \<lparr>idn_Email = em, idn_Provider = ''local''\<rparr>)"
    by (rule Local_Authenticate_new [OF up(3) [unfolded s] assms(8) [rule_format] g up(2) refl])
  from g up(1) show "\<exists>u. Users.Get (sv_Users (wd_srv w)) em = Some u \<and> usr_Admin u" by blast
qed

subsection \<open>A small installation to recover\<close>

definition recovery_config :: Config where
  "recovery_config = zero_Config\<lparr>cfg_DisableTOTP := True,
     cfg_Server := \<lparr>srv_Listen = '':8080'', srv_ExternalURL = '''', srv_TrustedProxies = []\<rparr>,
     cfg_TLS := \<lparr>tls_Mode = ''external'', tls_Domains = [], tls_ACME = \<lparr>acme_Provider = [], acme_PDNSAPIURL = [], acme_Email = []\<rparr>\<rparr>,
     cfg_Session := \<lparr>ses_CookieName = [], ses_CookieDomain = [], ses_TTLMinutes = 60, ses_IdleTimeoutMinutes = 30,
       ses_Store = ''memory'', ses_SQLitePath = []\<rparr>,
     cfg_Providers := [\<lparr>prv_ID = ''local'', prv_Type = ''local'', prv_Name = [], prv_Enabled = True, prv_Issuer = [],
       prv_ClientID = [], prv_LDAPURL = [], prv_LDAPBindDNTemplate = [], prv_LDAPBaseDN = [], prv_LDAPStartTLS = False,
       prv_LDAPInsecureSkipVerify = False\<rparr>]\<rparr>"

definition recovery_env :: "User \<Rightarrow> Env" where
  "recovery_env u = sample_env\<lparr>en_codec := (tiny_codec u)\<lparr>dec_config := (\<lambda>_. (recovery_config, True))\<rparr>\<rparr>"

definition recovery_fs :: fs where
  "recovery_fs = plain_fs [(''d/config.json'', ''c''), (''d/secrets.json'', ''k'')]"

lemma recovery_paths [simp]:
  "pathJoin [''d'', ''config.json''] = ''d/config.json''" "pathJoin [''d'', ''secrets.json''] = ''d/secrets.json''"
  "pathJoin [''d'', ''users.json''] = ''d/users.json''" "pathJoin [''d'', ''services.json''] = ''d/services.json''"
  "pathJoin [''d'', ''backups''] = ''d/backups''"
  by code_simp+

lemma recovery_spared:
  "file_place ''users'' ''t'' ''d/users.json'' ''d/backups''"
  "spared ''t'' ''d/users.json'' ''d/backups'' ''d/config.json''"
  "spared ''t'' ''d/users.json'' ''d/backups'' ''d/secrets.json''"
  "spared ''t'' ''d/users.json'' ''d/backups'' ''d/services.json''"
  by code_simp+

lemma users_path_recovery [simp]: "users_path ''d'' recovery_config = ''d/users.json''"
  by (simp add: users_path_def resolvePath_def recovery_config_def zero_Config_def IsAbs_def)

lemma recovery_files:
  "cfg_SecretsFile recovery_config = ''''" "cfg_UsersFile recovery_config = ''''" "cfg_ServicesFile recovery_config = ''''"
  by (simp_all add: recovery_config_def zero_Config_def)

lemma recovery_env_simps [simp]:
  "en_codec (recovery_env u) = (tiny_codec u)\<lparr>dec_config := (\<lambda>_. (recovery_config, True))\<rparr>"
  "en_stamp (recovery_env u) = ''t''" "en_IDKey (recovery_env u) = en_IDKey sample_env" "en_salt (recovery_env u) = Some ''salt''"
  by (simp_all add: recovery_env_def sample_env_def)

lemma recovery_config_loads: "LoadConfigOnly (en_codec (recovery_env u)) env ''d'' recovery_fs = (recovery_config, None)"
  by (simp add: LoadConfigOnly_def ReadFile_def recovery_fs_def)

lemma recovery_update:
  assumes "HashPassword (en_IDKey sample_env) (Some ''salt'') ''pw'' = Some (Inr k)"
    and "u = \<lparr>usr_Email = ''a@x'', usr_Provider = ''local'', usr_PasswordHash = k, usr_TOTPSecret = [], usr_Admin = True, usr_Backends = []\<rparr>"
  shows "cli_update (recovery_env u) (admin_values ''a@x'' ''pw'') [] = Inr ([u], u)"
  using assms(1) by (simp add: cli_update_def cli_find_def cli_hash_def admin_values_def assms(2) cli_edit_def zero_User_def Let_def)

lemma recovery_start:
  assumes "HashPassword (en_IDKey sample_env) (Some ''salt'') ''pw'' = Some (Inr k)"
    and "u = \<lparr>usr_Email = ''a@x'', usr_Provider = ''local'', usr_PasswordHash = k, usr_TOTPSecret = [], usr_Admin = True, usr_Backends = []\<rparr>"
  obtains out f1 w msgs where "runUser env (recovery_env u) (admin_args ''d'' ''a@x'' ''pw'') recovery_fs = (Inr out, f1)"
    "boot env (recovery_env u) ''d'' True disk True f1 = Inr (w, msgs)"
proof -
  let ?e = "recovery_env u" and ?cd = "en_codec (recovery_env u)"
  obtain r f1 where s: "SaveUsers ?cd ''t'' ''d/users.json'' ''d/backups'' [u] recovery_fs = (r, f1)" by fastforce
  have ok: "faultless recovery_fs" by (simp add: faultless_def recovery_fs_def)
  have r: "r = None"
    using s by (simp add: SaveUsers_def faultless_write(5) [OF faultless_snapshot [OF ok]])
  have l: "LoadUsers ?cd (users_path ''d'' recovery_config) recovery_fs = Inr []"
    by (simp add: LoadUsers_def ReadFile_def recovery_fs_def)
  have "SaveUsers ?cd (en_stamp ?e) (users_path ''d'' recovery_config) (pathJoin [''d'', ''backups'']) [u] recovery_fs = (None, f1)"
    using s r by simp
  from cli_user_ok [OF recovery_config_loads l recovery_update [OF assms] this]
  obtain out where run: "runUser env ?e (admin_args ''d'' ''a@x'' ''pw'') recovery_fs = (Inr out, f1)"
    by (auto simp: runUser_admin admin_values_def)
  have c: "content f1 ''d/config.json'' = Some ''c''" "content f1 ''d/secrets.json'' = Some ''k''"
      "content f1 ''d/services.json'' = None" "content f1 ''d/users.json'' = Some ''1''" "fs_unreadable f1 = (\<lambda>_. False)"
    using SaveUsers_spares [OF s recovery_spared(2)] SaveUsers_spares [OF s recovery_spared(3)]
      SaveUsers_spares [OF s recovery_spared(4)] SaveUsers_content [OF s recovery_spared(1)] SaveUsers_readable [OF s] r
    by (simp_all add: recovery_fs_def)
  have k: "k \<noteq> ''''" using stored_parts [OF assms(1)] by auto
  let ?b = "\<lparr>bd_Config = recovery_config, bd_Secrets = zero_Secrets, bd_Users = [u], bd_Services = zero_Services\<rparr>"
  have "bundle_ok ?b"
    using k by (simp add: bundle_ok_def recovery_config_def zero_Config_def zero_Services_def server_ok_def provider_ok_def
        validTLSModes_def validStores_def service_ids_def user_ok_def assms(2))
  then have "Load ?cd env ''d'' f1 = Inr ?b"
    using c by (simp add: Load_def LoadConfigOnly_def decodeFile_def ReadFile_def resolve_def IsAbs_def servicesFileName_def
        recovery_files LoadServices_def expandEnv.simps Validate_bundle_ok [THEN iffD2] Let_def)
  then obtain w msgs where "boot env ?e ''d'' True disk True f1 = Inr (w, msgs)"
    by (simp add: boot_def Let_def case_prod_beta)
  with run that show ?thesis by blast
qed

lemma recovery_case:
  obtains e out f1 w msgs where "runUser Map.empty e (admin_args ''d'' ''a@x'' ''pw'') recovery_fs = (Inr out, f1)"
    "boot Map.empty e ''d'' True (\<lambda>_. None) True f1 = Inr (w, msgs)"
    "LoadConfigOnly (en_codec e) Map.empty ''d'' recovery_fs = (recovery_config, None)"
    "LoadUsers (en_codec e) (users_path ''d'' recovery_config) recovery_fs = Inr []" "recovery_place e ''d'' recovery_config"
    "\<forall>us1 v. cli_update e (admin_values ''a@x'' ''pw'') [] = Inr (us1, v) \<longrightarrow> reads_back (en_codec e) Map.empty us1"
    "\<forall>q s h. en_IDKey e q s argonTime argonMemory argonThreads argonKeyLen = Some h \<longrightarrow> length h = argonKeyLen"
    "en_newid e = Some ''sid''"
proof -
  obtain k where k: "HashPassword (en_IDKey sample_env) (Some ''salt'') ''pw'' = Some (Inr k)"
    by (simp add: HashPassword_def sample_env_def)
  let ?u = "\<lparr>usr_Email = ''a@x'', usr_Provider = ''local'', usr_PasswordHash = k, usr_TOTPSecret = [],
      usr_Admin = True, usr_Backends = []\<rparr>"
  let ?e = "recovery_env ?u"
  obtain out f1 w msgs where run: "runUser Map.empty ?e (admin_args ''d'' ''a@x'' ''pw'') recovery_fs = (Inr out, f1)"
    and start: "boot Map.empty ?e ''d'' True (\<lambda>_. None) True f1 = Inr (w, msgs)"
    by (rule recovery_start [OF k refl])
  have l: "LoadUsers (en_codec ?e) (users_path ''d'' recovery_config) recovery_fs = Inr []"
    by (simp add: LoadUsers_def ReadFile_def recovery_fs_def)
  have p: "recovery_place ?e ''d'' recovery_config"
    using recovery_spared by (simp add: recovery_place_def)
  have "reads_back (en_codec ?e) Map.empty [?u]" by (simp add: reads_back_def expandEnv.simps)
  then have r: "\<forall>us1 v. cli_update ?e (admin_values ''a@x'' ''pw'') [] = Inr (us1, v) \<longrightarrow> reads_back (en_codec ?e) Map.empty us1"
    unfolding recovery_update [OF k refl] by blast
  have len: "\<forall>q s h. en_IDKey ?e q s argonTime argonMemory argonThreads argonKeyLen = Some h \<longrightarrow> length h = argonKeyLen"
    by (auto simp: sample_env_def argonKeyLen_def)
  have "en_newid ?e = Some ''sid''" by (simp add: recovery_env_def sample_env_def)
  then show thesis by (rule that [OF run start recovery_config_loads l p r len])
qed

lemma recovery_works:
  obtains e out f1 w msgs where "runUser Map.empty e (admin_args ''d'' ''a@x'' ''pw'') recovery_fs = (Inr out, f1)"
    "boot Map.empty e ''d'' True (\<lambda>_. None) True f1 = Inr (w, msgs)"
    "Local_Authenticate (en_IDKey e) (sv_Users (wd_srv w)) ''a@x'' ''pw'' = Some (Inr \<lparr>idn_Email = ''a@x'', idn_Provider = ''local''\<rparr>)"
    "cfg_DisableTOTP (sv_Cfg (wd_srv w))" "en_newid e = Some ''sid''"
proof -
  obtain e out f1 w msgs where c: "runUser Map.empty e (admin_args ''d'' ''a@x'' ''pw'') recovery_fs = (Inr out, f1)"
    "boot Map.empty e ''d'' True (\<lambda>_. None) True f1 = Inr (w, msgs)"
    "LoadConfigOnly (en_codec e) Map.empty ''d'' recovery_fs = (recovery_config, None)"
    "LoadUsers (en_codec e) (users_path ''d'' recovery_config) recovery_fs = Inr []" "recovery_place e ''d'' recovery_config"
    "\<forall>us1 v. cli_update e (admin_values ''a@x'' ''pw'') [] = Inr (us1, v) \<longrightarrow> reads_back (en_codec e) Map.empty us1"
    "\<forall>q s h. en_IDKey e q s argonTime argonMemory argonThreads argonKeyLen = Some h \<longrightarrow> length h = argonKeyLen"
    "en_newid e = Some ''sid''"
    by (rule recovery_case)
  have em: "\<forall>x \<in> set []. usr_Email x = ''a@x'' \<longrightarrow> usr_Provider x = ''local''" "''pw'' \<noteq> ''''" by simp_all
  note auth = recovered_admin(1) [OF c(1,3,4) em c(5-7) c(2)]
  obtain b where b: "Load (en_codec e) Map.empty ''d'' f1 = Inr b" using boot_world [OF c(2)] by blast
  obtain u where "cli_update e (admin_values ''a@x'' ''pw'') [] = Inr (bd_Users b, u)" "bd_Config b = recovery_config"
    by (rule saved_directory [OF c(1) [unfolded runUser_admin] c(3,5) b c(4) c(6) [rule_format]])
  then have "cfg_DisableTOTP (sv_Cfg (wd_srv w))"
    by (simp add: boot_fields(2) [OF c(2) b] recovery_config_def zero_Config_def)
  from that [OF c(1,2) auth this c(8)] show thesis .
qed

subsection \<open>What the commands leave unchecked\<close>

lemma Load_valid: "Load cd env dir f = Inr b \<Longrightarrow> bundle_ok b"
  by (auto simp: Load_def Let_def Validate_bundle_ok split: prod.splits option.splits sum.splits)

text \<open>
  The command takes any provider: with one that config.json does not have, the gate does not
  start again.
\<close>

lemma unknown_provider_stops_start:
  assumes "cli_user env e dir fl f = (Inr out, f1)" "LoadConfigOnly (en_codec e) env dir f = (c, None)"
    and "recovery_place e dir c" "LoadUsers (en_codec e) (users_path dir c) f = Inr us"
    and "\<And>us1 u. cli_update e fl us = Inr (us1, u) \<Longrightarrow> reads_back (en_codec e) env us1"
    and "uf_provSet fl" "uf_provider fl \<notin> prv_ID ` set (cfg_Providers c)"
  shows "\<exists>err. boot env e dir audit_ok disk disk_ok f1 = Inl err"
proof (cases "Load (en_codec e) env dir f1")
  case (Inl err)
  then show ?thesis by (simp add: boot_def)
next
  case (Inr b)
  obtain u where u: "cli_update e fl us = Inr (bd_Users b, u)" "bd_Config b = c"
    by (rule saved_directory [OF assms(1-3) Inr assms(4,5)])
  have "usr_Provider u = uf_provider fl"
    using u(1) assms(6) by (auto simp: cli_update_def Let_def split: sum.splits)
  moreover have "u \<in> set (bd_Users b)"
    using cli_update_lookup(1) [OF u(1)] last_index_Some by (fastforce simp: Get_last split: option.splits)
  moreover have "\<forall>v \<in> set (bd_Users b). usr_Provider v \<in> prv_ID ` set (cfg_Providers c)"
    using Load_valid [OF Inr] u(2) by (simp add: bundle_ok_def user_ok_def)
  ultimately show ?thesis using assms(7) by force
qed

text \<open>
  The command looks for the id in services.json only: with one that config.json has, it reports
  success and the gate does not start again.
\<close>

lemma SaveServices_content:
  assumes "SaveServices cd stamp path dir svc f = (None, f')"
  shows "content f' path = Some (enc_services cd svc)"
    and "q \<noteq> path \<Longrightarrow> file_place ''services'' stamp q dir \<Longrightarrow> content f' q = content f q"
    and "fs_unreadable f' = fs_unreadable f"
proof -
  let ?g = "snapshotAndPrune stamp path dir ''services'' ''json'' f"
  have f': "f' = put path (enc_services cd svc) ?g"
    using assms by (auto simp: SaveServices_def writeJSONInPlace_def WriteFile_def split: wfault.splits)
  show "content f' path = Some (enc_services cd svc)" "fs_unreadable f' = fs_unreadable f" by (simp_all add: f')
  show "q \<noteq> path \<Longrightarrow> file_place ''services'' stamp q dir \<Longrightarrow> content f' q = content f q"
    using snapshot_outside [where src = path and f = f and p = q] by (simp add: f' file_place_def)
qed

lemma added_backend_stops_start:
  assumes "cli_add_backend env e dir fl f = (Inr out, f1)" "LoadConfigOnly (en_codec e) env dir f = (c, None)"
    and "file_place ''services'' (en_stamp e) (pathJoin [dir, ''config.json'']) (pathJoin [dir, ''backups''])"
    and "pathJoin [dir, ''config.json''] \<noteq> resolvePath dir (cfg_ServicesFile c) ''services.json''"
    and "\<forall>svc. dec_services (en_codec e) (enc_services (en_codec e) svc) = Some svc"
    and "bf_id fl \<in> be_ID ` set (cfg_Backends c)"
  shows "\<exists>err. boot env e dir audit_ok disk disk_ok f1 = Inl err"
proof (cases "Load (en_codec e) env dir f1")
  case (Inl err)
  then show ?thesis by (simp add: boot_def)
next
  case (Inr b)
  let ?p = "resolvePath dir (cfg_ServicesFile c) ''services.json''"
  obtain svc where s: "SaveServices (en_codec e) (en_stamp e) ?p (pathJoin [dir, ''backups''])
      (svc\<lparr>svc_Backends := svc_Backends svc @ [cli_backend fl]\<rparr>) f = (None, f1)"
    using assms(1,2)
    by (auto simp: cli_add_backend_def cli_services_def servicePaths_def split: if_splits sum.splits prod.splits option.splits)
  note sc = SaveServices_content [OF s]
  have "LoadConfigOnly (en_codec e) env dir f1 = (c, None)"
    using LoadConfigOnly_cong [OF sc(2) sc(3)] assms(2-4) by simp
  then have b: "bd_Config b = c" and "LoadServices (en_codec e) ?p f1 = Inr (bd_Services b)"
    using Inr by (auto simp: Load_def resolvePath_resolve servicesFileName_def Let_def split: sum.splits option.splits)
  then have "bd_Services b = svc\<lparr>svc_Backends := CanonicalizeRules (svc_Backends svc @ [cli_backend fl])\<rparr>"
    using sc(1) assms(5) by (auto simp: LoadServices_def ReadFile_def split: if_splits)
  then have "bf_id fl \<in> be_ID ` set (svc_Backends (bd_Services b))"
    by (simp add: CanonicalizeRules_def cli_backend_def)
  with assms(6) b have "\<not> distinct (service_ids b)" by (auto simp: service_ids_def)
  with Load_valid [OF Inr] show ?thesis by (simp add: bundle_ok_def)
qed

text \<open>
  C7: recovery from the command line.  After the command \<open>user --email --password --admin\<close> on a new
  or local user has reported success, the next start of the gate accepts the address with the
  password, and its record is an administrator's.
\<close>

theorem command_recovers_admin:
  assumes "runUser env e (admin_args dir em pw) f = (Inr out, f1)"
    and "LoadConfigOnly (en_codec e) env dir f = (c, None)" "LoadUsers (en_codec e) (users_path dir c) f = Inr us"
    and "\<forall>x \<in> set us. usr_Email x = em \<longrightarrow> usr_Provider x = ''local''"
    and "pw \<noteq> ''''" "recovery_place e dir c"
    and "\<forall>us1 u. cli_update e (admin_values em pw) us = Inr (us1, u) \<longrightarrow> reads_back (en_codec e) env us1"
    and "\<forall>p s k. en_IDKey e p s argonTime argonMemory argonThreads argonKeyLen = Some k \<longrightarrow> length k = argonKeyLen"
    and "boot env e dir audit_ok disk disk_ok f1 = Inr (w, msgs)"
  shows "Local_Authenticate (en_IDKey e) (sv_Users (wd_srv w)) em pw = Some (Inr \<lparr>idn_Email = em, idn_Provider = ''local''\<rparr>) \<and>
    (\<exists>u. Users.Get (sv_Users (wd_srv w)) em = Some u \<and> usr_Admin u)"
  using recovered_admin [OF assms] by blast

theorem command_recovers_admin_witness:
  "\<exists>e out f1 w msgs. runUser Map.empty e (admin_args ''d'' ''a@x'' ''pw'') recovery_fs = (Inr out, f1) \<and>
     boot Map.empty e ''d'' True (\<lambda>_. None) True f1 = Inr (w, msgs) \<and>
     Local_Authenticate (en_IDKey e) (sv_Users (wd_srv w)) ''a@x'' ''pw'' =
       Some (Inr \<lparr>idn_Email = ''a@x'', idn_Provider = ''local''\<rparr>)"
proof -
  obtain e out f1 w msgs where c: "runUser Map.empty e (admin_args ''d'' ''a@x'' ''pw'') recovery_fs = (Inr out, f1)"
    "boot Map.empty e ''d'' True (\<lambda>_. None) True f1 = Inr (w, msgs)"
    "LoadConfigOnly (en_codec e) Map.empty ''d'' recovery_fs = (recovery_config, None)"
    "LoadUsers (en_codec e) (users_path ''d'' recovery_config) recovery_fs = Inr []" "recovery_place e ''d'' recovery_config"
    "\<forall>us1 v. cli_update e (admin_values ''a@x'' ''pw'') [] = Inr (us1, v) \<longrightarrow> reads_back (en_codec e) Map.empty us1"
    "\<forall>q s h. en_IDKey e q s argonTime argonMemory argonThreads argonKeyLen = Some h \<longrightarrow> length h = argonKeyLen"
    "en_newid e = Some ''sid''"
    by (rule recovery_case)
  have em: "\<forall>x \<in> set []. usr_Email x = ''a@x'' \<longrightarrow> usr_Provider x = ''local''" "''pw'' \<noteq> ''''" by simp_all
  note command_recovers_admin [OF c(1,3,4) em c(5-7) c(2)]
  with c(1,2) show ?thesis by blast
qed


lemma local_login_opens:
  assumes "Local_Authenticate (en_IDKey e) (sv_Users (wd_srv w)) em pw = Some (Inr i)" "cfg_DisableTOTP (sv_Cfg (wd_srv w))"
    and "\<not> rq_badForm r" "PostFormValue r ''email'' = em" "PostFormValue r ''password'' = pw" "en_newid e = Some sid"
  obtains x where "ms_m (sv_Sessions (wd_srv (snd (serve LoginSubmitR e r w)))) sid = Some x" "s_TwoFADone x" "s_Email x = em"
proof -
  have "fst (create_session e w em ''local'') \<noteq> None"
    using assms(6) by (simp add: create_session_def Create_def Let_def)
  then obtain s w1 where c: "create_session e w em ''local'' = (Some s, w1)" by (metis eq_fst_iff not_None_eq)
  have s: "s_ID s = sid" "s_Email s = em" using create_session_entry [OF c] assms(6) by simp_all
  have w: "snd (serve LoginSubmitR e r w) = complete_session w1 sid"
    using assms s by (simp add: handleLoginSubmit_def Let_def c)
  have "ms_m (sv_Sessions (wd_srv w1)) sid = Some s" using create_session_map(1) [OF c] s by simp
  then show thesis using that s unfolding w by (simp add: complete_session_map)
qed

definition recovery_req :: Req where
  "recovery_req = sample_req\<lparr>rq_Post := (\<lambda>k. if k = ''email'' then [''a@x''] else if k = ''password'' then [''pw''] else [])\<rparr>"


text \<open>
  The flags of the certificate command end at its first operand.  So \<open>cert issue <host> --self-signed\<close>,
  the order its usage text gives, is the same as \<open>cert issue <host>\<close>: it asks the ACME directory
  for a certificate, and the internal CA is used only when the flag comes first.
\<close>

theorem self_signed_after_host:
  "runCert env e [''issue'', host, ''--self-signed''] f = runCert env e [''issue'', host] f \<and>
   runCert env e [''issue'', host] f = cli_cert env e ''.'' False [''issue'', host] f \<and>
   runCert env e [''--self-signed'', ''issue'', host] f = cli_cert env e ''.'' True [''issue'', host] f"
proof -
  have o: "operands (''issue'' # args)" for args by (simp add: operands_def flag_token_def)
  have a: "parseFlags cert_flags [] (''issue'' # args) = Inr ([], ''issue'' # args)" for args
    by (rule parseFlags_operands [OF o])
  have b: "parseFlags cert_flags [] [''--self-signed'', ''issue'', host] = Inr ([(''self-signed'', ''true'')], [''issue'', host])"
    using parseFlags_render [of cert_flags "[(''self-signed'', None)]" "[''issue'', host]" "[]"] o
    by (simp add: render_flag_def fits_flag_def cert_flags_def plain_name_def flag_value_def bool_text_def)
  have c: "cli_cert env e dir ss [''issue'', host, x] f = cli_cert env e dir ss [''issue'', host] f" for dir ss x
    by (cases "Load (en_codec e) env dir f") (simp_all add: cli_cert_def)
  show ?thesis
    by (simp add: runCert_def with_flags_def a b c flag_dir_def flag_text_def flag_bool_def bool_text_def del: parseFlags.simps)
qed

end
