(* ===== verification/AuditLog.thy ===== *)
theory AuditLog
  imports Login
begin

text \<open>
  audit/audit.go: the log of authentication failures that fail2ban reads, one line per failure.
  The world's log of theory Server holds the arguments of \<open>Fail\<close>; this theory gives the bytes the
  file gets, and what a reader of the file finds in it.
\<close>

subsection \<open>The time\<close>

text \<open>The calendar date of a day counted from 1970-01-01, in years that begin in March.\<close>

definition civil :: "int \<Rightarrow> int \<times> int \<times> int" where
  "civil days =
     (let z = days + 719468; era = z div 146097; doe = z mod 146097;
          yoe = (doe - doe div 1460 + doe div 36524 - doe div 146096) div 365;
          doy = doe - (365 * yoe + yoe div 4 - yoe div 100);
          mp = (5 * doy + 2) div 153;
          m = (if mp < 10 then mp + 3 else mp - 9)
      in (yoe + era * 400 + (if m \<le> 2 then 1 else 0), m, doy - (153 * mp + 2) div 5 + 1))"

definition padded :: "nat \<Rightarrow> int \<Rightarrow> string" where
  "padded n i = (let s = dec_str (nat i) in replicate (n - length s) CHR ''0'' @ s)"

text \<open>\<open>time.Now().UTC().Format(time.RFC3339)\<close>, for a clock in nanoseconds since 1970.\<close>

definition RFC3339 :: "int \<Rightarrow> string" where
  "RFC3339 now =
     (let t = now div 10 ^ 9; (y, m, d) = civil (t div 86400); s = t mod 86400
      in padded 4 y @ ''-'' @ padded 2 m @ ''-'' @ padded 2 d @ ''T'' @
         padded 2 (s div 3600) @ '':'' @ padded 2 (s div 60 mod 60) @ '':'' @ padded 2 (s mod 60) @ ''Z'')"

subsection \<open>The logger\<close>

text \<open>A logger is the path of its open file; \<open>None\<close> is the nil logger, which writes nothing.\<close>

definition audit_New :: "string \<Rightarrow> fs \<Rightarrow> string option \<times> fs" where
  "audit_New path f =
     (if path = '''' then (None, f)
      else if Dir path \<noteq> '''' \<and> fs_nodir f (Dir path) then (None, f)
      else if fs_wfault f path = WOpenFails then (None, f)
      else (Some path, if content f path = None then put path '''' f else f))"

definition audit_line :: "int \<Rightarrow> string \<Rightarrow> string \<Rightarrow> string \<Rightarrow> string" where
  "audit_line now i event detail =
     RFC3339 now @ '' xaltorka auth-fail ip='' @ (if i = '''' then ''-'' else i) @ '' event='' @ event @ '' '' @ detail @ [CHR 0x0A]"

text \<open>An append in one write; its error is dropped.\<close>

definition audit_Fail :: "int \<Rightarrow> string option \<Rightarrow> string \<Rightarrow> string \<Rightarrow> string \<Rightarrow> fs \<Rightarrow> fs" where
  "audit_Fail now l i event detail f =
     (case l of
        None \<Rightarrow> f
      | Some path \<Rightarrow>
          let old = (case content f path of Some b \<Rightarrow> b | None \<Rightarrow> ''''); line = audit_line now i event detail in
          (case fs_wfault f path of
             WOk \<Rightarrow> put path (old @ line) f
           | WOpenFails \<Rightarrow> f
           | WTorn t \<Rightarrow> put path (old @ take (length t) line) f))"

text \<open>The failures of a log in turn, each with the time of its write.\<close>

fun audit_all :: "string option \<Rightarrow> (int \<times> string \<times> string \<times> string) list \<Rightarrow> fs \<Rightarrow> fs" where
  "audit_all l [] f = f"
| "audit_all l ((now, i, event, detail) # es) f = audit_all l es (audit_Fail now l i event detail f)"

subsection \<open>What a reader finds\<close>

text \<open>The complete lines of a file, and the address that a line names.\<close>

definition log_lines :: "bytes \<Rightarrow> string list" where
  "log_lines b = butlast (Split b CHR 0x0A)"

definition line_host :: "string \<Rightarrow> string" where
  "line_host l = (let fs = Split l CHR '' '' in if 3 < length fs then TrimPrefix (fs ! 3) ''ip='' else '''')"

definition host_of :: "string \<Rightarrow> string" where
  "host_of i = (if i = '''' then ''-'' else i)"

lemma padded_chars: "set (padded n i) \<subseteq> {c. is_digit c}"
proof -
  have "is_digit CHR ''0''" by (simp add: is_digit_iff)
  then show ?thesis
    using dec_str_digits [of "nat i"] by (auto simp: padded_def Let_def list_all_iff)
qed

lemma not_digit_sep: "\<not> is_digit CHR '' ''" "\<not> is_digit CHR 0x0A"
  by (simp_all add: is_digit_iff)

lemma RFC3339_plain: "CHR '' '' \<notin> set (RFC3339 now)" "CHR 0x0A \<notin> set (RFC3339 now)"
  using padded_chars not_digit_sep by (force simp: RFC3339_def Let_def split: prod.splits)+

lemma audit_line_host:
  assumes "CHR '' '' \<notin> set i"
  shows "line_host (butlast (audit_line now i event detail)) = host_of i"
proof -
  have l: "butlast (audit_line now i event detail) =
      RFC3339 now @ CHR '' '' # ''xaltorka'' @ CHR '' '' # ''auth-fail'' @ CHR '' '' # (''ip='' @ host_of i) @ CHR '' '' # (''event='' @ event @ '' '' @ detail)"
    by (simp add: audit_line_def host_of_def butlast_append)
  have h: "CHR '' '' \<notin> set (''ip='' @ host_of i)" using assms by (simp add: host_of_def)
  have "Split (butlast (audit_line now i event detail)) CHR '' '' =
      [RFC3339 now, ''xaltorka'', ''auth-fail'', ''ip='' @ host_of i] @ Split (''event='' @ event @ '' '' @ detail) CHR '' ''"
    unfolding l Split_append_sep Split_id [OF RFC3339_plain(1)] Split_id [OF h] by simp
  then show ?thesis by (simp add: line_host_def TrimPrefix_def Let_def)
qed

lemma log_lines_append:
  assumes "CHR 0x0A \<notin> set l"
  shows "log_lines (l @ CHR 0x0A # b) = l # log_lines b"
  using Split_id [OF assms] by (simp add: log_lines_def Split_append_sep)

definition one_line :: "int \<times> string \<times> string \<times> string \<Rightarrow> bool" where
  "one_line en = (case en of (now, i, event, detail) \<Rightarrow>
     CHR '' '' \<notin> set i \<and> CHR 0x0A \<notin> set i \<and> CHR 0x0A \<notin> set event \<and> CHR 0x0A \<notin> set detail)"

lemma audit_line_split:
  assumes "one_line (now, i, event, detail)"
  shows "log_lines (audit_line now i event detail @ b) = butlast (audit_line now i event detail) # log_lines b"
proof -
  have "CHR 0x0A \<notin> set (butlast (audit_line now i event detail))"
    using assms RFC3339_plain by (auto simp: audit_line_def one_line_def butlast_append)
  moreover have "audit_line now i event detail = butlast (audit_line now i event detail) @ [CHR 0x0A]"
    by (simp add: audit_line_def butlast_append)
  ultimately show ?thesis using log_lines_append by (metis append.assoc append_Cons append_Nil)
qed

lemma audit_all_content:
  assumes "fs_wfault f p = WOk" "content f p = Some b"
  shows "content (audit_all (Some p) es f) p = Some (b @ concat (map (\<lambda>(now, i, event, detail). audit_line now i event detail) es))"
  using assms
proof (induction es arbitrary: f b)
  case (Cons en es)
  obtain now i event detail where en: "en = (now, i, event, detail)" by (cases en)
  let ?f = "audit_Fail now (Some p) i event detail f"
  have "fs_wfault ?f p = WOk" "content ?f p = Some (b @ audit_line now i event detail)"
    using Cons.prems by (simp_all add: audit_Fail_def Let_def)
  from Cons.IH [OF this] show ?case by (simp add: en)
qed simp

lemma log_lines_all:
  assumes "list_all one_line es"
  shows "map line_host (log_lines (concat (map (\<lambda>(now, i, event, detail). audit_line now i event detail) es))) =
    map (\<lambda>en. host_of (fst (snd en))) es"
  using assms
proof (induction es)
  case Nil
  then show ?case by (simp add: log_lines_def)
next
  case (Cons en es)
  obtain now i event detail where en: "en = (now, i, event, detail)" by (cases en)
  with Cons.prems have o: "one_line (now, i, event, detail)" "CHR '' '' \<notin> set i" by (simp_all add: one_line_def)
  from Cons show ?case by (simp add: en audit_line_split [OF o(1)] audit_line_host [OF o(2)])
qed

subsection \<open>Addresses\<close>

lemma Join_chars: "set (Join xs sep) \<subseteq> (\<Union>x \<in> set xs. set x) \<union> set sep"
  by (induction xs sep rule: Join.induct) auto

lemma hex_char_plain: "d < 16 \<Longrightarrow> hex_char d \<noteq> CHR '' '' \<and> hex_char d \<noteq> CHR 0x0A"
proof -
  assume "d < 16"
  then have "of_char (hex_char d) \<ge> (48 :: nat)" by (simp add: hex_char_def)
  then show ?thesis by auto
qed

lemma hex_str_plain: "CHR '' '' \<notin> set (hex_str n) \<and> CHR 0x0A \<notin> set (hex_str n)"
proof (induction n rule: hex_str.induct)
  case (1 n)
  show ?case using 1 hex_char_plain [of n] hex_char_plain [of "n mod 16"]
    by (cases "n < 16") (auto simp: hex_str.simps [of n])
qed

lemma dec_str_plain: "CHR '' '' \<notin> set (dec_str n) \<and> CHR 0x0A \<notin> set (dec_str n)"
  using dec_str_digits [of n] not_digit_sep by (auto simp: list_all_iff)

lemma IP_String_plain: "CHR '' '' \<notin> set (IP_String a) \<and> CHR 0x0A \<notin> set (IP_String a)"
proof -
  have "CHR '' '' \<notin> set (v4_String v) \<and> CHR 0x0A \<notin> set (v4_String v)" for v
    using Join_chars [of "map (\<lambda>b. dec_str (unat b)) v" "''.''"] dec_str_plain by (fastforce simp: v4_String_def)
  moreover have j: "CHR '' '' \<notin> set (Join (map hex_str gs) '':'') \<and> CHR 0x0A \<notin> set (Join (map hex_str gs) '':'')" for gs
    using Join_chars [of "map hex_str gs" "'':''"] hex_str_plain by fastforce
  then have "CHR '' '' \<notin> set (v6_String v) \<and> CHR 0x0A \<notin> set (v6_String v)" for v
    by (auto simp: v6_String_def Let_def split: option.splits)
  ultimately show ?thesis by (auto simp: IP_String_def split: option.splits)
qed

subsection \<open>The log of the gate\<close>

text \<open>The bytes of the log file after the failures of a world, written at the given times.\<close>

definition audit_file :: "int list \<Rightarrow> World \<Rightarrow> bytes" where
  "audit_file ts w = concat (map (\<lambda>(now, i, event, detail). audit_line now i event detail) (zip ts (wd_log w)))"



text \<open>
  The address posted with a failed login is written as it was sent.  With a line break in it, one
  failed login leaves two lines, the second of which names whatever address its sender likes.
\<close>

definition forged_email :: "string \<Rightarrow> string \<Rightarrow> string" where
  "forged_email ts victim = ''x'' @ [CHR 0x0A] @ ts @ '' xaltorka auth-fail ip='' @ victim @ '' event=login email=y''"

lemma login_failure_logged:
  assumes "Local_Authenticate (en_IDKey e) (sv_Users (wd_srv w)) em pw = Some (Inl ErrInvalidCredentials)" "sv_LDAP (wd_srv w) = []"
    and "\<not> rq_badForm r" "PostFormValue r ''email'' = em" "PostFormValue r ''password'' = pw"
    and "sv_Audit (wd_srv w)" "clientIP r (srv_TrustedProxies (cfg_Server (sv_Cfg (wd_srv w)))) = Some a"
  shows "wd_log (snd (handleLoginSubmit e r w)) = wd_log w @ [(IP_String a, ''login'', ''email='' @ em)]"
  using assms by (simp add: handleLoginSubmit_def auditFail_def Let_def)

lemma forged_line:
  assumes "Local_Authenticate (en_IDKey e) (sv_Users (wd_srv w)) (forged_email ts victim) pw = Some (Inl ErrInvalidCredentials)"
    and "sv_LDAP (wd_srv w) = []" "\<not> rq_badForm r" "PostFormValue r ''email'' = forged_email ts victim" "PostFormValue r ''password'' = pw"
    and "sv_Audit (wd_srv w)" "clientIP r (srv_TrustedProxies (cfg_Server (sv_Cfg (wd_srv w)))) = Some a" "wd_log w = []"
    and "CHR '' '' \<notin> set ts" "CHR 0x0A \<notin> set ts" "CHR '' '' \<notin> set victim" "CHR 0x0A \<notin> set victim"
  shows "map line_host (log_lines (audit_file [now] (snd (handleLoginSubmit e r w)))) = [host_of (IP_String a), victim]"
proof -
  let ?l2 = "ts @ '' xaltorka auth-fail ip='' @ victim @ '' event=login email=y''"
  have ip: "CHR '' '' \<notin> set (IP_String a)" "CHR 0x0A \<notin> set (IP_String a)" using IP_String_plain by auto
  have o: "one_line (now, IP_String a, ''login'', ''email=x'')" using ip by (simp add: one_line_def)
  have f: "audit_file [now] (snd (handleLoginSubmit e r w)) =
      audit_line now (IP_String a) ''login'' ''email=x'' @ ?l2 @ CHR 0x0A # ''''"
    by (simp add: audit_file_def login_failure_logged [OF assms(1-7)] assms(8) audit_line_def forged_email_def)
  have l2: "CHR 0x0A \<notin> set ?l2" using assms(10,12) by simp
  have v: "CHR '' '' \<notin> set (''ip='' @ victim)" using assms(11) by simp
  have s: "?l2 = ts @ CHR '' '' # ''xaltorka'' @ CHR '' '' # ''auth-fail'' @ CHR '' '' # (''ip='' @ victim) @ CHR '' '' # ''event=login email=y''"
    by simp
  have h: "line_host ?l2 = victim"
    unfolding line_host_def s Split_append_sep Split_id [OF assms(9)] Split_id [OF v]
    by (simp add: TrimPrefix_def Let_def)
  show ?thesis
    unfolding f audit_line_split [OF o] log_lines_append [OF l2]
    using audit_line_host [OF ip(1), of now "''login''" "''email=x''"] h by (simp add: log_lines_def)
qed

end
