(* ===== verification/Scan.thy ===== *)
theory Scan
  imports GoFmt
begin

text \<open>
  dockerscan/: the port scan of the Docker host (scan.go) and the list of running containers
  (client.go).  The goroutines of a scan are a step relation: the loop that starts them, held up by
  a semaphore of a hundred slots, and the steps of each goroutine.  What a dial answers and what the
  socket proxy answers are parameters.
\<close>

subsection \<open>The range\<close>

definition MaxScanPorts :: int where "MaxScanPorts = 2000"

definition ClampRange :: "int \<Rightarrow> int \<Rightarrow> int \<times> int \<times> bool" where
  "ClampRange from0 to0 =
     (let lo = (if from0 < 1 then 1 else from0);
          hi = (if to0 > 65535 then 65535 else to0)
      in if hi < lo then (lo, hi, False)
         else if hi - lo + 1 > MaxScanPorts then (lo, lo + MaxScanPorts - 1, True)
         else (lo, hi, False))"

subsection \<open>The goroutines\<close>

text \<open>
  A goroutine first dials (\<open>sn_dialling\<close>), appends its port under the lock when the dial succeeds,
  then gives its slot back (\<open>sn_closing\<close> holds one still) and at last leaves the wait group
  (\<open>sn_leaving\<close>): the deferred calls run in that order.
\<close>

record scan =
  sn_next :: int
  sn_dialling :: "int list"
  sn_closing :: nat
  sn_leaving :: nat
  sn_open :: "int list"

definition scan_slots :: nat where "scan_slots = 100"

definition slots_used :: "scan \<Rightarrow> nat" where
  "slots_used s = length (sn_dialling s) + sn_closing s"

definition scan_start :: "int \<Rightarrow> scan" where
  "scan_start lo = \<lparr>sn_next = lo, sn_dialling = [], sn_closing = 0, sn_leaving = 0, sn_open = []\<rparr>"

inductive scan_step :: "(int \<Rightarrow> bool) \<Rightarrow> int \<Rightarrow> scan \<Rightarrow> scan \<Rightarrow> bool" for dial hi where
  spawn: "sn_next s \<le> hi \<Longrightarrow> slots_used s < scan_slots \<Longrightarrow>
    scan_step dial hi s (s\<lparr>sn_next := sn_next s + 1, sn_dialling := sn_dialling s @ [sn_next s]\<rparr>)"
| dialled: "p \<in> set (sn_dialling s) \<Longrightarrow>
    scan_step dial hi s (s\<lparr>sn_dialling := remove1 p (sn_dialling s), sn_closing := sn_closing s + 1,
      sn_open := (if dial p then sn_open s @ [p] else sn_open s)\<rparr>)"
| release: "sn_closing s = Suc n \<Longrightarrow>
    scan_step dial hi s (s\<lparr>sn_closing := n, sn_leaving := sn_leaving s + 1\<rparr>)"
| done_step: "sn_leaving s = Suc n \<Longrightarrow> scan_step dial hi s (s\<lparr>sn_leaving := n\<rparr>)"

inductive scan_run :: "(int \<Rightarrow> bool) \<Rightarrow> int \<Rightarrow> int \<Rightarrow> scan \<Rightarrow> bool" for dial lo hi where
  start: "scan_run dial lo hi (scan_start lo)"
| step: "scan_run dial lo hi s \<Longrightarrow> scan_step dial hi s s' \<Longrightarrow> scan_run dial lo hi s'"

text \<open>\<open>wg.Wait\<close> returns after the loop when no goroutine is left.\<close>

definition scan_waited :: "int \<Rightarrow> scan \<Rightarrow> bool" where
  "scan_waited hi s \<longleftrightarrow> hi < sn_next s \<and> sn_dialling s = [] \<and> sn_closing s = 0 \<and> sn_leaving s = 0"

text \<open>
  \<open>ScanPorts\<close> returns \<open>ports\<close>: at once on an empty range, else sorted after some run of the
  goroutines that the wait group has waited for.
\<close>

inductive ScanPorts :: "(int \<Rightarrow> bool) \<Rightarrow> int \<Rightarrow> int \<Rightarrow> int list \<Rightarrow> bool" for dial from0 to0 where
  empty: "ClampRange from0 to0 = (lo, hi, capped) \<Longrightarrow> hi < lo \<Longrightarrow> ScanPorts dial from0 to0 []"
| scanned: "ClampRange from0 to0 = (lo, hi, capped) \<Longrightarrow> lo \<le> hi \<Longrightarrow> scan_run dial lo hi s \<Longrightarrow> scan_waited hi s \<Longrightarrow>
    ScanPorts dial from0 to0 (sort (sn_open s))"

text \<open>What it is to find, and what the pages that call it are given.\<close>

definition open_ports :: "(int \<Rightarrow> bool) \<Rightarrow> int \<Rightarrow> int \<Rightarrow> int list" where
  "open_ports dial from0 to0 = (let (lo, hi, _) = ClampRange from0 to0 in filter dial [lo..hi])"

inductive_cases ScanPortsE: "ScanPorts dial from0 to0 ps"

subsection \<open>The scan is correct and ends\<close>

text \<open>The invariant of the goroutines: every port before \<open>sn_next\<close> is being dialled or was, once.\<close>

definition scan_ok :: "(int \<Rightarrow> bool) \<Rightarrow> int \<Rightarrow> int \<Rightarrow> scan \<Rightarrow> bool" where
  "scan_ok dial lo hi s \<longleftrightarrow>
     slots_used s \<le> scan_slots \<and> lo \<le> sn_next s \<and> sn_next s \<le> max lo (hi + 1) \<and>
     (\<exists>shut. mset (sn_dialling s) + mset (sn_open s) + shut = mset [lo..sn_next s - 1] \<and>
        (\<forall>p \<in># shut. \<not> dial p)) \<and> (\<forall>p \<in> set (sn_open s). dial p)"

lemma upto_snoc: "lo \<le> n \<Longrightarrow> mset [lo..n] = add_mset n (mset [lo..n - 1])" for lo n :: int
  by (simp add: upto_rec2)

lemma remove1_Suc: "p \<in> set ps \<Longrightarrow> Suc (length (remove1 p ps)) = length ps"
  by (induction ps) auto

lemma scan_okI:
  assumes "slots_used s \<le> scan_slots" "lo \<le> sn_next s" "sn_next s \<le> max lo (hi + 1)"
    and "mset (sn_dialling s) + mset (sn_open s) + shut = mset [lo..sn_next s - 1]"
    and "\<forall>p \<in># shut. \<not> dial p" "\<forall>p \<in> set (sn_open s). dial p"
  shows "scan_ok dial lo hi s"
  unfolding scan_ok_def using assms by blast

lemma scan_ok_step:
  assumes st: "scan_step dial hi s s'" and ok: "scan_ok dial lo hi s"
  shows "scan_ok dial lo hi s'"
proof -
  obtain shut where b: "slots_used s \<le> scan_slots" "lo \<le> sn_next s" "sn_next s \<le> max lo (hi + 1)"
    and m: "mset (sn_dialling s) + mset (sn_open s) + shut = mset [lo..sn_next s - 1]"
    and sh: "\<forall>p \<in># shut. \<not> dial p" and op: "\<forall>p \<in> set (sn_open s). dial p"
    using ok unfolding scan_ok_def by blast
  from st show ?thesis
  proof cases
    case spawn
    have "mset [lo..sn_next s] = add_mset (sn_next s) (mset [lo..sn_next s - 1])"
      using b by (simp add: upto_snoc)
    with m spawn b sh op show ?thesis
      by (intro scan_okI [of _ lo hi shut]) (simp_all add: slots_used_def)
  next
    case (dialled p)
    have d: "mset (sn_dialling s) = add_mset p (mset (remove1 p (sn_dialling s)))"
      using dialled(2) by simp
    have len: "slots_used s' = slots_used s"
      unfolding dialled(1) slots_used_def using remove1_Suc [OF dialled(2)] by simp
    define shut' where "shut' = (if dial p then shut else add_mset p shut)"
    have "mset (sn_dialling s') + mset (sn_open s') + shut' = mset [lo..sn_next s' - 1]"
      using m unfolding dialled(1) shut'_def d by simp
    moreover have "\<forall>p \<in># shut'. \<not> dial p" "\<forall>p \<in> set (sn_open s'). dial p"
      using sh op unfolding dialled(1) shut'_def by simp_all
    moreover have "sn_next s' = sn_next s" unfolding dialled(1) by simp
    ultimately show ?thesis
      using b unfolding len [symmetric] by (intro scan_okI [of _ lo hi shut']) simp_all
  qed (use b m sh op in \<open>auto intro!: scan_okI [of _ lo hi shut] simp: slots_used_def\<close>)
qed

lemma scan_ok_run: "scan_run dial lo hi s \<Longrightarrow> scan_ok dial lo hi s"
proof (induction rule: scan_run.induct)
  case start
  then show ?case by (simp add: scan_ok_def scan_start_def slots_used_def)
qed (rule scan_ok_step)


text \<open>Every step brings the end nearer, and a scan that is not over can go on.\<close>

definition scan_left :: "int \<Rightarrow> scan \<Rightarrow> nat" where
  "scan_left hi s = 4 * nat (hi + 1 - sn_next s) + 3 * length (sn_dialling s) + 2 * sn_closing s + sn_leaving s"

lemma scan_step_left: "scan_step dial hi s s' \<Longrightarrow> scan_left hi s' < scan_left hi s"
proof (induction rule: scan_step.induct)
  case (dialled p s)
  then show ?case
    using remove1_Suc [OF dialled] by (simp add: scan_left_def)
qed (auto simp: scan_left_def)

lemma scan_wf: "wfp (\<lambda>s' s. scan_step dial hi s s')"
  by (rule wfp_if_convertible_to_nat [of _ "scan_left hi"]) (rule scan_step_left)

lemma scan_goes_on:
  assumes "\<not> scan_waited hi s"
  shows "\<exists>s'. scan_step dial hi s s'"
proof (cases "sn_dialling s")
  case (Cons p ps)
  then show ?thesis using scan_step.dialled [of p s dial hi] by auto
next
  case Nil
  consider n where "sn_closing s = Suc n" | n where "sn_leaving s = Suc n"
    | "sn_closing s = 0" "sn_leaving s = 0" by (metis not0_implies_Suc)
  then show ?thesis
  proof cases
    case 3
    with Nil assms have "sn_next s \<le> hi" "slots_used s < scan_slots"
      by (auto simp: scan_waited_def slots_used_def scan_slots_def)
    then show ?thesis by (blast intro: scan_step.spawn)
  qed (blast intro: scan_step.release scan_step.done_step)+
qed

lemma scan_finishes: "scan_run dial lo hi s \<Longrightarrow> \<exists>s'. scan_run dial lo hi s' \<and> scan_waited hi s'"
proof (induction s rule: wfp_induct_rule [OF scan_wf [of dial hi]])
  case (1 s)
  show ?case
  proof (cases "scan_waited hi s")
    case False
    then obtain s' where "scan_step dial hi s s'" using scan_goes_on by blast
    with 1 show ?thesis by (blast intro: scan_run.step)
  qed (use 1 in blast)
qed

lemma scan_returns: "\<exists>ps. ScanPorts dial from0 to0 ps"
proof -
  obtain lo hi capped where c: "ClampRange from0 to0 = (lo, hi, capped)" by (cases "ClampRange from0 to0")
  show ?thesis
  proof (cases "hi < lo")
    case False
    then have "lo \<le> hi" by simp
    with c scan_finishes [OF scan_run.start] show ?thesis by (blast intro: ScanPorts.scanned)
  qed (use c in \<open>blast intro: ScanPorts.empty\<close>)
qed

lemma scan_result:
  assumes "scan_run dial lo hi s" "scan_waited hi s" "lo \<le> hi"
  shows "sort (sn_open s) = filter dial [lo..hi]"
proof -
  obtain shut where m: "mset (sn_dialling s) + mset (sn_open s) + shut = mset [lo..sn_next s - 1]"
    and sh: "\<forall>p \<in># shut. \<not> dial p" and op: "\<forall>p \<in> set (sn_open s). dial p" and "sn_next s \<le> max lo (hi + 1)"
    using scan_ok_run [OF assms(1)] unfolding scan_ok_def by blast
  then have "sn_next s = hi + 1" using assms by (auto simp: scan_waited_def)
  with m assms have eq: "mset (sn_open s) + shut = mset [lo..hi]"
    by (simp add: scan_waited_def)
  have "filter_mset dial (mset (sn_open s)) = mset (sn_open s)" "filter_mset dial shut = {#}"
    using op sh by (auto simp: filter_mset_eq_conv)
  with arg_cong [OF eq, of "filter_mset dial"] have "mset (sn_open s) = mset (filter dial [lo..hi])"
    by (simp add: mset_filter)
  then show ?thesis
    by (intro properties_for_sort) (auto intro: sorted_wrt_filter)
qed

lemma ScanPorts_open: "ScanPorts dial from0 to0 ps \<Longrightarrow> ps = open_ports dial from0 to0"
  by (elim ScanPortsE) (auto simp: open_ports_def scan_result)

lemma ClampRange_cases:
  assumes "ClampRange from0 to0 = (lo, hi, capped)"
  shows "1 \<le> lo \<and> hi \<le> 65535 \<and> hi - lo < 2000 \<and> (capped \<or> lo = max 1 from0 \<and> hi = min 65535 to0)"
  using assms by (auto simp: ClampRange_def MaxScanPorts_def Let_def split: if_splits)


text \<open>
  C38: whatever order the goroutines run in, a scan returns in ascending order and once each exactly
  the ports of the clamped range that answered; that range lies within the valid ports and has at
  most 2000 of them, and when it is not reported as narrowed no valid port that was asked for is left
  out.
\<close>

theorem scan_finds:
  assumes "ScanPorts dial from0 to0 ps" and "ClampRange from0 to0 = (lo, hi, capped)"
  shows "sorted ps \<and> distinct ps \<and> set ps = {p. lo \<le> p \<and> p \<le> hi \<and> dial p} \<and>
    set ps \<subseteq> {1..65535} \<and> length ps \<le> 2000 \<and>
    (capped \<or> set ps = {p. max 1 from0 \<le> p \<and> p \<le> min 65535 to0 \<and> dial p})"
proof -
  have ps: "ps = filter dial [lo..hi]"
    using ScanPorts_open [OF assms(1)] assms(2) by (simp add: open_ports_def)
  have r: "1 \<le> lo" "hi \<le> 65535" "hi - lo < 2000" "capped \<or> lo = max 1 from0 \<and> hi = min 65535 to0"
    using ClampRange_cases [OF assms(2)] by auto
  have "length ps \<le> length [lo..hi]" unfolding ps by (rule length_filter_le)
  with r have "length ps \<le> 2000" by simp
  then show ?thesis
    using r by (auto simp: ps intro: sorted_wrt_filter)
qed

text \<open>A scan of three ports of which one answers, the goroutines finishing in the order they like.\<close>

lemma sample_scan: "\<exists>ps. ScanPorts (\<lambda>p. p = 81) 80 82 ps"
  by (rule scan_returns)

theorem scan_finds_witness: "\<exists>ps. ScanPorts (\<lambda>p. p = 81) 80 82 ps \<and> set ps = {81}"
proof -
  obtain ps where ps: "ScanPorts (\<lambda>p. p = 81) 80 82 ps" using sample_scan by blast
  moreover have "ClampRange 80 82 = (80, 82, False)" by (simp add: ClampRange_def MaxScanPorts_def)
  ultimately have "set ps = {p. 80 \<le> p \<and> p \<le> 82 \<and> p = 81}"
    using scan_finds [of "\<lambda>p. p = 81" 80 82 ps 80 82 False] by blast
  also have "\<dots> = {81}" by auto
  finally show ?thesis using ps by blast
qed

text \<open>
  C39: a scan ends: no schedule of its goroutines runs for ever, no reachable moment is stuck before
  the wait group is empty, at most a hundred dials are open at a time, and \<open>ScanPorts\<close> returns.
\<close>

theorem scan_ends:
  assumes "scan_run dial lo hi s"
  shows "wfp (\<lambda>s' s. scan_step dial hi s s') \<and> (scan_waited hi s \<or> (\<exists>s'. scan_step dial hi s s')) \<and>
    length (sn_dialling s) \<le> 100 \<and> (\<exists>ps. ScanPorts dial from0 to0 ps)"
proof -
  have "length (sn_dialling s) \<le> 100"
    using scan_ok_run [OF assms] by (auto simp: scan_ok_def slots_used_def scan_slots_def)
  with scan_wf scan_goes_on scan_returns show ?thesis by blast
qed

theorem scan_ends_witness: "\<exists>s'. scan_step (\<lambda>p. p = 81) 82 (scan_start 80) s'"
proof -
  have "\<not> scan_waited 82 (scan_start 80)" by (simp add: scan_waited_def scan_start_def)
  with scan_ends [OF scan_run.start [of "\<lambda>p. p = 81" 80 82], of 80 82] show ?thesis by blast
qed

text \<open>A request cut at a bound of the valid ports is not reported as narrowed.\<close>

lemma clamp_unreported: "ClampRange (- 5) 10 = (1, 10, False)" "ClampRange 65000 99999 = (65000, 65535, False)"
  by (simp_all add: ClampRange_def MaxScanPorts_def)

subsection \<open>Running containers\<close>

record Port =
  pt_PrivatePort :: int
  pt_PublicPort :: int
  pt_Type :: string

record Container =
  ct_Name :: string
  ct_Ports :: "Port list"

record apiContainer =
  ac_Names :: "string list"
  ac_State :: string
  ac_Ports :: "Port list"

text \<open>What a GET gives: no answer, or a status and what its body decodes to, if it does.\<close>

datatype docker_answer = NoAnswer | Answer int "apiContainer list option"

datatype list_error = RequestFailed | HttpStatus int | DecodeFailed

definition running :: "apiContainer list \<Rightarrow> Container list" where
  "running raw =
     map (\<lambda>c. \<lparr>ct_Name = (case ac_Names c of n # _ \<Rightarrow> TrimPrefix n ''/'' | [] \<Rightarrow> ''''), ct_Ports = ac_Ports c\<rparr>)
       (filter (\<lambda>c. ac_State c = ''running'') raw)"

definition ListContainers :: "(string \<Rightarrow> docker_answer) \<Rightarrow> string \<Rightarrow> list_error + Container list" where
  "ListContainers get baseURL =
     (case get (TrimRight baseURL CHR ''/'' @ ''/containers/json'') of
        NoAnswer \<Rightarrow> Inl RequestFailed
      | Answer status body \<Rightarrow>
          if status \<noteq> 200 then Inl (HttpStatus status)
          else (case body of None \<Rightarrow> Inl DecodeFailed | Some raw \<Rightarrow> Inr (running raw)))"

end
