(* ===== verification/I18n.thy ===== *)
theory I18n
  imports Server
begin

text \<open>
  i18n/i18n.go and \<open>LangFromRequest\<close> of xtkui: the catalogs of translations (embedded JSON files,
  the parameter \<open>cat\<close>), the lookup of a text with its fallbacks, and the choice of a language.
\<close>

type_synonym catalogs = "string \<Rightarrow> (string \<Rightarrow> string option) option"

definition Default :: string where "Default = ''en''"

text \<open>The languages offered, by code, with their own names.\<close>

definition Supported :: "(string \<times> string) list" where
  "Supported = [(''en'', ''English''),
     (''it'', ''Italiano''),
     (''fr'', ''Fran'' @ [CHR 0xC3, CHR 0xA7] @ ''ais''),
     (''es'', ''Espa'' @ [CHR 0xC3, CHR 0xB1] @ ''ol''),
     (''de'', ''Deutsch''),
     (''ru'', [CHR 0xD0, CHR 0xA0, CHR 0xD1, CHR 0x83, CHR 0xD1, CHR 0x81, CHR 0xD1, CHR 0x81, CHR 0xD0, CHR 0xBA, CHR 0xD0, CHR 0xB8, CHR 0xD0, CHR 0xB9]),
     (''pt'', ''Portugu'' @ [CHR 0xC3, CHR 0xAA] @ ''s''),
     (''zh'', [CHR 0xE4, CHR 0xB8, CHR 0xAD, CHR 0xE6, CHR 0x96, CHR 0x87]),
     (''hi'', [CHR 0xE0, CHR 0xA4, CHR 0xB9, CHR 0xE0, CHR 0xA4, CHR 0xBF, CHR 0xE0, CHR 0xA4, CHR 0xA8, CHR 0xE0, CHR 0xA5, CHR 0x8D, CHR 0xE0, CHR 0xA4, CHR 0xA6, CHR 0xE0, CHR 0xA5, CHR 0x80]),
     (''ar'', [CHR 0xD8, CHR 0xA7, CHR 0xD9, CHR 0x84, CHR 0xD8, CHR 0xB9, CHR 0xD8, CHR 0xB1, CHR 0xD8, CHR 0xA8, CHR 0xD9, CHR 0x8A, CHR 0xD8, CHR 0xA9])]"

definition IsSupported :: "catalogs \<Rightarrow> string \<Rightarrow> bool" where
  "IsSupported cat code \<longleftrightarrow> cat code \<noteq> None"

text \<open>The text of a catalog, when the catalog and the key exist and the text is not empty.\<close>

definition lookup_text :: "catalogs \<Rightarrow> string \<Rightarrow> string \<Rightarrow> string option" where
  "lookup_text cat lang key =
     (case cat lang of
        None \<Rightarrow> None
      | Some m \<Rightarrow> (case m key of None \<Rightarrow> None | Some v \<Rightarrow> if v = '''' then None else Some v))"

definition T :: "catalogs \<Rightarrow> string \<Rightarrow> string \<Rightarrow> string" where
  "T cat lang key =
     (case lookup_text cat lang key of
        Some v \<Rightarrow> v
      | None \<Rightarrow> (case lookup_text cat Default key of Some v \<Rightarrow> v | None \<Rightarrow> key))"

definition IsRTL :: "string \<Rightarrow> bool" where
  "IsRTL lang \<longleftrightarrow> lang = ''ar''"

definition cut_at :: "char \<Rightarrow> string \<Rightarrow> string" where
  "cut_at c s = (case IndexByte s c of Some i \<Rightarrow> take i s | None \<Rightarrow> s)"

text \<open>One entry of Accept-Language: without its parameters, in lower case, the primary tag.\<close>

definition primary_tag :: "string \<Rightarrow> string" where
  "primary_tag part = cut_at CHR ''-'' (ToLower (TrimSpace (cut_at CHR '';'' (TrimSpace part))))"

definition Match :: "catalogs \<Rightarrow> string \<Rightarrow> string \<Rightarrow> string" where
  "Match cat cookie acceptLang =
     (if cookie \<noteq> '''' \<and> IsSupported cat cookie then cookie
      else case find (IsSupported cat) (map primary_tag (Split acceptLang CHR '','')) of
             Some tag \<Rightarrow> tag
           | None \<Rightarrow> Default)"

definition LangCookie :: string where "LangCookie = ''xtk_lang''"

definition LangFromRequest :: "catalogs \<Rightarrow> Req \<Rightarrow> string" where
  "LangFromRequest cat r =
     Match cat (case rq_Cookie r LangCookie of Some c \<Rightarrow> c | None \<Rightarrow> '''') (rq_Header r ''Accept-Language'')"

lemma Match_known: "IsSupported cat (Match cat cookie hdr) \<or> Match cat cookie hdr = Default"
  by (auto simp: Match_def find_Some_iff split: option.split)

lemma Match_cookie: "IsSupported cat cookie \<Longrightarrow> cookie \<noteq> '''' \<Longrightarrow> Match cat cookie hdr = cookie"
  by (simp add: Match_def)

lemma T_nonempty: "key \<noteq> '''' \<Longrightarrow> T cat lang key \<noteq> ''''"
  by (auto simp: T_def lookup_text_def split: option.splits if_splits)

end
