(* ===== verification/Xtkui.thy ===== *)
theory Xtkui
  imports I18n
begin

text \<open>
  xtkui/xtkui.go: the frame of every page (head, top bar, tabs, language menu) as the text that is
  written, and the escaping of what is put into it.  A page's own template is a parameter.
\<close>

subsection \<open>Escaping\<close>

text \<open>\<open>template.HTMLEscapeString\<close>.\<close>

definition escape_char :: "char \<Rightarrow> string" where
  "escape_char c =
     (if c = CHR 0x00 then [CHR 0xEF, CHR 0xBF, CHR 0xBD]
      else if c = CHR 0x22 then ''&#34;''
      else if c = CHR 0x27 then ''&#39;''
      else if c = CHR ''&'' then ''&amp;''
      else if c = CHR ''<'' then ''&lt;''
      else if c = CHR ''>'' then ''&gt;''
      else [c])"

definition HTMLEscapeString :: "string \<Rightarrow> string" where
  "HTMLEscapeString s = concat (map escape_char s)"

subsection \<open>The language menu and the icons\<close>

definition globeSVG :: string where
  "globeSVG =
     ''<svg viewBox=\"0 0 24 24\" width=\"18\" height=\"18\" fill=\"none\" stroke=\"currentColor\" stroke-w'' @
     ''idth=\"1.7\" stroke-linecap=\"round\" stroke-linejoin=\"round\" aria-hidden=\"true\"><circle cx=\"1'' @
     ''2\" cy=\"12\" r=\"9\"/><path d=\"M3 12h18\"/><path d=\"M12 3c2.6 2.6 2.6 15.4 0 18M12 3c-2.6 2.6-2'' @
     ''.6 15.4 0 18\"/></svg>''"

definition userSVG :: string where
  "userSVG =
     ''<svg viewBox=\"0 0 24 24\" width=\"18\" height=\"18\" fill=\"none\" stroke=\"currentColor\" stroke-w'' @
     ''idth=\"1.7\" stroke-linecap=\"round\" stroke-linejoin=\"round\" aria-hidden=\"true\"><circle cx=\"1'' @
     ''2\" cy=\"8\" r=\"3.3\"/><path d=\"M5.5 20c1-3.7 12-3.7 13 0\"/></svg>''"

definition logoutSVG :: string where
  "logoutSVG =
     ''<svg viewBox=\"0 0 24 24\" width=\"18\" height=\"18\" fill=\"none\" stroke=\"currentColor\" stroke-w'' @
     ''idth=\"1.7\" stroke-linecap=\"round\" stroke-linejoin=\"round\" aria-hidden=\"true\"><path d=\"M15 '' @
     ''4h3a1 1 0 0 1 1 1v14a1 1 0 0 1-1 1h-3\"/><path d=\"M10 8l-4 4 4 4\"/><path d=\"M6 12h9\"/></svg'' @
     ''>''"

definition class_if :: "bool \<Rightarrow> string \<Rightarrow> string" where
  "class_if b cls = (if b then '' class=\"'' @ cls @ ''\"'' else '''')"

definition langPopup :: "catalogs \<Rightarrow> string \<Rightarrow> string" where
  "langPopup cat lang =
     ''<details class=\"langpop\"><summary class=\"iconbtn\" title=\"'' @ HTMLEscapeString (T cat lang ''lang.label'') @
     ''\">'' @ globeSVG @ ''<span class=\"lc\">'' @ ToUpper (HTMLEscapeString lang) @ ''</span></summary><div class=\"menu\">'' @
     concat (map (\<lambda>(code, name). ''<a href=\"/lang/'' @ HTMLEscapeString code @ ''\"'' @ class_if (code = lang) ''on'' @ ''>'' @
       HTMLEscapeString name @ ''</a>'') Supported) @
     ''</div></details>''"

definition IconCluster :: "catalogs \<Rightarrow> string \<Rightarrow> bool \<Rightarrow> string" where
  "IconCluster cat lang loggedIn =
     ''<div class=\"cluster\">'' @ langPopup cat lang @
     (if loggedIn
      then let p = HTMLEscapeString (T cat lang ''nav.profile''); lo = HTMLEscapeString (T cat lang ''btn.logout'') in
        ''<a class=\"iconbtn\" href=\"/profilo\" title=\"'' @ p @ ''\" aria-label=\"'' @ p @ ''\">'' @ userSVG @ ''</a>'' @
        ''<form class=\"inline\" method=\"post\" action=\"/logout\"><button class=\"iconbtn\" title=\"'' @ lo @
        ''\" aria-label=\"'' @ lo @ ''\">'' @ logoutSVG @ ''</button></form>''
      else '''') @
     ''</div>''"

definition LangCorner :: "catalogs \<Rightarrow> string \<Rightarrow> string" where
  "LangCorner cat lang = ''<div class=\"corner\">'' @ langPopup cat lang @ ''</div>''"

definition ruleOptions :: "string \<Rightarrow> string" where
  "ruleOptions selected =
     concat (map (\<lambda>r. ''<option'' @ (if r = selected then '' selected'' else '''') @ ''>'' @ r @ ''</option>'')
       [''public'', ''authenticated'', ''authorized''])"

subsection \<open>The frame\<close>

record NavItem =
  ni_Key :: string
  ni_Href :: string
  ni_LabelKey :: string

definition AdminNav :: "bool \<Rightarrow> NavItem list" where
  "AdminNav withHosting =
     [\<lparr>ni_Key = ''servizi'', ni_Href = ''/admin/servizi'', ni_LabelKey = ''admin.services''\<rparr>,
      \<lparr>ni_Key = ''utenti'', ni_Href = ''/admin/utenti'', ni_LabelKey = ''admin.users''\<rparr>,
      \<lparr>ni_Key = ''monitoring'', ni_Href = ''/admin/monitoring'', ni_LabelKey = ''admin.monitoring''\<rparr>] @
     (if withHosting then [\<lparr>ni_Key = ''hosting'', ni_Href = ''/admin/hosting'', ni_LabelKey = ''admin.hosting''\<rparr>] else []) @
     [\<lparr>ni_Key = ''docker'', ni_Href = ''/admin/docker'', ni_LabelKey = ''admin.docker''\<rparr>]"

definition SubtabBar :: "catalogs \<Rightarrow> string \<Rightarrow> NavItem list \<Rightarrow> string \<Rightarrow> string" where
  "SubtabBar cat active items lang =
     ''<nav class=\"subtabs\">'' @
     concat (map (\<lambda>it. ''<a href=\"'' @ HTMLEscapeString (ni_Href it) @ ''\"'' @ class_if (ni_Key it = active) ''active'' @ ''>'' @
       HTMLEscapeString (T cat lang (ni_LabelKey it)) @ ''</a>'') items) @
     ''</nav>''"

record Chrome =
  ch_Title :: string
  ch_BrandText :: string
  ch_BrandHref :: string
  ch_SubtitleKey :: string
  ch_Version :: string
  ch_Nav :: "NavItem list"
  ch_Active :: string
  ch_Subtabs :: string
  ch_DashboardHref :: string
  ch_DashboardKey :: string
  ch_LoggedIn :: bool

definition topnav :: "catalogs \<Rightarrow> Chrome \<Rightarrow> string \<Rightarrow> string" where
  "topnav cat c lang =
     concat (map (\<lambda>it. ''<a href=\"'' @ ni_Href it @ ''\"'' @ class_if (ni_Key it = ch_Active c) ''active'' @ ''>'' @
       HTMLEscapeString (T cat lang (ni_LabelKey it)) @ ''</a>'') (ch_Nav c))"

definition subver :: "catalogs \<Rightarrow> Chrome \<Rightarrow> string \<Rightarrow> string" where
  "subver cat c lang =
     (if ch_SubtitleKey c \<noteq> '''' \<or> ch_Version c \<noteq> ''''
      then ''<span class=\"subver\">'' @
        (if ch_SubtitleKey c \<noteq> ''''
         then ''<span class=\"sub\">'' @ HTMLEscapeString (T cat lang (ch_SubtitleKey c)) @ ''</span>'' else '''') @
        (if ch_Version c \<noteq> '''' then ''<span class=\"ver\">'' @ HTMLEscapeString (ch_Version c) @ ''</span>'' else '''') @
        ''</span>''
      else '''')"

definition Topbar :: "catalogs \<Rightarrow> Chrome \<Rightarrow> string \<Rightarrow> string" where
  "Topbar cat c lang =
     ''<header class=\"topbar\"><div class=\"brand\"><a href=\"'' @ HTMLEscapeString (ch_BrandHref c) @
     ''\" style=\"color:inherit;text-decoration:none\">'' @ HTMLEscapeString (ch_BrandText c) @ ''</a>'' @
     subver cat c lang @ ''</div><nav class=\"topnav\">'' @ topnav cat c lang @
     (if ch_DashboardHref c \<noteq> ''''
      then ''<a href=\"'' @ HTMLEscapeString (ch_DashboardHref c) @ ''\">'' @ HTMLEscapeString (T cat lang (ch_DashboardKey c)) @ ''</a>''
      else '''') @
     IconCluster cat lang (ch_LoggedIn c) @ ''</nav></header>''"

text \<open>\<open>content\<close> is the page's template, executed with the helpers of the language.\<close>

definition page_head :: "Chrome \<Rightarrow> string \<Rightarrow> string" where
  "page_head c lang =
     ''<!doctype html><html lang=\"'' @ lang @ ''\"'' @ (if IsRTL lang then '' dir=\"rtl\"'' else '''') @
     ''><head><meta charset=\"utf-8\"><meta name=\"viewport\" content=\"width=device-width,initial-scale=1\"><title>'' @
     HTMLEscapeString (if ch_Title c = '''' then ''Xal-Tor-Ka'' else ch_Title c) @
     ''</title><link rel=\"stylesheet\" href=\"/_xtk/assets/admin.css\"><script src=\"/_xtk/assets/admin.js\" defer></script></head><body>''"

definition Render :: "catalogs \<Rightarrow> (string \<Rightarrow> string) \<Rightarrow> Chrome \<Rightarrow> string \<Rightarrow> string" where
  "Render cat template c lang =
     page_head c lang @ Topbar cat c lang @ ''<main class=\"container\">'' @ ch_Subtabs c @ template lang @ ''</main></body></html>''"

text \<open>\<open>renderAdminPage\<close> of handlers/admin.go: the second-level pages mark their parent in the top bar.\<close>

definition admin_subtabs :: "catalogs \<Rightarrow> string \<Rightarrow> string \<Rightarrow> string \<times> string" where
  "admin_subtabs cat active lang =
     (if active \<in> {''servizi'', ''tls''}
      then (''servizi'', SubtabBar cat active
        [\<lparr>ni_Key = ''servizi'', ni_Href = ''/admin/servizi'', ni_LabelKey = ''admin.services''\<rparr>,
         \<lparr>ni_Key = ''tls'', ni_Href = ''/admin/tls'', ni_LabelKey = ''admin.tls''\<rparr>] lang)
      else if active \<in> {''utenti'', ''providers''}
      then (''utenti'', SubtabBar cat active
        [\<lparr>ni_Key = ''utenti'', ni_Href = ''/admin/utenti'', ni_LabelKey = ''admin.users''\<rparr>,
         \<lparr>ni_Key = ''providers'', ni_Href = ''/admin/providers'', ni_LabelKey = ''admin.providers''\<rparr>] lang)
      else (active, ''''))"

definition admin_chrome :: "catalogs \<Rightarrow> string \<Rightarrow> Server \<Rightarrow> string \<Rightarrow> string \<Rightarrow> Chrome" where
  "admin_chrome cat version s active lang =
     (let (topActive, subtabs) = admin_subtabs cat active lang in
      \<lparr>ch_Title = ''Xal-Tor-Ka '' @ [CHR 0xC2, CHR 0xB7] @ '' Admin'',
       ch_BrandText = [CHR 0xE2, CHR 0x9B, CHR 0xAC] @ '' Xal-Tor-Ka'', ch_BrandHref = ''/admin'',
       ch_SubtitleKey = ''admin.subtitle'', ch_Version = version, ch_Nav = AdminNav (sv_HostingUpstream s \<noteq> ''''),
       ch_Active = topActive, ch_Subtabs = subtabs, ch_DashboardHref = ''/listing'', ch_DashboardKey = ''nav.dashboard'',
       ch_LoggedIn = True\<rparr>)"

definition renderAdminPage :: "catalogs \<Rightarrow> string \<Rightarrow> (string \<Rightarrow> string) \<Rightarrow> Server \<Rightarrow> Req \<Rightarrow> string \<Rightarrow> string" where
  "renderAdminPage cat version template s r active =
     (let lang = LangFromRequest cat r in Render cat template (admin_chrome cat version s active lang) lang)"

subsection \<open>What a text can do to the page\<close>

text \<open>The characters that make markup or end an attribute.\<close>

definition markup :: "string \<Rightarrow> string" where
  "markup s = filter (\<lambda>c. c \<in> {CHR ''<'', CHR ''>'', CHR 0x22, CHR 0x27}) s"

lemma markup_append [simp]: "markup (a @ b) = markup a @ markup b"
  by (simp add: markup_def)

lemma markup_concat: "markup (concat xs) = concat (map markup xs)"
  by (induction xs) (simp_all add: markup_def)

lemma markup_char: "markup (escape_char c) = ''''"
  unfolding escape_char_def if_distrib [of markup] by (simp add: markup_def)

lemma markup_escape [simp]: "markup (HTMLEscapeString s) = ''''"
  by (simp add: HTMLEscapeString_def markup_concat markup_char comp_def)

lemma brand_fields:
  "ch_Active (c\<lparr>ch_BrandText := t\<rparr>) = ch_Active c" "ch_Nav (c\<lparr>ch_BrandText := t\<rparr>) = ch_Nav c"
  "ch_SubtitleKey (c\<lparr>ch_BrandText := t\<rparr>) = ch_SubtitleKey c" "ch_Version (c\<lparr>ch_BrandText := t\<rparr>) = ch_Version c"
  "ch_DashboardHref (c\<lparr>ch_BrandText := t\<rparr>) = ch_DashboardHref c" "ch_LoggedIn (c\<lparr>ch_BrandText := t\<rparr>) = ch_LoggedIn c"
  by simp_all

text \<open>The markup of the frame for given texts is that for any others.\<close>

lemma markup_langPopup: "markup (langPopup cat lang) = markup (langPopup cat' lang)"
  by (simp only: langPopup_def markup_append markup_escape)

lemma markup_IconCluster: "markup (IconCluster cat lang b) = markup (IconCluster cat' lang b)"
  by (cases b) (simp_all only: IconCluster_def Let_def if_True if_False markup_append markup_escape markup_langPopup [of cat lang cat'])

lemma markup_nav:
  "markup (topnav cat c lang) = markup (topnav cat' (c\<lparr>ch_BrandText := t\<rparr>) lang)"
  "markup (SubtabBar cat active items lang) = markup (SubtabBar cat' active items lang)"
  "markup (subver cat c lang) = markup (subver cat' (c\<lparr>ch_BrandText := t\<rparr>) lang)"
  by (simp_all only: topnav_def SubtabBar_def subver_def markup_concat map_map comp_def markup_append markup_escape
      brand_fields if_distrib [of markup])

lemma markup_Topbar: "markup (Topbar cat c lang) = markup (Topbar cat' (c\<lparr>ch_BrandText := t\<rparr>) lang)"
  by (simp only: Topbar_def markup_append markup_escape if_distrib [of markup] brand_fields
      markup_nav(1) [of cat c lang cat' t] markup_nav(3) [of cat c lang cat' t] markup_IconCluster [of cat lang _ cat'])

lemma markup_page_head: "markup (page_head (c\<lparr>ch_Title := t\<rparr>) lang) = markup (page_head c lang)"
  by (simp only: page_head_def markup_append markup_escape)


end
