(* ===== verification/AdminPages.thy ===== *)
theory AdminPages
  imports ProviderAdmin HealthCheck Scan Xtkui
begin

text \<open>
  The pages of handlers/admin.go and handlers/providers.go that only show: each is the admin gate,
  a reading of the state, and the data handed to its template.  A page is answered with the tab it
  belongs to and its data; \<open>page_text\<close> puts it into the frame.  Then what a browser posts from an
  untouched edit page, by the form of legacyhtml/admin_tmpl.go.
\<close>

subsection \<open>What the pages show\<close>

record overview =
  ov_Services :: nat
  ov_Links :: nat
  ov_Users :: nat
  ov_ConfigBackends :: nat
  ov_Up :: nat
  ov_Down :: nat
  ov_AdminIPsSource :: string
  ov_ClientIP :: string
  ov_AdminIPsRaw :: string

record portRow =
  pr_Host :: string
  pr_Port :: int
  pr_Rule :: string
  pr_Disabled :: bool

record discoveredRow =
  dr_Name :: string
  dr_Port :: int
  dr_Host :: string
  dr_Added :: bool

record hostPortRow =
  hp_Port :: int
  hp_Added :: bool
  hp_ExistingHost :: string

record adminUserRow =
  ur_Email :: string
  ur_Provider :: string
  ur_Admin :: bool
  ur_Hosts :: "string list"

record authzItem =
  ai_ID :: string
  ai_Label :: string

record authzNode =
  an_Site :: string
  an_Items :: "authzItem list"

record routeView =
  rv_Path :: string
  rv_Exact :: bool
  rv_Rule :: string
  rv_OwnGrants :: bool
  rv_Users :: string

record wafView =
  wv_Enabled :: bool
  wv_Mode :: string
  wv_DisabledRules :: string
  wv_IgnoreIPs :: string
  wv_CustomRules :: string

record editPage =
  ep_ID :: string
  ep_Name :: string
  ep_Description :: string
  ep_Host :: string
  ep_URL :: string
  ep_Path :: string
  ep_Rule :: string
  ep_Upstream :: string
  ep_IPAllow :: string
  ep_Image :: string
  ep_Nginx :: NginxOpts
  ep_WWW :: bool
  ep_Managed :: bool
  ep_Unlisted :: bool
  ep_Overrides :: "routeView list"
  ep_Waf :: wafView
  ep_Users :: "(string \<times> bool \<times> bool) list"

record provRow =
  vr_ID :: string
  vr_Name :: string
  vr_Type :: string
  vr_Issuer :: string
  vr_Enabled :: bool
  vr_Editable :: bool
  vr_SecretSet :: bool
  vr_Redirect :: string

record provEditData =
  pe_ID :: string
  pe_Name :: string
  pe_Issuer :: string
  pe_ClientID :: string
  pe_Redirect :: string
  pe_Enabled :: bool
  pe_SecretSet :: bool

datatype page_view =
    OverviewPage overview
  | ServicesPage "Backend list" "svcGroup list" "Link list" bool
  | DockerPage bool "discoveredRow list" "portRow list"
  | UsersPage "adminUserRow list" "authzNode list"
  | UserDetailPage string string bool "authzNode list" "string \<Rightarrow> bool"
  | MonitoringPage "Status list" "Monitor list"
  | HostScanPage int int bool "hostPortRow list"
  | BackendEditPage editPage
  | ProvidersPage "provRow list" bool string bool
  | ProviderEditPage provEditData

text \<open>An answer is a response, or a page in one of the tabs.\<close>

type_synonym page_answer = "Resp + (string \<times> page_view)"

text \<open>
  What the pages are given beside the environment: the health checker if one runs, the answers of
  the Docker proxy, the ports of the host that accept a connection, and what is left of a services
  or secrets file that cannot be parsed (the pages go on with it).
\<close>

record PageEnv =
  pg_Health :: "Checker option"
  pg_Docker :: "string \<Rightarrow> docker_answer"
  pg_dial :: "int \<Rightarrow> bool"
  pg_services_left :: "bytes \<Rightarrow> Services"
  pg_secrets_left :: "bytes \<Rightarrow> Secrets"

definition page_services :: "PageEnv \<Rightarrow> Env \<Rightarrow> World \<Rightarrow> Services" where
  "page_services p e w =
     (case LoadServices (en_codec e) (sv_ServicesPath (wd_srv w)) (wd_fs w) of
        Inr svc \<Rightarrow> svc
      | Inl _ \<Rightarrow> (case ReadFile (wd_fs w) (sv_ServicesPath (wd_srv w)) of
                    Inl _ \<Rightarrow> zero_Services | Inr raw \<Rightarrow> pg_services_left p raw))"

definition page_secrets :: "PageEnv \<Rightarrow> Env \<Rightarrow> World \<Rightarrow> Secrets" where
  "page_secrets p e w =
     (case LoadSecretsRaw (en_codec e) (sv_SecretsPath (wd_srv w)) (wd_fs w) of
        Inr sec \<Rightarrow> sec
      | Inl _ \<Rightarrow> (case ReadFile (wd_fs w) (sv_SecretsPath (wd_srv w)) of
                    Inl _ \<Rightarrow> zero_Secrets | Inr raw \<Rightarrow> pg_secrets_left p raw))"

text \<open>A page behind the admin gate.\<close>

definition admin_page :: "Env \<Rightarrow> Req \<Rightarrow> (World \<Rightarrow> page_answer) \<Rightarrow> World \<Rightarrow> page_answer \<times> World" where
  "admin_page e r page w =
     (case adminGuard e r w of
        (Some rp, w1) \<Rightarrow> (Inl rp, w1)
      | (None, w1) \<Rightarrow> (page w1, w1))"

text \<open>The text that is written, for templates given as functions of their data.\<close>

definition page_text :: "catalogs \<Rightarrow> string \<Rightarrow> (page_view \<Rightarrow> string \<Rightarrow> string) \<Rightarrow> Server \<Rightarrow> Req \<Rightarrow> string \<times> page_view \<Rightarrow> string" where
  "page_text cat version template s r v = renderAdminPage cat version (template (snd v)) s r (fst v)"

subsection \<open>Overview, services, monitoring\<close>

definition handleAdmin :: "PageEnv \<Rightarrow> Env \<Rightarrow> Req \<Rightarrow> World \<Rightarrow> page_answer \<times> World" where
  "handleAdmin p e r = admin_page e r (\<lambda>w.
     let s = wd_srv w; svc = page_services p e w;
         sts = (case pg_Health p of None \<Rightarrow> [] | Some c \<Rightarrow> Snapshot c);
         up = length (filter (\<lambda>st. st_State st = StateUp) sts)
     in Inr ('''', OverviewPage
       \<lparr>ov_Services = length (svc_Backends svc), ov_Links = length (svc_Links svc), ov_Users = Count (sv_Users s),
        ov_ConfigBackends = length (sv_BaseBackends s), ov_Up = up, ov_Down = length sts - up,
        ov_AdminIPsSource = (if svc_AdminIPWhitelist svc \<noteq> [] then ''services.json (override runtime)''
                             else ''config.json / ADMIN_CIDR''),
        ov_ClientIP = (case clientIP r (srv_TrustedProxies (cfg_Server (sv_Cfg s))) of
                         Some a \<Rightarrow> IP_String a | None \<Rightarrow> ''''),
        ov_AdminIPsRaw = Join (effectiveAdminIPs s) '' ''\<rparr>))"

definition handleAdminServices :: "PageEnv \<Rightarrow> Env \<Rightarrow> Req \<Rightarrow> World \<Rightarrow> page_answer \<times> World" where
  "handleAdminServices p e r = admin_page e r (\<lambda>w.
     let svc = page_services p e w in
     Inr (''servizi'', ServicesPage (sv_BaseBackends (wd_srv w)) (groupServiceBackends (svc_Backends svc)) (svc_Links svc)
       (sv_HostingUpstream (wd_srv w) \<noteq> '''')))"

definition handleAdminMonitoring :: "PageEnv \<Rightarrow> Env \<Rightarrow> Req \<Rightarrow> World \<Rightarrow> page_answer \<times> World" where
  "handleAdminMonitoring p e r = admin_page e r (\<lambda>w.
     Inr (''monitoring'', MonitoringPage
       (case pg_Health p of None \<Rightarrow> [] | Some c \<Rightarrow> sort_key st_BackendID (Snapshot c))
       (svc_Monitors (page_services p e w))))"


subsection \<open>Docker and the ports of the host\<close>

text \<open>The loop over the published ports of a container: a vhost is proposed once.\<close>

fun discover_ports :: "(string \<Rightarrow> bool) \<Rightarrow> string \<Rightarrow> Port list \<Rightarrow> string list \<times> discoveredRow list
    \<Rightarrow> string list \<times> discoveredRow list" where
  "discover_ports existing name [] acc = acc"
| "discover_ports existing name (pt # pts) (seen, out) =
     (if pt_Type pt \<noteq> ''tcp'' \<or> pt_PublicPort pt = 0 then discover_ports existing name pts (seen, out)
      else
        let host = name @ ''.localhost''; key = host @ '':'' @ Itoa (pt_PublicPort pt) in
        if key \<in> set seen then discover_ports existing name pts (seen, out)
        else discover_ports existing name pts
          (key # seen, out @ [\<lparr>dr_Name = name, dr_Port = pt_PublicPort pt, dr_Host = host, dr_Added = existing host\<rparr>]))"

fun discover_containers :: "(string \<Rightarrow> bool) \<Rightarrow> string list \<Rightarrow> Container list \<Rightarrow> string list \<times> discoveredRow list
    \<Rightarrow> string list \<times> discoveredRow list" where
  "discover_containers existing deny [] acc = acc"
| "discover_containers existing deny (c # cs) acc =
     (let name = sanitizeName (ct_Name c) in
      if excluded (ct_Name c) deny \<or> name = '''' then discover_containers existing deny cs acc
      else discover_containers existing deny cs (discover_ports existing name (ct_Ports c) acc))"

text \<open>The rows are sorted by name, then port: two stable sorts.\<close>

definition discover :: "(string \<Rightarrow> docker_answer) \<Rightarrow> Server \<Rightarrow> Services \<Rightarrow> discoveredRow list" where
  "discover get s svc =
     (if sv_DockerProxyURL s = '''' then []
      else (case ListContainers get (sv_DockerProxyURL s) of
              Inl _ \<Rightarrow> []
            | Inr containers \<Rightarrow>
                let existing = (\<lambda>h. h \<in> set (map be_Host (sv_BaseBackends s @ svc_Backends svc)))
                in sort_key dr_Name (sort_key dr_Port
                     (snd (discover_containers existing (sv_DockerExclude s) containers ([], []))))))"

definition host_ports :: "Backend list \<Rightarrow> portRow list" where
  "host_ports bs =
     concat (map (\<lambda>b. concat (map (\<lambda>rt.
       let p = hostInternalPort (rt_Upstream rt) in
       if p > 0 then [\<lparr>pr_Host = be_Host b, pr_Port = p, pr_Rule = rt_Rule rt, pr_Disabled = be_Disabled b\<rparr>] else [])
       (be_Routes b))) bs)"

definition handleAdminDocker :: "PageEnv \<Rightarrow> Env \<Rightarrow> Req \<Rightarrow> World \<Rightarrow> page_answer \<times> World" where
  "handleAdminDocker p e r = admin_page e r (\<lambda>w.
     let svc = page_services p e w in
     Inr (''docker'', DockerPage (sv_DockerProxyURL (wd_srv w) \<noteq> '''') (discover (pg_Docker p) (wd_srv w) svc)
       (host_ports (svc_Backends svc))))"

text \<open>
  The vhost of a port: the code collects the routes into a map, so that the last one stands.  What
  \<open>ScanPorts\<close> returns is \<open>open_ports\<close>, by \<open>ScanPorts_open\<close>.
\<close>

definition by_port :: "Backend list \<Rightarrow> int \<Rightarrow> string option" where
  "by_port bs = map_of (rev (map (\<lambda>pr. (pr_Port pr, pr_Host pr)) (host_ports bs)))"

definition handleHostScan :: "PageEnv \<Rightarrow> Env \<Rightarrow> Req \<Rightarrow> World \<Rightarrow> page_answer \<times> World" where
  "handleHostScan p e r = admin_page e r (\<lambda>w.
     let from0 = fst (Atoi (rq_Query r ''from'')); to0 = fst (Atoi (rq_Query r ''to''));
         from1 = (if from0 \<le> 0 then 3000 else from0);
         to1 = (if to0 \<le> 0 then wrap64 (from1 + 100) else to0);
         (lo, hi, capped) = ClampRange from1 to1;
         found = open_ports (pg_dial p) lo hi;
         vhosts = by_port (sv_BaseBackends (wd_srv w) @ svc_Backends (page_services p e w));
         rows = map (\<lambda>q. \<lparr>hp_Port = q, hp_Added = (vhosts q \<noteq> None),
                  hp_ExistingHost = (case vhosts q of Some h \<Rightarrow> h | None \<Rightarrow> '''')\<rparr>) found
     in Inr (''servizi'', HostScanPage lo hi capped rows))"

subsection \<open>Users and the tree of what they can be granted\<close>

definition rowsFor :: "User list \<Rightarrow> adminUserRow list" where
  "rowsFor users =
     map (\<lambda>u. \<lparr>ur_Email = usr_Email u, ur_Provider = usr_Provider u, ur_Admin = usr_Admin u, ur_Hosts = usr_Backends u\<rparr>) users"

definition add_node :: "string \<times> string \<times> string \<Rightarrow> authzNode list \<Rightarrow> authzNode list" where
  "add_node x out =
     (let (i, site, label) = x; it = \<lparr>ai_ID = i, ai_Label = label\<rparr> in
      if site = '''' then out @ [\<lparr>an_Site = '''', an_Items = [it]\<rparr>]
      else (case update_first (\<lambda>n. an_Site n = site) (\<lambda>n. n\<lparr>an_Items := an_Items n @ [it]\<rparr>) out of
              Some out' \<Rightarrow> out'
            | None \<Rightarrow> out @ [\<lparr>an_Site = site, an_Items = [it]\<rparr>]))"

definition tree_entry :: "Backend \<Rightarrow> string \<times> string \<times> string" where
  "tree_entry b =
     (case be_Hosting b of
        Some h \<Rightarrow> if hr_Site h \<noteq> '''' then (be_ID b, hr_Site h, if hr_Vhost h = '''' then be_ID b else hr_Vhost h)
                  else (be_ID b, '''', be_ID b)
      | None \<Rightarrow> (be_ID b, '''', be_ID b))"

definition authzTree :: "Server \<Rightarrow> Services \<Rightarrow> authzNode list" where
  "authzTree s svc =
     fold add_node
       (map (\<lambda>b. (be_ID b, '''', be_ID b)) (sv_BaseBackends s) @ map tree_entry (svc_Backends svc) @
        map (\<lambda>l. (ln_ID l, '''', ln_ID l)) (svc_Links svc)) []"

definition handleAdminUsers :: "PageEnv \<Rightarrow> Env \<Rightarrow> Req \<Rightarrow> World \<Rightarrow> page_answer \<times> World" where
  "handleAdminUsers p e r = admin_page e r (\<lambda>w.
     Inr (''utenti'', UsersPage (rowsFor (sort_key usr_Email (All (en_iter e) (sv_Users (wd_srv w)))))
       (authzTree (wd_srv w) (page_services p e w))))"

definition handleAdminUserDetail :: "PageEnv \<Rightarrow> Env \<Rightarrow> Req \<Rightarrow> World \<Rightarrow> page_answer \<times> World" where
  "handleAdminUserDetail p e r = admin_page e r (\<lambda>w.
     case Users.Get (sv_Users (wd_srv w)) (rq_PathValue r ''email'') of
       None \<Rightarrow> Inl (SeeOther ''/admin/utenti'')
     | Some u \<Rightarrow> Inr (''utenti'', UserDetailPage (usr_Email u) (usr_Provider u) (usr_Admin u)
         (authzTree (wd_srv w) (page_services p e w)) (\<lambda>i. i \<in> set (usr_Backends u))))"

subsection \<open>The edit page of a service\<close>

definition route_view :: "Env \<Rightarrow> Server \<Rightarrow> string \<Rightarrow> Route \<Rightarrow> routeView" where
  "route_view e s i ro =
     (let (cp, exact) = splitMatch (rt_Path ro) in
      \<lparr>rv_Path = cp, rv_Exact = exact, rv_Rule = rt_Rule ro, rv_OwnGrants = rt_OwnGrants ro,
       rv_Users = pathGrantees e s i (rt_Path ro)\<rparr>)"

definition waf_view :: "WafCfg option \<Rightarrow> wafView" where
  "waf_view x =
     (case x of
        None \<Rightarrow> \<lparr>wv_Enabled = False, wv_Mode = ''detect'', wv_DisabledRules = '''', wv_IgnoreIPs = '''', wv_CustomRules = ''''\<rparr>
      | Some c \<Rightarrow> \<lparr>wv_Enabled = waf_Enabled c, wv_Mode = (if waf_Mode c \<noteq> '''' then waf_Mode c else ''detect''),
          wv_DisabledRules = Join (map Itoa (waf_DisabledRules c)) '' '', wv_IgnoreIPs = Join (waf_IgnoreIPs c) '' '',
          wv_CustomRules = waf_CustomRules c\<rparr>)"

definition edit_page :: "Env \<Rightarrow> Server \<Rightarrow> Backend \<Rightarrow> editPage" where
  "edit_page e s b =
     (let rt = (case be_Routes b of
                  rt # _ \<Rightarrow> rt | [] \<Rightarrow> \<lparr>rt_Path = ''/'', rt_Rule = RuleAuthorized, rt_Upstream = '''', rt_OwnGrants = False\<rparr>)
      in \<lparr>ep_ID = be_ID b, ep_Name = be_Name b, ep_Description = be_Description b, ep_Host = be_Host b, ep_URL = be_URL b,
          ep_Path = rt_Path rt, ep_Rule = rt_Rule rt, ep_Upstream = rt_Upstream rt, ep_IPAllow = Join (be_IPAllow b) '' '',
          ep_Image = be_Image b, ep_Nginx = be_Nginx b, ep_WWW = be_WWW b, ep_Managed = (be_Hosting b \<noteq> None),
          ep_Unlisted = be_Unlisted b, ep_Overrides = map (route_view e s (be_ID b)) (tl (be_Routes b)),
          ep_Waf = waf_view (be_Waf b), ep_Users = serviceUsers e s (be_ID b)\<rparr>)"

definition handleBackendEditForm :: "PageEnv \<Rightarrow> Env \<Rightarrow> Req \<Rightarrow> World \<Rightarrow> page_answer \<times> World" where
  "handleBackendEditForm p e r = admin_page e r (\<lambda>w.
     case find (\<lambda>b. be_ID b = rq_Query r ''id'') (svc_Backends (page_services p e w)) of
       Some b \<Rightarrow> Inr (''servizi'', BackendEditPage (edit_page e (wd_srv w) b))
     | None \<Rightarrow> Inl (HttpError ''err.backend_not_found'' 404))"

subsection \<open>Identity providers\<close>

definition secret_set :: "Secrets \<Rightarrow> string \<Rightarrow> bool" where
  "secret_set sec i \<longleftrightarrow> (case sec_Providers sec i of None \<Rightarrow> False | Some ps \<Rightarrow> ps_ClientSecret ps \<noteq> '''')"

definition handleAdminProviders :: "PageEnv \<Rightarrow> Env \<Rightarrow> Req \<Rightarrow> World \<Rightarrow> page_answer \<times> World" where
  "handleAdminProviders p e r = admin_page e r (\<lambda>w.
     let ids = map prv_ID (svc_Providers (page_services p e w)); sec = page_secrets p e w;
         tested = rq_Query r ''tested'';
         rows = map (\<lambda>q. \<lparr>vr_ID = prv_ID q, vr_Name = prv_Name q, vr_Type = prv_Type q, vr_Issuer = prv_Issuer q,
                  vr_Enabled = prv_Enabled q, vr_Editable = (prv_ID q \<in> set ids), vr_SecretSet = secret_set sec (prv_ID q),
                  vr_Redirect = providerRedirect (wd_srv w) (prv_ID q)\<rparr>) (currentProviders (wd_srv w))
     in Inr (''providers'', ProvidersPage rows (tested \<noteq> '''') tested (rq_Query r ''ok'' = ''1'')))"

definition handleProviderEditForm :: "PageEnv \<Rightarrow> Env \<Rightarrow> Req \<Rightarrow> World \<Rightarrow> page_answer \<times> World" where
  "handleProviderEditForm p e r = admin_page e r (\<lambda>w.
     case find (\<lambda>q. prv_ID q = rq_Query r ''id'') (svc_Providers (page_services p e w)) of
       Some q \<Rightarrow> Inr (''providers'', ProviderEditPage
         \<lparr>pe_ID = prv_ID q, pe_Name = prv_Name q, pe_Issuer = prv_Issuer q, pe_ClientID = prv_ClientID q,
          pe_Redirect = providerRedirect (wd_srv w) (prv_ID q), pe_Enabled = prv_Enabled q,
          pe_SecretSet = secret_set (page_secrets p e w) (prv_ID q)\<rparr>)
     | None \<Rightarrow> Inl (HttpError ''err.backend_not_found'' 404))"


subsection \<open>What a browser posts from the edit page\<close>

text \<open>
  The fields of \<open>AdminEditTmpl\<close> as a browser submits them when nothing was changed: a text input
  has no line breaks, a text area loses a first line break and its lines end with CR LF, a select
  posts its selected option or else its first, a box posts only when checked and not disabled.
\<close>

type_synonym fields = "(string \<times> string) list"

definition form_values :: "fields \<Rightarrow> string \<Rightarrow> string list" where
  "form_values fs n = map snd (filter (\<lambda>f. fst f = n) fs)"

definition line_break :: "char \<Rightarrow> bool" where
  "line_break c \<longleftrightarrow> c = CHR 0x0D \<or> c = CHR 0x0A"

definition input_value :: "string \<Rightarrow> string" where
  "input_value s = filter (\<lambda>c. \<not> line_break c) s"

fun html_lines :: "bool \<Rightarrow> string \<Rightarrow> string" where
  "html_lines cr [] = []"
| "html_lines cr (c # s) =
     (if c = CHR 0x0D then CHR 0x0A # html_lines True s
      else if c = CHR 0x0A \<and> cr then html_lines False s
      else c # html_lines False s)"

definition textarea_value :: "string \<Rightarrow> string" where
  "textarea_value s =
     (let t = html_lines False s; u = (if t \<noteq> [] \<and> hd t = CHR 0x0A then tl t else t)
      in concat (map (\<lambda>c. if c = CHR 0x0A then [CHR 0x0D, CHR 0x0A] else [c]) u))"

definition select_value :: "string list \<Rightarrow> string \<Rightarrow> string" where
  "select_value options selected = (if selected \<in> set options then selected else hd options)"

definition rule_select :: "string \<Rightarrow> string" where
  "rule_select r = select_value [''public'', ''authenticated'', ''authorized''] r"

definition box :: "string \<Rightarrow> string \<Rightarrow> bool \<Rightarrow> fields" where
  "box name v checked = (if checked then [(name, v)] else [])"

definition general_fields :: "editPage \<Rightarrow> fields" where
  "general_fields p =
     [(''id'', ep_ID p), (''name'', input_value (ep_Name p)), (''host'', input_value (ep_Host p)),
      (''url'', input_value (ep_URL p))] @ box ''www'' ''1'' (ep_WWW p) @
     [(''path'', input_value (ep_Path p)), (''upstream'', input_value (ep_Upstream p)),
      (''description'', textarea_value (ep_Description p))] @ box ''listed'' ''1'' (\<not> ep_Unlisted p)"

text \<open>The box of an administrator is disabled; the users to be added are not checked.\<close>

definition access_fields :: "editPage \<Rightarrow> fields" where
  "access_fields p =
     [(''rule'', rule_select (ep_Rule p)), (''svcuser_sent'', ''1'')] @
     map (\<lambda>(email, _). (''svcuser'', email)) (filter (\<lambda>(_, enabled, admin). enabled \<and> \<not> admin) (ep_Users p))"

definition route_fields :: "routeView \<Rightarrow> fields" where
  "route_fields v =
     [(''opath'', input_value (rv_Path v)), (''omatch'', if rv_Exact v then ''exact'' else ''prefix''),
      (''orule'', rule_select (rv_Rule v)), (''oinherit'', if rv_OwnGrants v then ''0'' else ''1''), (''ousers'', rv_Users v)]"

definition nginx_fields :: "NginxOpts \<Rightarrow> fields" where
  "nginx_fields ngx =
     [(''ngx_timeout'', Itoa (ngx_ProxyTimeout ngx)), (''ngx_maxbody'', Itoa (ngx_MaxBodyMB ngx))] @
     box ''ngx_ws'' ''on'' (ngx_WebSocket ngx) @ box ''ngx_nobuf'' ''on'' (ngx_NoBuffering ngx) @
     box ''ngx_selfsigned'' ''on'' (ngx_BackendSelfSigned ngx) @
     [(''ngx_custom_loc'', textarea_value (ngx_CustomLocation ngx)), (''ngx_custom_srv'', textarea_value (ngx_CustomServer ngx))]"

definition security_fields :: "editPage \<Rightarrow> fields" where
  "security_fields p =
     [(''ip_allow'', input_value (ep_IPAllow p))] @ box ''waf_enabled'' ''1'' (wv_Enabled (ep_Waf p)) @
     [(''waf_mode'', if wv_Mode (ep_Waf p) = ''block'' then ''block'' else ''detect''),
      (''waf_disabled_rules'', input_value (wv_DisabledRules (ep_Waf p))),
      (''waf_ignore_ips'', input_value (wv_IgnoreIPs (ep_Waf p))),
      (''waf_custom_rules'', textarea_value (wv_CustomRules (ep_Waf p)))]"

definition edit_form :: "editPage \<Rightarrow> fields" where
  "edit_form p =
     general_fields p @ access_fields p @ concat (map route_fields (ep_Overrides p)) @ nginx_fields (ep_Nginx p) @
     security_fields p"

subsection \<open>Services the form can express\<close>

definition single_line :: "string \<Rightarrow> bool" where
  "single_line s \<longleftrightarrow> list_all (\<lambda>c. \<not> line_break c) s"

definition override_normal :: "string \<Rightarrow> Route \<Rightarrow> bool" where
  "override_normal up ro \<longleftrightarrow>
     rt_Upstream ro = up \<and> valid_rule (rt_Rule ro) \<and>
     (let (cp, exact) = splitMatch (rt_Path ro) in
      cp \<noteq> '''' \<and> single_line cp \<and> TrimSpace cp = cp \<and> \<not> HasPrefix cp ''= '' \<and> joinMatch cp exact = rt_Path ro)"

definition nginx_normal :: "NginxOpts \<Rightarrow> bool" where
  "nginx_normal ngx \<longleftrightarrow>
     0 \<le> ngx_ProxyTimeout ngx \<and> ngx_ProxyTimeout ngx < 2 ^ 63 \<and> 0 \<le> ngx_MaxBodyMB ngx \<and> ngx_MaxBodyMB ngx < 2 ^ 63 \<and>
     TrimSpace (textarea_value (ngx_CustomServer ngx)) = ngx_CustomServer ngx \<and>
     TrimSpace (textarea_value (ngx_CustomLocation ngx)) = ngx_CustomLocation ngx"

text \<open>A word of a list: not empty, without white space, not ending in a comma.\<close>

definition list_word :: "string \<Rightarrow> bool" where
  "list_word t \<longleftrightarrow> t \<noteq> '''' \<and> list_all (\<lambda>c. \<not> is_space c) t \<and> last t \<noteq> CHR '',''"

definition waf_normal :: "WafCfg option \<Rightarrow> bool" where
  "waf_normal x \<longleftrightarrow>
     (case x of
        None \<Rightarrow> True
      | Some c \<Rightarrow> waf_Enabled c \<and> waf_Mode c \<in> {''block'', ''detect''} \<and>
          list_all (\<lambda>n. 0 < n \<and> n < 2 ^ 63) (waf_DisabledRules c) \<and> list_all list_word (waf_IgnoreIPs c) \<and>
          TrimSpace (textarea_value (waf_CustomRules c)) = waf_CustomRules c)"

text \<open>\<open>target\<close> is the address that stands for the host itself in an upstream.\<close>

definition form_normal :: "string \<Rightarrow> Backend \<Rightarrow> bool" where
  "form_normal target b \<longleftrightarrow>
     single_line (be_Name b) \<and> single_line (be_Host b) \<and> single_line (be_URL b) \<and>
     textarea_value (be_Description b) = be_Description b \<and>
     normalizeCIDRs (input_value (Join (be_IPAllow b) '' '')) = Inr (be_IPAllow b) \<and>
     nginx_normal (be_Nginx b) \<and> waf_normal (be_Waf b) \<and>
     (case be_Routes b of
        [] \<Rightarrow> False
      | rt # ros \<Rightarrow> rt_Path rt \<noteq> '''' \<and> single_line (rt_Path rt) \<and> valid_rule (rt_Rule rt) \<and> \<not> rt_OwnGrants rt \<and>
          single_line (rt_Upstream rt) \<and> (be_Hosting b \<noteq> None \<or> hostInternalize target (rt_Upstream rt) = rt_Upstream rt) \<and>
          list_all (override_normal (rt_Upstream rt)) ros)"


subsection \<open>Lemmas: the posted values\<close>

named_theorems form_simps \<open>values of a posted form\<close>

lemma form_values_append [form_simps]: "form_values (fs @ gs) n = form_values fs n @ form_values gs n"
  by (simp add: form_values_def)

lemma form_values_Nil [form_simps]: "form_values [] n = []"
  by (simp add: form_values_def)

lemma form_values_Cons [form_simps]: "form_values ((k, v) # fs) n = (if k = n then v # form_values fs n else form_values fs n)"
  by (simp add: form_values_def)

lemma form_values_box [form_simps]: "form_values (box k v checked) n = (if k = n \<and> checked then [v] else [])"
  by (simp add: form_values_def box_def)

lemma form_values_users [form_simps]:
  "form_values (map (\<lambda>(email, _). (k, email)) us) n = (if k = n then map fst us else [])"
  by (induction us) (auto simp: form_values_def)

lemma form_values_route:
  "form_values (route_fields v) n =
     (if n = ''opath'' then [input_value (rv_Path v)]
      else if n = ''omatch'' then [if rv_Exact v then ''exact'' else ''prefix'']
      else if n = ''orule'' then [rule_select (rv_Rule v)]
      else if n = ''oinherit'' then [if rv_OwnGrants v then ''0'' else ''1'']
      else if n = ''ousers'' then [rv_Users v] else [])"
  by (auto simp: route_fields_def form_simps)

lemma form_values_rows [form_simps]:
  "form_values (concat (map route_fields vs)) n =
     (if n = ''opath'' then map (\<lambda>v. input_value (rv_Path v)) vs
      else if n = ''omatch'' then map (\<lambda>v. if rv_Exact v then ''exact'' else ''prefix'') vs
      else if n = ''orule'' then map (\<lambda>v. rule_select (rv_Rule v)) vs
      else if n = ''oinherit'' then map (\<lambda>v. if rv_OwnGrants v then ''0'' else ''1'') vs
      else if n = ''ousers'' then map rv_Users vs else [])"
  by (induction vs) (simp_all add: form_simps form_values_route)

lemmas edit_form_values = edit_form_def general_fields_def access_fields_def nginx_fields_def security_fields_def form_simps

lemma posted:
  assumes "rq_Post r = form_values (edit_form p)"
  shows "PostFormValue r ''id'' = ep_ID p" "PostFormValue r ''name'' = input_value (ep_Name p)"
    "PostFormValue r ''host'' = input_value (ep_Host p)" "PostFormValue r ''url'' = input_value (ep_URL p)"
    "PostFormValue r ''www'' = (if ep_WWW p then ''1'' else '''')" "PostFormValue r ''path'' = input_value (ep_Path p)"
    "PostFormValue r ''upstream'' = input_value (ep_Upstream p)"
    "PostFormValue r ''description'' = textarea_value (ep_Description p)"
    "PostFormValue r ''listed'' = (if ep_Unlisted p then '''' else ''1'')" "PostFormValue r ''rule'' = rule_select (ep_Rule p)"
    "PostFormValue r ''ip_allow'' = input_value (ep_IPAllow p)"
  by (simp_all add: PostFormValue_def assms edit_form_values)

lemma posted_nginx:
  assumes "rq_Post r = form_values (edit_form p)"
  shows "PostFormValue r ''ngx_timeout'' = Itoa (ngx_ProxyTimeout (ep_Nginx p))"
    "PostFormValue r ''ngx_maxbody'' = Itoa (ngx_MaxBodyMB (ep_Nginx p))"
    "PostFormValue r ''ngx_ws'' = (if ngx_WebSocket (ep_Nginx p) then ''on'' else '''')"
    "PostFormValue r ''ngx_nobuf'' = (if ngx_NoBuffering (ep_Nginx p) then ''on'' else '''')"
    "PostFormValue r ''ngx_selfsigned'' = (if ngx_BackendSelfSigned (ep_Nginx p) then ''on'' else '''')"
    "PostFormValue r ''ngx_custom_loc'' = textarea_value (ngx_CustomLocation (ep_Nginx p))"
    "PostFormValue r ''ngx_custom_srv'' = textarea_value (ngx_CustomServer (ep_Nginx p))"
  by (simp_all add: PostFormValue_def assms edit_form_values)

lemma posted_waf:
  assumes "rq_Post r = form_values (edit_form p)"
  shows "PostFormValue r ''waf_enabled'' = (if wv_Enabled (ep_Waf p) then ''1'' else '''')"
    "PostFormValue r ''waf_mode'' = (if wv_Mode (ep_Waf p) = ''block'' then ''block'' else ''detect'')"
    "PostFormValue r ''waf_disabled_rules'' = input_value (wv_DisabledRules (ep_Waf p))"
    "PostFormValue r ''waf_ignore_ips'' = input_value (wv_IgnoreIPs (ep_Waf p))"
    "PostFormValue r ''waf_custom_rules'' = textarea_value (wv_CustomRules (ep_Waf p))"
  by (simp_all add: PostFormValue_def assms edit_form_values)

lemma posted_rows:
  assumes "rq_Post r = form_values (edit_form p)"
  shows "rq_Post r ''opath'' = map (\<lambda>v. input_value (rv_Path v)) (ep_Overrides p)"
    "rq_Post r ''omatch'' = map (\<lambda>v. if rv_Exact v then ''exact'' else ''prefix'') (ep_Overrides p)"
    "rq_Post r ''orule'' = map (\<lambda>v. rule_select (rv_Rule v)) (ep_Overrides p)"
    "rq_Post r ''oinherit'' = map (\<lambda>v. if rv_OwnGrants v then ''0'' else ''1'') (ep_Overrides p)"
    "rq_Post r ''ousers'' = map rv_Users (ep_Overrides p)"
  by (simp_all add: assms edit_form_values)

lemma posted_users:
  "rq_Post r = form_values (edit_form p) \<Longrightarrow> rq_Post r ''svcuser'' =
     map fst (filter (\<lambda>(_, enabled, admin). enabled \<and> \<not> admin) (ep_Users p))"
  by (simp add: edit_form_values)

lemma input_value_id: "single_line s \<Longrightarrow> input_value s = s"
  by (simp add: single_line_def input_value_def filter_id_conv list_all_iff)

lemma rule_select_valid: "valid_rule q \<Longrightarrow> rule_select q = q"
  by (auto simp: valid_rule_def rule_select_def select_value_def rule_names)


subsection \<open>Lemmas: an untouched page\<close>

lemma nth_or_middle: "nth_or (map f (as @ x # bs)) (length as) = Some (f x)"
  by (simp add: nth_or_def nth_append)

lemma splitMatch_plain: "\<not> HasPrefix cp ''= '' \<Longrightarrow> splitMatch cp = (cp, False)"
  by (simp add: splitMatch_def)

text \<open>The lists of users the page carries for the paths that do not inherit.\<close>

definition page_grants :: "(Route \<Rightarrow> routeView) \<Rightarrow> Route list \<Rightarrow> (string \<times> string list) list \<Rightarrow> (string \<times> string list) list" where
  "page_grants rv ros grants =
     fold (\<lambda>ro g. if rt_OwnGrants ro then AList.update (rt_Path ro) (Fields (rv_Users (rv ro))) g else g) ros grants"

lemma override_rows_posted:
  assumes "rq_Post r ''omatch'' = map (\<lambda>v. if rv_Exact v then ''exact'' else ''prefix'') (map rv (pre @ ros))"
    and "rq_Post r ''orule'' = map (\<lambda>v. rule_select (rv_Rule v)) (map rv (pre @ ros))"
    and "rq_Post r ''oinherit'' = map (\<lambda>v. if rv_OwnGrants v then ''0'' else ''1'') (map rv (pre @ ros))"
    and "rq_Post r ''ousers'' = map rv_Users (map rv (pre @ ros))"
    and "list_all (override_normal up) ros" and rv: "rv = route_view e s i"
  shows "override_rows r up (length pre) (map (\<lambda>v. input_value (rv_Path v)) (map rv ros)) (routes, grants) =
    (routes @ ros, page_grants rv ros grants)"
  using assms(1-5)
proof (induction ros arbitrary: pre routes grants)
  case (Cons ro ros)
  obtain cp exact where sm: "splitMatch (rt_Path ro) = (cp, exact)" by fastforce
  from Cons.prems(5) have ov: "override_normal up ro" and ros: "list_all (override_normal up) ros" by simp_all
  from ov sm have n: "rt_Upstream ro = up" "valid_rule (rt_Rule ro)" "cp \<noteq> ''''" "single_line cp" "TrimSpace cp = cp"
      "\<not> HasPrefix cp ''= ''" "joinMatch cp exact = rt_Path ro"
    by (auto simp: override_normal_def)
  have row: "rv_Path (rv ro) = cp" "rv_Exact (rv ro) = exact" "rv_Rule (rv ro) = rt_Rule ro" "rv_OwnGrants (rv ro) = rt_OwnGrants ro"
    by (simp_all add: rv route_view_def sm)
  have nth: "nth_or (map f (map rv (pre @ ro # ros))) (length pre) = Some (f (rv ro))" for f :: "routeView \<Rightarrow> string"
    using nth_or_middle [of "f \<circ> rv" pre ro ros] by simp
  have IH: "override_rows r up (Suc (length pre)) (map ((\<lambda>v. input_value (rv_Path v)) \<circ> rv) ros) (rs, gs) =
      (rs @ ros, page_grants rv ros gs)" for rs gs
    using Cons.IH [of "pre @ [ro]" rs gs] Cons.prems(1-4) ros by simp
  have ro: "\<lparr>rt_Path = rt_Path ro, rt_Rule = rt_Rule ro, rt_Upstream = up, rt_OwnGrants = rt_OwnGrants ro\<rparr> = ro"
    using n(1) by simp
  have orule: "nth_or (rq_Post r ''orule'') (length pre) = Some (rt_Rule ro)"
    unfolding Cons.prems(2) nth using n(2) row by (simp add: rule_select_valid)
  have omatch: "nth_or (rq_Post r ''omatch'') (length pre) = Some ''exact'' \<longleftrightarrow> exact"
    unfolding Cons.prems(1) nth using row by simp
  have own: "nth_or (rq_Post r ''oinherit'') (length pre) = Some ''0'' \<longleftrightarrow> rt_OwnGrants ro"
    unfolding Cons.prems(3) nth using row by simp
  have ousers: "nth_or (rq_Post r ''ousers'') (length pre) = Some (rv_Users (rv ro))"
    unfolding Cons.prems(4) nth by simp
  show ?case
    using n(3) by (simp add: row input_value_id [OF n(4)] n(5) splitMatch_plain [OF n(6)] orule omatch own ousers n(2,7) ro IH
      page_grants_def)
qed (simp add: page_grants_def)

lemma Itoa_digits: "0 \<le> n \<Longrightarrow> list_all is_digit (Itoa n) \<and> Itoa n \<noteq> ''''"
  using dec_str_digits by (simp add: Itoa_def)

lemma digit_word: "is_digit c \<Longrightarrow> \<not> is_space c \<and> c \<noteq> CHR '',''"
  by (auto simp: is_digit_iff is_space_def)

lemma list_word_Itoa: "0 \<le> n \<Longrightarrow> list_word (Itoa n)"
  using Itoa_digits [of n] digit_word unfolding list_word_def list_all_iff by (metis last_in_set)

lemma word_trim: "list_word t \<Longrightarrow> TrimRight t CHR '','' = t" "list_word t \<Longrightarrow> TrimSpace t = t"
  by (auto simp: list_word_def TrimRightFunc_id list_all_iff intro!: TrimSpace_none)

lemma words_back:
  assumes "list_all list_word ts"
  shows "Fields (input_value (Join ts '' '')) = ts"
proof -
  have "list_all (\<lambda>t. t \<noteq> [] \<and> list_all (\<lambda>c. \<not> is_space c) t) ts"
    using assms by (auto simp: list_all_iff list_word_def)
  note F = Fields_Join [OF this]
  have "list_all (\<lambda>c. \<not> line_break c) (Join us '' '')" if "list_all list_word us" for us
    using that
  proof (induction us)
    case (Cons u us)
    then have "list_all (\<lambda>c. \<not> line_break c) u"
      by (auto simp: list_word_def list_all_iff is_space_def line_break_def)
    with Cons show ?case by (cases us) (simp_all add: line_break_def)
  qed simp
  with assms F show ?thesis by (simp add: input_value_id single_line_def)
qed

lemma nonneg_field_Itoa:
  "PostFormValue r n = Itoa v \<Longrightarrow> 0 \<le> v \<Longrightarrow> v < 2 ^ 63 \<Longrightarrow> nonneg_field r n = v"
  by (simp add: nonneg_field_def word_trim list_word_Itoa Atoi_Itoa del: One_nat_def)

lemma nginx_posted:
  assumes "rq_Post r = form_values (edit_form p)" "nginx_normal (ep_Nginx p)"
  shows "parseNginxOpts r = ep_Nginx p"
  using assms(2) by (simp add: parseNginxOpts_def nginx_normal_def posted_nginx [OF assms(1)] nonneg_field_Itoa)

lemma rules_back:
  "list_all (\<lambda>n. 0 < n \<and> n < 2 ^ 63) ns \<Longrightarrow>
   concat (map (\<lambda>f. let (n, ok) = Atoi (TrimRight f CHR '','') in if ok \<and> n > 0 then [n] else []) (map Itoa ns)) = ns"
  by (induction ns) (simp_all add: word_trim list_word_Itoa Atoi_Itoa)

lemma waf_posted:
  assumes "rq_Post r = form_values (edit_form p)" "ep_Waf p = waf_view x" "waf_normal x"
  shows "waf_of_form r x = x"
proof (cases x)
  case None
  then show ?thesis by (simp add: waf_of_form_def posted_waf [OF assms(1)] assms(2) waf_view_def)
next
  case (Some c)
  with assms(3) have c: "waf_Enabled c" "waf_Mode c \<in> {''block'', ''detect''}"
      "list_all (\<lambda>n. 0 < n \<and> n < 2 ^ 63) (waf_DisabledRules c)" "list_all list_word (waf_IgnoreIPs c)"
      "TrimSpace (textarea_value (waf_CustomRules c)) = waf_CustomRules c"
    by (simp_all add: waf_normal_def)
  have ids: "Fields (input_value (Join (map Itoa (waf_DisabledRules c)) '' '')) = map Itoa (waf_DisabledRules c)"
    using c(3) by (intro words_back) (auto simp: list_all_iff list_word_Itoa)
  have ips: "map (\<lambda>f. TrimRight f CHR '','') (waf_IgnoreIPs c) = waf_IgnoreIPs c"
    using c(4) by (intro map_idI) (auto simp: list_all_iff word_trim)
  note rb = rules_back [OF c(3), unfolded Let_def list.map_comp]
  show ?thesis
    using c(1,2,5) unfolding Some waf_of_form_def posted_waf [OF assms(1)] assms(2) waf_view_def
    by (auto simp: ids words_back [OF c(4)] ips rb)
qed


lemma form_rule_posted:
  "rq_Post r = form_values (edit_form p) \<Longrightarrow> valid_rule (ep_Rule p) \<Longrightarrow> form_rule r = ep_Rule p"
  using posted(10) [of r p]
  by (auto simp: form_rule_def rule_select_valid valid_rule_def CanonicalRule_def rule_names)

lemma edited_untouched:
  assumes n: "form_normal target b" and r: "rq_Post r = form_values (edit_form (edit_page e s b))"
  shows "edited_backend r (hostInternalize target (PostFormValue r ''upstream'')) (be_IPAllow b) ('''', False) b = b"
proof -
  obtain rt ros where rts: "be_Routes b = rt # ros" using n by (auto simp: form_normal_def split: list.splits)
  from n have b: "single_line (be_Name b)" "single_line (be_Host b)" "single_line (be_URL b)"
      "textarea_value (be_Description b) = be_Description b" "nginx_normal (be_Nginx b)" "waf_normal (be_Waf b)"
    by (simp_all add: form_normal_def)
  from n have rt: "rt_Path rt \<noteq> ''''" "single_line (rt_Path rt)" "valid_rule (rt_Rule rt)" "\<not> rt_OwnGrants rt"
      "single_line (rt_Upstream rt)" "be_Hosting b \<noteq> None \<or> hostInternalize target (rt_Upstream rt) = rt_Upstream rt"
      "list_all (override_normal (rt_Upstream rt)) ros"
    by (simp_all add: form_normal_def rts)
  define p where "p = edit_page e s b"
  have p: "ep_Name p = be_Name b" "ep_Description p = be_Description b" "ep_Host p = be_Host b" "ep_URL p = be_URL b"
      "ep_Path p = rt_Path rt" "ep_Rule p = rt_Rule rt" "ep_Upstream p = rt_Upstream rt" "ep_Nginx p = be_Nginx b"
      "ep_WWW p = be_WWW b" "ep_Unlisted p = be_Unlisted b" "ep_Overrides p = map (route_view e s (be_ID b)) ros"
      "ep_Waf p = waf_view (be_Waf b)"
    by (simp_all add: p_def edit_page_def rts)
  note r = r [folded p_def]
  have up: "edit_upstream (hostInternalize target (PostFormValue r ''upstream'')) b = rt_Upstream rt"
    using rt(5,6) by (auto simp: edit_upstream_def rts posted [OF r] p input_value_id)
  have "form_rows r (hostInternalize target (PostFormValue r ''upstream'')) b =
      ([rt] @ ros, page_grants (route_view e s (be_ID b)) ros [])"
  proof -
    have path: "form_path r = rt_Path rt" using rt(1,2) by (simp add: form_path_def posted [OF r] p input_value_id)
    have head: "\<lparr>rt_Path = rt_Path rt, rt_Rule = rt_Rule rt, rt_Upstream = rt_Upstream rt, rt_OwnGrants = False\<rparr> = rt"
      using rt(4) by simp
    have rule: "form_rule r = rt_Rule rt" using form_rule_posted [OF r] rt(3) p by simp
    show ?thesis
      unfolding form_rows_def Let_def up path rule head posted_rows(1) [OF r] p
      using override_rows_posted [where pre = "[]" and ros = ros and rv = "route_view e s (be_ID b)" and r = r,
          OF _ _ _ _ rt(7) refl]
      by (simp add: posted_rows [OF r] p)
  qed
  then show ?thesis
    using b by (simp add: edited_backend_def rts posted [OF r] p input_value_id nginx_posted [OF r]
      waf_posted [OF r, of "be_Waf b"])
qed


lemma edit_page_sel:
  "ep_ID (edit_page e s b) = be_ID b" "ep_IPAllow (edit_page e s b) = Join (be_IPAllow b) '' ''"
  "ep_Users (edit_page e s b) = serviceUsers e s (be_ID b)"
  by (simp_all add: edit_page_def Let_def)

lemma image_filter: "f ` {x \<in> g ` A. Q x} = (\<lambda>v. f (g v)) ` {v \<in> A. Q (g v)}"
  by blast

lemma posted_enabled:
  assumes r: "rq_Post r = form_values (edit_form (edit_page e s b))" and u: "u \<in> set (All (en_iter e) (sv_Users s))"
    and d: "dir_ok (sv_Users s)" "iterates (en_iter e)"
  shows "usr_Email u \<in> set (rq_Post r ''svcuser'') \<longleftrightarrow> be_ID b \<in> set (usr_Backends u) \<and> \<not> usr_Admin u"
proof -
  have one: "v = u" if "v \<in> set (All (en_iter e) (sv_Users s))" "usr_Email v = usr_Email u" for v
    by (rule inj_onD [OF conjunct2 [OF All_emails [OF d, unfolded distinct_map]] that(2,1) u])
  have S: "set (rq_Post r ''svcuser'') =
      usr_Email ` {v \<in> set (All (en_iter e) (sv_Users s)). be_ID b \<in> set (usr_Backends v) \<and> \<not> usr_Admin v}"
    unfolding posted_users [OF r] edit_page_sel serviceUsers_def set_map set_filter set_sort image_filter by simp
  show ?thesis
  proof
    assume "usr_Email u \<in> set (rq_Post r ''svcuser'')"
    then obtain v where v: "v \<in> set (All (en_iter e) (sv_Users s))" "be_ID b \<in> set (usr_Backends v) \<and> \<not> usr_Admin v"
        "usr_Email u = usr_Email v"
      unfolding S by (elim imageE CollectE conjE) (rule that, assumption, rule conjI)
    from v(2) show "be_ID b \<in> set (usr_Backends u) \<and> \<not> usr_Admin u" unfolding one [OF v(1) v(3) [symmetric]] .
  qed (use u in \<open>simp add: S\<close>)
qed

lemma service_grants_untouched:
  assumes "rq_Post r = form_values (edit_form (edit_page e s b))" "u \<in> set (All (en_iter e) (sv_Users s))"
    and "dir_ok (sv_Users s)" "iterates (en_iter e)" and "\<not> usr_Admin u \<or> be_ID b \<notin> set (usr_Backends u)"
  shows "service_grant (rq_Post r ''svcuser'') (be_ID b) u = u"
  using posted_enabled [OF assms(1-4)] assms(5) by (auto simp: service_grant_def)

text \<open>
  An administrator's own grant of the service does not survive a save: the box is disabled, so it is
  not posted, and the service is taken from the administrator's grants.
\<close>

lemma admin_grant_lost:
  assumes "rq_Post r = form_values (edit_form (edit_page e s b))" "u \<in> set (All (en_iter e) (sv_Users s))"
    and "dir_ok (sv_Users s)" "iterates (en_iter e)" and "usr_Admin u" "be_ID b \<in> set (usr_Backends u)"
  shows "be_ID b \<notin> set (usr_Backends (service_grant (rq_Post r ''svcuser'') (be_ID b) u))"
  using posted_enabled [OF assms(1-4)] assms(5,6) by (simp add: service_grant_def Let_def)

text \<open>No save leaves an override its own upstream.\<close>

lemma override_upstream_lost:
  "set (fst (override_rows r up i ops acc)) \<subseteq> set (fst acc) \<union> {rt. rt_Upstream rt = up}"
proof (induction ops arbitrary: i acc)
  case (Cons op ops)
  obtain cp ex routes grants where x: "splitMatch (TrimSpace op) = (cp, ex)" "acc = (routes, grants)"
    by (metis surj_pair)
  show ?case
  proof (cases "cp = ''''")
    case True
    with Cons [of "Suc i" acc] x show ?thesis by simp
  next
    case False
    then obtain acc' where "override_rows r up i (op # ops) acc = override_rows r up (Suc i) ops acc'"
        "set (fst acc') \<subseteq> set (fst acc) \<union> {rt. rt_Upstream rt = up}"
      by (simp add: x Let_def)
    with Cons [of "Suc i" acc'] show ?thesis by auto
  qed
qed simp


subsection \<open>The tree of grants is complete\<close>

definition tree_ids :: "authzNode list \<Rightarrow> string list" where
  "tree_ids ns = concat (map (\<lambda>n. map ai_ID (an_Items n)) ns)"

definition tree_sites :: "authzNode list \<Rightarrow> string list" where
  "tree_sites ns = filter (\<lambda>x. x \<noteq> '''') (map an_Site ns)"

lemma add_node_tree:
  assumes "distinct (tree_sites out)" "list_all (\<lambda>n. an_Items n \<noteq> []) out"
  shows "mset (tree_ids (add_node x out)) = add_mset (fst x) (mset (tree_ids out)) \<and>
    distinct (tree_sites (add_node x out)) \<and> list_all (\<lambda>n. an_Items n \<noteq> []) (add_node x out)"
proof -
  obtain i site label where x: "x = (i, site, label)" by (cases x)
  define f :: "authzNode \<Rightarrow> authzNode" where "f = (\<lambda>n. n\<lparr>an_Items := an_Items n @ [\<lparr>ai_ID = i, ai_Label = label\<rparr>]\<rparr>)"
  show ?thesis
  proof (cases "site = ''''")
    case True
    with assms show ?thesis by (simp add: x add_node_def tree_ids_def tree_sites_def)
  next
    case site: False
    show ?thesis
    proof (cases "update_first (\<lambda>n. an_Site n = site) f out")
      case None
      then have "site \<notin> set (map an_Site out)" by (auto simp: update_first_None)
      with None site assms show ?thesis
        by (auto simp: x add_node_def f_def tree_ids_def tree_sites_def)
    next
      case (Some out')
      then obtain as n cs where o: "out = as @ n # cs" "out' = as @ f n # cs" by (auto dest!: update_first_split)
      have "add_node x out = out'" using Some site by (simp add: x add_node_def f_def)
      with o assms show ?thesis by (simp add: x f_def tree_ids_def tree_sites_def)
    qed
  qed
qed


lemma fold_add_node:
  assumes "distinct (tree_sites out)" "list_all (\<lambda>n. an_Items n \<noteq> []) out"
  shows "mset (tree_ids (fold add_node xs out)) = mset (map fst xs) + mset (tree_ids out) \<and>
    distinct (tree_sites (fold add_node xs out)) \<and> list_all (\<lambda>n. an_Items n \<noteq> []) (fold add_node xs out)"
  using assms
proof (induction xs arbitrary: out)
  case (Cons x xs)
  from add_node_tree [OF Cons.prems, of x] Cons.IH [of "add_node x out"] show ?case by simp
qed simp

lemma tree_entry_id: "map (fst \<circ> tree_entry) bs = map be_ID bs"
  by (simp add: tree_entry_def split: option.split)

lemma tree_all:
  "mset (tree_ids (authzTree s svc)) = mset (map be_ID (sv_BaseBackends s) @ map be_ID (svc_Backends svc) @ map ln_ID (svc_Links svc)) \<and>
   distinct (tree_sites (authzTree s svc)) \<and> list_all (\<lambda>n. an_Items n \<noteq> []) (authzTree s svc)"
  unfolding authzTree_def
  using fold_add_node [of "[]" "map (\<lambda>b. (be_ID b, '''', be_ID b)) (sv_BaseBackends s) @ map tree_entry (svc_Backends svc) @
        map (\<lambda>l. (ln_ID l, '''', ln_ID l)) (svc_Links svc)"]
  by (simp add: tree_ids_def tree_sites_def tree_entry_id [unfolded comp_def] comp_def)

lemma tree_id_set:
  "set (tree_ids (authzTree s svc)) = be_ID ` set (sv_BaseBackends s) \<union> be_ID ` set (svc_Backends svc) \<union> ln_ID ` set (svc_Links svc)"
  using arg_cong [OF conjunct1 [OF tree_all], of set_mset s svc] by auto

text \<open>What the page of a user posts untouched: the checked boxes of the tree (\<open>UserDetailTmpl\<close>).\<close>

definition authz_posted :: "authzNode list \<Rightarrow> (string \<Rightarrow> bool) \<Rightarrow> string list" where
  "authz_posted tree checked = filter checked (tree_ids tree)"

text \<open>
  C18: the tree of grants shows every static service, every runtime service and every link, each as
  often as it is configured, under one node per hosting site and none that is empty; the page of a
  user saved as it was opened leaves exactly those of the user's grants that the tree has.
\<close>

theorem authz_tree_complete:
  "mset (tree_ids (authzTree s svc)) = mset (map be_ID (sv_BaseBackends s) @ map be_ID (svc_Backends svc) @ map ln_ID (svc_Links svc)) \<and>
   distinct (tree_sites (authzTree s svc)) \<and> list_all (\<lambda>n. an_Items n \<noteq> []) (authzTree s svc) \<and>
   set (authz_posted (authzTree s svc) (\<lambda>i. i \<in> set (usr_Backends u))) =
     set (usr_Backends u) \<inter> (be_ID ` set (sv_BaseBackends s) \<union> be_ID ` set (svc_Backends svc) \<union> ln_ID ` set (svc_Links svc))"
  using tree_all [of s svc] by (auto simp: authz_posted_def tree_id_set)

text \<open>So the path grants of the user are lost.\<close>

lemma path_grants_lost:
  assumes "g \<in> set (usr_Backends u)" "g \<notin> be_ID ` set (sv_BaseBackends s) \<union> be_ID ` set (svc_Backends svc) \<union> ln_ID ` set (svc_Links svc)"
  shows "g \<notin> set (authz_posted (authzTree s svc) (\<lambda>i. i \<in> set (usr_Backends u)))"
  using assms(2) by (simp add: authz_posted_def tree_id_set)


subsection \<open>A service with every kind of setting\<close>

definition form_backend :: Backend where
  "form_backend = zero_Backend\<lparr>be_ID := ''web'', be_Name := ''Web'', be_Description := ''a'' @ [CHR 0x0D, CHR 0x0A] @ ''b'',
     be_Host := ''web.example'', be_URL := ''//web.example'', be_IPAllow := [''10.0.0.1/32''],
     be_Routes := [\<lparr>rt_Path = ''/'', rt_Rule = ''public'', rt_Upstream = ''http://10.0.0.5:80'', rt_OwnGrants = False\<rparr>,
       \<lparr>rt_Path = ''= /login'', rt_Rule = ''authenticated'', rt_Upstream = ''http://10.0.0.5:80'', rt_OwnGrants = False\<rparr>,
       \<lparr>rt_Path = ''/area'', rt_Rule = ''authorized'', rt_Upstream = ''http://10.0.0.5:80'', rt_OwnGrants = True\<rparr>],
     be_Nginx := \<lparr>ngx_ProxyTimeout = 60, ngx_MaxBodyMB = 8, ngx_WebSocket = True, ngx_NoBuffering = False,
       ngx_BackendSelfSigned = False, ngx_CustomServer = '''', ngx_CustomLocation = ''expires 1h;''\<rparr>,
     be_Waf := Some \<lparr>waf_Enabled = True, waf_Mode = ''block'', waf_Paranoia = 2, waf_Threshold = 5,
       waf_DisabledRules = [942100, 941110], waf_IgnoreIPs = [''10.0.0.0/24''], waf_CustomRules = ''''\<rparr>\<rparr>"

definition form_req :: Req where
  "form_req = sample_req\<lparr>rq_Post := form_values (edit_form (edit_page sample_env sample_server form_backend))\<rparr>"

lemma form_backend_normal: "form_normal '''' form_backend"
  by code_simp


subsection \<open>Pages change nothing\<close>

text \<open>Every page but the session bookkeeping of the gate leaves the world as it is.\<close>

lemma admin_page_world: "snd (admin_page e r page w) = snd (adminGuard e r w)"
  by (simp add: admin_page_def split: prod.splits option.splits)

lemma pages_change_nothing:
  "snd (handleAdmin p e r w) = snd (adminGuard e r w)" "snd (handleAdminServices p e r w) = snd (adminGuard e r w)"
  "snd (handleAdminMonitoring p e r w) = snd (adminGuard e r w)" "snd (handleAdminDocker p e r w) = snd (adminGuard e r w)"
  "snd (handleHostScan p e r w) = snd (adminGuard e r w)" "snd (handleAdminUsers p e r w) = snd (adminGuard e r w)"
  "snd (handleAdminUserDetail p e r w) = snd (adminGuard e r w)"
  "snd (handleBackendEditForm p e r w) = snd (adminGuard e r w)"
  "snd (handleAdminProviders p e r w) = snd (adminGuard e r w)"
  "snd (handleProviderEditForm p e r w) = snd (adminGuard e r w)"
  by (simp_all only: handleAdmin_def handleAdminServices_def handleAdminMonitoring_def handleAdminDocker_def handleHostScan_def
    handleAdminUsers_def handleAdminUserDetail_def handleBackendEditForm_def handleAdminProviders_def
    handleProviderEditForm_def admin_page_world)

end
