(* ===== verification/Races.thy ===== *)
theory Races
  imports Admin
begin

text \<open>
  Requests are served by concurrent goroutines, and \<open>mutateUsers\<close> of handlers/admin.go holds no lock
  from the listing of the directory to its replacement.  Here its calls interleave: each call takes
  the steps of the function and of \<open>writeJSONAtomic\<close> (config/save.go) one at a time, on a disk with
  inodes, since all calls write the same temporary file.  The edits are those that assign whole
  fields of users; snapshots touch neither file and are left out.
\<close>

subsection \<open>The steps of a call\<close>

record Shared =
  sh_dir :: UserDirectory
  sh_ino :: "string \<Rightarrow> nat option"
  sh_data :: "nat \<Rightarrow> bytes"
  sh_next :: nat

datatype phase =
    Ready
  | Listed "User list"
  | Edited "User list"
  | Opened "User list" nat
  | Written "User list"
  | Renamed "User list"
  | Finished bool

type_synonym list_edit = "User list \<Rightarrow> srv_error + User list"

definition tmp_of :: "string \<Rightarrow> string" where
  "tmp_of path = path @ ''.tmp''"

text \<open>A write at offset 0 through an open descriptor leaves what lies behind it.\<close>

definition overwrite :: "bytes \<Rightarrow> bytes \<Rightarrow> bytes" where
  "overwrite b old = b @ drop (length b) old"

inductive race_step :: "(User list \<Rightarrow> User list) \<Rightarrow> (User list \<Rightarrow> bytes) \<Rightarrow> string \<Rightarrow> list_edit list
    \<Rightarrow> Shared \<times> phase list \<Rightarrow> Shared \<times> phase list \<Rightarrow> bool" for iter enc path jobs where
  list_users: "i < length ps \<Longrightarrow> ps ! i = Ready \<Longrightarrow>
    race_step iter enc path jobs (s, ps) (s, ps[i := Listed (All iter (sh_dir s))])"
| edit_ok: "i < length ps \<Longrightarrow> ps ! i = Listed us \<Longrightarrow> (jobs ! i) us = Inr us' \<Longrightarrow>
    race_step iter enc path jobs (s, ps) (s, ps[i := Edited us'])"
| edit_refused: "i < length ps \<Longrightarrow> ps ! i = Listed us \<Longrightarrow> (jobs ! i) us = Inl err \<Longrightarrow>
    race_step iter enc path jobs (s, ps) (s, ps[i := Finished False])"
| open_tmp: "i < length ps \<Longrightarrow> ps ! i = Edited us \<Longrightarrow> sh_ino s (tmp_of path) = Some n \<Longrightarrow>
    race_step iter enc path jobs (s, ps) (s\<lparr>sh_data := (sh_data s)(n := [])\<rparr>, ps[i := Opened us n])"
| create_tmp: "i < length ps \<Longrightarrow> ps ! i = Edited us \<Longrightarrow> sh_ino s (tmp_of path) = None \<Longrightarrow>
    race_step iter enc path jobs (s, ps)
      (s\<lparr>sh_ino := (sh_ino s)(tmp_of path \<mapsto> sh_next s), sh_data := (sh_data s)(sh_next s := []), sh_next := sh_next s + 1\<rparr>,
       ps[i := Opened us (sh_next s)])"
| write_tmp: "i < length ps \<Longrightarrow> ps ! i = Opened us n \<Longrightarrow>
    race_step iter enc path jobs (s, ps)
      (s\<lparr>sh_data := (sh_data s)(n := overwrite (enc us) (sh_data s n))\<rparr>, ps[i := Written us])"
| rename_tmp: "i < length ps \<Longrightarrow> ps ! i = Written us \<Longrightarrow> sh_ino s (tmp_of path) = Some n \<Longrightarrow>
    race_step iter enc path jobs (s, ps)
      (s\<lparr>sh_ino := (sh_ino s)(path := Some n, tmp_of path := None)\<rparr>, ps[i := Renamed us])"
| rename_gone: "i < length ps \<Longrightarrow> ps ! i = Written us \<Longrightarrow> sh_ino s (tmp_of path) = None \<Longrightarrow>
    race_step iter enc path jobs (s, ps) (s, ps[i := Finished False])"
| disk_fails: "i < length ps \<Longrightarrow> ps ! i = Edited us \<or> ps ! i = Opened us n \<or> ps ! i = Written us \<Longrightarrow>
    race_step iter enc path jobs (s, ps) (s, ps[i := Finished False])"
| replace_users: "i < length ps \<Longrightarrow> ps ! i = Renamed us \<Longrightarrow>
    race_step iter enc path jobs (s, ps) (s\<lparr>sh_dir := Replace us (sh_dir s)\<rparr>, ps[i := Finished True])"

inductive race_run :: "(User list \<Rightarrow> User list) \<Rightarrow> (User list \<Rightarrow> bytes) \<Rightarrow> string \<Rightarrow> list_edit list
    \<Rightarrow> Shared \<Rightarrow> Shared \<times> phase list \<Rightarrow> bool" for iter enc path jobs s0 where
  start: "race_run iter enc path jobs s0 (s0, map (\<lambda>_. Ready) jobs)"
| step: "race_run iter enc path jobs s0 st \<Longrightarrow> race_step iter enc path jobs st st' \<Longrightarrow> race_run iter enc path jobs s0 st'"

definition sh_content :: "Shared \<Rightarrow> string \<Rightarrow> bytes option" where
  "sh_content s p = map_option (sh_data s) (sh_ino s p)"

subsection \<open>What every interleaving keeps\<close>

text \<open>The list a call is working on, once it has edited.\<close>

fun held :: "phase \<Rightarrow> User list option" where
  "held (Listed us) = Some us"
| "held (Edited us) = Some us"
| "held (Opened us n) = Some us"
| "held (Written us) = Some us"
| "held (Renamed us) = Some us"
| "held _ = None"

text \<open>An invariant of the edits that does not depend on the order of the users.\<close>

definition edit_invariant :: "(User list \<Rightarrow> bool) \<Rightarrow> list_edit list \<Rightarrow> bool" where
  "edit_invariant P jobs \<longleftrightarrow>
     (\<forall>us vs. mset us = mset vs \<longrightarrow> P us \<longrightarrow> P vs) \<and> (\<forall>us. P us \<longrightarrow> distinct (map usr_Email us)) \<and>
     (\<forall>fn \<in> set jobs. \<forall>us us'. P us \<longrightarrow> fn us = Inr us' \<longrightarrow> P us')"

lemma mset_All: "iterates iter \<Longrightarrow> mset (All iter d) = mset (map snd (ud_byEmail d))"
  by (simp add: All_def iterates_def)

definition race_ok :: "(User list \<Rightarrow> User list) \<Rightarrow> (User list \<Rightarrow> bool) \<Rightarrow> Shared \<times> phase list \<Rightarrow> bool" where
  "race_ok iter P st \<longleftrightarrow> P (All iter (sh_dir (fst st))) \<and> (\<forall>p \<in> set (snd st). \<forall>us. held p = Some us \<longrightarrow> P us)"


lemma build_map_fresh:
  "distinct (map fst m @ map key us) \<Longrightarrow> build_map key us m = m @ map (\<lambda>u. (key u, u)) us"
proof (induction us arbitrary: m)
  case (Cons u us)
  have "AList.update (key u) u m = m @ [(key u, u)]"
    using Cons.prems by (induction m) auto
  with Cons.IH [of "m @ [(key u, u)]"] Cons.prems show ?case by simp
qed simp

lemma All_Replace: "distinct (map usr_Email us) \<Longrightarrow> All iter (Replace us d) = iter us"
  using build_map_fresh [of "[]" usr_Email us] by (simp add: All_def Replace_def comp_def)

lemma race_ok_update:
  assumes "race_ok iter P (s, ps)" "P (All iter (sh_dir s'))" "\<And>us. held q = Some us \<Longrightarrow> P us"
  shows "race_ok iter P (s', ps[i := q])"
  using assms set_update_subset_insert [of ps i q] unfolding race_ok_def by auto

lemma race_ok_step:
  assumes st: "race_step iter enc path jobs st st'" and ok: "race_ok iter P st"
    and inv: "edit_invariant P jobs" and it: "iterates iter" and len: "length (snd st) = length jobs"
  shows "race_ok iter P st'"
proof -
  have held: "P us" if "i < length (snd st)" "held (snd st ! i) = Some us" for i us
    using ok that nth_mem unfolding race_ok_def by blast
  have dir: "P (All iter (sh_dir (fst st)))" using ok by (simp add: race_ok_def)
  from st show ?thesis
  proof cases
    case (list_users i ps s)
    then show ?thesis using dir by (auto intro!: race_ok_update ok [unfolded list_users])
  next
    case (edit_ok i ps us us' s)
    have "P us" using held [of i us] edit_ok by simp
    moreover have "jobs ! i \<in> set jobs" using edit_ok len by simp
    ultimately have "P us'" using inv edit_ok unfolding edit_invariant_def by blast
    then show ?thesis unfolding edit_ok(2) using dir ok [unfolded edit_ok] by (intro race_ok_update) (simp_all add: edit_ok(1))
  next
    case (replace_users i ps us s)
    have us: "P us" using held [of i us] replace_users by simp
    with inv have d: "distinct (map usr_Email us)" unfolding edit_invariant_def by blast
    have "mset us = mset (iter us)" using it by (simp add: iterates_def)
    with us inv have "P (iter us)" unfolding edit_invariant_def by blast
    then show ?thesis
      unfolding replace_users(2) using ok [unfolded replace_users]
      by (intro race_ok_update) (simp_all add: All_Replace [OF d])
  next
    case (edit_refused i ps us err s)
    then show ?thesis using dir by (auto intro!: race_ok_update ok [unfolded edit_refused])
  next
    case (open_tmp i ps us s n)
    then show ?thesis using dir held [of i us] by (auto intro!: race_ok_update ok [unfolded open_tmp])
  next
    case (create_tmp i ps us s)
    then show ?thesis using dir held [of i us] by (auto intro!: race_ok_update ok [unfolded create_tmp])
  next
    case (write_tmp i ps us n s)
    then show ?thesis using dir held [of i us] by (auto intro!: race_ok_update ok [unfolded write_tmp])
  next
    case (rename_tmp i ps us s n)
    then show ?thesis using dir held [of i us] by (auto intro!: race_ok_update ok [unfolded rename_tmp])
  next
    case (rename_gone i ps us s)
    then show ?thesis using dir by (auto intro!: race_ok_update ok [unfolded rename_gone])
  next
    case (disk_fails i ps us n s)
    then show ?thesis using dir by (auto intro!: race_ok_update ok [unfolded disk_fails])
  qed
qed

lemma race_step_length: "race_step iter enc path jobs st st' \<Longrightarrow> length (snd st') = length (snd st)"
  by (induction rule: race_step.induct) simp_all

lemma race_ok_run:
  assumes "race_run iter enc path jobs s0 st" "edit_invariant P jobs" "iterates iter" "P (All iter (sh_dir s0))"
  shows "race_ok iter P st \<and> length (snd st) = length jobs"
  using assms(1)
proof (induction rule: race_run.induct)
  case start
  with assms(4) show ?case by (auto simp: race_ok_def)
next
  case (step st st')
  then show ?case using race_ok_step [OF _ _ assms(2,3)] race_step_length by metis
qed


subsection \<open>Administrators\<close>

text \<open>An edit of theory Mutate that assigns whole fields, as an edit of lists.\<close>

definition plain_edit :: "user_edit \<Rightarrow> list_edit" where
  "plain_edit fn us = (case fn us of Inl err \<Rightarrow> Inl err | Inr (us', _) \<Rightarrow> Inr us')"

definition has_admin :: "User list \<Rightarrow> bool" where
  "has_admin us \<longleftrightarrow> distinct (map usr_Email us) \<and> list_ex usr_Admin us"

lemma toggle_emails: "toggle_admin email us = Inr (us', al) \<Longrightarrow> map usr_Email us' = map usr_Email us"
proof -
  assume "toggle_admin email us = Inr (us', al)"
  then obtain t where t: "us' = us[t := (us ! t)\<lparr>usr_Admin := \<not> usr_Admin (us ! t)\<rparr>]"
    by (auto simp: toggle_admin_def split: prod.splits option.splits if_splits)
  show ?thesis unfolding t
    by (cases "t < length us") (simp_all add: map_update list_update_same_conv list_update_beyond)
qed

lemma toggles_keep_admin: "edit_invariant has_admin (map (\<lambda>email. plain_edit (toggle_admin email)) emails)"
proof -
  have "has_admin us'" if h: "has_admin us" and ed: "plain_edit (toggle_admin email) us = Inr us'" for email us us'
  proof -
    obtain al where "toggle_admin email us = Inr (us', al)"
      using ed by (auto simp: plain_edit_def split: sum.splits prod.splits)
    with h toggle_keeps_one toggle_emails show ?thesis unfolding has_admin_def by metis
  qed
  moreover have "has_admin vs" if "mset us = mset vs" "has_admin us" for us vs
  proof -
    have m: "mset (map usr_Email us) = mset (map usr_Email vs)" using that(1) by simp
    show ?thesis
      using that(2) unfolding has_admin_def list_ex_iff mset_eq_imp_distinct_iff [OF m] mset_eq_setD [OF that(1)] .
  qed
  moreover have "has_admin us \<Longrightarrow> distinct (map usr_Email us)" for us by (simp only: has_admin_def)
  ultimately show ?thesis unfolding edit_invariant_def set_map by blast
qed


definition two_admins :: Shared where
  "two_admins = \<lparr>sh_dir = NewUserDirectory [sample_user, sample_user\<lparr>usr_Email := ''b@x''\<rparr>],
     sh_ino = Map.empty, sh_data = (\<lambda>_. ''''), sh_next = 0\<rparr>"


subsection \<open>What a race loses\<close>

lemma tmp_path [simp]: "tmp_of path \<noteq> path" "path \<noteq> tmp_of path"
  by (simp_all add: tmp_of_def)

text \<open>
  Two edits that both report success: one is lost in memory, the other on disk.
\<close>

lemma lost_update:
  assumes f: "f (All iter (sh_dir s)) = Inr us" and g: "g (All iter (sh_dir s)) = Inr vs" and t: "sh_ino s (tmp_of path) = None"
  shows "\<exists>s'. race_run iter enc path [f, g] s (s', [Finished True, Finished True]) \<and>
    ud_byEmail (sh_dir s') = build_map usr_Email vs [] \<and> sh_content s' path = Some (enc us)"
proof -
  let ?R = "race_run iter enc path [f, g] s" and ?us = "All iter (sh_dir s)"
  have "?R (s, [Ready, Ready])" using race_run.start [of iter enc path "[f, g]" s] by simp
  from race_run.step [OF this list_users [of 0]] have "?R (s, [Listed ?us, Ready])" by simp
  from race_run.step [OF this list_users [of 1]] have "?R (s, [Listed ?us, Listed ?us])" by simp
  from race_run.step [OF this edit_ok [of 0 _ ?us _ us]] have "?R (s, [Edited us, Listed ?us])" using f by simp
  from race_run.step [OF this edit_ok [of 1 _ ?us _ vs]] have r: "?R (s, [Edited us, Edited vs])" using g by simp
  obtain s1 where "?R (s1, [Edited us, Opened vs (sh_next s)])" "sh_ino s1 (tmp_of path) = Some (sh_next s)" "sh_data s1 (sh_next s) = []"
      "sh_next s1 = sh_next s + 1"
    using race_run.step [OF r create_tmp [of 1 _ vs]] t by fastforce
  then obtain s2 where "?R (s2, [Edited us, Written vs])" "sh_ino s2 (tmp_of path) = Some (sh_next s)" "sh_next s2 = sh_next s + 1"
    using race_run.step [OF _ write_tmp [of 1 _ vs "sh_next s"]] by fastforce
  then obtain s3 where "?R (s3, [Edited us, Renamed vs])" "sh_ino s3 (tmp_of path) = None" "sh_next s3 = sh_next s + 1"
    using race_run.step [OF _ rename_tmp [of 1 _ vs _ _ "sh_next s"]] by fastforce
  then obtain s4 where "?R (s4, [Opened us (sh_next s + 1), Renamed vs])" "sh_ino s4 (tmp_of path) = Some (sh_next s + 1)"
      "sh_data s4 (sh_next s + 1) = []"
    using race_run.step [OF _ create_tmp [of 0 _ us]] by fastforce
  then obtain s5 where "?R (s5, [Written us, Renamed vs])" "sh_ino s5 (tmp_of path) = Some (sh_next s + 1)"
      "sh_data s5 (sh_next s + 1) = enc us"
    using race_run.step [OF _ write_tmp [of 0 _ us "sh_next s + 1"]] by (fastforce simp: overwrite_def)
  then obtain s6 where "?R (s6, [Renamed us, Renamed vs])" "sh_content s6 path = Some (enc us)"
    using race_run.step [OF _ rename_tmp [of 0 _ us _ _ "sh_next s + 1"]] by (fastforce simp: sh_content_def)
  then obtain s7 where "?R (s7, [Finished True, Renamed vs])" "sh_content s7 path = Some (enc us)"
    using race_run.step [OF _ replace_users [of 0 _ us]] by (fastforce simp: sh_content_def)
  then show ?thesis
    using race_run.step [OF _ replace_users [of 1 _ vs]] by (fastforce simp: sh_content_def Replace_def)
qed


text \<open>
  And one that tears the users file: the second call writes through its descriptor into the file
  that the first one has already moved into place.  The first call reports success, the second an
  error, and the file is neither list but the second with the tail of the first.
\<close>

lemma torn_users_file:
  assumes f: "f (All iter (sh_dir s)) = Inr us" and g: "g (All iter (sh_dir s)) = Inr vs" and t: "sh_ino s (tmp_of path) = None"
  shows "\<exists>s'. race_run iter enc path [f, g] s (s', [Finished True, Finished False]) \<and>
    sh_content s' path = Some (enc vs @ drop (length (enc vs)) (enc us))"
proof -
  let ?R = "race_run iter enc path [f, g] s" and ?us = "All iter (sh_dir s)"
  have "?R (s, [Ready, Ready])" using race_run.start [of iter enc path "[f, g]" s] by simp
  from race_run.step [OF this list_users [of 0]] have "?R (s, [Listed ?us, Ready])" by simp
  from race_run.step [OF this list_users [of 1]] have "?R (s, [Listed ?us, Listed ?us])" by simp
  from race_run.step [OF this edit_ok [of 0 _ ?us _ us]] have "?R (s, [Edited us, Listed ?us])" using f by simp
  from race_run.step [OF this edit_ok [of 1 _ ?us _ vs]] have r: "?R (s, [Edited us, Edited vs])" using g by simp
  obtain s1 where "?R (s1, [Opened us (sh_next s), Edited vs])" "sh_ino s1 (tmp_of path) = Some (sh_next s)"
    using race_run.step [OF r create_tmp [of 0 _ us]] t by fastforce
  then obtain s2 where "?R (s2, [Opened us (sh_next s), Opened vs (sh_next s)])" "sh_ino s2 (tmp_of path) = Some (sh_next s)"
      "sh_data s2 (sh_next s) = []"
    using race_run.step [OF _ open_tmp [of 1 _ vs _ _ "sh_next s"]] by fastforce
  then obtain s3 where "?R (s3, [Written us, Opened vs (sh_next s)])" "sh_ino s3 (tmp_of path) = Some (sh_next s)"
      "sh_data s3 (sh_next s) = enc us"
    using race_run.step [OF _ write_tmp [of 0 _ us "sh_next s"]] by (fastforce simp: overwrite_def)
  then obtain s4 where "?R (s4, [Renamed us, Opened vs (sh_next s)])" "sh_ino s4 (tmp_of path) = None"
      "sh_ino s4 path = Some (sh_next s)" "sh_data s4 (sh_next s) = enc us"
    using race_run.step [OF _ rename_tmp [of 0 _ us _ _ "sh_next s"]] by fastforce
  then obtain s5 where "?R (s5, [Renamed us, Written vs])" "sh_ino s5 (tmp_of path) = None"
      "sh_content s5 path = Some (enc vs @ drop (length (enc vs)) (enc us))"
    using race_run.step [OF _ write_tmp [of 1 _ vs "sh_next s"]] by (fastforce simp: overwrite_def sh_content_def)
  then obtain s6 where "?R (s6, [Finished True, Written vs])" "sh_ino s6 (tmp_of path) = None"
      "sh_content s6 path = Some (enc vs @ drop (length (enc vs)) (enc us))"
    using race_run.step [OF _ replace_users [of 0 _ us]] by (fastforce simp: sh_content_def)
  then show ?thesis
    using race_run.step [OF _ rename_gone [of 1 _ vs]] by fastforce
qed

subsection \<open>One call at a time\<close>

text \<open>
  What the phases of a single call, and nothing else running, have done: the reason why the
  other theories can take \<open>mutateUsers\<close> as one step.
\<close>

fun alone :: "(User list \<Rightarrow> User list) \<Rightarrow> (User list \<Rightarrow> bytes) \<Rightarrow> string \<Rightarrow> list_edit \<Rightarrow> Shared \<Rightarrow> Shared \<Rightarrow> phase \<Rightarrow> bool" where
  "alone iter enc path fn s0 s Ready = (s = s0)"
| "alone iter enc path fn s0 s (Listed us) = (s = s0 \<and> us = All iter (sh_dir s0))"
| "alone iter enc path fn s0 s (Edited us) = (s = s0 \<and> fn (All iter (sh_dir s0)) = Inr us)"
| "alone iter enc path fn s0 s (Opened us n) =
     (fn (All iter (sh_dir s0)) = Inr us \<and> sh_dir s = sh_dir s0 \<and> sh_ino s (tmp_of path) = Some n \<and> sh_data s n = [] \<and>
      sh_content s path = sh_content s0 path \<and> sh_ino s path \<noteq> Some n)"
| "alone iter enc path fn s0 s (Written us) =
     (fn (All iter (sh_dir s0)) = Inr us \<and> sh_dir s = sh_dir s0 \<and> sh_content s (tmp_of path) = Some (enc us) \<and>
      sh_content s path = sh_content s0 path)"
| "alone iter enc path fn s0 s (Renamed us) =
     (fn (All iter (sh_dir s0)) = Inr us \<and> sh_dir s = sh_dir s0 \<and> sh_content s path = Some (enc us))"
| "alone iter enc path fn s0 s (Finished ok) =
     (if ok then \<exists>us. fn (All iter (sh_dir s0)) = Inr us \<and> sh_dir s = Replace us (sh_dir s0) \<and> sh_content s path = Some (enc us)
      else sh_dir s = sh_dir s0 \<and> sh_content s path = sh_content s0 path)"


definition disk_ok :: "Shared \<Rightarrow> bool" where
  "disk_ok s \<longleftrightarrow> (\<forall>p q n. sh_ino s p = Some n \<longrightarrow> sh_ino s q = Some n \<longrightarrow> p = q) \<and> (\<forall>p n. sh_ino s p = Some n \<longrightarrow> n < sh_next s)"

lemma alone_step:
  assumes "race_step iter enc path [fn] (s, [p]) (s', [p'])" "alone iter enc path fn s0 s p" "disk_ok s0"
  shows "alone iter enc path fn s0 s' p'"
  using assms(1)
proof cases
  case (create_tmp i us)
  with assms(2,3) have "s = s0" "sh_ino s0 path \<noteq> Some (sh_next s0)" by (auto simp: disk_ok_def)
  moreover have "map_option ((sh_data s0)(sh_next s0 := [])) (sh_ino s0 path) = map_option (sh_data s0) (sh_ino s0 path)"
    using \<open>sh_ino s0 path \<noteq> _\<close> by (cases "sh_ino s0 path") auto
  ultimately show ?thesis using create_tmp assms(2) by (simp add: sh_content_def)
next
  case (open_tmp i us n)
  with assms(2,3) have "s = s0" "sh_ino s0 path \<noteq> Some n" unfolding disk_ok_def using tmp_path by fastforce+
  moreover have "map_option ((sh_data s0)(n := [])) (sh_ino s0 path) = map_option (sh_data s0) (sh_ino s0 path)"
    using \<open>sh_ino s0 path \<noteq> _\<close> by (cases "sh_ino s0 path") auto
  ultimately show ?thesis using open_tmp assms(2) by (simp add: sh_content_def)
next
  case (write_tmp i us n)
  with assms(2) have "sh_ino s path \<noteq> Some n" by simp
  then have "map_option ((sh_data s)(n := b)) (sh_ino s path) = map_option (sh_data s) (sh_ino s path)" for b
    by (cases "sh_ino s path") auto
  with write_tmp assms(2) show ?thesis by (simp add: sh_content_def overwrite_def)
qed (use assms(2) in \<open>auto simp: sh_content_def\<close>)

lemma alone_run:
  assumes "race_run iter enc path [fn] s0 st" "disk_ok s0"
  shows "\<exists>s p. st = (s, [p]) \<and> alone iter enc path fn s0 s p"
  using assms(1)
proof (induction rule: race_run.induct)
  case (step st st')
  then obtain s p where st: "st = (s, [p])" "alone iter enc path fn s0 s p" by blast
  have "length (snd st') = 1" using race_step_length [OF step.hyps(2)] st by simp
  then obtain s' p' where st': "st' = (s', [p'])" by (cases st') (auto simp: length_Suc_conv)
  with alone_step [OF _ st(2) assms(2)] step.hyps(2) st(1) show ?case by blast
qed simp

text \<open>
  A single call refines the one step that the other theories take: success with the edited list in
  memory and on disk, or an error with both as they were.
\<close>

lemma single_call:
  assumes "race_run iter enc path [fn] s0 (s, [Finished ok])" "disk_ok s0"
  shows "if ok then \<exists>us. fn (All iter (sh_dir s0)) = Inr us \<and> sh_dir s = Replace us (sh_dir s0) \<and> sh_content s path = Some (enc us)
    else sh_dir s = sh_dir s0 \<and> sh_content s path = sh_content s0 path"
  using alone_run [OF assms] by simp

end
