(* ===== verification/Gateway.thy ===== *)
theory Gateway
  imports Server
begin

text \<open>
  The gate and NGINX together.  NGINX, running the configuration of proxy/generate.go, picks a
  location for a request and, where the location says so, asks \<open>/validate\<close> of handlers/server.go
  about it before it passes the request on.  NGINX itself is a parameter: how it picks a location
  (\<open>choose_loc\<close>) and how it normalizes the path of a request before that (\<open>norm\<close>).  The raw lines
  an administrator can add to a server block are taken to add no location.
\<close>

subsection \<open>What NGINX documents\<close>

text \<open>
  The choice of a location: the exact one of the path if there is one, else a longest of the
  prefixes of the path.
\<close>

definition takes :: "location list \<Rightarrow> string \<Rightarrow> location \<Rightarrow> bool" where
  "takes ls path l \<longleftrightarrow>
     l \<in> set ls \<and>
     (if list_ex (\<lambda>k. loc_match k = ''= '' @ path) ls then loc_match l = ''= '' @ path
      else HasPrefix path (loc_match l) \<and>
        list_all (\<lambda>k. HasPrefix path (loc_match k) \<longrightarrow> length (loc_match k) \<le> length (loc_match l)) ls)"

definition documented :: "(location list \<Rightarrow> string \<Rightarrow> location option) \<Rightarrow> bool" where
  "documented choose_loc \<longleftrightarrow> (\<forall>ls path l. choose_loc ls path = Some l \<longrightarrow> takes ls path l)"

text \<open>The location has the line that makes NGINX ask.\<close>

definition asks :: "GenConfig \<Rightarrow> location \<Rightarrow> bool" where
  "asks g l \<longleftrightarrow> indent8 @ ''auth_request /__auth;'' \<in> set (write_loc g l)"

text \<open>The locations of the server block of a host.\<close>

definition host_locations :: "Backend list \<Rightarrow> string \<Rightarrow> location list" where
  "host_locations bs host = locations (orderGroup (byHost bs host))"

text \<open>
  The request that \<open>/validate\<close> gets is \<open>r\<close>: it names the host and the path as the client sent
  it.  NGINX passes the client's request to the upstream of \<open>rt\<close> when it takes the location of
  \<open>rt\<close> for the normalized path and the gate answers 200, if it is asked.
\<close>

definition passes_on :: "(location list \<Rightarrow> string \<Rightarrow> location option) \<Rightarrow> (string \<Rightarrow> string) \<Rightarrow> GenConfig \<Rightarrow> Env \<Rightarrow> World \<Rightarrow> Req \<Rightarrow> Route \<Rightarrow> bool" where
  "passes_on choose_loc norm g e w r rt \<longleftrightarrow>
     (\<exists>i n. choose_loc (host_locations (rs_backends (sv_Resolver (wd_srv w))) (asked_host r)) (norm (asked_path r)) = Some (Member rt i n) \<and>
        (asks g (Member rt i n) \<longrightarrow> rp_status (fst (handleValidate e r w)) = 200))"

subsection \<open>Where the two agree\<close>

text \<open>A route path that means the same to both: no exact match, no trailing slash but the root's.\<close>

definition plain_path :: "string \<Rightarrow> bool" where
  "plain_path p \<longleftrightarrow> HasPrefix p ''/'' \<and> (p = ''/'' \<or> last p \<noteq> CHR ''/'')"

definition routes_on :: "Backend list \<Rightarrow> string \<Rightarrow> Route list" where
  "routes_on bs host = concat (map be_Routes (filter (\<lambda>be. be_Host be = host) bs))"

definition rules_agree :: "Route list \<Rightarrow> bool" where
  "rules_agree rs \<longleftrightarrow> list_all (\<lambda>q. list_all (\<lambda>p. rt_Path p = rt_Path q \<longrightarrow> rt_Rule p = rt_Rule q) rs) rs"

lemma pathMatches_prefix:
  assumes "plain_path p" "HasPrefix path ''/''" "pathMatches path p"
  shows "HasPrefix path p"
proof (cases "p = ''/''")
  case False
  with assms(1) have "p \<noteq> ''''" "last p \<noteq> CHR ''/''" by (auto simp: plain_path_def)
  then have "TrimRight p CHR ''/'' = p" by (simp add: TrimRightFunc_id)
  with assms(3) False \<open>p \<noteq> ''''\<close> show ?thesis by (auto simp: pathMatches_def prefix_def)
qed (use assms(2) in simp)

lemma location_of_route:
  assumes "be \<in> set bs" "be_Host be = host" "host \<noteq> ''''" "rt \<in> set (be_Routes be)"
  shows "route_path rt \<in> loc_match ` set (host_locations bs host)"
proof -
  let ?g = "orderGroup (byHost bs host)"
  have "be \<in> set ?g" using assms by (auto simp: byHost_def live_def)
  then have "(rt, be_Nginx be) \<in> set (group_routes ?g)" using assms(4) by (auto simp: group_routes_iff)
  then have "rt \<in> fst ` set (group_routes ?g)" by force
  then have "route_path rt \<in> set (reserved ?g) \<or> route_path rt \<in> loc_match ` set (member_locs (reserved ?g) 0 (group_routes ?g))"
    unfolding member_locs_paths by blast
  then show ?thesis
    by (auto simp: host_locations_def locations_def image_Un image_image)
qed

lemma member_of_route:
  assumes "Member rt i n \<in> set (host_locations bs host)"
  shows "\<exists>be. be \<in> set bs \<and> be_Host be = host \<and> rt \<in> set (be_Routes be)"
proof -
  let ?g = "orderGroup (byHost bs host)"
  have "Member rt i n \<in> set (member_locs (reserved ?g) 0 (group_routes ?g))"
    using assms by (auto simp: host_locations_def locations_def)
  then obtain be where "be \<in> set ?g" "rt \<in> set (be_Routes be)"
    using member_locs_in group_routes_iff by metis
  then show ?thesis by (auto simp: byHost_def)
qed

lemma routes_on_iff: "rt \<in> set (routes_on bs host) \<longleftrightarrow> (\<exists>be. be \<in> set bs \<and> be_Host be = host \<and> rt \<in> set (be_Routes be))"
  by (auto simp: routes_on_def)

lemma same_route:
  assumes ch: "takes (host_locations bs host) path (Member rt i n)" and host: "host \<noteq> ''''" and path: "HasPrefix path ''/''"
    and plain: "list_all (\<lambda>q. plain_path (rt_Path q)) (routes_on bs host)" and agree: "rules_agree (routes_on bs host)"
    and seg: "pathMatches path (rt_Path rt)" and res: "Resolve (\<lparr>rs_backends = bs\<rparr>) host path = (be, rt', True)"
  shows "rt_Path rt' = rt_Path rt \<and> rt_Rule rt' = rt_Rule rt"
proof -
  let ?ls = "host_locations bs host"
  have m: "Member rt i n \<in> set ?ls" using ch by (simp add: takes_def)
  then obtain be0 where b0: "be0 \<in> set bs" "be_Host be0 = host" "rt \<in> set (be_Routes be0)"
    using member_of_route by blast
  then have r0: "rt \<in> set (routes_on bs host)" by (auto simp: routes_on_iff)
  have fl: "first_longest (candidates bs host path) = Some (be, rt')" using res by (simp add: Resolve_True)
  then have c: "(be, rt') \<in> set (candidates bs host path)" using first_longest_in by blast
  then have b: "be \<in> set bs" "be_Host be = host" "rt' \<in> set (be_Routes be)" "pathMatches path (rt_Path rt')"
    by (simp_all add: candidates_iff)
  then have r1: "rt' \<in> set (routes_on bs host)" by (auto simp: routes_on_iff)
  have "(be0, rt) \<in> set (candidates bs host path)" using b0 seg by (simp add: candidates_iff)
  then have le: "length (rt_Path rt) \<le> length (rt_Path rt')" using first_longest_max [OF fl] by fastforce
  have p: "plain_path (rt_Path rt)" "plain_path (rt_Path rt')" using plain r0 r1 by (auto simp: list_all_iff)
  then have rp: "route_path rt = rt_Path rt" "route_path rt' = rt_Path rt'" by (auto simp: route_path_def plain_path_def)
  have pre: "HasPrefix path (rt_Path rt')" by (rule pathMatches_prefix [OF p(2) path b(4)])
  obtain k where k: "k \<in> set ?ls" "loc_match k = rt_Path rt'"
    using location_of_route [OF b(1,2) host b(3)] rp(2) by auto
  have "\<not> list_ex (\<lambda>k. loc_match k = ''= '' @ path) ?ls"
    using ch p(1) rp(1) by (auto simp: takes_def plain_path_def)
  then have t: "HasPrefix path (rt_Path rt)" "length (rt_Path rt') \<le> length (rt_Path rt)"
    using ch k pre rp(1) unfolding takes_def by (auto simp: list_all_iff)
  then have same: "rt_Path rt' = rt_Path rt" using le pre by (auto simp: prefix_def append_eq_append_conv)
  then have "rt_Rule rt' = rt_Rule rt" using agree r0 r1 same unfolding rules_agree_def list_all_iff by blast
  with same show ?thesis by simp
qed



text \<open>A choice of the location that is as documented.\<close>

definition picked :: "location list \<Rightarrow> string \<Rightarrow> location option" where
  "picked ls path = find (takes ls path) ls"

lemma picked_documented: "documented picked"
  by (auto simp: documented_def picked_def find_Some_iff)

lemma sample_locations:
  "host_locations [sample_backend] ''h'' =
     [Challenge, AuthEndpoint] @ map Reserved (reserved [sample_backend]) @
     [Member (route_of ''/'' ''authorized'' False) 0 (be_Nginx sample_backend)]"
  by (auto simp: host_locations_def byHost_def live_def sample_backend_def zero_Backend_def orderGroup_def
      ownsRoot_def route_of_def locations_def reserved_def group_routes_def route_path_def)

lemma sample_passes: "picked (host_locations [sample_backend] ''h'') ''/'' = Some (Member (route_of ''/'' ''authorized'' False) 0 (be_Nginx sample_backend))"
  by (simp add: sample_locations picked_def takes_def route_path_def route_of_def reserved_def)

lemma sample_facts:
  "asked_host sample_req = ''h''" "asked_path sample_req = ''/''"
  "cfg_AuthMode (sv_Cfg (wd_srv sample_world))" "rs_backends (sv_Resolver (wd_srv sample_world)) = [sample_backend]"
  "Resolve (sv_Resolver (wd_srv sample_world)) ''h'' ''/'' = (sample_backend, route_of ''/'' ''authorized'' False, True)"
proof -
  show "asked_host sample_req = ''h''" "asked_path sample_req = ''/''" by code_simp+
qed (simp_all add: sample_world_def sample_server_def sample_backend_def zero_Backend_def Resolve_def route_of_def pathMatches_def)

lemma sample_admitted: "rp_status (fst (handleValidate sample_env sample_req sample_world)) = 200"
proof -
  have "carries sample_env sample_req sample_world sample_session" "net_admits sample_req (wd_srv sample_world) sample_backend"
    by (simp_all add: carries_def sample_req_def sample_world_def sample_server_def expired_def NewMemoryStore_def
        net_admits_def sample_backend_def zero_Backend_def)
  moreover have "Users.Get (sv_Users (wd_srv sample_world)) ''a@x'' = Some sample_user"
      "s_TwoFADone sample_session" "s_Email sample_session = ''a@x''" "usr_Admin sample_user"
    by (simp_all add: sample_world_def sample_server_def NewUserDirectory_def Replace_def Users.Get_def sample_user_def sample_session_def)
  moreover have "CanonicalRule (rt_Rule (route_of ''/'' ''authorized'' False)) = ''authorized''"
    by (simp add: route_of_def CanonicalRule_def rule_names)
  ultimately show ?thesis by (auto simp: validate_decides [OF sample_facts(3)] sample_facts)
qed


subsection \<open>Where they disagree\<close>

text \<open>
  The gate decides on the path as it was sent, NGINX on the decoded one: without a session, a
  request for an encoded \<open>/admin\<close> is passed on to a service that protects \<open>/admin\<close>.
\<close>

definition split_backend :: Backend where
  "split_backend = zero_Backend\<lparr>be_ID := ''svc'', be_Host := ''h'',
     be_Routes := [route_of ''/'' ''public'' False, route_of ''/admin'' ''authorized'' False]\<rparr>"

definition world_of :: "Backend list \<Rightarrow> World" where
  "world_of bs = sample_world\<lparr>wd_srv := sample_server\<lparr>sv_Resolver := \<lparr>rs_backends = bs\<rparr>\<rparr>\<rparr>"

definition anonymous :: "string \<Rightarrow> Req" where
  "anonymous uri = sample_req\<lparr>rq_Cookie := (\<lambda>_. None), rq_Header := (\<lambda>k. if k = ''X-Original-URI'' then uri else '''')\<rparr>"

lemma world_of_simps:
  "cfg_AuthMode (sv_Cfg (wd_srv (world_of bs)))" "sv_Resolver (wd_srv (world_of bs)) = \<lparr>rs_backends = bs\<rparr>"
  by (simp_all add: world_of_def sample_server_def)

lemma trimmed: "TrimRight ''/admin'' CHR ''/'' = ''/admin''" "TrimRight ''/x'' CHR ''/'' = ''/x''"
  by (simp_all add: TrimRightFunc_id)

lemma encoded_path_bypass:
  "passes_on picked unescape_path g sample_env (world_of [split_backend]) (anonymous ''/%61dmin'') (route_of ''/admin'' ''authorized'' False)"
proof -
  have "Resolve \<lparr>rs_backends = [split_backend]\<rparr> ''h'' ''/%61dmin'' = (split_backend, route_of ''/'' ''public'' False, True)"
    by (simp add: split_backend_def zero_Backend_def Resolve_def route_of_def pathMatches_def trimmed)
  moreover have a: "asked_host (anonymous ''/%61dmin'') = ''h''" "asked_path (anonymous ''/%61dmin'') = ''/%61dmin''" by code_simp+
  moreover have "net_admits r s split_backend" for r s by (simp add: net_admits_def split_backend_def zero_Backend_def)
  moreover have "CanonicalRule (rt_Rule (route_of ''/'' ''public'' False)) = ''public''"
    by (simp add: route_of_def CanonicalRule_def rule_names)
  ultimately have ok: "rp_status (fst (handleValidate sample_env (anonymous ''/%61dmin'') (world_of [split_backend]))) = 200"
    by (simp add: validate_decides world_of_simps)
  have "unescape_path ''/%61dmin'' = ''/admin''" by code_simp
  moreover have "picked (host_locations [split_backend] ''h'') ''/admin'' =
      Some (Member (route_of ''/admin'' ''authorized'' False) 1 zero_NginxOpts)"
    by (simp add: picked_def takes_def host_locations_def byHost_def live_def split_backend_def zero_Backend_def
        orderGroup_def ownsRoot_def route_of_def locations_def reserved_def groupUsesAuth_def backendUsesAuth_def
        groupDeclaresPath_def group_routes_def route_path_def)
  ultimately show ?thesis using ok unfolding passes_on_def a by (simp add: world_of_simps)
qed

text \<open>
  Two services with the same path on a host: NGINX takes the route of the lower id, the gate the
  one that is listed first.  A protected route is passed on without a session.
\<close>

definition twin :: "string \<Rightarrow> string \<Rightarrow> Backend" where
  "twin k rule = zero_Backend\<lparr>be_ID := k, be_Host := ''h'', be_Routes := [route_of ''/x'' rule False]\<rparr>"

lemma twin_routes_bypass:
  "passes_on picked (\<lambda>p. p) g sample_env (world_of [twin ''b'' ''public'', twin ''a'' ''authorized'']) (anonymous ''/x'')
     (route_of ''/x'' ''authorized'' False)"
proof -
  let ?bs = "[twin ''b'' ''public'', twin ''a'' ''authorized'']"
  have "Resolve \<lparr>rs_backends = ?bs\<rparr> ''h'' ''/x'' = (twin ''b'' ''public'', route_of ''/x'' ''public'' False, True)"
    by (simp add: twin_def zero_Backend_def Resolve_def route_of_def pathMatches_def trimmed)
  moreover have a: "asked_host (anonymous ''/x'') = ''h''" "asked_path (anonymous ''/x'') = ''/x''" by code_simp+
  moreover have "net_admits r s (twin k p)" for r s k p by (simp add: net_admits_def twin_def zero_Backend_def)
  moreover have "CanonicalRule (rt_Rule (route_of ''/x'' ''public'' False)) = ''public''"
    by (simp add: route_of_def CanonicalRule_def rule_names)
  ultimately have ok: "rp_status (fst (handleValidate sample_env (anonymous ''/x'') (world_of ?bs))) = 200"
    by (simp add: validate_decides world_of_simps)
  have "orderGroup ?bs = [twin ''a'' ''authorized'', twin ''b'' ''public'']"
    by (simp add: orderGroup_def twin_def zero_Backend_def ownsRoot_def route_of_def)
  then have "picked (host_locations ?bs ''h'') ''/x'' = Some (Member (route_of ''/x'' ''authorized'' False) 0 zero_NginxOpts)"
    by (simp add: picked_def takes_def host_locations_def byHost_def live_def twin_def zero_Backend_def
        route_of_def locations_def reserved_def groupUsesAuth_def backendUsesAuth_def
        groupDeclaresPath_def group_routes_def route_path_def)
  then show ?thesis using ok unfolding passes_on_def a by (simp add: world_of_simps)
qed

end
