(* ===== verification/Spec2Isabelle.thy ===== *)
theory Spec2Isabelle
  imports Routes Encoding HealthCheck Agent Remote Certs HostContract Recovery AuditLog AdminPages Races Gateway
begin

text \<open>
  Xal-Tor-Ka: an authentication gateway in front of NGINX, verified in Isabelle/HOL.

  The program.  NGINX asks the gate's endpoint \<open>/validate\<close> about every request to a protected
  location.  The gate resolves host and path to a route of a backend (matrix/), checks the
  client's network, the session (auth/session.go) and the user's grants (auth/directory.go,
  models/config.go), and answers 200, 401 or 403.  Sessions are opened by the login handlers with
  a local password, an LDAP bind, an OIDC login or a one-time code, and completed by a time-based
  code.  Administrators edit users, services and providers; every edit is saved to a JSON file
  (config/), reloaded, and turned into a new NGINX configuration (proxy/).  Beside the gate run a
  certificate manager (certmgr/), a health checker with alerts (health/, notify/), a remote
  control by chat (remote/), and the hosting extension (ext/hosting/), a web interface that asks
  a privileged agent (agent/) over a socket for vetted commands.

  Theories, in the order of their imports:
    Prelude        what the code uses of Go's strings, strconv and loops;
    GoNet, GoUrl   what it uses of net, net/netip and net/url;
    Encoding       base32 and base64;
    Models         models/config.go: the structs as records, rules, grant identifiers;
    Matrix         matrix/matrix.go: Resolve against a reference choice;
    Sessions       auth/session.go; the locale \<open>session_store\<close> is the SessionStore interface;
    Users          auth/directory.go; the locale \<open>directory\<close> is its contract for edits;
    Otp, Totp, Passwords   auth/otp.go, auth/totp.go, auth/secret.go, auth/password.go;
    Validate, Files        config/: expansion, validation, loading, saving, snapshots; the locale
                   \<open>saved_file\<close> is the contract of a file that is saved and loaded;
    Proxy          proxy/generate.go, proxy/manager.go;
    Providers      providers/ and the provider sets of handlers/providers.go;
    Server         handlers/server.go, adminauth.go, hosting.go and image serving;
    Mutate, Login, Admin, ProviderAdmin   the handlers that change state;
    TlsAdmin       handlers/tls.go; it interprets the certificate manager's locale with the gate's
                   own reload;
    GoFmt, Certs   certmgr/: the internal CA, ACME and renewal;
    HealthCheck    health/ and notify/: ticks, probes, alerts;
    Agent, Remote  agent/ and remote/;
    Commands       agent/commands/: the shipped manifests and their patterns;
    HostAgent, Hosting     ext/hosting/main.go: the client of the agent and parsing, the handlers;
    HostRuns       the effect of a handler as a step relation, and the extension's runs;
    HostContract   the extension against the manifests and the agent;
    Boot, Flags, Cli   main.go: the start of the gate, Go's flag parsing, the commands;
    Recovery       from the command line and the configuration files to the running gate;
    AuditLog       audit/audit.go: the lines of the log that fail2ban reads;
    I18n, Xtkui    i18n/ and xtkui/: texts, the choice of a language, the frame of every page;
    Scan           dockerscan/: the goroutines of a port scan as a step relation, the containers;
    Gateway        NGINX with the generated configuration and the gate it asks, together;
    Races          concurrent calls of \<open>mutateUsers\<close>, step by step, on a disk with inodes;
    AdminPages     the data of the pages of handlers/admin.go and handlers/providers.go, and the edit
                   form of legacyhtml/admin_tmpl.go as a browser posts it;
    Routes         the router: one constructor per route, \<open>serve\<close> as the step function, runs of
                   requests as an inductive relation, and the invariants over all runs;
    Spec2Isabelle  properties that span several of these.

  How state is modelled.  A handler is a function of an environment (\<open>Env\<close>: the clock, random
  values, cryptographic primitives, codec, network), the request and the world (\<open>World\<close>: the
  server's memory, the file system, the audit log), giving a response and the next world.  The
  Go maps are functions or association lists; the order of a map iteration is the parameter
  \<open>en_iter\<close>, of which only that it permutes is assumed.  The file system has faults: a write fails
  before or after truncation, a rename or a directory may fail.  Slices that the code filters in
  place while the directory shares their arrays are modelled by the effect on the directory
  (\<open>alias_users\<close>); when appends overflow such an array, the order of the appended grants follows
  the model's list of grants where Go's map order is unspecified.  Errors are sum types with one
  constructor per message; a panic is the response status 0.

  Parameters are the code outside the repository: SHA-256, HMAC-SHA-1, Argon2id, the JSON codec,
  the LDAP and OIDC libraries, the QR encoder, the HTML sanitizer, the shell that reloads NGINX,
  and in Gateway how NGINX picks a location and normalizes a path.  The hypotheses made about them
  are the length of an Argon2id key, that the codec reads back what was saved, that an iteration
  permutes, and that NGINX picks the exact location or the longest prefix, as it documents.

  Results.  Routes: every completed session of every run has its two factors accounted for, and
  the stores stay well-formed.  Server: the exact condition of a 200, the exact condition of the
  admin gate, redirect targets, client addresses, reload.  Admin, Mutate: edits reach exactly the
  named users in memory and on disk, path grants decide \<open>/validate\<close>, an administrator remains.
  Proxy: blocks, locations, protection and atomic installation of the configuration.  Files: saves
  are atomic and runs of saves load the last success.  Otp, Totp, Passwords, Sessions: codes,
  secrets, hashes and lifetimes.  TlsAdmin, Certs: an issued certificate is served, renewal spares
  what is not due.  HealthCheck: alerts are the changes of state.  Agent: only vetted commands
  run, and when the answer is OK.  HostContract: the extension asks only for shipped commands
  with declared parameters, its pages only read, its success message for a new site is true,
  idle database sessions are stopped.  Recovery: the sessions of a gate started from any
  configuration files have their factors, the recovery command recovers an administrator.
  Gateway: what NGINX passes on to a protected route the gate has admitted for that path and rule,
  where both read the same path; the lemmas \<open>encoded_path_bypass\<close> and \<open>twin_routes_bypass\<close> show
  where they do not.  AuditLog: the log names the address of every failure.  Scan: a scan ends and finds exactly the open
  ports of its range.  AdminPages: an untouched edit page changes nothing, the tree of grants is
  complete.  Xtkui: texts add no markup to the frame.  Lemmas named in the findings of the manifest show where
  the code departs from its intent.

  Bounds.  There is no fuel: every loop of the code is structural recursion or a function with a
  termination proof.  Times are unbounded integers of nanoseconds, the TOTP counter is a 64-bit
  word and its truncation a 32-bit word.

  Not modelled: what a template makes of its data (a page is a datatype value with its data, its
  template a parameter of the frame; the HTML, styles and scripts have no semantics here to
  translate), cookie attributes, log output, the listening sockets and signals, mail and Telegram
  delivery, and the shell scripts of the agent, which are its host, an arbitrary function of what
  ran before.  In the handlers a text is its catalog key.  Requests are served one after the
  other, but for Races, which interleaves the calls of \<open>mutateUsers\<close>: a call that runs alone is the
  one step of the other theories, invariants of the edits survive every interleaving, and the lemmas
  \<open>lost_update\<close> and \<open>torn_users_file\<close> show what does not.  The interleaving of other handlers
  between the critical sections of the stores is not modelled.
\<close>

text \<open>
  Properties that span components.
\<close>

lemma expandEnv_no_brace: "CHR ''{'' \<notin> set s \<Longrightarrow> expandEnv s lookup = s"
proof (induction s)
  case (Cons c s)
  then have "\<not> (c = CHR ''$'' \<and> s \<noteq> [] \<and> hd s = CHR ''{'')" by (cases s) auto
  with Cons show ?case by (subst expandEnv.simps) auto
qed (simp add: expandEnv.simps [of "[]"])

text \<open>
  The environment expansion of the configuration files never alters a stored password hash,
  although the hash is full of dollar signs.
\<close>

theorem expandEnv_keeps_hash:
  assumes "HashPassword IDKey (Some salt) pw = Some (Inr encoded)"
  shows "expandEnv encoded lookup = encoded"
proof (rule expandEnv_no_brace)
  obtain hash where h: "IDKey pw salt argonTime argonMemory argonThreads argonKeyLen = Some hash"
    using assms by (auto simp: HashPassword_def split: option.splits)
  have "CHR ''{'' \<notin> set (base64_EncodeToString x)" for x
    using base64_encoded_chars [of _ x] by blast
  then show "CHR ''{'' \<notin> set encoded"
    using assms h by (auto simp: HashPassword_def stored_head)
qed

theorem expandEnv_keeps_hash_witness:
  "\<exists>enc. HashPassword (en_IDKey sample_env) (Some ''salt'') ''pw'' = Some (Inr enc) \<and> expandEnv enc (\<lambda>_. Some ''x'') = enc"
proof -
  obtain enc where "HashPassword (en_IDKey sample_env) (Some ''salt'') ''pw'' = Some (Inr enc)"
    by (simp add: HashPassword_def sample_env_def)
  with expandEnv_keeps_hash [OF this, of "\<lambda>_. Some ''x''"] show ?thesis by blast
qed

text \<open>
  A configuration that passes validation has no LDAP provider to build: the directory login
  is reachable only through providers that validation never sees.
\<close>

theorem validated_config_no_ldap:
  assumes "Validate b = None"
  shows "BuildLDAP (cfg_Providers (bd_Config b)) = []"
  using assms
  by (intro BuildLDAP_only_ldap) (auto simp: Validate_bundle_ok bundle_ok_def provider_ok_def)

end
